(* ===== verification/Prelude.thy ===== *)
theory Prelude
  imports Main "HOL-Library.Signed_Division" "HOL-Library.Word"
begin

text \<open>
  What every component of the development shares: the lemma collections, Rust's
  \<open>i64\<close> arithmetic on \<open>int\<close> with the wrap-around of a release build written
  out, the row operations that the SQL statements of \<open>crates/control-plane\<close> are
  made of (\<open>SELECT\<close> of one row, \<open>UPDATE ... WHERE\<close>, the next
  \<open>AUTOINCREMENT\<close> id), and the generic facts about them that the component
  proofs use: an update by key changes a sum by the difference of one row, and keeps
  keys, lengths and every row it does not match.
\<close>

section \<open>Lemma collections\<close>

named_theorems wf_intros \<open>introduction rules for the well-formedness of tables and rows\<close>
named_theorems frame_simps \<open>what an operation leaves unchanged\<close>

section \<open>Machine integers\<close>

text \<open>
  \<open>i64\<close> values are \<open>int\<close>s. A release build (the README builds with
  \<^verbatim>\<open>cargo build --release\<close>, and no profile of the workspace turns
  overflow checks on) wraps \<open>+\<close>, \<open>-\<close>, \<open>*\<close> around at 64 bits;
  \<open>/\<close> truncates towards zero.
\<close>

definition in_i64 :: "int \<Rightarrow> bool" where
  "in_i64 x \<longleftrightarrow> - (2 ^ 63) \<le> x \<and> x < 2 ^ 63"

definition wrap64 :: "int \<Rightarrow> int" where
  "wrap64 x = (x + 2 ^ 63) mod 2 ^ 64 - 2 ^ 63"

definition i64_add :: "int \<Rightarrow> int \<Rightarrow> int" where
  "i64_add a b = wrap64 (a + b)"

definition i64_sub :: "int \<Rightarrow> int \<Rightarrow> int" where
  "i64_sub a b = wrap64 (a - b)"

definition i64_mul :: "int \<Rightarrow> int \<Rightarrow> int" where
  "i64_mul a b = wrap64 (a * b)"

definition i64_neg :: "int \<Rightarrow> int" where
  "i64_neg a = wrap64 (- a)"

text \<open>Division by a positive divisor: \<open>sdiv\<close> truncates as Rust's \<open>/\<close> does.\<close>

definition i64_div :: "int \<Rightarrow> int \<Rightarrow> int" where
  "i64_div a b = a sdiv b"

text \<open>The narrowing cast \<^verbatim>\<open>as i32\<close> keeps the low 32 bits.\<close>

definition as_i32 :: "int \<Rightarrow> int" where
  "as_i32 x = (x + 2 ^ 31) mod 2 ^ 32 - 2 ^ 31"

definition in_i32 :: "int \<Rightarrow> bool" where
  "in_i32 x \<longleftrightarrow> - (2 ^ 31) \<le> x \<and> x < 2 ^ 31"

lemma wrap64_id: "in_i64 x \<Longrightarrow> wrap64 x = x"
  by (simp add: wrap64_def in_i64_def)

lemma in_i64_zero [simp]: "in_i64 0"
  by (simp add: in_i64_def)

lemma in_i64_wrap64: "in_i64 (wrap64 x)"
proof -
  have "0 \<le> (x + 2 ^ 63) mod 2 ^ 64" "(x + 2 ^ 63) mod 2 ^ 64 < (2 ^ 64 :: int)"
    by simp_all
  then show ?thesis by (simp add: wrap64_def in_i64_def)
qed

lemma wrap64_cong: "(wrap64 x - x) mod 2 ^ 64 = 0"
proof -
  have "wrap64 x - x = (x + 2 ^ 63) mod 2 ^ 64 - (x + 2 ^ 63)"
    by (simp add: wrap64_def)
  then show ?thesis
    by (metis minus_mod_eq_mult_div mod_mult_self1_is_0 minus_diff_eq mod_minus_eq mod_0 minus_zero)
qed

lemma as_i32_id: "in_i32 x \<Longrightarrow> as_i32 x = x"
  by (simp add: as_i32_def in_i32_def)

lemma i64_div_nonneg: "0 \<le> a \<Longrightarrow> 0 < b \<Longrightarrow> i64_div a b = a div b"
  by (auto simp: i64_div_def signed_divide_int_def sgn_if)

lemma i64_div_sign:
  assumes "0 < b"
  shows "0 \<le> a \<Longrightarrow> 0 \<le> i64_div a b" and "a \<le> 0 \<Longrightarrow> i64_div a b \<le> 0"
proof -
  show "0 \<le> i64_div a b" if "0 \<le> a"
    using that assms by (simp add: i64_div_nonneg pos_imp_zdiv_nonneg_iff)
  show "i64_div a b \<le> 0" if "a \<le> 0"
  proof -
    have "0 \<le> (- a) div b" using that assms by (simp add: pos_imp_zdiv_nonneg_iff)
    with that assms show ?thesis by (auto simp: i64_div_def signed_divide_int_def sgn_if)
  qed
qed

section \<open>Results\<close>

text \<open>
  A fallible Rust function returns \<open>'e + 'a\<close>: \<open>Inl e\<close> is \<open>Err(e)\<close>,
  \<open>Inr a\<close> is \<open>Ok(a)\<close>.
\<close>

definition is_ok :: "'e + 'a \<Rightarrow> bool" where
  "is_ok r = (case r of Inl _ \<Rightarrow> False | Inr _ \<Rightarrow> True)"

lemma is_ok_simps [simp]: "is_ok (Inr x)" "\<not> is_ok (Inl e)"
  by (simp_all add: is_ok_def)

section \<open>Tables\<close>

text \<open>
  A table is the list of its rows in rowid order. \<open>sql_update p f\<close> is
  \<^verbatim>\<open>UPDATE t SET f WHERE p\<close>, \<open>sql_find p\<close> is a
  \<^verbatim>\<open>SELECT ... WHERE p\<close> read with \<^verbatim>\<open>fetch_optional\<close>.
\<close>

definition sql_update :: "('r \<Rightarrow> bool) \<Rightarrow> ('r \<Rightarrow> 'r) \<Rightarrow> 'r list \<Rightarrow> 'r list" where
  "sql_update p f rs = map (\<lambda>r. if p r then f r else r) rs"

definition sql_find :: "('r \<Rightarrow> bool) \<Rightarrow> 'r list \<Rightarrow> 'r option" where
  "sql_find p rs = List.find p rs"

text \<open>
  The next rowid of an \<^verbatim>\<open>INTEGER PRIMARY KEY AUTOINCREMENT\<close> column: one more
  than the largest rowid the table has held. No statement of the program deletes a row
  and a rollback restores the sequence too, so that is the largest rowid in the table.
\<close>

definition next_id :: "int list \<Rightarrow> int" where
  "next_id ids = fold max ids 0 + 1"

lemma fold_max_ge: "x \<le> fold max ids (x::int)"
  by (induction ids arbitrary: x) (auto intro: order_trans [OF max.cobounded2])

lemma fold_max_upper: "i \<in> set ids \<Longrightarrow> i \<le> fold max ids (x::int)"
proof (induction ids arbitrary: x)
  case (Cons a ids)
  show ?case
  proof (cases "i = a")
    case True
    then show ?thesis using fold_max_ge [of "max a x" ids] by simp
  next
    case False
    with Cons show ?thesis by simp
  qed
qed simp

lemma next_id_fresh: "next_id ids \<notin> set ids"
  using fold_max_upper [of "next_id ids" ids 0] by (auto simp: next_id_def)

lemma next_id_gt: "i \<in> set ids \<Longrightarrow> i < next_id ids"
  using fold_max_upper [of i ids 0] by (simp add: next_id_def)

lemma next_id_pos: "0 < next_id ids"
  using fold_max_ge [of 0 ids] by (simp add: next_id_def)

lemma length_sql_update [simp]: "length (sql_update p f rs) = length rs"
  by (simp add: sql_update_def)

lemma sql_update_Nil [simp]: "sql_update p f [] = []"
  by (simp add: sql_update_def)

lemma sql_update_Cons:
  "sql_update p f (r # rs) = (if p r then f r else r) # sql_update p f rs"
  by (simp add: sql_update_def)

lemma set_sql_update:
  "x \<in> set (sql_update p f rs) \<longleftrightarrow> (\<exists>r\<in>set rs. x = (if p r then f r else r))"
  by (auto simp: sql_update_def)

lemma sql_update_marked_mono:
  assumes "\<And>r. k (f r) = k r" "\<And>r. q r \<Longrightarrow> q (f r)"
  shows "k ` {r \<in> set rs. q r} \<subseteq> k ` {r \<in> set (sql_update p f rs). q r}"
proof
  fix y assume "y \<in> k ` {r \<in> set rs. q r}"
  then obtain r where "r \<in> set rs" "q r" "y = k r" by blast
  then have "(if p r then f r else r) \<in> {r \<in> set (sql_update p f rs). q r}"
    "y = k (if p r then f r else r)"
    using assms by (auto simp: sql_update_def)
  then show "y \<in> k ` {r \<in> set (sql_update p f rs). q r}" by blast
qed

lemma map_sql_update_frame:
  "(\<And>r. k (f r) = k r) \<Longrightarrow> map k (sql_update p f rs) = map k rs"
  by (simp add: sql_update_def)

lemma sql_update_id: "(\<And>r. r \<in> set rs \<Longrightarrow> \<not> p r) \<Longrightarrow> sql_update p f rs = rs"
  by (induction rs) (auto simp: sql_update_Cons)

lemma sql_find_SomeD: "sql_find p rs = Some r \<Longrightarrow> r \<in> set rs \<and> p r"
  by (induction rs) (auto simp: sql_find_def split: if_splits)

lemma sql_find_None_iff: "sql_find p rs = None \<longleftrightarrow> (\<forall>r\<in>set rs. \<not> p r)"
  by (auto simp: sql_find_def find_None_iff)

lemma sql_find_unique:
  assumes "distinct (map k rs)" "r \<in> set rs" "k r = x"
  shows "sql_find (\<lambda>r. k r = x) rs = Some r"
  using assms by (induction rs) (auto simp: sql_find_def)

lemma sql_find_update_key:
  assumes "\<And>r. k (f r) = k r"
  shows "sql_find (\<lambda>r. k r = x) (sql_update (\<lambda>r. k r = y) f rs) =
    map_option (\<lambda>r. if k r = y then f r else r) (sql_find (\<lambda>r. k r = x) rs)"
  using assms by (induction rs) (auto simp: sql_find_def sql_update_Cons)

lemma sql_find_update_frame:
  assumes "\<And>r. p (f r) = p r"
  shows "sql_find p (sql_update q f rs) = map_option (\<lambda>r. if q r then f r else r) (sql_find p rs)"
  using assms by (induction rs) (auto simp: sql_find_def sql_update_Cons)

lemma sql_find_Nil [simp]: "sql_find p [] = None"
  by (simp add: sql_find_def)

lemma sql_find_Cons [simp]: "sql_find p (r # rs) = (if p r then Some r else sql_find p rs)"
  by (simp add: sql_find_def)

lemma sql_find_append:
  "sql_find p (xs @ ys) = (case sql_find p xs of None \<Rightarrow> sql_find p ys | Some r \<Rightarrow> Some r)"
  by (induction xs) (auto simp: sql_find_def)

text \<open>An update by key changes a column's sum by what it changes in the one row it matches.\<close>

lemma sum_sql_update_other:
  assumes "\<And>r. p r \<Longrightarrow> c (f r) = c r"
  shows "sum_list (map c (sql_update p f rs)) = sum_list (map c rs)"
  using assms by (induction rs) (auto simp: sql_update_Cons)

lemma sum_sql_update_key:
  fixes c :: "'r \<Rightarrow> int"
  assumes "distinct (map k rs)" "r \<in> set rs"
  shows "sum_list (map c (sql_update (\<lambda>x. k x = k r) f rs)) =
    sum_list (map c rs) - c r + c (f r)"
  using assms
proof (induction rs)
  case (Cons a rs)
  show ?case
  proof (cases "a = r")
    case True
    then have "sql_update (\<lambda>x. k x = k r) f rs = rs"
      using Cons.prems by (intro sql_update_id) (auto simp: image_iff)
    with True show ?thesis by (simp add: sql_update_Cons)
  next
    case False
    then have "r \<in> set rs" "k a \<noteq> k r"
      using Cons.prems by (auto simp: image_iff)
    with Cons show ?thesis by (simp add: sql_update_Cons)
  qed
qed simp

lemma sum_list_filter_append [simp]:
  "sum_list (map c (filter p (xs @ ys))) =
    sum_list (map c (filter p xs)) + (sum_list (map c (filter p ys)) :: int)"
  by simp

section \<open>Strings with a separator\<close>

lemma takeWhile_sep: "c \<notin> set t \<Longrightarrow> takeWhile (\<lambda>x. x \<noteq> c) (t @ c # a) = t"
  by (induction t) auto

lemma dropWhile_sep: "c \<notin> set t \<Longrightarrow> dropWhile (\<lambda>x. x \<noteq> c) (t @ c # a) = c # a"
  by (induction t) auto

section \<open>Transition systems\<close>

text \<open>An invariant of the initial states that every transition keeps holds in every reachable state.\<close>

locale transition_system =
  fixes init :: "'s \<Rightarrow> bool"
    and trans :: "'s \<Rightarrow> 's \<Rightarrow> bool"
    and inv :: "'s \<Rightarrow> bool"
  assumes init_inv: "init s \<Longrightarrow> inv s"
    and trans_inv: "inv s \<Longrightarrow> trans s s' \<Longrightarrow> inv s'"
begin

lemma run_inv:
  assumes "trans\<^sup>*\<^sup>* s s'" "inv s"
  shows "inv s'"
  using assms by (induction rule: rtranclp_induct) (auto intro: trans_inv)

lemma reachable_inv: "init s \<Longrightarrow> trans\<^sup>*\<^sup>* s s' \<Longrightarrow> inv s'"
  using run_inv init_inv by blast

end

lemma dropWhile_replicate: "dropWhile (\<lambda>x. x = c) (replicate n c @ s) = dropWhile (\<lambda>x. x = c) s"
  by (induction n) simp_all

end
