(* ===== verification/Rust_Strings.thy ===== *)
theory Rust_Strings
  imports Complex_Main Prelude
begin

text \<open>
  The string operations of Rust's standard library and of SQL that the program uses, on
  UTF-8 strings as lists of bytes (\<open>string\<close>): decimal and hexadecimal
  \<^verbatim>\<open>format!\<close>, \<^verbatim>\<open>str::parse\<close>,
  \<^verbatim>\<open>trim\<close>, \<^verbatim>\<open>strip_prefix\<close>, and the SQL
  \<^verbatim>\<open>LIKE\<close> operator. The lemmas give the round trip of decimal
  integers, the injectivity of fixed-width hexadecimal, and what \<^verbatim>\<open>LIKE\<close>
  means for a pattern \<open>%name%\<close> without wildcards in \<open>name\<close>.
\<close>

section \<open>Decimal integers\<close>

definition is_digit :: "char \<Rightarrow> bool" where
  "is_digit c \<longleftrightarrow> 48 \<le> (of_char c :: nat) \<and> (of_char c :: nat) \<le> 57"

definition digit_char :: "nat \<Rightarrow> char" where
  "digit_char d = char_of (48 + d)"

definition digit_val :: "char \<Rightarrow> nat" where
  "digit_val c = of_char c - 48"

fun show_nat :: "nat \<Rightarrow> string" where
  "show_nat n = (if n < 10 then [digit_char n] else show_nat (n div 10) @ [digit_char (n mod 10)])"

declare show_nat.simps [simp del]

text \<open>\<^verbatim>\<open>format!("{}", x)\<close> for a signed integer.\<close>

definition show_int :: "int \<Rightarrow> string" where
  "show_int x = (if x < 0 then CHR ''-'' # show_nat (nat (- x)) else show_nat (nat x))"

definition digits_val :: "string \<Rightarrow> nat" where
  "digits_val s = foldl (\<lambda>acc c. 10 * acc + digit_val c) 0 s"

text \<open>A non-empty run of digits.\<close>

definition parse_nat :: "string \<Rightarrow> nat option" where
  "parse_nat s = (if s \<noteq> [] \<and> list_all is_digit s then Some (digits_val s) else None)"

text \<open>
  \<^verbatim>\<open>str::parse::<u32>\<close>: an optional \<open>+\<close>, digits, and a value in
  range; a \<open>-\<close> is an invalid digit. The signed parsers take one sign.
\<close>

definition parse_u32 :: "string \<Rightarrow> int option" where
  "parse_u32 s =
     (let ds = (case s of c # rest \<Rightarrow> if c = CHR ''+'' then rest else s | [] \<Rightarrow> [])
      in case parse_nat ds of
           None \<Rightarrow> None
         | Some v \<Rightarrow> if v < 2 ^ 32 then Some (int v) else None)"

definition parse_int :: "string \<Rightarrow> int option" where
  "parse_int s =
     (case s of
        [] \<Rightarrow> None
      | c # rest \<Rightarrow>
          if c = CHR ''-'' then map_option (\<lambda>v. - int v) (parse_nat rest)
          else if c = CHR ''+'' then map_option int (parse_nat rest)
          else map_option int (parse_nat s))"

definition parse_i64 :: "string \<Rightarrow> int option" where
  "parse_i64 s = (case parse_int s of None \<Rightarrow> None | Some v \<Rightarrow> if in_i64 v then Some v else None)"

definition parse_i32 :: "string \<Rightarrow> int option" where
  "parse_i32 s = (case parse_int s of None \<Rightarrow> None | Some v \<Rightarrow> if in_i32 v then Some v else None)"

lemma of_char_digit_char: "d < 10 \<Longrightarrow> (of_char (digit_char d) :: nat) = 48 + d"
  by (simp add: digit_char_def)

lemma is_digit_digit_char: "d < 10 \<Longrightarrow> is_digit (digit_char d)"
  by (simp add: is_digit_def of_char_digit_char)

lemma digit_val_digit_char: "d < 10 \<Longrightarrow> digit_val (digit_char d) = d"
  by (simp add: digit_val_def of_char_digit_char)

lemma show_nat_digits: "list_all is_digit (show_nat n) \<and> show_nat n \<noteq> []"
proof (induction n rule: show_nat.induct)
  case (1 n)
  then show ?case
    by (subst (1 2) show_nat.simps) (auto simp: is_digit_digit_char)
qed

lemma digits_val_snoc: "digits_val (s @ [c]) = 10 * digits_val s + digit_val c"
  by (simp add: digits_val_def)

lemma digits_val_show_nat: "digits_val (show_nat n) = n"
proof (induction n rule: show_nat.induct)
  case (1 n)
  show ?case
  proof (cases "n < 10")
    case True
    then show ?thesis
      by (subst show_nat.simps) (simp add: digits_val_def digit_val_digit_char)
  next
    case False
    with 1 have "digits_val (show_nat (n div 10)) = n div 10" by simp
    with False show ?thesis
      by (subst show_nat.simps) (simp add: digits_val_snoc digit_val_digit_char)
  qed
qed

lemma parse_nat_show_nat: "parse_nat (show_nat n) = Some n"
  using show_nat_digits [of n] by (simp add: parse_nat_def digits_val_show_nat)

lemma show_nat_head:
  obtains c rest where "show_nat n = c # rest" "is_digit c"
  using show_nat_digits [of n] by (cases "show_nat n") auto

lemma parse_int_show_int: "parse_int (show_int x) = Some x"
proof (cases "x < 0")
  case True
  then show ?thesis by (simp add: show_int_def parse_int_def parse_nat_show_nat)
next
  case False
  obtain c rest where c: "show_nat (nat x) = c # rest" "is_digit c"
    by (rule show_nat_head)
  then have "c \<noteq> CHR ''-''" "c \<noteq> CHR ''+''"
    by (auto simp: is_digit_def)
  with False c show ?thesis
    using parse_nat_show_nat [of "nat x"] by (simp add: show_int_def parse_int_def)
qed

lemma parse_i64_show_int: "in_i64 x \<Longrightarrow> parse_i64 (show_int x) = Some x"
  by (simp add: parse_i64_def parse_int_show_int)

lemma parse_i32_show_int: "in_i32 x \<Longrightarrow> parse_i32 (show_int x) = Some x"
  by (simp add: parse_i32_def parse_int_show_int)

lemma show_int_inject: "show_int x = show_int y \<longleftrightarrow> x = y"
  using parse_int_show_int [of x] parse_int_show_int [of y] by (metis option.inject)

section \<open>Hexadecimal\<close>

definition hex_char :: "nat \<Rightarrow> char" where
  "hex_char d = (if d < 10 then char_of (48 + d) else char_of (87 + d))"

text \<open>
  \<open>hex_fixed w n\<close> is \<^verbatim>\<open>format!("{n:0wx}")\<close> for \<open>n < 16 ^ w\<close>:
  \<open>w\<close> lower-case digits, zero-padded.
\<close>

primrec hex_fixed :: "nat \<Rightarrow> nat \<Rightarrow> string" where
  "hex_fixed 0 n = []"
| "hex_fixed (Suc w) n = hex_fixed w (n div 16) @ [hex_char (n mod 16)]"

lemma length_hex_fixed [simp]: "length (hex_fixed w n) = w"
  by (induction w arbitrary: n) auto

lemma of_char_hex_char:
  "d < 16 \<Longrightarrow> (of_char (hex_char d) :: nat) = (if d < 10 then 48 + d else 87 + d)"
  by (simp add: hex_char_def)

lemma hex_char_inject:
  assumes "a < 16" "b < 16"
  shows "hex_char a = hex_char b \<longleftrightarrow> a = b"
proof
  assume "hex_char a = hex_char b"
  then have "(of_char (hex_char a) :: nat) = of_char (hex_char b)" by (rule arg_cong)
  then have "(if a < 10 then 48 + a else 87 + a) = (if b < 10 then 48 + b else 87 + b)"
    unfolding of_char_hex_char [OF assms(1)] of_char_hex_char [OF assms(2)] .
  then show "a = b" using assms by (simp split: if_splits)
qed simp

lemma hex_fixed_inject:
  "m < 16 ^ w \<Longrightarrow> n < 16 ^ w \<Longrightarrow> hex_fixed w m = hex_fixed w n \<longleftrightarrow> m = n"
proof (induction w arbitrary: m n)
  case (Suc w)
  have "m div 16 < 16 ^ w" "n div 16 < 16 ^ w"
    using Suc.prems by (simp_all add: less_mult_imp_div_less mult.commute)
  with Suc.IH have "hex_fixed (Suc w) m = hex_fixed (Suc w) n \<longleftrightarrow>
      m div 16 = n div 16 \<and> m mod 16 = n mod 16"
    by (simp add: hex_char_inject)
  also have "\<dots> \<longleftrightarrow> m = n"
    by (metis div_mult_mod_eq)
  finally show ?case .
qed simp

section \<open>Joining\<close>

text \<open>\<^verbatim>\<open>[String]::join\<close>.\<close>

fun join :: "string \<Rightarrow> string list \<Rightarrow> string" where
  "join sep [] = []"
| "join sep [x] = x"
| "join sep (x # xs) = x @ sep @ join sep xs"

section \<open>Prefixes and trimming\<close>

definition starts_with :: "string \<Rightarrow> string \<Rightarrow> bool" where
  "starts_with p s \<longleftrightarrow> take (length p) s = p"

definition strip_prefix :: "string \<Rightarrow> string \<Rightarrow> string option" where
  "strip_prefix p s = (if starts_with p s then Some (drop (length p) s) else None)"

lemma starts_with_append [simp]: "starts_with p (p @ s)"
  by (simp add: starts_with_def)

lemma starts_with_iff: "starts_with p s \<longleftrightarrow> (\<exists>t. s = p @ t)"
  unfolding starts_with_def by (metis append_eq_conv_conj append_take_drop_id)

lemma strip_prefix_append [simp]: "strip_prefix p (p @ s) = Some s"
  by (simp add: strip_prefix_def)

lemma strip_prefix_Some_iff: "strip_prefix p s = Some t \<longleftrightarrow> s = p @ t"
  by (auto simp: strip_prefix_def starts_with_iff)

text \<open>
  The number of bytes of the Unicode white space character a string starts with, 0 when
  it starts with none: \<^verbatim>\<open>char::is_whitespace\<close> on the UTF-8 encoding.
\<close>

definition ws_len :: "string \<Rightarrow> nat" where
  "ws_len s =
     (case map of_char s :: nat list of
        [] \<Rightarrow> 0
      | a # as \<Rightarrow>
          if (9 \<le> a \<and> a \<le> 13) \<or> a = 32 then 1
          else (case as of
                  [] \<Rightarrow> 0
                | b # bs \<Rightarrow>
                    if a = 194 \<and> (b = 133 \<or> b = 160) then 2
                    else (case bs of
                            [] \<Rightarrow> 0
                          | c # _ \<Rightarrow>
                              if (a = 225 \<and> b = 154 \<and> c = 128)
                                \<or> (a = 226 \<and> b = 128 \<and> (128 \<le> c \<and> c \<le> 138 \<or> c = 168 \<or> c = 169 \<or> c = 175))
                                \<or> (a = 226 \<and> b = 129 \<and> c = 159)
                                \<or> (a = 227 \<and> b = 128 \<and> c = 128) then 3 else 0)))"

lemma ws_len_le: "ws_len s \<le> length s"
  by (cases s rule: remdups_adj.cases)
    (auto simp: ws_len_def split: list.splits if_splits)

function trim_start :: "string \<Rightarrow> string" where
  "trim_start s = (if ws_len s = 0 then s else trim_start (drop (ws_len s) s))"
  by pat_completeness auto
termination
proof (relation "measure length", goal_cases)
  case (2 s)
  then show ?case using ws_len_le [of s] by (cases s) (auto simp: ws_len_def)
qed simp

declare trim_start.simps [simp del]

text \<open>The bytes of the white space character a string ends with.\<close>

definition ws_len_end :: "string \<Rightarrow> nat" where
  "ws_len_end s =
     (if 1 \<le> length s \<and> ws_len (drop (length s - 1) s) = 1 then 1
      else if 2 \<le> length s \<and> ws_len (drop (length s - 2) s) = 2 then 2
      else if 3 \<le> length s \<and> ws_len (drop (length s - 3) s) = 3 then 3
      else 0)"

function trim_end :: "string \<Rightarrow> string" where
  "trim_end s = (if ws_len_end s = 0 then s else trim_end (take (length s - ws_len_end s) s))"
  by pat_completeness auto
termination
  by (relation "measure length") (auto simp: ws_len_end_def split: if_splits)

declare trim_end.simps [simp del]

definition trim :: "string \<Rightarrow> string" where
  "trim s = trim_end (trim_start s)"

lemma ws_len_Nil [simp]: "ws_len [] = 0"
  by (simp add: ws_len_def)

lemma ws_len_end_Nil [simp]: "ws_len_end [] = 0"
  by (simp add: ws_len_end_def)

lemma trim_start_no_ws: "ws_len (trim_start s) = 0"
  by (induction s rule: trim_start.induct) (subst trim_start.simps, simp)

lemma trim_end_no_ws: "ws_len_end (trim_end s) = 0"
  by (induction s rule: trim_end.induct) (subst trim_end.simps, simp)

section \<open>SQL LIKE\<close>

text \<open>
  \<^verbatim>\<open>text LIKE pattern\<close>: \<open>%\<close> matches any run of bytes, \<open>_\<close> one
  UTF-8 character, every other byte itself, ASCII letters in either case.
\<close>

definition ascii_lower :: "char \<Rightarrow> char" where
  "ascii_lower c = (if 65 \<le> (of_char c :: nat) \<and> (of_char c :: nat) \<le> 90
     then char_of ((of_char c :: nat) + 32) else c)"

definition utf8_cont :: "char \<Rightarrow> bool" where
  "utf8_cont c \<longleftrightarrow> 128 \<le> (of_char c :: nat) \<and> (of_char c :: nat) < 192"

function sql_like :: "string \<Rightarrow> string \<Rightarrow> bool" where
  "sql_like [] t = (t = [])"
| "sql_like (p # ps) t =
     (if p = CHR ''%'' then sql_like ps t \<or> (case t of [] \<Rightarrow> False | _ # t' \<Rightarrow> sql_like (p # ps) t')
      else case t of
             [] \<Rightarrow> False
           | c # t' \<Rightarrow>
               if p = CHR ''_'' then sql_like ps (dropWhile utf8_cont t')
               else ascii_lower c = ascii_lower p \<and> sql_like ps t')"
  by pat_completeness auto
termination
  by (relation "measure (\<lambda>(ps, t). length ps + length t)")
    (auto simp: less_Suc_eq_le le_SucI length_dropWhile_le)

lemma sql_like_percent:
  "sql_like (CHR ''%'' # ps) t \<longleftrightarrow> (\<exists>a b. t = a @ b \<and> sql_like ps b)"
proof (induction t)
  case (Cons c t)
  have "(\<exists>a b. c # t = a @ b \<and> sql_like ps b) \<longleftrightarrow>
      sql_like ps (c # t) \<or> (\<exists>a b. t = a @ b \<and> sql_like ps b)"
    by (metis append_Cons append_Nil append_eq_Cons_conv)
  with Cons show ?case by simp
qed simp

lemma sql_like_literal:
  assumes "CHR ''%'' \<notin> set ps" "CHR ''_'' \<notin> set ps"
  shows "sql_like (ps @ qs) t \<longleftrightarrow>
    (\<exists>u v. t = u @ v \<and> map ascii_lower u = map ascii_lower ps \<and> sql_like qs v)"
  using assms
proof (induction ps arbitrary: t)
  case (Cons p ps)
  then show ?case
  proof (cases t)
    case (Cons c t')
    have "(\<exists>u v. t = u @ v \<and> map ascii_lower u = map ascii_lower (p # ps) \<and> sql_like qs v) \<longleftrightarrow>
        ascii_lower c = ascii_lower p \<and>
        (\<exists>u v. t' = u @ v \<and> map ascii_lower u = map ascii_lower ps \<and> sql_like qs v)" (is "?l = ?r")
    proof
      assume ?l
      then show ?r unfolding Cons by (auto simp: Cons_eq_append_conv)
    next
      assume ?r
      then obtain u v where "ascii_lower c = ascii_lower p" "t' = u @ v"
        "map ascii_lower u = map ascii_lower ps" "sql_like qs v" by blast
      then show ?l unfolding Cons
        by (intro exI [of _ "c # u"] exI [of _ v]) simp
    qed
    with Cons.IH Cons.prems Cons show ?thesis by auto
  qed auto
qed simp

text \<open>Without wildcards in \<open>name\<close>, \<open>%name%\<close> is a case-insensitive substring test.\<close>

lemma sql_like_percent_last: "sql_like [CHR ''%''] v"
  unfolding sql_like_percent by (intro exI [of _ v] exI [of _ "[]"]) simp

lemma sql_like_substring:
  assumes "CHR ''%'' \<notin> set name" "CHR ''_'' \<notin> set name"
  shows "sql_like (CHR ''%'' # name @ [CHR ''%'']) t \<longleftrightarrow>
    (\<exists>a u b. t = a @ u @ b \<and> map ascii_lower u = map ascii_lower name)"
proof -
  have "sql_like (CHR ''%'' # name @ [CHR ''%'']) t \<longleftrightarrow>
      (\<exists>a b. t = a @ b \<and> (\<exists>u v. b = u @ v \<and> map ascii_lower u = map ascii_lower name))"
    by (simp only: sql_like_percent [of "name @ [CHR ''%'']"] sql_like_literal [OF assms]
        sql_like_percent_last simp_thms)
  also have "\<dots> \<longleftrightarrow> (\<exists>a u b. t = a @ u @ b \<and> map ascii_lower u = map ascii_lower name)"
    by blast
  finally show ?thesis .
qed

section \<open>Error chains\<close>

text \<open>An \<^verbatim>\<open>anyhow\<close> error is the chain of its messages, outermost first.\<close>

type_synonym anyhow = "string list"

definition with_context :: "string \<Rightarrow> anyhow + 'a \<Rightarrow> anyhow + 'a" where
  "with_context m r = (case r of Inl e \<Rightarrow> Inl (m # e) | Inr x \<Rightarrow> Inr x)"

lemma with_context_simps [simp]: "with_context m (Inr x) = Inr x" "with_context m (Inl e) = Inl (m # e)"
  by (simp_all add: with_context_def)

text \<open>\<^verbatim>\<open>format!("{e}")\<close> and \<^verbatim>\<open>format!("{e:#}")\<close>.\<close>

definition error_head :: "anyhow \<Rightarrow> string" where
  "error_head e = (case e of [] \<Rightarrow> [] | m # _ \<Rightarrow> m)"

definition error_chain :: "anyhow \<Rightarrow> string" where
  "error_chain e = join '': '' e"

section \<open>Numbers in text\<close>

text \<open>
  \<^verbatim>\<open>format!("{:.k}", x)\<close>: the exact value rounded to \<open>k\<close> decimals, a tie
  to the even neighbour.
\<close>

definition round_even :: "real \<Rightarrow> int" where
  "round_even x =
     (let f = \<lfloor>x\<rfloor>; d = x - of_int f
      in if d < 1 / 2 then f else if 1 / 2 < d then f + 1 else if even f then f else f + 1)"

definition pad_left :: "nat \<Rightarrow> char \<Rightarrow> string \<Rightarrow> string" where
  "pad_left w c s = replicate (w - length s) c @ s"

definition pad_right :: "nat \<Rightarrow> char \<Rightarrow> string \<Rightarrow> string" where
  "pad_right w c s = s @ replicate (w - length s) c"

definition fmt_fixed :: "nat \<Rightarrow> real \<Rightarrow> string" where
  "fmt_fixed k x =
     (let n = nat (round_even (\<bar>x\<bar> * 10 ^ k));
          sign = (if x < 0 then ''-'' else '''')
      in sign @ show_nat (n div 10 ^ k) @
         (if k = 0 then [] else ''.'' @ pad_left k (CHR ''0'') (show_nat (n mod 10 ^ k))))"

definition quote_sign :: string where
  "quote_sign = [CHR 0x22]"

end
