(* ===== verification/Core_Model.thy ===== *)
theory Core_Model
  imports Complex_Main Rust_Strings
begin

text \<open>
  \<^verbatim>\<open>crates/core\<close>: the money type \<open>Sats\<close> (\<^verbatim>\<open>money.rs\<close>),
  the domain enums with their wire and storage names (\<^verbatim>\<open>model.rs\<close>), and the
  request and response types of the HTTP API (\<^verbatim>\<open>api.rs\<close>) with the JSON
  forms serde derives for the two that are parsed back by the program: the queued
  \<open>command\<close> and the agent's \<open>report_request\<close>.
\<close>

section \<open>money.rs\<close>

datatype sats = Sats (sats_get: int)

definition sats_ZERO :: sats where
  "sats_ZERO = Sats 0"

definition sats_is_zero :: "sats \<Rightarrow> bool" where
  "sats_is_zero s \<longleftrightarrow> sats_get s = 0"

definition sats_add :: "sats \<Rightarrow> sats \<Rightarrow> sats" where
  "sats_add a b = Sats (i64_add (sats_get a) (sats_get b))"

definition sats_sub :: "sats \<Rightarrow> sats \<Rightarrow> sats" where
  "sats_sub a b = Sats (i64_sub (sats_get a) (sats_get b))"

text \<open>\<^verbatim>\<open>AddAssign\<close> and \<^verbatim>\<open>SubAssign\<close>: the value the left side has afterwards.\<close>

definition sats_add_assign :: "sats \<Rightarrow> sats \<Rightarrow> sats" where
  "sats_add_assign a b = Sats (i64_add (sats_get a) (sats_get b))"

definition sats_sub_assign :: "sats \<Rightarrow> sats \<Rightarrow> sats" where
  "sats_sub_assign a b = Sats (i64_sub (sats_get a) (sats_get b))"

definition sats_neg :: "sats \<Rightarrow> sats" where
  "sats_neg a = Sats (i64_neg (sats_get a))"

definition sats_mul :: "sats \<Rightarrow> int \<Rightarrow> sats" where
  "sats_mul a n = Sats (i64_mul (sats_get a) n)"

text \<open>\<^verbatim>\<open>Sum\<close>: the iterator's \<open>i64\<close> sum, from 0 and from the left.\<close>

definition sats_sum :: "sats list \<Rightarrow> sats" where
  "sats_sum xs = Sats (foldl i64_add 0 (map sats_get xs))"

definition sats_fmt :: "sats \<Rightarrow> string" where
  "sats_fmt s = show_int (sats_get s)"

text \<open>\<^verbatim>\<open>derive(PartialOrd, Ord)\<close>: the order of the one field.\<close>

instantiation sats :: linorder
begin

definition less_eq_sats :: "sats \<Rightarrow> sats \<Rightarrow> bool" where
  "less_eq_sats a b \<longleftrightarrow> sats_get a \<le> sats_get b"

definition less_sats :: "sats \<Rightarrow> sats \<Rightarrow> bool" where
  "less_sats a b \<longleftrightarrow> sats_get a < sats_get b"

instance
  by standard (auto simp: less_eq_sats_def less_sats_def sats.expand)

end

text \<open>As long as every partial sum fits in an \<open>i64\<close>, the sum is the mathematical one.\<close>

definition partial_sums_fit :: "int list \<Rightarrow> bool" where
  "partial_sums_fit xs \<longleftrightarrow> (\<forall>k\<le>length xs. in_i64 (sum_list (take k xs)))"

lemma foldl_i64_add:
  assumes "partial_sums_fit xs"
  shows "foldl i64_add 0 xs = sum_list xs"
  using assms
proof (induction xs rule: rev_induct)
  case (snoc x xs)
  have "partial_sums_fit xs"
    unfolding partial_sums_fit_def
  proof (intro allI impI)
    fix k assume k: "k \<le> length xs"
    then have "k \<le> length (xs @ [x])" by simp
    with snoc.prems have "in_i64 (sum_list (take k (xs @ [x])))"
      unfolding partial_sums_fit_def by blast
    with k show "in_i64 (sum_list (take k xs))" by simp
  qed
  moreover have "in_i64 (sum_list (xs @ [x]))"
    using snoc.prems by (auto simp: partial_sums_fit_def dest: spec [of _ "Suc (length xs)"])
  ultimately show ?case using snoc.IH by (simp add: i64_add_def wrap64_id)
qed simp

section \<open>model.rs\<close>

datatype rental_status = Provisioning | Running | Evicting | Stopped | Failed

definition occupies_machine :: "rental_status \<Rightarrow> bool" where
  "occupies_machine s \<longleftrightarrow> (case s of Provisioning \<Rightarrow> True | Running \<Rightarrow> True | Evicting \<Rightarrow> True | _ \<Rightarrow> False)"

definition is_terminal :: "rental_status \<Rightarrow> bool" where
  "is_terminal s \<longleftrightarrow> (case s of Stopped \<Rightarrow> True | Failed \<Rightarrow> True | _ \<Rightarrow> False)"

fun status_as_str :: "rental_status \<Rightarrow> string" where
  "status_as_str Provisioning = ''provisioning''"
| "status_as_str Running = ''running''"
| "status_as_str Evicting = ''evicting''"
| "status_as_str Stopped = ''stopped''"
| "status_as_str Failed = ''failed''"

definition status_ALL :: "rental_status list" where
  "status_ALL = [Provisioning, Running, Evicting, Stopped, Failed]"

datatype disk_type = Nvme | Ssd | Hdd | Unknown

datatype rental_kind = Ssh | HttpStatus | HttpOpenai

datatype ledger_kind = Deposit | RentalCharge | HostCredit | Payout | Evict

text \<open>The lower-case and snake-case names serde and sqlx derive for the enums.\<close>

fun disk_type_str :: "disk_type \<Rightarrow> string" where
  "disk_type_str Nvme = ''nvme''"
| "disk_type_str Ssd = ''ssd''"
| "disk_type_str Hdd = ''hdd''"
| "disk_type_str Unknown = ''unknown''"

fun rental_kind_str :: "rental_kind \<Rightarrow> string" where
  "rental_kind_str Ssh = ''ssh''"
| "rental_kind_str HttpStatus = ''http_status''"
| "rental_kind_str HttpOpenai = ''http_openai''"

fun ledger_kind_str :: "ledger_kind \<Rightarrow> string" where
  "ledger_kind_str Deposit = ''deposit''"
| "ledger_kind_str RentalCharge = ''rental_charge''"
| "ledger_kind_str HostCredit = ''host_credit''"
| "ledger_kind_str Payout = ''payout''"
| "ledger_kind_str Evict = ''evict''"

definition status_of_str :: "string \<Rightarrow> rental_status option" where
  "status_of_str s = List.find (\<lambda>st. status_as_str st = s) status_ALL"

definition rental_kind_of_str :: "string \<Rightarrow> rental_kind option" where
  "rental_kind_of_str s = List.find (\<lambda>k. rental_kind_str k = s) [Ssh, HttpStatus, HttpOpenai]"

definition disk_type_of_str :: "string \<Rightarrow> disk_type option" where
  "disk_type_of_str s = List.find (\<lambda>k. disk_type_str k = s) [Nvme, Ssd, Hdd, Unknown]"

definition is_http_status_image :: "string \<Rightarrow> bool" where
  "is_http_status_image img \<longleftrightarrow> starts_with ''metal:'' img"

lemma status_of_str_as_str [simp]: "status_of_str (status_as_str st) = Some st"
  by (cases st) (simp_all add: status_of_str_def status_ALL_def)

lemma rental_kind_of_str_str [simp]: "rental_kind_of_str (rental_kind_str k) = Some k"
  by (cases k) (simp_all add: rental_kind_of_str_def)

lemma disk_type_of_str_str [simp]: "disk_type_of_str (disk_type_str k) = Some k"
  by (cases k) (simp_all add: disk_type_of_str_def)

lemma status_ALL_complete: "set status_ALL = UNIV"
proof -
  have "st \<in> set status_ALL" for st by (cases st) (simp_all add: status_ALL_def)
  then show ?thesis by blast
qed

lemma occupies_iff_not_terminal: "occupies_machine st \<longleftrightarrow> \<not> is_terminal st"
  by (cases st) (simp_all add: occupies_machine_def is_terminal_def)

lemma occupies_simps [simp]:
  "occupies_machine Provisioning" "occupies_machine Running" "occupies_machine Evicting"
  "\<not> occupies_machine Stopped" "\<not> occupies_machine Failed"
  "is_terminal Stopped" "is_terminal Failed"
  "\<not> is_terminal Provisioning" "\<not> is_terminal Running" "\<not> is_terminal Evicting"
  by (simp_all add: occupies_machine_def is_terminal_def)

section \<open>api.rs: request and response types\<close>

text \<open>Fields of type \<open>f64\<close> hold a finite double, so a \<open>real\<close>.\<close>

record register_request =
  rq_host_id :: string
  rq_gpu_name :: string
  rq_gpu_count :: int
  rq_vram_mb :: int
  rq_cpu_name :: string
  rq_cpu_cores :: int
  rq_ram_mb :: int
  rq_disk_gb :: int
  rq_disk_type :: disk_type
  rq_public_ip :: string
  rq_port_start :: int
  rq_port_end :: int
  rq_inet_down_mbps :: "real option"
  rq_inet_up_mbps :: "real option"
  rq_country :: "string option"
  rq_dlperf :: real
  rq_rate_sats_per_min :: int
  rq_hw_fingerprint :: string

record register_response =
  rs_machine_id :: int
  rs_agent_token :: string

datatype command =
    StartRental (cmd_rental_id: int) (cmd_image: string) (cmd_ssh_pubkey: string)
  | StopRental (cmd_rental_id: int)

record report_request =
  rp_rental_id :: int
  rp_status :: rental_status
  rp_kind :: "rental_kind option"
  rp_ssh_port :: "int option"
  rp_container_id :: "string option"
  rp_error :: "string option"

record offer =
  o_machine_id :: int
  o_gpu_name :: string
  o_gpu_count :: int
  o_vram_mb :: int
  o_cpu_name :: string
  o_cpu_cores :: int
  o_ram_mb :: int
  o_disk_gb :: int
  o_disk_type :: disk_type
  o_public_ip :: string
  o_country :: "string option"
  o_inet_down_mbps :: "real option"
  o_inet_up_mbps :: "real option"
  o_dlperf :: real
  o_rate_sats_per_min :: int
  o_rate_sats_per_hour :: int

record account_response =
  ar_account_id :: string
  ar_balance_sats :: int
  ar_burn_sats_per_min :: int
  ar_runway_minutes :: "int option"

record deposit_response =
  dp_bolt11 :: string
  dp_payment_hash :: string
  dp_sats :: int

record create_rental_request =
  cr_machine_id :: int
  cr_account_id :: string
  cr_image :: string
  cr_ssh_pubkey :: "string option"

record create_rental_response =
  cs_rental_id :: int
  cs_status :: rental_status
  cs_rate_sats_per_min :: int

record rental_response =
  rn_id :: int
  rn_machine_id :: int
  rn_account_id :: string
  rn_image :: string
  rn_status :: rental_status
  rn_kind :: rental_kind
  rn_gpu_name :: string
  rn_gpu_count :: int
  rn_ssh_host :: "string option"
  rn_ssh_port :: "int option"
  rn_ssh_command :: "string option"
  rn_rate_sats_per_min :: int
  rn_sats_charged :: int
  rn_minutes_billed :: int
  rn_paid_through :: int
  rn_error :: "string option"
  rn_created_at :: int
  rn_ended_at :: "int option"

record health_response =
  h_ok :: bool
  h_ln_backend :: string

section \<open>api.rs: JSON forms\<close>

datatype json =
    JNull
  | JBool bool
  | JInt int
  | JReal real
  | JStr string
  | JArr "json list"
  | JObj "(string \<times> json) list"

definition json_field :: "string \<Rightarrow> (string \<times> json) list \<Rightarrow> json option" where
  "json_field k fs = map_of fs k"

text \<open>\<^verbatim>\<open>value["key"]\<close> of \<^verbatim>\<open>serde_json\<close>: null where there is no such field.\<close>

definition json_index :: "json \<Rightarrow> string \<Rightarrow> json" where
  "json_index j k = (case j of JObj fs \<Rightarrow> (case json_field k fs of Some v \<Rightarrow> v | None \<Rightarrow> JNull) | _ \<Rightarrow> JNull)"

definition json_at :: "json \<Rightarrow> nat \<Rightarrow> json" where
  "json_at j i = (case j of JArr vs \<Rightarrow> if i < length vs then vs ! i else JNull | _ \<Rightarrow> JNull)"

text \<open>serde's derived structs refuse a known field that occurs twice.\<close>

definition fields_once :: "string list \<Rightarrow> (string \<times> json) list \<Rightarrow> bool" where
  "fields_once ks fs \<longleftrightarrow> distinct (filter (\<lambda>k. k \<in> set ks) (map fst fs))"

fun json_i64 :: "json \<Rightarrow> int option" where
  "json_i64 (JInt n) = (if in_i64 n then Some n else None)"
| "json_i64 _ = None"

fun json_i32 :: "json \<Rightarrow> int option" where
  "json_i32 (JInt n) = (if in_i32 n then Some n else None)"
| "json_i32 _ = None"

fun json_str :: "json \<Rightarrow> string option" where
  "json_str (JStr s) = Some s"
| "json_str _ = None"

text \<open>
  An \<^verbatim>\<open>Option\<close> field with \<^verbatim>\<open>serde(default)\<close>: absent or
  null is \<open>None\<close>, any other value must decode.
\<close>

definition json_opt :: "(json \<Rightarrow> 'a option) \<Rightarrow> json option \<Rightarrow> 'a option option" where
  "json_opt dec j = (case j of None \<Rightarrow> Some None | Some JNull \<Rightarrow> Some None
     | Some v \<Rightarrow> map_option Some (dec v))"

text \<open>
  A derived struct is read from an object, or from an array of its fields in order; fields that
  are missing at the end of the array count as absent.
\<close>

definition json_struct :: "string list \<Rightarrow> ((string \<times> json) list \<Rightarrow> 'a option) \<Rightarrow> json \<Rightarrow> 'a option" where
  "json_struct ks dec j =
     (case j of
        JObj fs \<Rightarrow> if fields_once ks fs then dec fs else None
      | JArr vs \<Rightarrow> if length vs \<le> length ks then dec (zip ks vs) else None
      | _ \<Rightarrow> None)"

text \<open>\<^verbatim>\<open>serde(transparent)\<close>: \<open>Sats\<close> is a bare number.\<close>

definition sats_to_json :: "sats \<Rightarrow> json" where
  "sats_to_json s = JInt (sats_get s)"

definition sats_from_json :: "json \<Rightarrow> sats option" where
  "sats_from_json j = map_option Sats (json_i64 j)"

text \<open>\<^verbatim>\<open>serde(tag = "cmd", rename_all = "snake_case")\<close>.\<close>

fun command_to_json :: "command \<Rightarrow> json" where
  "command_to_json (StartRental rid img key) =
     JObj [(''cmd'', JStr ''start_rental''), (''rental_id'', JInt rid),
           (''image'', JStr img), (''ssh_pubkey'', JStr key)]"
| "command_to_json (StopRental rid) =
     JObj [(''cmd'', JStr ''stop_rental''), (''rental_id'', JInt rid)]"

definition start_of_fields :: "(string \<times> json) list \<Rightarrow> command option" where
  "start_of_fields fs =
     (case (Option.bind (json_field ''rental_id'' fs) json_i64,
            Option.bind (json_field ''image'' fs) json_str,
            Option.bind (json_field ''ssh_pubkey'' fs) json_str) of
        (Some rid, Some img, Some key) \<Rightarrow> Some (StartRental rid img key)
      | _ \<Rightarrow> None)"

definition stop_of_fields :: "(string \<times> json) list \<Rightarrow> command option" where
  "stop_of_fields fs = map_option StopRental (Option.bind (json_field ''rental_id'' fs) json_i64)"

definition command_of_tag :: "string \<Rightarrow> json \<Rightarrow> command option" where
  "command_of_tag tag j =
     (if tag = ''start_rental'' then json_struct [''rental_id'', ''image'', ''ssh_pubkey''] start_of_fields j
      else if tag = ''stop_rental'' then json_struct [''rental_id''] stop_of_fields j
      else None)"

text \<open>In an array the tag comes first.\<close>

definition command_from_json :: "json \<Rightarrow> command option" where
  "command_from_json j =
     (case j of
        JObj fs \<Rightarrow>
          if fields_once [''cmd''] fs
          then Option.bind (Option.bind (json_field ''cmd'' fs) json_str) (\<lambda>tag. command_of_tag tag j)
          else None
      | JArr (t # vs) \<Rightarrow> Option.bind (json_str t) (\<lambda>tag. command_of_tag tag (JArr vs))
      | _ \<Rightarrow> None)"

text \<open>
  A \<open>report_request\<close> on the wire: an absent optional is left out
  (\<^verbatim>\<open>skip_serializing_if\<close>), and reads back as \<open>None\<close>.
\<close>

definition opt_field :: "string \<Rightarrow> ('a \<Rightarrow> json) \<Rightarrow> 'a option \<Rightarrow> (string \<times> json) list" where
  "opt_field k enc v = (case v of None \<Rightarrow> [] | Some x \<Rightarrow> [(k, enc x)])"

definition report_to_json :: "report_request \<Rightarrow> json" where
  "report_to_json r =
     JObj ([(''rental_id'', JInt (rp_rental_id r)),
            (''status'', JStr (status_as_str (rp_status r)))]
           @ opt_field ''kind'' (\<lambda>k. JStr (rental_kind_str k)) (rp_kind r)
           @ opt_field ''ssh_port'' JInt (rp_ssh_port r)
           @ opt_field ''container_id'' JStr (rp_container_id r)
           @ opt_field ''error'' JStr (rp_error r))"

definition report_fields :: "string list" where
  "report_fields = [''rental_id'', ''status'', ''kind'', ''ssh_port'', ''container_id'', ''error'']"

definition report_of_fields :: "(string \<times> json) list \<Rightarrow> report_request option" where
  "report_of_fields fs =
     (case (Option.bind (json_field ''rental_id'' fs) json_i64,
            Option.bind (json_field ''status'' fs) (\<lambda>v. Option.bind (json_str v) status_of_str),
            json_opt (\<lambda>v. Option.bind (json_str v) rental_kind_of_str) (json_field ''kind'' fs),
            json_opt json_i32 (json_field ''ssh_port'' fs),
            json_opt json_str (json_field ''container_id'' fs),
            json_opt json_str (json_field ''error'' fs)) of
        (Some rid, Some st, Some k, Some p, Some c, Some e) \<Rightarrow>
          Some \<lparr>rp_rental_id = rid, rp_status = st, rp_kind = k, rp_ssh_port = p,
                rp_container_id = c, rp_error = e\<rparr>
      | _ \<Rightarrow> None)"

definition report_from_json :: "json \<Rightarrow> report_request option" where
  "report_from_json j = json_struct report_fields report_of_fields j"

lemma command_json_roundtrip:
  "in_i64 (cmd_rental_id c) \<Longrightarrow> command_from_json (command_to_json c) = Some c"
  by (cases c)
    (simp_all add: command_from_json_def command_of_tag_def json_struct_def start_of_fields_def
      stop_of_fields_def fields_once_def json_field_def)

lemma report_json_roundtrip:
  assumes "in_i64 (rp_rental_id r)" "\<And>p. rp_ssh_port r = Some p \<Longrightarrow> in_i32 p"
  shows "report_from_json (report_to_json r) = Some r"
  using assms
  by (cases "rp_kind r"; cases "rp_ssh_port r"; cases "rp_container_id r"; cases "rp_error r")
    (simp_all add: report_from_json_def report_of_fields_def json_struct_def report_to_json_def report_fields_def fields_once_def
      json_field_def opt_field_def json_opt_def)

end
