(* ===== verification/Lightning.thy ===== *)
theory Lightning
  imports Core_Model
begin

text \<open>
  \<^verbatim>\<open>crates/control-plane/src/lightning\<close>: the trait
  \<^verbatim>\<open>LightningBackend\<close> as a record of its three methods over the backend's own
  state (the server holds it as a trait object), the in-process mock, the reserved lnd
  backend, and the contract of the interface as the locale \<open>lightning_contract\<close>,
  interpreted on both implementations.
\<close>

section \<open>The trait\<close>

record invoice =
  inv_bolt11 :: string
  inv_payment_hash :: string

text \<open>An \<open>anyhow\<close> error is its message.\<close>

record 'ln lightning_backend =
  create_invoice :: "'ln \<Rightarrow> sats \<Rightarrow> string \<Rightarrow> (string + invoice) \<times> 'ln"
  is_settled :: "'ln \<Rightarrow> string \<Rightarrow> string + bool"
  pay_invoice :: "'ln \<Rightarrow> string \<Rightarrow> (string + unit) \<times> 'ln"

section \<open>mock.rs\<close>

text \<open>
  \<open>mk_now\<close> is what \<^verbatim>\<open>Instant::now()\<close> reads; instants and the delay are
  nanoseconds. The atomic counter wraps at 64 bits.
\<close>

record mock =
  mk_settle_delay :: nat
  mk_counter :: "64 word"
  mk_settle_at :: "string \<rightharpoonup> nat"
  mk_now :: nat

definition mock_new :: "nat \<Rightarrow> nat \<Rightarrow> mock" where
  "mock_new settle_delay t =
     \<lparr>mk_settle_delay = settle_delay, mk_counter = 1, mk_settle_at = Map.empty, mk_now = t\<rparr>"

definition mock_hash :: "64 word \<Rightarrow> string" where
  "mock_hash n = hex_fixed 64 (unat n)"

definition mock_create_invoice :: "mock \<Rightarrow> sats \<Rightarrow> string \<Rightarrow> (string + invoice) \<times> mock" where
  "mock_create_invoice b s memo =
     (let n = mk_counter b;
          payment_hash = mock_hash n;
          bolt11 = ''lnbcmock'' @ show_int (sats_get s) @ ''n'' @ show_nat (unat n)
      in (Inr \<lparr>inv_bolt11 = bolt11, inv_payment_hash = payment_hash\<rparr>,
          b\<lparr>mk_counter := n + 1,
            mk_settle_at := (mk_settle_at b)(payment_hash \<mapsto> mk_now b + mk_settle_delay b)\<rparr>))"

definition mock_is_settled :: "mock \<Rightarrow> string \<Rightarrow> string + bool" where
  "mock_is_settled b payment_hash =
     Inr (case mk_settle_at b payment_hash of None \<Rightarrow> False | Some due \<Rightarrow> due \<le> mk_now b)"

definition mock_pay_invoice :: "mock \<Rightarrow> string \<Rightarrow> (string + unit) \<times> mock" where
  "mock_pay_invoice b bolt11 = (Inr (), b)"

definition mock_backend :: "mock lightning_backend" where
  "mock_backend = \<lparr>create_invoice = mock_create_invoice, is_settled = mock_is_settled,
     pay_invoice = mock_pay_invoice\<rparr>"

section \<open>lnd.rs\<close>

definition lnd_UNIMPLEMENTED :: string where
  "lnd_UNIMPLEMENTED = ''the lnd backend is not implemented yet; set LN_BACKEND=mock''"

definition lnd_new :: "string + unit" where
  "lnd_new = Inl lnd_UNIMPLEMENTED"

definition lnd_backend :: "unit lightning_backend" where
  "lnd_backend = \<lparr>create_invoice = (\<lambda>b s memo. (Inl lnd_UNIMPLEMENTED, b)),
     is_settled = (\<lambda>b h. Inl lnd_UNIMPLEMENTED),
     pay_invoice = (\<lambda>b i. (Inl lnd_UNIMPLEMENTED, b))\<rparr>"

section \<open>The contract\<close>

text \<open>
  What the server relies on: a created invoice has a payment hash the backend has not
  issued before (as long as it has \<open>room\<close>), only an issued hash is ever settled, and
  paying changes nothing about issued invoices.
\<close>

locale lightning_contract =
  fixes B :: "'ln lightning_backend"
    and issued :: "'ln \<Rightarrow> string set"
    and good :: "'ln \<Rightarrow> bool"
    and room :: "'ln \<Rightarrow> bool"
  assumes create_fresh: "\<lbrakk>good b; room b; create_invoice B b s memo = (Inr iv, b')\<rbrakk> \<Longrightarrow>
      inv_payment_hash iv \<notin> issued b \<and> issued b' = insert (inv_payment_hash iv) (issued b) \<and> good b'"
    and create_fail: "\<lbrakk>good b; create_invoice B b s memo = (Inl e, b')\<rbrakk> \<Longrightarrow> issued b' = issued b \<and> good b'"
    and settled_issued: "\<lbrakk>good b; is_settled B b h = Inr True\<rbrakk> \<Longrightarrow> h \<in> issued b"
    and pay_frame: "good b \<Longrightarrow> issued (snd (pay_invoice B b i)) = issued b \<and> good (snd (pay_invoice B b i))"
begin

text \<open>Consecutive invoices: issuing a second one while the first exists gives another hash.\<close>

lemma two_invoices_differ:
  assumes "good b" "room b" "create_invoice B b s m = (Inr i1, b1)"
    and "room b1" "create_invoice B b1 s' m' = (Inr i2, b2)"
  shows "inv_payment_hash i1 \<noteq> inv_payment_hash i2"
  using create_fresh [OF assms(1-3)] create_fresh [OF _ assms(4,5)] by auto

text \<open>A hash that was never issued never settles, whatever is created in between.\<close>

lemma unissued_not_settled: "good b \<Longrightarrow> h \<notin> issued b \<Longrightarrow> is_settled B b h \<noteq> Inr True"
  using settled_issued by blast

lemma issued_mono_create:
  assumes "good b" "room b" "create_invoice B b s m = (r, b')"
  shows "issued b \<subseteq> issued b' \<and> good b'"
proof (cases r)
  case (Inl e)
  with assms(3) have "create_invoice B b s m = (Inl e, b')" by simp
  from create_fail [OF assms(1) this] show ?thesis by simp
next
  case (Inr iv)
  with assms(3) have "create_invoice B b s m = (Inr iv, b')" by simp
  from create_fresh [OF assms(1,2) this] show ?thesis by auto
qed

end

text \<open>The mock: the issued hashes are the keys of its map, numbered below its counter.\<close>

definition mock_issued :: "mock \<Rightarrow> string set" where
  "mock_issued b = dom (mk_settle_at b)"

definition mock_good :: "mock \<Rightarrow> bool" where
  "mock_good b \<longleftrightarrow> (\<forall>h\<in>dom (mk_settle_at b). \<exists>n. h = hex_fixed 64 n \<and> n < unat (mk_counter b))"

definition mock_room :: "mock \<Rightarrow> bool" where
  "mock_room b \<longleftrightarrow> mk_counter b \<noteq> - 1"

lemma unat_less_hex64: "unat (n :: 64 word) < 16 ^ 64"
proof -
  have "unat n < 2 ^ LENGTH(64)" by (rule unsigned_less)
  then have "unat n < 2 ^ 64" by simp
  also have "\<dots> < (16 ^ 64 :: nat)" by simp
  finally show ?thesis .
qed

lemma mock_hash_inject: "mock_hash m = mock_hash n \<longleftrightarrow> m = n"
  unfolding mock_hash_def word_unat_eq_iff
  by (rule hex_fixed_inject) (rule unat_less_hex64)+

lemma mock_create_fresh:
  assumes "mock_good b"
  shows "mock_hash (mk_counter b) \<notin> mock_issued b"
proof
  assume "mock_hash (mk_counter b) \<in> mock_issued b"
  then obtain n where n: "hex_fixed 64 (unat (mk_counter b)) = hex_fixed 64 n" "n < unat (mk_counter b)"
    using assms by (auto simp: mock_good_def mock_issued_def mock_hash_def)
  moreover have "n < 16 ^ 64"
    using n(2) unat_less_hex64 [of "mk_counter b"] by (rule less_trans)
  ultimately have "unat (mk_counter b) = n"
    using hex_fixed_inject [OF unat_less_hex64] by blast
  with n(2) show False by simp
qed

lemma unat_plus_one: "(n :: 64 word) \<noteq> - 1 \<Longrightarrow> unat (n + 1) = Suc (unat n)"
  by (metis Suc_eq_plus1 add.inverse_inverse add_eq_0_iff unatSuc word_succ_p1 add.commute)

lemma mock_create_good:
  assumes "mock_good b" "mock_room b"
  shows "mock_good (snd (mock_create_invoice b s m))"
proof -
  have "\<exists>n. h = hex_fixed 64 n \<and> n < Suc (unat (mk_counter b))"
    if "h \<in> insert (mock_hash (mk_counter b)) (dom (mk_settle_at b))" for h
    using that assms(1) unfolding mock_good_def mock_hash_def by (auto intro: less_SucI)
  with assms(2) show ?thesis
    by (simp add: mock_good_def mock_room_def mock_create_invoice_def Let_def unat_plus_one)
qed

interpretation mock_ln: lightning_contract mock_backend mock_issued mock_good mock_room
proof
  fix b s memo iv b'
  assume a: "mock_good b" "mock_room b" "create_invoice mock_backend b s memo = (Inr iv, b')"
  then have "inv_payment_hash iv = mock_hash (mk_counter b)"
      "b' = snd (mock_create_invoice b s memo)"
    by (auto simp: mock_backend_def mock_create_invoice_def Let_def)
  then show "inv_payment_hash iv \<notin> mock_issued b \<and>
      mock_issued b' = insert (inv_payment_hash iv) (mock_issued b) \<and> mock_good b'"
    using mock_create_fresh [OF a(1)] mock_create_good [OF a(1,2)]
    by (simp add: mock_issued_def mock_create_invoice_def Let_def)
qed (auto simp: mock_backend_def mock_create_invoice_def mock_is_settled_def mock_pay_invoice_def
      mock_issued_def Let_def split: option.splits)

text \<open>lnd: nothing is ever issued, so every law holds of its refusals.\<close>

interpretation lnd_ln: lightning_contract lnd_backend "\<lambda>_. {}" "\<lambda>_. True" "\<lambda>_. True"
  by unfold_locales (simp_all add: lnd_backend_def)

end
