(* ===== verification/Storage.thy ===== *)
theory Storage
  imports Core_Model
begin

text \<open>
  \<^verbatim>\<open>crates/control-plane/src/db.rs\<close> over the schema of
  \<^verbatim>\<open>migrations/*.sql\<close>: the row types, the database as its six tables, the
  statements the handlers are made of with the constraints SQLite enforces on them
  (\<^verbatim>\<open>UNIQUE\<close>, \<^verbatim>\<open>CHECK\<close>, foreign keys), the one way to
  write the ledger, and transactions. \<open>db_wf\<close> is what the schema promises of a
  database; every statement keeps it. \<open>books_balance\<close> is the accounting invariant:
  every balance is the sum of the ledger rows of its owner.

  Columns hold mathematical integers: SQLite turns a sum outside 64 bits into a floating
  point value, which no reachable database contains as long as the deposits fit
  (\<open>Control_Plane\<close>). Failures of the storage itself (a full disk, a lock not
  granted in time) are not modelled.
\<close>

section \<open>Row types\<close>

record machine_row =
  m_id :: int
  m_agent_token :: string
  m_host_id :: string
  m_gpu_name :: string
  m_gpu_count :: int
  m_vram_mb :: int
  m_cpu_name :: string
  m_cpu_cores :: int
  m_ram_mb :: int
  m_disk_gb :: int
  m_disk_type :: disk_type
  m_public_ip :: string
  m_port_start :: int
  m_port_end :: int
  m_inet_down_mbps :: "real option"
  m_inet_up_mbps :: "real option"
  m_country :: "string option"
  m_dlperf :: real
  m_rate_sats_per_min :: int
  m_payout_balance :: int
  m_online :: bool
  m_last_heartbeat :: int
  m_hw_fingerprint :: string
  m_created_at :: int

record rental_row =
  r_id :: int
  r_machine_id :: int
  r_account_id :: string
  r_image :: string
  r_ssh_pubkey :: string
  r_status :: rental_status
  r_kind :: rental_kind
  r_ssh_host :: "string option"
  r_ssh_port :: "int option"
  r_container_id :: "string option"
  r_error :: "string option"
  r_rate_sats_per_min :: int
  r_sats_charged :: int
  r_minutes_billed :: int
  r_paid_through :: int
  r_created_at :: int
  r_ended_at :: "int option"

record account_row =
  a_id :: string
  a_balance_sats :: int
  a_created_at :: int

record invoice_row =
  i_payment_hash :: string
  i_account_id :: string
  i_sats :: int
  i_bolt11 :: string
  i_settled :: bool
  i_created_at :: int

record ledger_row =
  l_id :: int
  l_ts :: int
  l_account_id :: "string option"
  l_machine_id :: "int option"
  l_rental_id :: "int option"
  l_delta_sats :: int
  l_kind :: ledger_kind
  l_note :: "string option"

text \<open>The payload column holds the JSON document serde writes into it.\<close>

record command_row =
  c_id :: int
  c_machine_id :: int
  c_payload :: json
  c_delivered :: bool
  c_created_at :: int

record db =
  db_machines :: "machine_row list"
  db_accounts :: "account_row list"
  db_rentals :: "rental_row list"
  db_invoices :: "invoice_row list"
  db_ledger :: "ledger_row list"
  db_commands :: "command_row list"

text \<open>The database after the migrations.\<close>

definition db_empty :: db where
  "db_empty = \<lparr>db_machines = [], db_accounts = [], db_rentals = [], db_invoices = [],
     db_ledger = [], db_commands = []\<rparr>"

datatype db_error = CheckViolation | UniqueViolation | ForeignKeyViolation | RowNotFound | IntegerOverflow

section \<open>Reading\<close>

definition find_machine :: "db \<Rightarrow> int \<Rightarrow> machine_row option" where
  "find_machine d k = sql_find (\<lambda>m. m_id m = k) (db_machines d)"

definition find_account :: "db \<Rightarrow> string \<Rightarrow> account_row option" where
  "find_account d k = sql_find (\<lambda>a. a_id a = k) (db_accounts d)"

definition find_rental :: "db \<Rightarrow> int \<Rightarrow> rental_row option" where
  "find_rental d k = sql_find (\<lambda>r. r_id r = k) (db_rentals d)"

lemma find_machine_SomeD: "find_machine d k = Some m \<Longrightarrow> m \<in> set (db_machines d) \<and> m_id m = k"
  unfolding find_machine_def by (rule sql_find_SomeD)

lemma find_account_SomeD: "find_account d k = Some a \<Longrightarrow> a \<in> set (db_accounts d) \<and> a_id a = k"
  unfolding find_account_def by (rule sql_find_SomeD)

lemma find_rental_SomeD: "find_rental d k = Some r \<Longrightarrow> r \<in> set (db_rentals d) \<and> r_id r = k"
  unfolding find_rental_def by (rule sql_find_SomeD)

lemma find_machine_None_iff: "find_machine d k = None \<longleftrightarrow> k \<notin> m_id ` set (db_machines d)"
  by (auto simp: find_machine_def sql_find_None_iff)

lemma find_account_None_iff: "find_account d k = None \<longleftrightarrow> k \<notin> a_id ` set (db_accounts d)"
  by (auto simp: find_account_def sql_find_None_iff)

text \<open>
  \<^verbatim>\<open>COALESCE(SUM(c), 0)\<close>: SQLite adds in row order and raises an error when
  a partial sum leaves 64 bits.
\<close>

fun sql_sum :: "int \<Rightarrow> int list \<Rightarrow> db_error + int" where
  "sql_sum acc [] = Inr acc"
| "sql_sum acc (x # xs) = (if in_i64 (acc + x) then sql_sum (acc + x) xs else Inl IntegerOverflow)"

section \<open>Writing\<close>

definition update_machines :: "(machine_row \<Rightarrow> bool) \<Rightarrow> (machine_row \<Rightarrow> machine_row) \<Rightarrow> db \<Rightarrow> db" where
  "update_machines p f d = d\<lparr>db_machines := sql_update p f (db_machines d)\<rparr>"

definition update_rentals :: "(rental_row \<Rightarrow> bool) \<Rightarrow> (rental_row \<Rightarrow> rental_row) \<Rightarrow> db \<Rightarrow> db" where
  "update_rentals p f d = d\<lparr>db_rentals := sql_update p f (db_rentals d)\<rparr>"

definition update_invoices :: "(invoice_row \<Rightarrow> bool) \<Rightarrow> (invoice_row \<Rightarrow> invoice_row) \<Rightarrow> db \<Rightarrow> db" where
  "update_invoices p f d = d\<lparr>db_invoices := sql_update p f (db_invoices d)\<rparr>"

definition update_commands :: "(command_row \<Rightarrow> bool) \<Rightarrow> (command_row \<Rightarrow> command_row) \<Rightarrow> db \<Rightarrow> db" where
  "update_commands p f d = d\<lparr>db_commands := sql_update p f (db_commands d)\<rparr>"

text \<open>
  \<^verbatim>\<open>UPDATE accounts SET balance_sats = balance_sats + ? WHERE id = ?\<close>, under the column's
  \<^verbatim>\<open>CHECK\<close>. SQLite adds in 64 bits and turns a larger sum into a float; what is proved of
  balances assumes \<open>deposits_fit\<close> and shows that they stay in 64 bits.
\<close>

definition add_balance :: "string \<Rightarrow> int \<Rightarrow> db \<Rightarrow> db_error + db" where
  "add_balance k x d =
     (if list_all (\<lambda>a. a_id a = k \<longrightarrow> 0 \<le> a_balance_sats a + x) (db_accounts d)
      then Inr (d\<lparr>db_accounts := sql_update (\<lambda>a. a_id a = k)
             (\<lambda>a. a\<lparr>a_balance_sats := a_balance_sats a + x\<rparr>) (db_accounts d)\<rparr>)
      else Inl CheckViolation)"

definition insert_account :: "account_row \<Rightarrow> db \<Rightarrow> db_error + db" where
  "insert_account a d =
     (if a_id a \<in> set (map a_id (db_accounts d)) then Inl UniqueViolation
      else if a_balance_sats a < 0 then Inl CheckViolation
      else Inr (d\<lparr>db_accounts := db_accounts d @ [a]\<rparr>))"

text \<open>The inserted machine's id is the one the \<^verbatim>\<open>AUTOINCREMENT\<close> column assigns.\<close>

definition insert_machine :: "machine_row \<Rightarrow> db \<Rightarrow> db_error + (int \<times> db)" where
  "insert_machine m d =
     (let k = next_id (map m_id (db_machines d))
      in if m_agent_token m \<in> set (map m_agent_token (db_machines d))
            \<or> m_host_id m \<in> set (map m_host_id (db_machines d)) then Inl UniqueViolation
         else Inr (k, d\<lparr>db_machines := db_machines d @ [m\<lparr>m_id := k\<rparr>]\<rparr>))"

definition insert_rental :: "rental_row \<Rightarrow> db \<Rightarrow> db_error + (int \<times> db)" where
  "insert_rental r d =
     (let k = next_id (map r_id (db_rentals d))
      in if r_machine_id r \<notin> set (map m_id (db_machines d))
            \<or> r_account_id r \<notin> set (map a_id (db_accounts d)) then Inl ForeignKeyViolation
         else Inr (k, d\<lparr>db_rentals := db_rentals d @ [r\<lparr>r_id := k\<rparr>]\<rparr>))"

definition insert_invoice :: "invoice_row \<Rightarrow> db \<Rightarrow> db_error + db" where
  "insert_invoice i d =
     (if i_payment_hash i \<in> set (map i_payment_hash (db_invoices d)) then Inl UniqueViolation
      else if i_account_id i \<notin> set (map a_id (db_accounts d)) then Inl ForeignKeyViolation
      else Inr (d\<lparr>db_invoices := db_invoices d @ [i]\<rparr>))"

definition insert_command :: "int \<Rightarrow> json \<Rightarrow> int \<Rightarrow> db \<Rightarrow> db_error + db" where
  "insert_command machine payload now d =
     (if machine \<notin> set (map m_id (db_machines d)) then Inl ForeignKeyViolation
      else Inr (d\<lparr>db_commands := db_commands d @
             [\<lparr>c_id = next_id (map c_id (db_commands d)), c_machine_id = machine,
               c_payload = payload, c_delivered = False, c_created_at = now\<rparr>]\<rparr>))"

text \<open>\<^verbatim>\<open>db::record\<close>: the only write to the ledger.\<close>

definition db_record ::
  "int \<Rightarrow> ledger_kind \<Rightarrow> int \<Rightarrow> string option \<Rightarrow> int option \<Rightarrow> int option \<Rightarrow> string option \<Rightarrow> db \<Rightarrow> db" where
  "db_record ts kind delta acct machine rental note d =
     d\<lparr>db_ledger := db_ledger d @
        [\<lparr>l_id = next_id (map l_id (db_ledger d)), l_ts = ts, l_account_id = acct,
          l_machine_id = machine, l_rental_id = rental, l_delta_sats = delta,
          l_kind = kind, l_note = note\<rparr>]\<rparr>"

text \<open>\<^verbatim>\<open>db::record_charge\<close>: the two rows of a metered charge.\<close>

definition record_charge :: "int \<Rightarrow> string \<Rightarrow> int \<Rightarrow> int \<Rightarrow> int \<Rightarrow> db \<Rightarrow> db" where
  "record_charge ts acct machine rental amount d =
     db_record ts HostCredit amount None (Some machine) (Some rental) None
       (db_record ts RentalCharge (i64_neg amount) (Some acct) None (Some rental) None d)"

text \<open>
  \<^verbatim>\<open>BEGIN IMMEDIATE\<close> ... \<^verbatim>\<open>COMMIT\<close>, or
  \<^verbatim>\<open>ROLLBACK\<close> when the body returns an error.
\<close>

definition in_transaction :: "(db \<Rightarrow> 'e + ('a \<times> db)) \<Rightarrow> db \<Rightarrow> ('e + 'a) \<times> db" where
  "in_transaction body d =
     (case body d of Inl e \<Rightarrow> (Inl e, d) | Inr (x, d') \<Rightarrow> (Inr x, d'))"

lemma in_transaction_Inl: "in_transaction body d = (Inl e, d') \<Longrightarrow> d' = d"
  by (auto simp: in_transaction_def split: sum.splits prod.splits)

lemma in_transaction_inv:
  assumes "I d" "\<And>x d'. body d = Inr (x, d') \<Longrightarrow> I d'"
  shows "I (snd (in_transaction body d))"
  using assms by (auto simp: in_transaction_def split: sum.splits prod.splits)

section \<open>What the schema promises\<close>

abbreviation machine_ids :: "db \<Rightarrow> int set" where
  "machine_ids d \<equiv> m_id ` set (db_machines d)"

abbreviation account_ids :: "db \<Rightarrow> string set" where
  "account_ids d \<equiv> a_id ` set (db_accounts d)"

definition machines_wf :: "db \<Rightarrow> bool" where
  "machines_wf d \<longleftrightarrow> distinct (map m_id (db_machines d)) \<and>
     distinct (map m_agent_token (db_machines d)) \<and> distinct (map m_host_id (db_machines d))"

definition accounts_wf :: "db \<Rightarrow> bool" where
  "accounts_wf d \<longleftrightarrow> distinct (map a_id (db_accounts d)) \<and>
     (\<forall>a\<in>set (db_accounts d). 0 \<le> a_balance_sats a)"

definition rentals_wf :: "db \<Rightarrow> bool" where
  "rentals_wf d \<longleftrightarrow> distinct (map r_id (db_rentals d)) \<and>
     (\<forall>r\<in>set (db_rentals d). r_machine_id r \<in> machine_ids d \<and> r_account_id r \<in> account_ids d)"

definition invoices_wf :: "db \<Rightarrow> bool" where
  "invoices_wf d \<longleftrightarrow> distinct (map i_payment_hash (db_invoices d)) \<and>
     (\<forall>i\<in>set (db_invoices d). i_account_id i \<in> account_ids d)"

definition commands_wf :: "db \<Rightarrow> bool" where
  "commands_wf d \<longleftrightarrow> distinct (map c_id (db_commands d)) \<and>
     (\<forall>c\<in>set (db_commands d). c_machine_id c \<in> machine_ids d)"

definition db_wf :: "db \<Rightarrow> bool" where
  "db_wf d \<longleftrightarrow> machines_wf d \<and> accounts_wf d \<and> rentals_wf d \<and> invoices_wf d \<and> commands_wf d"

lemmas wf_defs = db_wf_def machines_wf_def accounts_wf_def rentals_wf_def invoices_wf_def commands_wf_def

lemma db_wf_empty: "db_wf db_empty"
  by (simp add: wf_defs db_empty_def)

section \<open>Statements keep the schema\<close>

lemma image_sql_update [simp]: "(\<And>r. k (f r) = k r) \<Longrightarrow> k ` set (sql_update p f rs) = k ` set rs"
  by (metis list.set_map map_sql_update_frame)

lemma update_machines_wf [wf_intros]:
  assumes "db_wf d" "\<And>m. m_id (f m) = m_id m" "\<And>m. m_agent_token (f m) = m_agent_token m"
    "\<And>m. m_host_id (f m) = m_host_id m"
  shows "db_wf (update_machines p f d)"
  using assms by (simp add: wf_defs update_machines_def map_sql_update_frame)

lemma update_rentals_wf [wf_intros]:
  assumes "db_wf d" "\<And>r. r_id (f r) = r_id r" "\<And>r. r_machine_id (f r) = r_machine_id r"
    "\<And>r. r_account_id (f r) = r_account_id r"
  shows "db_wf (update_rentals p f d)"
proof -
  have "distinct (map r_id (sql_update p f (db_rentals d)))"
    using assms by (simp add: wf_defs map_sql_update_frame)
  moreover have "\<forall>r\<in>set (sql_update p f (db_rentals d)).
      r_machine_id r \<in> machine_ids d \<and> r_account_id r \<in> account_ids d"
    using assms by (auto simp: wf_defs set_sql_update)
  ultimately show ?thesis
    using assms(1) by (simp add: db_wf_def machines_wf_def accounts_wf_def rentals_wf_def
        invoices_wf_def commands_wf_def update_rentals_def)
qed

lemma update_invoices_wf [wf_intros]:
  assumes "db_wf d" "\<And>i. i_payment_hash (f i) = i_payment_hash i" "\<And>i. i_account_id (f i) = i_account_id i"
  shows "db_wf (update_invoices p f d)"
  using assms by (auto simp: wf_defs update_invoices_def map_sql_update_frame set_sql_update)

lemma update_commands_wf [wf_intros]:
  assumes "db_wf d" "\<And>c. c_id (f c) = c_id c" "\<And>c. c_machine_id (f c) = c_machine_id c"
  shows "db_wf (update_commands p f d)"
  using assms by (auto simp: wf_defs update_commands_def map_sql_update_frame set_sql_update)

lemma add_balance_wf [wf_intros]:
  assumes "db_wf d" "add_balance k x d = Inr d'"
  shows "db_wf d'"
proof -
  let ?as = "sql_update (\<lambda>a. a_id a = k) (\<lambda>a. a\<lparr>a_balance_sats := a_balance_sats a + x\<rparr>) (db_accounts d)"
  have d': "d' = d\<lparr>db_accounts := ?as\<rparr>"
    and chk: "\<forall>a\<in>set (db_accounts d). a_id a = k \<longrightarrow> 0 \<le> a_balance_sats a + x"
    using assms(2) by (auto simp: add_balance_def list_all_iff split: if_splits)
  have "\<forall>a\<in>set ?as. 0 \<le> a_balance_sats a"
    using assms(1) chk by (auto simp: wf_defs set_sql_update)
  then show ?thesis
    using assms(1) unfolding d' by (simp add: wf_defs map_sql_update_frame)
qed

lemma insert_account_wf [wf_intros]:
  "db_wf d \<Longrightarrow> insert_account a d = Inr d' \<Longrightarrow> db_wf d'"
  by (auto simp: wf_defs insert_account_def split: if_splits)

lemma insert_machine_wf [wf_intros]:
  assumes "db_wf d" "insert_machine m d = Inr (k, d')"
  shows "db_wf d'"
proof -
  have "next_id (map m_id (db_machines d)) \<notin> m_id ` set (db_machines d)"
    using next_id_fresh [of "map m_id (db_machines d)"] by simp
  with assms show ?thesis
    by (auto simp: wf_defs insert_machine_def Let_def split: if_splits)
qed

lemma insert_rental_wf [wf_intros]:
  assumes "db_wf d" "insert_rental r d = Inr (k, d')"
  shows "db_wf d'"
proof -
  have "next_id (map r_id (db_rentals d)) \<notin> r_id ` set (db_rentals d)"
    using next_id_fresh [of "map r_id (db_rentals d)"] by simp
  with assms show ?thesis
    by (auto simp: wf_defs insert_rental_def Let_def split: if_splits)
qed

lemma insert_invoice_wf [wf_intros]:
  "db_wf d \<Longrightarrow> insert_invoice i d = Inr d' \<Longrightarrow> db_wf d'"
  by (auto simp: wf_defs insert_invoice_def split: if_splits)

lemma insert_command_wf [wf_intros]:
  assumes "db_wf d" "insert_command m j now d = Inr d'"
  shows "db_wf d'"
proof -
  have "next_id (map c_id (db_commands d)) \<notin> c_id ` set (db_commands d)"
    using next_id_fresh [of "map c_id (db_commands d)"] by simp
  with assms show ?thesis
    by (auto simp: wf_defs insert_command_def split: if_splits)
qed

lemma db_record_wf [wf_intros]: "db_wf d \<Longrightarrow> db_wf (db_record ts kind x acct m r note d)"
  by (simp add: wf_defs db_record_def)

lemma record_charge_wf [wf_intros]: "db_wf d \<Longrightarrow> db_wf (record_charge ts a m r x d)"
  by (simp add: record_charge_def db_record_wf)

end
