(* ===== verification/App_State.thy ===== *)
theory App_State
  imports Lightning Storage
begin

unbundle bit_operations_syntax

text \<open>
  What the handlers share: \<^verbatim>\<open>state.rs\<close> (billing configuration, clock,
  application state), \<^verbatim>\<open>error.rs\<close> (the error type and the HTTP status of
  each kind), \<^verbatim>\<open>routes/mod.rs\<close> (bearer authentication and the id
  source), and \<^verbatim>\<open>db::system_now\<close>.
\<close>

section \<open>state.rs\<close>

text \<open>A \<open>Duration\<close> is a number of nanoseconds.\<close>

definition from_secs :: "nat \<Rightarrow> nat" where
  "from_secs s = s * 10 ^ 9"

record billing_config =
  bc_tick :: nat
  bc_heartbeat_timeout :: nat

definition billing_default :: billing_config where
  "billing_default = \<lparr>bc_tick = from_secs 5, bc_heartbeat_timeout = from_secs 90\<rparr>"

definition heartbeat_timeout_secs :: "billing_config \<Rightarrow> int" where
  "heartbeat_timeout_secs c = wrap64 (int (bc_heartbeat_timeout c div 10 ^ 9))"

datatype clock = System | Manual int

definition clock_manual :: "int \<Rightarrow> clock" where
  "clock_manual start = Manual start"

text \<open>
  \<open>system_now t\<close> at \<open>t\<close> nanoseconds after the epoch; \<open>None\<close> is the panic
  of \<^verbatim>\<open>expect("system clock before 1970")\<close>.
\<close>

definition system_now :: "int \<Rightarrow> int option" where
  "system_now t = (if t < 0 then None else Some (wrap64 (t div 10 ^ 9)))"

definition clock_now :: "int \<Rightarrow> clock \<Rightarrow> int option" where
  "clock_now t c = (case c of System \<Rightarrow> system_now t | Manual m \<Rightarrow> Some m)"

definition clock_advance :: "int \<Rightarrow> clock \<Rightarrow> clock" where
  "clock_advance secs c = (case c of Manual t \<Rightarrow> Manual (i64_add t secs) | System \<Rightarrow> System)"

record 'ln app_state =
  st_db :: db
  st_ln :: "'ln lightning_backend"
  st_ln_state :: 'ln
  st_billing :: billing_config
  st_clock :: clock
  st_ln_backend_name :: string
  st_mix_counter :: "64 word"

section \<open>error.rs\<close>

text \<open>
  The message of an error response: a text of the handler, or the display of a database
  or serde error behind the prefix the conversion writes.
\<close>

datatype api_message = Msg string | DatabaseError db_error | SerializationError

record api_error =
  err_status :: nat
  err_message :: api_message

definition api_new :: "nat \<Rightarrow> api_message \<Rightarrow> api_error" where
  "api_new status m = \<lparr>err_status = status, err_message = m\<rparr>"

definition not_found :: "string \<Rightarrow> api_error" where
  "not_found m = api_new 404 (Msg m)"

definition conflict :: "string \<Rightarrow> api_error" where
  "conflict m = api_new 409 (Msg m)"

definition payment_required :: "string \<Rightarrow> api_error" where
  "payment_required m = api_new 402 (Msg m)"

definition bad_request :: "string \<Rightarrow> api_error" where
  "bad_request m = api_new 400 (Msg m)"

definition unauthorized :: "string \<Rightarrow> api_error" where
  "unauthorized m = api_new 401 (Msg m)"

definition bad_gateway :: "string \<Rightarrow> api_error" where
  "bad_gateway m = api_new 502 (Msg m)"

definition of_db_error :: "db_error \<Rightarrow> api_error" where
  "of_db_error e = api_new 500 (DatabaseError e)"

definition of_serde_error :: api_error where
  "of_serde_error = api_new 500 SerializationError"

lemmas error_defs = api_new_def not_found_def conflict_def payment_required_def bad_request_def
  unauthorized_def bad_gateway_def of_db_error_def of_serde_error_def

section \<open>routes/mod.rs\<close>

text \<open>
  \<open>auth\<close> is the \<^verbatim>\<open>Authorization\<close> header as a string, \<open>None\<close> when
  it is missing or not visible ASCII.
\<close>

definition authenticate :: "db \<Rightarrow> string option \<Rightarrow> api_error + machine_row" where
  "authenticate d auth =
     (case Option.bind auth (strip_prefix ''Bearer '') of
        None \<Rightarrow> Inl (unauthorized ''missing or malformed bearer token'')
      | Some token \<Rightarrow>
          (case sql_find (\<lambda>m. m_agent_token m = token) (db_machines d) of
             None \<Rightarrow> Inl (unauthorized ''invalid agent token'')
           | Some m \<Rightarrow> Inr m))"

lemma authenticate_cong: "db_machines d = db_machines d' \<Longrightarrow> authenticate d auth = authenticate d' auth"
  by (simp add: authenticate_def cong: option.case_cong)

text \<open>\<open>mix\<close> at \<open>nanos\<close> on the system clock and the counter at \<open>n\<close>.\<close>

definition mix :: "64 word \<Rightarrow> 64 word \<Rightarrow> 64 word" where
  "mix nanos n = nanos XOR word_rotl 17 (n * 0x9E3779B97F4A7C15)"

definition new_agent_token :: "64 word \<Rightarrow> 64 word \<Rightarrow> string" where
  "new_agent_token nanos n = ''agt_'' @ hex_fixed 16 (unat (mix nanos n))"

definition new_account_id :: "64 word \<Rightarrow> 64 word \<Rightarrow> string" where
  "new_account_id nanos n = ''acct_'' @ hex_fixed 16 (unat (mix nanos n))"

lemma authenticate_InrD:
  assumes "authenticate d auth = Inr m"
  shows "m \<in> set (db_machines d)" "auth = Some (''Bearer '' @ m_agent_token m)"
proof -
  obtain token where t: "Option.bind auth (strip_prefix ''Bearer '') = Some token"
    "sql_find (\<lambda>m. m_agent_token m = token) (db_machines d) = Some m"
    using assms by (auto simp: authenticate_def split: option.splits)
  then show "m \<in> set (db_machines d)" using sql_find_SomeD by fast
  from t(2) have "m_agent_token m = token" using sql_find_SomeD by fast
  with t(1) show "auth = Some (''Bearer '' @ m_agent_token m)"
    by (cases auth) (simp_all add: strip_prefix_Some_iff)
qed

lemma authenticate_token:
  assumes "machines_wf d" "m \<in> set (db_machines d)"
  shows "authenticate d (Some (''Bearer '' @ m_agent_token m)) = Inr m"
proof -
  have "sql_find (\<lambda>x. m_agent_token x = m_agent_token m) (db_machines d) = Some m"
    using assms by (simp add: machines_wf_def sql_find_unique)
  then show ?thesis unfolding authenticate_def
    by (simp only: bind.bind_lunit strip_prefix_append option.case)
qed

text \<open>The multiplier is odd, so distinct counters give distinct ids at one instant.\<close>

lemma mix_multiplier_inverse: "(0x9E3779B97F4A7C15 :: 64 word) * 0xF1DE83E19937733D = 1"
  by simp

lemma mix_inject: "mix nanos m = mix nanos n \<longleftrightarrow> m = n"
proof
  assume "mix nanos m = mix nanos n"
  then have "nanos XOR mix nanos m = nanos XOR mix nanos n" by simp
  then have "word_rotl 17 (m * 0x9E3779B97F4A7C15) = word_rotl 17 (n * 0x9E3779B97F4A7C15)"
    by (simp add: mix_def flip: xor.assoc)
  then have "word_rotr 17 (word_rotl 17 (m * 0x9E3779B97F4A7C15)) =
      word_rotr 17 (word_rotl 17 (n * 0x9E3779B97F4A7C15))" by simp
  then have "m * 0x9E3779B97F4A7C15 = n * 0x9E3779B97F4A7C15"
    by (simp only: word_rot_lr)
  then have "m * (0x9E3779B97F4A7C15 * 0xF1DE83E19937733D) = n * (0x9E3779B97F4A7C15 * 0xF1DE83E19937733D)"
    by (simp only: mult.assoc [symmetric])
  then show "m = n" by (simp only: mix_multiplier_inverse mult_1_right)
qed simp

end
