(* ===== verification/Accounting.thy ===== *)
theory Accounting
  imports Storage
begin

text \<open>
  The accounting view of a database: what each account holds and each machine is owed,
  what the ledger says about them, and how every statement moves them. Its abstract
  specification is the \<open>bank\<close>, two functions with three transfers; the handlers
  are shown to implement it in \<open>Control_Plane\<close>. \<open>ledger_total_liabilities\<close>
  is the reconciliation law: the whole ledger sums to what the platform owes.
\<close>

section \<open>Balances and ledger sums\<close>

definition account_balance :: "db \<Rightarrow> string \<Rightarrow> int" where
  "account_balance d k = (case find_account d k of None \<Rightarrow> 0 | Some a \<Rightarrow> a_balance_sats a)"

definition machine_owed :: "db \<Rightarrow> int \<Rightarrow> int" where
  "machine_owed d k = (case find_machine d k of None \<Rightarrow> 0 | Some m \<Rightarrow> m_payout_balance m)"

definition account_ledger :: "db \<Rightarrow> string \<Rightarrow> int" where
  "account_ledger d k = sum_list (map l_delta_sats (filter (\<lambda>l. l_account_id l = Some k) (db_ledger d)))"

definition machine_ledger :: "db \<Rightarrow> int \<Rightarrow> int" where
  "machine_ledger d k = sum_list (map l_delta_sats (filter (\<lambda>l. l_machine_id l = Some k) (db_ledger d)))"

text \<open>\<^verbatim>\<open>SUM(ledger.delta_sats)\<close>.\<close>

definition ledger_total :: "db \<Rightarrow> int" where
  "ledger_total d = sum_list (map l_delta_sats (db_ledger d))"

definition total_balance :: "db \<Rightarrow> int" where
  "total_balance d = sum_list (map a_balance_sats (db_accounts d))"

definition total_owed :: "db \<Rightarrow> int" where
  "total_owed d = sum_list (map m_payout_balance (db_machines d))"

definition liabilities :: "db \<Rightarrow> int" where
  "liabilities d = total_balance d + total_owed d"

definition invoice_total :: "db \<Rightarrow> int" where
  "invoice_total d = sum_list (map i_sats (db_invoices d))"

definition settled_total :: "db \<Rightarrow> int" where
  "settled_total d = sum_list (map i_sats (filter i_settled (db_invoices d)))"

text \<open>Every ledger row belongs to exactly one existing account or machine.\<close>

definition entry_owned :: "db \<Rightarrow> ledger_row \<Rightarrow> bool" where
  "entry_owned d l =
     (case l_account_id l of
        Some a \<Rightarrow> l_machine_id l = None \<and> a \<in> account_ids d
      | None \<Rightarrow> (case l_machine_id l of Some m \<Rightarrow> m \<in> machine_ids d | None \<Rightarrow> False))"

definition books_balance :: "db \<Rightarrow> bool" where
  "books_balance d \<longleftrightarrow> account_balance d = account_ledger d \<and> machine_owed d = machine_ledger d \<and>
     (\<forall>l\<in>set (db_ledger d). entry_owned d l)"

lemma books_balance_empty: "books_balance db_empty"
  by (simp add: books_balance_def db_empty_def account_balance_def machine_owed_def
      account_ledger_def machine_ledger_def find_account_def find_machine_def sql_find_def fun_eq_iff)

section \<open>The ledger as a whole\<close>

lemma sum_by_owner:
  assumes "distinct ks"
  shows "sum_list (map (\<lambda>k. if own = Some k then x else 0) ks) =
    (case own of None \<Rightarrow> 0 | Some k \<Rightarrow> if k \<in> set ks then x else (0::int))"
  using assms by (induction ks) (auto split: option.splits)

lemma sum_list_map_add:
  "sum_list (map (\<lambda>k. f k + g k) ks) = sum_list (map f ks) + (sum_list (map g ks) :: int)"
  by (induction ks) auto

lemma ledger_partition:
  assumes "distinct as" "distinct ms"
    and "\<forall>l\<in>set ls. case l_account_id l of
          Some a \<Rightarrow> l_machine_id l = None \<and> a \<in> set as
        | None \<Rightarrow> (case l_machine_id l of Some m \<Rightarrow> m \<in> set ms | None \<Rightarrow> False)"
  shows "sum_list (map l_delta_sats ls) =
    sum_list (map (\<lambda>a. sum_list (map l_delta_sats (filter (\<lambda>l. l_account_id l = Some a) ls))) as) +
    sum_list (map (\<lambda>m. sum_list (map l_delta_sats (filter (\<lambda>l. l_machine_id l = Some m) ls))) ms)"
  using assms(3)
proof (induction ls)
  case (Cons l ls)
  have split: "sum_list (map l_delta_sats (filter p (l # ls))) =
      (if p l then l_delta_sats l else 0) + sum_list (map l_delta_sats (filter p ls))" for p
    by simp
  have "l_delta_sats l =
      sum_list (map (\<lambda>a. if l_account_id l = Some a then l_delta_sats l else 0) as) +
      sum_list (map (\<lambda>m. if l_machine_id l = Some m then l_delta_sats l else 0) ms)"
    using Cons.prems by (auto simp: sum_by_owner [OF assms(1)] sum_by_owner [OF assms(2)] split: option.splits)
  with Cons show ?case
    unfolding split sum_list_map_add by simp
qed simp

lemma account_balance_in:
  "accounts_wf d \<Longrightarrow> a \<in> set (db_accounts d) \<Longrightarrow> account_balance d (a_id a) = a_balance_sats a"
  by (simp add: account_balance_def find_account_def accounts_wf_def sql_find_unique)

lemma machine_owed_in:
  "machines_wf d \<Longrightarrow> m \<in> set (db_machines d) \<Longrightarrow> machine_owed d (m_id m) = m_payout_balance m"
  by (simp add: machine_owed_def find_machine_def machines_wf_def sql_find_unique)

lemma account_balance_out: "k \<notin> account_ids d \<Longrightarrow> account_balance d k = 0"
  by (auto simp: account_balance_def find_account_def dest: sql_find_SomeD split: option.splits)

lemma machine_owed_out: "k \<notin> machine_ids d \<Longrightarrow> machine_owed d k = 0"
  by (auto simp: machine_owed_def find_machine_def dest: sql_find_SomeD split: option.splits)

lemma ledger_total_liabilities:
  assumes "db_wf d" "books_balance d"
  shows "ledger_total d = liabilities d"
proof -
  have wf: "accounts_wf d" "machines_wf d" using assms(1) by (simp_all add: db_wf_def)
  have "ledger_total d =
      sum_list (map (account_ledger d) (map a_id (db_accounts d))) +
      sum_list (map (machine_ledger d) (map m_id (db_machines d)))"
    unfolding ledger_total_def account_ledger_def machine_ledger_def
  proof (rule ledger_partition)
    show "distinct (map a_id (db_accounts d))" using wf(1) by (simp add: accounts_wf_def)
    show "distinct (map m_id (db_machines d))" using wf(2) by (simp add: machines_wf_def)
    show "\<forall>l\<in>set (db_ledger d). case l_account_id l of
        Some a \<Rightarrow> l_machine_id l = None \<and> a \<in> set (map a_id (db_accounts d))
      | None \<Rightarrow> (case l_machine_id l of Some m \<Rightarrow> m \<in> set (map m_id (db_machines d)) | None \<Rightarrow> False)"
      using assms(2) unfolding books_balance_def entry_owned_def list.set_map by blast
  qed
  also have "map (account_ledger d) (map a_id (db_accounts d)) = map a_balance_sats (db_accounts d)"
    using assms(2) account_balance_in [OF wf(1)] by (simp add: books_balance_def)
  also have "map (machine_ledger d) (map m_id (db_machines d)) = map m_payout_balance (db_machines d)"
    using assms(2) machine_owed_in [OF wf(2)] by (simp add: books_balance_def)
  finally show ?thesis by (simp add: liabilities_def total_balance_def total_owed_def)
qed

section \<open>What the statements do to the books\<close>

lemma ids_frame [frame_simps]:
  "(\<And>m. m_id (f m) = m_id m) \<Longrightarrow> machine_ids (update_machines p f d) = machine_ids d"
  "account_ids (update_machines p f d) = account_ids d"
  "machine_ids (update_rentals p' g d) = machine_ids d"
  "account_ids (update_rentals p' g d) = account_ids d"
  "machine_ids (db_record ts k x a m r n d) = machine_ids d"
  "account_ids (db_record ts k x a m r n d) = account_ids d"
  by (simp_all add: update_machines_def update_rentals_def db_record_def)

lemma account_balance_frame [frame_simps]:
  "account_balance (update_machines p f d) = account_balance d"
  "account_balance (update_rentals p' g d) = account_balance d"
  "account_balance (db_record ts k x a m r n d) = account_balance d"
  by (simp_all add: fun_eq_iff account_balance_def find_account_def update_machines_def
      update_rentals_def db_record_def)

lemma machine_owed_frame [frame_simps]:
  "machine_owed (update_rentals p' g d) = machine_owed d"
  "machine_owed (db_record ts k x a m r n d) = machine_owed d"
  by (simp_all add: fun_eq_iff machine_owed_def find_machine_def update_rentals_def db_record_def)

lemma ledger_frame [frame_simps]:
  "account_ledger (update_machines p f d) = account_ledger d"
  "machine_ledger (update_machines p f d) = machine_ledger d"
  "db_ledger (update_machines p f d) = db_ledger d"
  "account_ledger (update_rentals p' g d) = account_ledger d"
  "machine_ledger (update_rentals p' g d) = machine_ledger d"
  "db_ledger (update_rentals p' g d) = db_ledger d"
  by (simp_all add: fun_eq_iff account_ledger_def machine_ledger_def update_machines_def update_rentals_def)

lemma account_ledger_record:
  "account_ledger (db_record ts k x acct m r n d) =
     (case acct of None \<Rightarrow> account_ledger d
      | Some a \<Rightarrow> (account_ledger d)(a := account_ledger d a + x))"
  by (auto simp: fun_eq_iff account_ledger_def db_record_def split: option.splits)

lemma machine_ledger_record:
  "machine_ledger (db_record ts k x acct m r n d) =
     (case m of None \<Rightarrow> machine_ledger d
      | Some i \<Rightarrow> (machine_ledger d)(i := machine_ledger d i + x))"
  by (auto simp: fun_eq_iff machine_ledger_def db_record_def split: option.splits)

lemma entry_owned_mono:
  "machine_ids d \<subseteq> machine_ids d' \<Longrightarrow> account_ids d \<subseteq> account_ids d' \<Longrightarrow>
   entry_owned d l \<Longrightarrow> entry_owned d' l"
  by (auto simp: entry_owned_def split: option.splits)

lemma machine_owed_update_other:
  assumes "\<And>m. m_id (f m) = m_id m" "\<And>m. m_payout_balance (f m) = m_payout_balance m"
  shows "machine_owed (update_machines p f d) = machine_owed d"
proof
  fix k
  have "sql_find (\<lambda>m. m_id m = k) (sql_update p f ms) =
      map_option (\<lambda>m. if p m then f m else m) (sql_find (\<lambda>m. m_id m = k) ms)" for ms
    using assms(1) by (induction ms) (auto simp: sql_find_def sql_update_Cons)
  then show "machine_owed (update_machines p f d) k = machine_owed d k"
    using assms(2) by (simp add: machine_owed_def find_machine_def update_machines_def split: option.splits)
qed

lemma find_machine_update_key:
  assumes "\<And>m. m_id (f m) = m_id m"
  shows "find_machine (update_machines (\<lambda>m. m_id m = k) f d) j =
    map_option (\<lambda>m. if m_id m = k then f m else m) (find_machine d j)"
  using assms by (simp add: find_machine_def update_machines_def sql_find_update_key)

lemma machine_owed_update_key:
  assumes "k \<in> machine_ids d"
    and "\<And>m. m_id (f m) = m_id m" "\<And>m. m_payout_balance (f m) = g (m_payout_balance m)"
  shows "machine_owed (update_machines (\<lambda>m. m_id m = k) f d) = (machine_owed d)(k := g (machine_owed d k))"
proof
  fix j
  show "machine_owed (update_machines (\<lambda>m. m_id m = k) f d) j =
      ((machine_owed d)(k := g (machine_owed d k))) j"
  proof (cases "find_machine d j")
    case None
    then have "j \<noteq> k" using assms(1) by (auto simp: find_machine_None_iff)
    with None show ?thesis by (simp add: machine_owed_def find_machine_update_key assms(2))
  next
    case (Some m)
    then have "m_id m = j" by (simp add: find_machine_SomeD)
    with Some show ?thesis by (auto simp: machine_owed_def find_machine_update_key assms(2,3))
  qed
qed

lemma add_balance_effect:
  assumes "add_balance k x d = Inr d'" "k \<in> account_ids d"
  shows "account_balance d' = (account_balance d)(k := account_balance d k + x)"
    and "machine_owed d' = machine_owed d" "account_ledger d' = account_ledger d"
    and "machine_ledger d' = machine_ledger d" "db_ledger d' = db_ledger d"
    and "machine_ids d' = machine_ids d" "account_ids d' = account_ids d"
proof -
  have d': "d' = d\<lparr>db_accounts := sql_update (\<lambda>a. a_id a = k)
      (\<lambda>a. a\<lparr>a_balance_sats := a_balance_sats a + x\<rparr>) (db_accounts d)\<rparr>"
    using assms(1) by (simp add: add_balance_def split: if_splits)
  have find: "find_account d' j = map_option (\<lambda>a. if a_id a = k
      then a\<lparr>a_balance_sats := a_balance_sats a + x\<rparr> else a) (find_account d j)" for j
    by (simp add: d' find_account_def sql_find_update_key)
  show "account_balance d' = (account_balance d)(k := account_balance d k + x)"
  proof
    fix j
    show "account_balance d' j = ((account_balance d)(k := account_balance d k + x)) j"
    proof (cases "find_account d j")
      case None
      then have "j \<noteq> k" using assms(2) by (auto simp: find_account_None_iff)
      with None show ?thesis by (simp add: account_balance_def find)
    next
      case (Some a)
      then have "a_id a = j" by (simp add: find_account_SomeD)
      with Some show ?thesis by (auto simp: account_balance_def find)
    qed
  qed
  show "machine_owed d' = machine_owed d" "account_ledger d' = account_ledger d"
    "machine_ledger d' = machine_ledger d" "db_ledger d' = db_ledger d"
    "machine_ids d' = machine_ids d" "account_ids d' = account_ids d"
    by (simp_all add: fun_eq_iff d' machine_owed_def find_machine_def account_ledger_def machine_ledger_def)
qed

section \<open>The abstract bank\<close>

text \<open>What every account holds and every machine is owed, and the three transfers.\<close>

record bank =
  bk_balance :: "string \<Rightarrow> int"
  bk_owed :: "int \<Rightarrow> int"

definition bank_of :: "db \<Rightarrow> bank" where
  "bank_of d = \<lparr>bk_balance = account_balance d, bk_owed = machine_owed d\<rparr>"

definition bank_deposit :: "string \<Rightarrow> int \<Rightarrow> bank \<Rightarrow> bank" where
  "bank_deposit a x b = b\<lparr>bk_balance := (bk_balance b)(a := bk_balance b a + x)\<rparr>"

definition bank_charge :: "string \<Rightarrow> int \<Rightarrow> int \<Rightarrow> bank \<Rightarrow> bank" where
  "bank_charge a m x b = b\<lparr>bk_balance := (bk_balance b)(a := bk_balance b a - x),
     bk_owed := (bk_owed b)(m := bk_owed b m + x)\<rparr>"

definition bank_payout :: "int \<Rightarrow> bank \<Rightarrow> bank" where
  "bank_payout m b = b\<lparr>bk_owed := (bk_owed b)(m := 0)\<rparr>"

lemma bank_of_frame [frame_simps]:
  "bank_of (update_rentals p g d) = bank_of d"
  "bank_of (db_record ts k x a m r n d) = bank_of d"
  by (simp_all add: bank_of_def frame_simps)

end
