(* ===== verification/Money.thy ===== *)
theory Money
  imports Accounting
begin

text \<open>
  The money invariant of the control plane and how every statement keeps it: balances and
  amounts owed are not negative, the ledger explains each of them, every settled invoice
  has its deposit row, and charges cancel against host credits. \<open>conservation\<close> is
  what follows for the platform as a whole: what it owes is what was deposited less what
  was paid out.
\<close>

definition kind_sum :: "db \<Rightarrow> ledger_kind \<Rightarrow> int" where
  "kind_sum d k = sum_list (map l_delta_sats (filter (\<lambda>l. l_kind l = k) (db_ledger d)))"

definition paid_out :: "db \<Rightarrow> int" where
  "paid_out d = - kind_sum d Payout"

definition amounts_ok :: "db \<Rightarrow> bool" where
  "amounts_ok d \<longleftrightarrow> (\<forall>i\<in>set (db_invoices d). 1 \<le> i_sats i) \<and>
     (\<forall>m\<in>set (db_machines d). 0 \<le> m_payout_balance m) \<and>
     (\<forall>l\<in>set (db_ledger d). l_kind l = Payout \<longrightarrow> l_delta_sats l \<le> 0)"

definition kinds_ok :: "db \<Rightarrow> bool" where
  "kinds_ok d \<longleftrightarrow> kind_sum d Deposit = settled_total d \<and>
     kind_sum d RentalCharge + kind_sum d HostCredit = 0 \<and> kind_sum d Evict = 0"

definition money_inv :: "db \<Rightarrow> bool" where
  "money_inv d \<longleftrightarrow> db_wf d \<and> amounts_ok d \<and> books_balance d \<and> kinds_ok d"

text \<open>The sats ever invoiced fit in an \<open>i64\<close>.\<close>

definition deposits_fit :: "db \<Rightarrow> bool" where
  "deposits_fit d \<longleftrightarrow> invoice_total d < 2 ^ 63"

lemma money_inv_empty: "money_inv db_empty"
  unfolding money_inv_def
  by (simp only: db_wf_empty books_balance_empty)
    (simp add: amounts_ok_def kinds_ok_def kind_sum_def settled_total_def db_empty_def)

section \<open>Conservation\<close>

lemma ledger_by_kind:
  "ledger_total d = kind_sum d Deposit + kind_sum d RentalCharge + kind_sum d HostCredit +
     kind_sum d Payout + kind_sum d Evict"
proof -
  have "sum_list (map l_delta_sats ls) =
      (\<Sum>k\<leftarrow>[Deposit, RentalCharge, HostCredit, Payout, Evict].
         sum_list (map l_delta_sats (filter (\<lambda>l. l_kind l = k) ls)))" for ls
  proof (induction ls)
    case (Cons l ls)
    then show ?case by (cases "l_kind l") simp_all
  qed simp
  from this [of "db_ledger d"] show ?thesis by (simp add: ledger_total_def kind_sum_def)
qed

lemma conservation: "money_inv d \<Longrightarrow> liabilities d = settled_total d - paid_out d"
  using ledger_total_liabilities [of d] ledger_by_kind [of d]
  by (simp add: money_inv_def kinds_ok_def paid_out_def)

lemma sum_list_nonpos: "(\<forall>x\<in>set xs. c x \<le> 0) \<Longrightarrow> sum_list (map c xs) \<le> (0::int)"
  by (induction xs) auto

lemma paid_out_nonneg: "money_inv d \<Longrightarrow> 0 \<le> paid_out d"
  using sum_list_nonpos [of "filter (\<lambda>l. l_kind l = Payout) (db_ledger d)" l_delta_sats]
  by (auto simp: money_inv_def amounts_ok_def paid_out_def kind_sum_def)

lemma sum_filter_le:
  "(\<forall>x\<in>set xs. 0 \<le> c x) \<Longrightarrow> sum_list (map c (filter p xs)) \<le> sum_list (map c xs :: int list)"
  by (induction xs) auto

lemma settled_le_invoiced: "money_inv d \<Longrightarrow> settled_total d \<le> invoice_total d"
  unfolding settled_total_def invoice_total_def
  by (rule sum_filter_le) (auto simp: money_inv_def amounts_ok_def)

lemma liabilities_le_invoiced: "money_inv d \<Longrightarrow> liabilities d \<le> invoice_total d"
  using conservation paid_out_nonneg settled_le_invoiced by fastforce

lemma sum_nonneg: "(\<forall>x\<in>set xs. 0 \<le> c x) \<Longrightarrow> 0 \<le> sum_list (map c xs :: int list)"
  by (induction xs) auto

lemma member_le_sum: "x \<in> set xs \<Longrightarrow> (\<forall>y\<in>set xs. 0 \<le> c y) \<Longrightarrow> c x \<le> sum_list (map c xs :: int list)"
proof (induction xs)
  case (Cons y ys)
  then have "0 \<le> sum_list (map c ys)" by (intro sum_nonneg) simp
  with Cons show ?case by (cases "x = y") (auto simp: add_increasing)
qed simp

lemma totals_nonneg:
  assumes "money_inv d"
  shows "0 \<le> total_balance d" "0 \<le> total_owed d"
  using assms unfolding total_balance_def total_owed_def money_inv_def db_wf_def accounts_wf_def amounts_ok_def
  by (auto intro!: sum_nonneg)

lemma balance_bound:
  assumes "money_inv d" "a \<in> set (db_accounts d)"
  shows "0 \<le> a_balance_sats a \<and> a_balance_sats a \<le> invoice_total d"
proof -
  have nonneg: "\<forall>a\<in>set (db_accounts d). 0 \<le> a_balance_sats a"
    using assms(1) by (simp add: money_inv_def wf_defs)
  then have "a_balance_sats a \<le> total_balance d"
    using assms(2) member_le_sum unfolding total_balance_def by fast
  then show ?thesis
    using nonneg assms totals_nonneg [OF assms(1)] liabilities_le_invoiced [OF assms(1)]
    by (simp add: liabilities_def)
qed

lemma owed_bound:
  assumes "money_inv d" "m \<in> set (db_machines d)"
  shows "0 \<le> m_payout_balance m \<and> m_payout_balance m \<le> invoice_total d"
proof -
  have nonneg: "\<forall>m\<in>set (db_machines d). 0 \<le> m_payout_balance m"
    using assms(1) by (simp add: money_inv_def amounts_ok_def)
  then have "m_payout_balance m \<le> total_owed d"
    using assms(2) member_le_sum unfolding total_owed_def by fast
  then show ?thesis
    using nonneg assms totals_nonneg [OF assms(1)] liabilities_le_invoiced [OF assms(1)]
    by (simp add: liabilities_def)
qed

section \<open>Statements that move no money\<close>

text \<open>
  The columns the invariant reads. A statement that keeps them, extends the tables by
  owners with nothing to their name and keeps the schema keeps the invariant.
\<close>

definition money_frame :: "db \<Rightarrow> db \<Rightarrow> bool" where
  "money_frame d d' \<longleftrightarrow> account_balance d' = account_balance d \<and> machine_owed d' = machine_owed d \<and>
     machine_ids d \<subseteq> machine_ids d' \<and> account_ids d \<subseteq> account_ids d' \<and>
     db_ledger d' = db_ledger d \<and> settled_total d' = settled_total d"

lemma money_frame_inv:
  assumes "money_inv d" "money_frame d d'" "db_wf d'" "amounts_ok d'"
  shows "money_inv d'"
proof -
  have "books_balance d'"
    using assms(1,2) entry_owned_mono [of d d']
    by (simp add: money_inv_def books_balance_def money_frame_def account_ledger_def
        machine_ledger_def fun_eq_iff)
  moreover have "kinds_ok d'"
    using assms(1,2) by (simp add: money_inv_def kinds_ok_def money_frame_def kind_sum_def)
  ultimately show ?thesis using assms(3,4) by (simp add: money_inv_def)
qed

lemma money_inv_update_machines [wf_intros]:
  assumes "money_inv d" "\<And>m. m_id (f m) = m_id m" "\<And>m. m_agent_token (f m) = m_agent_token m"
    "\<And>m. m_host_id (f m) = m_host_id m" "\<And>m. m_payout_balance (f m) = m_payout_balance m"
  shows "money_inv (update_machines p f d)"
proof (rule money_frame_inv [OF assms(1)])
  show "db_wf (update_machines p f d)"
    using assms by (intro update_machines_wf) (simp_all add: money_inv_def)
  show "amounts_ok (update_machines p f d)"
    using assms by (auto simp: money_inv_def amounts_ok_def update_machines_def set_sql_update)
  show "money_frame d (update_machines p f d)"
    unfolding money_frame_def machine_owed_update_other [OF assms(2,5)]
    by (simp add: frame_simps assms(2)) (simp add: update_machines_def settled_total_def assms(2))
qed

lemma money_inv_update_rentals [wf_intros]:
  assumes "money_inv d" "\<And>r. r_id (f r) = r_id r" "\<And>r. r_machine_id (f r) = r_machine_id r"
    "\<And>r. r_account_id (f r) = r_account_id r"
  shows "money_inv (update_rentals p f d)"
proof (rule money_frame_inv [OF assms(1)])
  show "db_wf (update_rentals p f d)"
    using assms by (intro update_rentals_wf) (simp_all add: money_inv_def)
  show "amounts_ok (update_rentals p f d)"
    using assms(1) by (simp add: money_inv_def amounts_ok_def update_rentals_def)
  show "money_frame d (update_rentals p f d)"
    by (simp add: money_frame_def frame_simps) (simp add: update_rentals_def settled_total_def)
qed

lemma money_inv_same_tables:
  assumes "money_inv d" "db_wf d'" "db_machines d' = db_machines d" "db_accounts d' = db_accounts d"
    "db_invoices d' = db_invoices d" "db_ledger d' = db_ledger d"
  shows "money_inv d'"
proof (rule money_frame_inv [OF assms(1) _ assms(2)])
  show "amounts_ok d'" using assms by (simp add: money_inv_def amounts_ok_def)
  show "money_frame d d'"
    using assms by (simp add: money_frame_def fun_eq_iff account_balance_def machine_owed_def
        find_account_def find_machine_def settled_total_def)
qed

lemma money_inv_update_commands [wf_intros]:
  assumes "money_inv d" "\<And>c. c_id (f c) = c_id c" "\<And>c. c_machine_id (f c) = c_machine_id c"
  shows "money_inv (update_commands p f d)"
proof (rule money_inv_same_tables [OF assms(1)])
  show "db_wf (update_commands p f d)"
    using assms by (intro update_commands_wf) (simp_all add: money_inv_def)
qed (simp_all add: update_commands_def)

lemma money_inv_insert_command [wf_intros]:
  assumes "money_inv d" "insert_command m j now d = Inr d'"
  shows "money_inv d'"
proof (rule money_inv_same_tables [OF assms(1)])
  show "db_wf d'"
    using assms(1) by (intro insert_command_wf [OF _ assms(2)]) (simp add: money_inv_def)
qed (use assms(2) in \<open>auto simp: insert_command_def split: if_splits\<close>)

lemma money_inv_insert_rental [wf_intros]:
  assumes "money_inv d" "insert_rental r d = Inr (k, d')"
  shows "money_inv d'"
proof (rule money_inv_same_tables [OF assms(1)])
  show "db_wf d'"
    using assms(1) by (intro insert_rental_wf [OF _ assms(2)]) (simp add: money_inv_def)
qed (use assms(2) in \<open>auto simp: insert_rental_def Let_def split: if_splits\<close>)

lemma money_inv_insert_account [wf_intros]:
  assumes "money_inv d" "insert_account a d = Inr d'" "a_balance_sats a = 0"
  shows "money_inv d'"
proof (rule money_frame_inv [OF assms(1)])
  have d': "d' = d\<lparr>db_accounts := db_accounts d @ [a]\<rparr>"
    using assms(2) by (auto simp: insert_account_def split: if_splits)
  show "db_wf d'" using assms(1) by (intro insert_account_wf [OF _ assms(2)]) (simp add: money_inv_def)
  show "amounts_ok d'" using assms(1) by (simp add: d' money_inv_def amounts_ok_def)
  show "money_frame d d'"
    using assms(3) by (auto simp: d' money_frame_def fun_eq_iff account_balance_def machine_owed_def
        find_account_def find_machine_def sql_find_append settled_total_def split: option.splits)
qed

lemma money_inv_insert_machine [wf_intros]:
  assumes "money_inv d" "insert_machine m d = Inr (k, d')" "m_payout_balance m = 0"
  shows "money_inv d'"
proof (rule money_frame_inv [OF assms(1)])
  have d': "d' = d\<lparr>db_machines := db_machines d @ [m\<lparr>m_id := k\<rparr>]\<rparr>"
    using assms(2) by (auto simp: insert_machine_def Let_def split: if_splits)
  show "db_wf d'" using assms(1) by (intro insert_machine_wf [OF _ assms(2)]) (simp add: money_inv_def)
  show "amounts_ok d'" using assms(1,3) by (auto simp: d' money_inv_def amounts_ok_def)
  show "money_frame d d'"
    using assms(3) by (auto simp: d' money_frame_def fun_eq_iff account_balance_def machine_owed_def
        find_account_def find_machine_def sql_find_append settled_total_def split: option.splits)
qed

lemma money_inv_insert_invoice [wf_intros]:
  assumes "money_inv d" "insert_invoice i d = Inr d'" "1 \<le> i_sats i" "\<not> i_settled i"
  shows "money_inv d'"
proof (rule money_frame_inv [OF assms(1)])
  have d': "d' = d\<lparr>db_invoices := db_invoices d @ [i]\<rparr>"
    using assms(2) by (auto simp: insert_invoice_def split: if_splits)
  show "db_wf d'" using assms(1) by (intro insert_invoice_wf [OF _ assms(2)]) (simp add: money_inv_def)
  show "amounts_ok d'" using assms(1,3) by (auto simp: d' money_inv_def amounts_ok_def)
  show "money_frame d d'"
    using assms(4) by (simp add: d' money_frame_def fun_eq_iff account_balance_def machine_owed_def
        find_account_def find_machine_def settled_total_def)
qed

section \<open>Statements that move money\<close>

lemma entry_owned_record [simp]: "entry_owned (db_record ts k x a m r n d) = entry_owned d"
  by (simp add: fun_eq_iff entry_owned_def frame_simps cong: option.case_cong)

lemma db_ledger_record:
  "db_ledger (db_record ts k x a m r n d) =
     db_ledger d @ [\<lparr>l_id = next_id (map l_id (db_ledger d)), l_ts = ts, l_account_id = a,
       l_machine_id = m, l_rental_id = r, l_delta_sats = x, l_kind = k, l_note = n\<rparr>]"
  by (simp add: db_record_def)

lemma books_record_account:
  assumes "account_balance d = (account_ledger d)(a := account_ledger d a + x)"
    and "machine_owed d = machine_ledger d" "\<forall>l\<in>set (db_ledger d). entry_owned d l" "a \<in> account_ids d"
  shows "books_balance (db_record ts k x (Some a) None r n d)"
  using assms
  by (simp add: books_balance_def frame_simps account_ledger_record machine_ledger_record db_ledger_record)
    (simp add: entry_owned_def)

lemma books_record_machine:
  assumes "machine_owed d = (machine_ledger d)(m := machine_ledger d m + x)"
    and "account_balance d = account_ledger d" "\<forall>l\<in>set (db_ledger d). entry_owned d l" "m \<in> machine_ids d"
  shows "books_balance (db_record ts k x None (Some m) r n d)"
  using assms
  by (simp add: books_balance_def frame_simps account_ledger_record machine_ledger_record db_ledger_record)
    (simp add: entry_owned_def)

lemma kind_sum_record:
  "kind_sum (db_record ts k x a m r n d) = (kind_sum d)(k := kind_sum d k + x)"
  by (auto simp: fun_eq_iff kind_sum_def db_record_def)

lemma settled_total_frame [frame_simps]:
  "settled_total (db_record ts k x a m r n d) = settled_total d"
  "settled_total (update_machines p f d) = settled_total d"
  "settled_total (update_rentals q g d) = settled_total d"
  by (simp_all add: settled_total_def db_record_def update_machines_def update_rentals_def)

lemma amounts_ok_record:
  "amounts_ok d \<Longrightarrow> (k = Payout \<longrightarrow> x \<le> 0) \<Longrightarrow> amounts_ok (db_record ts k x a m r n d)"
  by (auto simp: amounts_ok_def db_record_def)

text \<open>The record of an eviction moves nothing.\<close>

lemma money_inv_record_evict:
  assumes "money_inv d" "a \<in> account_ids d"
  shows "money_inv (db_record ts Evict 0 (Some a) None r n d)"
proof -
  have "books_balance (db_record ts Evict 0 (Some a) None r n d)"
    using assms by (intro books_record_account) (auto simp: money_inv_def books_balance_def)
  then show ?thesis
    using assms(1) by (simp add: money_inv_def db_record_wf amounts_ok_record kinds_ok_def
        kind_sum_record frame_simps)
qed

text \<open>A deposit: the invoice is marked, the account credited, the credit recorded.\<close>

lemma settled_total_settle:
  assumes "db_wf d" "iv \<in> set (db_invoices d)" "\<not> i_settled iv"
  shows "settled_total (update_invoices (\<lambda>i. i_payment_hash i = i_payment_hash iv)
      (\<lambda>i. i\<lparr>i_settled := True\<rparr>) d) = settled_total d + i_sats iv"
proof -
  have as_sum: "settled_total x = sum_list (map (\<lambda>i. if i_settled i then i_sats i else 0) (db_invoices x))" for x
    by (simp add: settled_total_def sum_list_map_filter')
  show ?thesis
    unfolding as_sum using assms
    by (simp add: update_invoices_def sum_sql_update_key wf_defs)
qed

lemma money_inv_deposit:
  assumes inv: "money_inv d" and iv: "iv \<in> set (db_invoices d)" "\<not> i_settled iv"
    and add: "add_balance (i_account_id iv) (i_sats iv)
      (update_invoices (\<lambda>i. i_payment_hash i = i_payment_hash iv) (\<lambda>i. i\<lparr>i_settled := True\<rparr>) d) = Inr d2"
  shows "money_inv (db_record ts Deposit (i_sats iv) (Some (i_account_id iv)) None r n d2)"
proof -
  let ?d1 = "update_invoices (\<lambda>i. i_payment_hash i = i_payment_hash iv) (\<lambda>i. i\<lparr>i_settled := True\<rparr>) d"
  have wf1: "db_wf ?d1" using inv by (intro update_invoices_wf) (simp_all add: money_inv_def)
  have acct: "i_account_id iv \<in> account_ids ?d1"
    using inv iv(1) by (simp add: money_inv_def wf_defs update_invoices_def)
  note eff = add_balance_effect [OF add acct]
  have same: "account_balance ?d1 = account_balance d" "machine_owed ?d1 = machine_owed d"
    "account_ledger ?d1 = account_ledger d" "machine_ledger ?d1 = machine_ledger d"
    "db_ledger ?d1 = db_ledger d" "machine_ids ?d1 = machine_ids d" "account_ids ?d1 = account_ids d"
    by (simp_all add: fun_eq_iff update_invoices_def account_balance_def machine_owed_def
        account_ledger_def machine_ledger_def find_account_def find_machine_def)
  have books: "books_balance (db_record ts Deposit (i_sats iv) (Some (i_account_id iv)) None r n d2)"
  proof (rule books_record_account)
    show "\<forall>l\<in>set (db_ledger d2). entry_owned d2 l"
      using inv entry_owned_mono [of d d2] by (simp add: eff same money_inv_def books_balance_def)
  qed (use inv acct in \<open>simp_all add: eff same money_inv_def books_balance_def\<close>)
  have d2: "db_machines d2 = db_machines d" "db_invoices d2 = db_invoices ?d1"
    using add by (auto simp: add_balance_def update_invoices_def split: if_splits)
  have "amounts_ok d2"
    using inv by (auto simp: amounts_ok_def d2 eff same money_inv_def update_invoices_def set_sql_update)
  moreover have "settled_total d2 = settled_total d + i_sats iv"
    using settled_total_settle [OF _ iv] inv by (simp add: settled_total_def d2 money_inv_def)
  moreover have "kind_sum d2 = kind_sum d" by (simp add: fun_eq_iff kind_sum_def eff same)
  ultimately show ?thesis
    using inv books add_balance_wf [OF wf1 add]
    by (simp add: money_inv_def db_record_wf amounts_ok_record kinds_ok_def kind_sum_record frame_simps)
qed

text \<open>A charge: the tenant pays the host, both sides recorded.\<close>

lemma money_inv_charge:
  assumes inv: "money_inv d" and ids: "a \<in> account_ids d" "m \<in> machine_ids d"
    and amt: "0 < x" "x < 2 ^ 63" and add: "add_balance a (- x) d = Inr d1"
  shows "money_inv (record_charge ts a m r x
    (update_machines (\<lambda>y. m_id y = m) (\<lambda>y. y\<lparr>m_payout_balance := m_payout_balance y + x\<rparr>) d1))"
proof -
  let ?d2 = "update_machines (\<lambda>y. m_id y = m) (\<lambda>y. y\<lparr>m_payout_balance := m_payout_balance y + x\<rparr>) d1"
  let ?d3 = "db_record ts RentalCharge (- x) (Some a) None (Some r) None ?d2"
  have neg: "i64_neg x = - x" using amt by (simp add: i64_neg_def wrap64_id in_i64_def)
  note eff = add_balance_effect [OF add ids(1)]
  have m1: "m \<in> machine_ids d1" using ids(2) by (simp add: eff)
  have owed: "machine_owed ?d2 = (machine_owed d)(m := machine_owed d m + x)"
    using machine_owed_update_key [OF m1, of _ "\<lambda>v. v + x"] by (simp add: eff)
  have ids2: "machine_ids ?d2 = machine_ids d" "account_ids ?d2 = account_ids d"
    by (simp_all add: frame_simps eff)
  have owned: "\<forall>l\<in>set (db_ledger ?d2). entry_owned ?d2 l"
    using inv entry_owned_mono [of d ?d2] by (simp add: ids2 frame_simps eff money_inv_def books_balance_def)
  have m3: "m \<in> machine_ids ?d3" using ids(2) by (simp add: frame_simps ids2)
  have "books_balance (db_record ts HostCredit x None (Some m) (Some r) None ?d3)"
  proof (rule books_record_machine [OF _ _ _ m3])
    show "machine_owed ?d3 = (machine_ledger ?d3)(m := machine_ledger ?d3 m + x)"
      using inv by (simp add: frame_simps owed machine_ledger_record eff money_inv_def books_balance_def)
    show "account_balance ?d3 = account_ledger ?d3"
      using inv by (simp add: frame_simps account_ledger_record eff money_inv_def books_balance_def)
    show "\<forall>l\<in>set (db_ledger ?d3). entry_owned ?d3 l"
      using owned ids(1) by (simp add: db_ledger_record) (simp add: entry_owned_def ids2)
  qed
  moreover have "amounts_ok ?d2"
    using inv amt add by (auto simp: amounts_ok_def money_inv_def update_machines_def
        set_sql_update add_balance_def split: if_splits)
  moreover have "settled_total ?d2 = settled_total d" "kind_sum ?d2 = kind_sum d"
    using add by (auto simp: settled_total_def kind_sum_def fun_eq_iff update_machines_def
        add_balance_def split: if_splits)
  moreover have "db_wf ?d2"
    using inv by (intro update_machines_wf add_balance_wf [OF _ add]) (simp_all add: money_inv_def)
  ultimately show ?thesis
    using inv unfolding record_charge_def neg
    by (simp add: money_inv_def db_record_wf amounts_ok_record kinds_ok_def kind_sum_record frame_simps)
qed

text \<open>A payout of all that is owed.\<close>

lemma money_inv_payout:
  assumes inv: "money_inv d" and mach: "mach \<in> set (db_machines d)" and amt: "m_payout_balance mach < 2 ^ 63"
  shows "money_inv (db_record ts Payout (i64_neg (m_payout_balance mach)) None (Some (m_id mach)) None n
    (update_machines (\<lambda>y. m_id y = m_id mach) (\<lambda>y. y\<lparr>m_payout_balance := 0\<rparr>) d))"
proof -
  let ?d1 = "update_machines (\<lambda>y. m_id y = m_id mach) (\<lambda>y. y\<lparr>m_payout_balance := 0\<rparr>) d"
  have bal: "0 \<le> m_payout_balance mach" "machine_owed d (m_id mach) = m_payout_balance mach"
    using owed_bound [OF inv mach] machine_owed_in [OF _ mach] inv by (simp_all add: money_inv_def db_wf_def)
  then have neg: "i64_neg (m_payout_balance mach) = - m_payout_balance mach"
    using amt by (simp add: i64_neg_def wrap64_id in_i64_def)
  have m: "m_id mach \<in> machine_ids d" using mach by simp
  have owed: "machine_owed ?d1 = (machine_owed d)(m_id mach := 0)"
    using machine_owed_update_key [OF m, of _ "\<lambda>_. 0"] by simp
  have ids1: "machine_ids ?d1 = machine_ids d" "account_ids ?d1 = account_ids d"
    by (simp_all add: frame_simps)
  have books: "books_balance (db_record ts Payout (- m_payout_balance mach) None (Some (m_id mach)) None n ?d1)"
  proof (rule books_record_machine)
    show "\<forall>l\<in>set (db_ledger ?d1). entry_owned ?d1 l"
      using inv entry_owned_mono [of d ?d1] by (simp add: ids1 frame_simps money_inv_def books_balance_def)
    show "machine_owed ?d1 = (machine_ledger ?d1)(m_id mach := machine_ledger ?d1 (m_id mach) + - m_payout_balance mach)"
      unfolding owed using inv bal by (simp add: frame_simps money_inv_def books_balance_def)
  qed (use inv m in \<open>simp_all add: frame_simps ids1 money_inv_def books_balance_def\<close>)
  have "amounts_ok ?d1"
    using inv by (auto simp: amounts_ok_def money_inv_def update_machines_def set_sql_update)
  moreover have "kind_sum ?d1 = kind_sum d" by (simp add: fun_eq_iff kind_sum_def frame_simps)
  moreover have "db_wf ?d1" using inv by (intro update_machines_wf) (simp_all add: money_inv_def)
  ultimately show ?thesis
    using inv books bal(1) unfolding neg
    by (simp add: money_inv_def db_record_wf amounts_ok_record kinds_ok_def kind_sum_record frame_simps)
qed

end
