(* ===== verification/Handler_Contract.thy ===== *)
theory Handler_Contract
  imports App_State Money
begin

text \<open>
  What the server relies on of every transition of the database: it keeps the money
  invariant while the deposits fit in an \<open>i64\<close>, and never shrinks what was invoiced
  (\<open>money_step\<close>). A handler promises more: an error response leaves the database
  as it was (\<open>atomic_handler\<close>). The handlers interpret these locales where they are
  defined.
\<close>

locale money_step =
  fixes step :: "db \<Rightarrow> db"
  assumes keeps_money: "money_inv d \<Longrightarrow> deposits_fit d \<Longrightarrow> money_inv (step d)"
    and invoiced_mono: "invoice_total d \<le> invoice_total (step d)"
begin

lemma keeps_guard: "(deposits_fit d \<longrightarrow> money_inv d) \<Longrightarrow> deposits_fit (step d) \<longrightarrow> money_inv (step d)"
  using keeps_money invoiced_mono [of d] by (auto simp: deposits_fit_def)

lemma solvent_after:
  assumes "money_inv d" "deposits_fit d"
  shows "liabilities (step d) = settled_total (step d) - paid_out (step d)"
  using conservation [OF keeps_money [OF assms]] .

lemma no_debt_after:
  assumes "money_inv d" "deposits_fit d" "a \<in> set (db_accounts (step d))"
  shows "0 \<le> a_balance_sats a"
  using balance_bound [OF keeps_money [OF assms(1,2)] assms(3)] by simp

end

locale atomic_handler =
  fixes run :: "db \<Rightarrow> ('e + 'a) \<times> db"
  assumes err_unchanged: "run d = (Inl e, d') \<Longrightarrow> d' = d"
    and run_keeps_money: "money_inv d \<Longrightarrow> deposits_fit d \<Longrightarrow> run d = (Inr x, d') \<Longrightarrow> money_inv d'"
    and run_invoiced: "run d = (Inr x, d') \<Longrightarrow> invoice_total d \<le> invoice_total d'"
begin

lemma error_means_no_write: "\<not> is_ok (fst (run d)) \<Longrightarrow> snd (run d) = d"
  using err_unchanged by (cases "run d") (auto simp: is_ok_def split: sum.splits)

end

sublocale atomic_handler \<subseteq> as_step: money_step "\<lambda>d. snd (run d)"
proof
  fix d
  obtain res d' where r: "run d = (res, d')" by (cases "run d")
  show "money_inv (snd (run d))" if "money_inv d" "deposits_fit d"
    using that r err_unchanged [of d _ d'] run_keeps_money [of d _ d'] by (cases res) auto
  show "invoice_total d \<le> invoice_total (snd (run d))"
    using r err_unchanged [of d _ d'] run_invoiced [of d _ d'] by (cases res) auto
qed

lemma db_invoices_frame [frame_simps]:
  "db_invoices (update_machines p f d) = db_invoices d"
  "db_invoices (update_rentals q g d) = db_invoices d"
  "db_invoices (update_commands r h d) = db_invoices d"
  "db_invoices (db_record ts k x a m rr n d) = db_invoices d"
  "db_invoices (record_charge ts ac mc rt amt d) = db_invoices d"
  by (simp_all add: update_machines_def update_rentals_def update_commands_def db_record_def record_charge_def)

lemma db_invoices_result:
  "add_balance k x d = Inr d' \<Longrightarrow> db_invoices d' = db_invoices d"
  "insert_account a d = Inr d' \<Longrightarrow> db_invoices d' = db_invoices d"
  "insert_machine m d = Inr (j, d') \<Longrightarrow> db_invoices d' = db_invoices d"
  "insert_rental r d = Inr (j, d') \<Longrightarrow> db_invoices d' = db_invoices d"
  "insert_command c p t d = Inr d' \<Longrightarrow> db_invoices d' = db_invoices d"
  by (auto simp: add_balance_def insert_account_def insert_machine_def insert_rental_def
      insert_command_def Let_def split: if_splits)

lemma invoice_total_same: "db_invoices d' = db_invoices d \<Longrightarrow> invoice_total d \<le> invoice_total d'"
  by (simp add: invoice_total_def)

lemma in_transaction_InrD: "in_transaction body d = (Inr x, d') \<Longrightarrow> body d = Inr (x, d')"
  by (auto simp: in_transaction_def split: sum.splits prod.splits)

text \<open>A handler that is one transaction is atomic; its body owes the two laws.\<close>

lemma atomic_handler_transaction:
  assumes "\<And>d x d'. money_inv d \<Longrightarrow> deposits_fit d \<Longrightarrow> body d = Inr (x, d') \<Longrightarrow> money_inv d'"
    and "\<And>d x d'. body d = Inr (x, d') \<Longrightarrow> invoice_total d \<le> invoice_total d'"
  shows "atomic_handler (in_transaction body)"
  using assms by unfold_locales (auto dest: in_transaction_Inl in_transaction_InrD)

end
