(* ===== verification/Agent.thy ===== *)
theory Agent
  imports Handler_Contract
begin

text \<open>
  \<^verbatim>\<open>routes/agent.rs\<close> and \<^verbatim>\<open>billing::accrued_charge\<close>: the
  handlers the host agents call. \<open>report\<close> and \<open>payout\<close> authenticate and
  read outside their transaction, so each is the composition of the halves that
  \<open>Concurrency\<close> interleaves; it cuts the other handlers at their reads too.
\<close>

section \<open>POST /agent/register\<close>

definition apply_registration :: "register_request \<Rightarrow> int \<Rightarrow> machine_row \<Rightarrow> machine_row" where
  "apply_registration req now m =
     m\<lparr>m_gpu_name := rq_gpu_name req, m_gpu_count := rq_gpu_count req, m_vram_mb := rq_vram_mb req,
       m_cpu_name := rq_cpu_name req, m_cpu_cores := rq_cpu_cores req, m_ram_mb := rq_ram_mb req,
       m_disk_gb := rq_disk_gb req, m_disk_type := rq_disk_type req,
       m_public_ip := rq_public_ip req, m_port_start := rq_port_start req,
       m_port_end := rq_port_end req, m_inet_down_mbps := rq_inet_down_mbps req,
       m_inet_up_mbps := rq_inet_up_mbps req, m_country := rq_country req,
       m_dlperf := rq_dlperf req, m_rate_sats_per_min := rq_rate_sats_per_min req,
       m_hw_fingerprint := rq_hw_fingerprint req, m_online := True, m_last_heartbeat := now\<rparr>"

definition new_machine_row :: "register_request \<Rightarrow> string \<Rightarrow> int \<Rightarrow> machine_row" where
  "new_machine_row req token now =
     \<lparr>m_id = 0, m_agent_token = token, m_host_id = rq_host_id req, m_gpu_name = rq_gpu_name req,
      m_gpu_count = rq_gpu_count req, m_vram_mb = rq_vram_mb req, m_cpu_name = rq_cpu_name req,
      m_cpu_cores = rq_cpu_cores req, m_ram_mb = rq_ram_mb req, m_disk_gb = rq_disk_gb req,
      m_disk_type = rq_disk_type req, m_public_ip = rq_public_ip req,
      m_port_start = rq_port_start req, m_port_end = rq_port_end req,
      m_inet_down_mbps = rq_inet_down_mbps req, m_inet_up_mbps = rq_inet_up_mbps req,
      m_country = rq_country req, m_dlperf = rq_dlperf req,
      m_rate_sats_per_min = rq_rate_sats_per_min req, m_payout_balance = 0, m_online = True,
      m_last_heartbeat = now, m_hw_fingerprint = rq_hw_fingerprint req, m_created_at = now\<rparr>"

text \<open>\<open>token\<close> is what \<open>new_agent_token\<close> would give; only a new machine takes it.\<close>

definition register ::
  "string \<Rightarrow> register_request \<Rightarrow> int \<Rightarrow> db \<Rightarrow> (api_error + register_response) \<times> db" where
  "register token req now d =
     (case sql_find (\<lambda>m. m_host_id m = rq_host_id req) (db_machines d) of
        Some m \<Rightarrow>
          (Inr \<lparr>rs_machine_id = m_id m, rs_agent_token = m_agent_token m\<rparr>,
           update_machines (\<lambda>x. m_id x = m_id m) (apply_registration req now) d)
      | None \<Rightarrow>
          (case insert_machine (new_machine_row req token now) d of
             Inl e \<Rightarrow> (Inl (of_db_error e), d)
           | Inr (k, d') \<Rightarrow> (Inr \<lparr>rs_machine_id = k, rs_agent_token = token\<rparr>, d')))"

section \<open>POST /agent/heartbeat\<close>

definition pending_commands :: "int \<Rightarrow> db \<Rightarrow> command_row list" where
  "pending_commands k d =
     sort_key c_id (filter (\<lambda>c. c_machine_id c = k \<and> \<not> c_delivered c) (db_commands d))"

fun mark_delivered :: "command_row list \<Rightarrow> db \<Rightarrow> db" where
  "mark_delivered [] d = d"
| "mark_delivered (c # cs) d =
     mark_delivered cs (update_commands (\<lambda>x. c_id x = c_id c) (\<lambda>x. x\<lparr>c_delivered := True\<rparr>) d)"

fun decode_commands :: "command_row list \<Rightarrow> api_error + command list" where
  "decode_commands [] = Inr []"
| "decode_commands (c # cs) =
     (case command_from_json (c_payload c) of
        None \<Rightarrow> Inl of_serde_error
      | Some cmd \<Rightarrow>
          (case decode_commands cs of Inl e \<Rightarrow> Inl e | Inr cmds \<Rightarrow> Inr (cmd # cmds)))"

definition heartbeat_body :: "machine_row \<Rightarrow> bool \<Rightarrow> int \<Rightarrow> db \<Rightarrow> api_error + (command list \<times> db)" where
  "heartbeat_body machine online now d =
     (let d1 = update_machines (\<lambda>m. m_id m = m_id machine)
                 (\<lambda>m. m\<lparr>m_last_heartbeat := now, m_online := online\<rparr>) d;
          rows = pending_commands (m_id machine) d1;
          d2 = mark_delivered rows d1
      in case decode_commands rows of Inl e \<Rightarrow> Inl e | Inr commands \<Rightarrow> Inr (commands, d2))"

definition heartbeat ::
  "string option \<Rightarrow> bool \<Rightarrow> int \<Rightarrow> db \<Rightarrow> (api_error + command list) \<times> db" where
  "heartbeat auth online now d =
     (case authenticate d auth of
        Inl e \<Rightarrow> (Inl e, d)
      | Inr machine \<Rightarrow> in_transaction (heartbeat_body machine online now) d)"

section \<open>POST /agent/report\<close>

text \<open>\<^verbatim>\<open>billing::accrued_charge\<close>.\<close>

definition accrued_charge :: "int \<Rightarrow> int \<Rightarrow> int \<Rightarrow> int" where
  "accrued_charge start stop rate_sats_per_min =
     (let elapsed = max (i64_sub stop start) 0
      in i64_div (i64_mul elapsed rate_sats_per_min) 60)"

definition report_read :: "string option \<Rightarrow> report_request \<Rightarrow> db \<Rightarrow> api_error + (machine_row \<times> rental_row)" where
  "report_read auth req d =
     (case authenticate d auth of
        Inl e \<Rightarrow> Inl e
      | Inr machine \<Rightarrow>
          (case sql_find (\<lambda>r. r_id r = rp_rental_id req \<and> r_machine_id r = m_id machine) (db_rentals d) of
             None \<Rightarrow> Inl (not_found ''no such rental for this machine'')
           | Some rental \<Rightarrow> Inr (machine, rental)))"

definition coalesce :: "'a option \<Rightarrow> 'a option \<Rightarrow> 'a option" where
  "coalesce a b = (case a of None \<Rightarrow> b | Some x \<Rightarrow> Some x)"

text \<open>The columns a report sets; \<open>ended\<close> is the time of a terminal report.\<close>

definition apply_report :: "report_request \<Rightarrow> string \<Rightarrow> int option \<Rightarrow> rental_row \<Rightarrow> rental_row" where
  "apply_report req ip ended r =
     r\<lparr>r_status := rp_status req,
       r_kind := (case rp_kind req of None \<Rightarrow> r_kind r | Some k \<Rightarrow> k),
       r_ssh_host := Some ip, r_ssh_port := rp_ssh_port req,
       r_container_id := coalesce (rp_container_id req) (r_container_id r),
       r_error := rp_error req, r_ended_at := coalesce ended (r_ended_at r)\<rparr>"

definition charge_rental :: "machine_row \<Rightarrow> rental_row \<Rightarrow> int \<Rightarrow> int \<Rightarrow> db \<Rightarrow> db_error + db" where
  "charge_rental machine rental charge now d =
     (if 0 < charge then
        (case add_balance (r_account_id rental) (- charge) d of
           Inl e \<Rightarrow> Inl e
         | Inr d1 \<Rightarrow>
             Inr (record_charge now (r_account_id rental) (m_id machine) (r_id rental) charge
               (update_machines (\<lambda>m. m_id m = m_id machine)
                  (\<lambda>m. m\<lparr>m_payout_balance := m_payout_balance m + charge\<rparr>) d1)))
      else Inr d)"

text \<open>The charge at stop: what accrued, capped at the balance read in the transaction.\<close>

definition settle_rental :: "machine_row \<Rightarrow> rental_row \<Rightarrow> int \<Rightarrow> db \<Rightarrow> db_error + db" where
  "settle_rental machine rental now d =
     (case find_account d (r_account_id rental) of
        None \<Rightarrow> Inl RowNotFound
      | Some acct \<Rightarrow>
          (let charge = min (accrued_charge (r_created_at rental) now (r_rate_sats_per_min rental))
                            (a_balance_sats acct);
               minutes = i64_div (max (i64_sub now (r_created_at rental)) 0) 60
           in case charge_rental machine rental charge now d of
                Inl e \<Rightarrow> Inl e
              | Inr d1 \<Rightarrow>
                  Inr (update_rentals (\<lambda>r. r_id r = r_id rental)
                    (\<lambda>r. r\<lparr>r_sats_charged := charge, r_minutes_billed := minutes\<rparr>) d1)))"

definition report_body ::
  "machine_row \<Rightarrow> rental_row \<Rightarrow> report_request \<Rightarrow> int \<Rightarrow> db \<Rightarrow> api_error + (unit \<times> db)" where
  "report_body machine rental req now d =
     (let terminal = is_terminal (rp_status req);
          ended = (if terminal then Some now else None);
          d1 = update_rentals (\<lambda>r. r_id r = rp_rental_id req)
                 (apply_report req (m_public_ip machine) ended) d
      in if terminal \<and> \<not> is_terminal (r_status rental) then
           (case settle_rental machine rental now d1 of
              Inl e \<Rightarrow> Inl (of_db_error e)
            | Inr d2 \<Rightarrow> Inr ((), d2))
         else Inr ((), d1))"

definition report_commit ::
  "machine_row \<Rightarrow> rental_row \<Rightarrow> report_request \<Rightarrow> int \<Rightarrow> db \<Rightarrow> (api_error + unit) \<times> db" where
  "report_commit machine rental req now d = in_transaction (report_body machine rental req now) d"

definition report ::
  "string option \<Rightarrow> report_request \<Rightarrow> int \<Rightarrow> db \<Rightarrow> (api_error + unit) \<times> db" where
  "report auth req now d =
     (case report_read auth req d of
        Inl e \<Rightarrow> (Inl e, d)
      | Inr (machine, rental) \<Rightarrow> report_commit machine rental req now d)"

section \<open>POST /agent/rate\<close>

definition rate :: "string option \<Rightarrow> int \<Rightarrow> db \<Rightarrow> (api_error + unit) \<times> db" where
  "rate auth rate_sats_per_min d =
     (case authenticate d auth of
        Inl e \<Rightarrow> (Inl e, d)
      | Inr machine \<Rightarrow>
          if rate_sats_per_min < 1 then (Inl (bad_request ''rate_sats_per_min must be >= 1''), d)
          else (Inr (), update_machines (\<lambda>m. m_id m = m_id machine)
                 (\<lambda>m. m\<lparr>m_rate_sats_per_min := rate_sats_per_min\<rparr>) d))"

section \<open>POST /agent/payout\<close>

definition payout_read :: "string option \<Rightarrow> db \<Rightarrow> api_error + machine_row" where
  "payout_read auth d =
     (case authenticate d auth of
        Inl e \<Rightarrow> Inl e
      | Inr machine \<Rightarrow>
          if m_payout_balance machine \<le> 0 then Inl (bad_request ''nothing owed'') else Inr machine)"

definition payout_pay :: "'ln lightning_backend \<Rightarrow> string \<Rightarrow> 'ln \<Rightarrow> (api_error + unit) \<times> 'ln" where
  "payout_pay B bolt11 lns =
     (case pay_invoice B lns bolt11 of
        (Inl e, lns') \<Rightarrow> (Inl (bad_gateway (''payout failed: '' @ e)), lns')
      | (Inr _, lns') \<Rightarrow> (Inr (), lns'))"

text \<open>The transaction; \<open>machine\<close> is the row read before the payment.\<close>

definition payout_body :: "machine_row \<Rightarrow> int \<Rightarrow> db \<Rightarrow> api_error + (unit \<times> db)" where
  "payout_body machine now d =
     Inr ((), db_record now Payout (i64_neg (m_payout_balance machine)) None (Some (m_id machine)) None
       (Some ''payout'')
       (update_machines (\<lambda>m. m_id m = m_id machine) (\<lambda>m. m\<lparr>m_payout_balance := 0\<rparr>) d))"

definition payout_commit :: "machine_row \<Rightarrow> int \<Rightarrow> db \<Rightarrow> (api_error + int) \<times> db" where
  "payout_commit machine now d =
     (case in_transaction (payout_body machine now) d of
        (Inl e, d') \<Rightarrow> (Inl e, d')
      | (Inr _, d') \<Rightarrow> (Inr (m_payout_balance machine), d'))"

definition payout ::
  "'ln lightning_backend \<Rightarrow> string option \<Rightarrow> string \<Rightarrow> int \<Rightarrow> 'ln \<Rightarrow> db \<Rightarrow> (api_error + int) \<times> 'ln \<times> db" where
  "payout B auth bolt11 now lns d =
     (case payout_read auth d of
        Inl e \<Rightarrow> (Inl e, lns, d)
      | Inr machine \<Rightarrow>
          (case payout_pay B bolt11 lns of
             (Inl e, lns') \<Rightarrow> (Inl e, lns', d)
           | (Inr _, lns') \<Rightarrow>
               (case payout_commit machine now d of (res, d') \<Rightarrow> (res, lns', d'))))"

section \<open>What accrues\<close>

lemma i64_div_60_bound: "in_i64 x \<Longrightarrow> in_i64 (i64_div x 60)"
  by (auto simp: in_i64_def i64_div_def signed_divide_int_def sgn_if)

lemma accrued_in_i64: "in_i64 (accrued_charge s e rt)"
  by (simp add: accrued_charge_def Let_def i64_mul_def i64_div_60_bound in_i64_wrap64)

text \<open>Within 64 bits the charge is the truncated proration of the whole seconds.\<close>

lemma accrued_exact:
  assumes "in_i64 (e - s)" "in_i64 (max (e - s) 0 * rt)" "0 \<le> rt"
  shows "accrued_charge s e rt = max (e - s) 0 * rt div 60"
  using assms by (simp add: accrued_charge_def Let_def i64_sub_def i64_mul_def wrap64_id i64_div_nonneg)

section \<open>Inversion of the successful runs\<close>

lemma register_cases:
  obtains (known) m where "sql_find (\<lambda>m. m_host_id m = rq_host_id req) (db_machines d) = Some m"
      "register token req now d = (Inr \<lparr>rs_machine_id = m_id m, rs_agent_token = m_agent_token m\<rparr>,
         update_machines (\<lambda>x. m_id x = m_id m) (apply_registration req now) d)"
  | (clash) e where "register token req now d = (Inl e, d)"
  | (new) k d' where "sql_find (\<lambda>m. m_host_id m = rq_host_id req) (db_machines d) = None"
      "insert_machine (new_machine_row req token now) d = Inr (k, d')"
      "register token req now d = (Inr \<lparr>rs_machine_id = k, rs_agent_token = token\<rparr>, d')"
  by (cases "sql_find (\<lambda>m. m_host_id m = rq_host_id req) (db_machines d)";
      cases "insert_machine (new_machine_row req token now) d")
    (auto simp: register_def split: prod.splits)

lemma heartbeat_InrE:
  assumes "heartbeat auth online now d = (Inr cmds, d')"
  obtains machine d1 where "authenticate d auth = Inr machine"
    and "d1 = update_machines (\<lambda>m. m_id m = m_id machine) (\<lambda>m. m\<lparr>m_last_heartbeat := now, m_online := online\<rparr>) d"
    and "decode_commands (pending_commands (m_id machine) d1) = Inr cmds"
    and "d' = mark_delivered (pending_commands (m_id machine) d1) d1"
  using assms
  by (auto simp: heartbeat_def heartbeat_body_def Let_def dest!: in_transaction_InrD split: sum.splits
      intro: that)

lemma report_read_InrD:
  assumes "report_read auth req d = Inr (machine, rental)"
  shows "machine \<in> set (db_machines d)" "rental \<in> set (db_rentals d)" "r_id rental = rp_rental_id req"
    "r_machine_id rental = m_id machine" "authenticate d auth = Inr machine"
  using assms
  by (auto simp: report_read_def split: sum.splits option.splits dest: sql_find_SomeD authenticate_InrD)

lemma payout_read_InrD:
  assumes "payout_read auth d = Inr machine"
  shows "machine \<in> set (db_machines d)" "0 < m_payout_balance machine" "authenticate d auth = Inr machine"
  using assms by (auto simp: payout_read_def split: sum.splits if_splits dest: authenticate_InrD)

section \<open>Statements of the bodies\<close>

lemma mark_delivered_wf [wf_intros]: "money_inv d \<Longrightarrow> money_inv (mark_delivered cs d)"
  by (induction cs d rule: mark_delivered.induct) (simp_all add: money_inv_update_commands)

lemma mark_delivered_frame [frame_simps]:
  "db_invoices (mark_delivered cs d) = db_invoices d" "db_rentals (mark_delivered cs d) = db_rentals d"
  "db_machines (mark_delivered cs d) = db_machines d" "db_accounts (mark_delivered cs d) = db_accounts d"
  "db_ledger (mark_delivered cs d) = db_ledger d"
  by (induction cs d rule: mark_delivered.induct) (simp_all add: update_commands_def)

lemma charge_rental_money:
  assumes "money_inv d" "charge_rental machine rental x now d = Inr d'" "in_i64 x"
    and "r_account_id rental \<in> account_ids d" "m_id machine \<in> machine_ids d"
  shows "money_inv d'"
  using assms by (auto simp: charge_rental_def in_i64_def split: if_splits sum.splits intro: money_inv_charge)

lemma settle_rental_money:
  assumes "money_inv d" "settle_rental machine rental now d = Inr d'" "m_id machine \<in> machine_ids d"
    and "deposits_fit d"
  shows "money_inv d'"
proof -
  obtain acct d1 where acct: "find_account d (r_account_id rental) = Some acct"
    and ch: "charge_rental machine rental (min (accrued_charge (r_created_at rental) now
        (r_rate_sats_per_min rental)) (a_balance_sats acct)) now d = Inr d1"
    and d': "\<exists>c k. d' = update_rentals (\<lambda>r. r_id r = r_id rental)
        (\<lambda>r. r\<lparr>r_sats_charged := c, r_minutes_billed := k\<rparr>) d1"
    using assms(2) by (auto simp: settle_rental_def Let_def split: option.splits sum.splits)
  have "a_balance_sats acct < 2 ^ 63" "0 \<le> a_balance_sats acct"
    using balance_bound [OF assms(1), of acct] find_account_SomeD [OF acct] assms(4)
    by (simp_all add: deposits_fit_def)
  then have "in_i64 (min (accrued_charge (r_created_at rental) now (r_rate_sats_per_min rental))
      (a_balance_sats acct))"
    using accrued_in_i64 by (simp add: in_i64_def min_def)
  then have "money_inv d1"
    using charge_rental_money [OF assms(1) ch] find_account_SomeD [OF acct] assms(3) by force
  then show ?thesis using d' by (auto intro: money_inv_update_rentals)
qed

lemma charge_rental_invoices: "charge_rental machine rental x now d = Inr d' \<Longrightarrow> db_invoices d' = db_invoices d"
  by (auto simp: charge_rental_def frame_simps db_invoices_result split: if_splits sum.splits)

lemma settle_rental_invoices: "settle_rental machine rental now d = Inr d' \<Longrightarrow> db_invoices d' = db_invoices d"
  by (auto simp: settle_rental_def Let_def frame_simps dest!: charge_rental_invoices
      split: option.splits sum.splits)

lemma report_body_money:
  assumes "money_inv d" "deposits_fit d" "m_id machine \<in> machine_ids d"
    and "report_body machine rental req now d = Inr ((), d')"
  shows "money_inv d'"
proof -
  let ?d1 = "update_rentals (\<lambda>r. r_id r = rp_rental_id req)
      (apply_report req (m_public_ip machine) (if is_terminal (rp_status req) then Some now else None)) d"
  have "money_inv ?d1" by (rule money_inv_update_rentals [OF assms(1)]) (simp_all add: apply_report_def)
  moreover have "deposits_fit ?d1" using assms(2) by (simp add: deposits_fit_def invoice_total_def frame_simps)
  moreover have "m_id machine \<in> machine_ids ?d1" using assms(3) by (simp add: frame_simps)
  ultimately show ?thesis
    using assms(4) settle_rental_money [of ?d1 machine rental now d']
    by (auto simp: report_body_def Let_def split: if_splits sum.splits)
qed

lemma report_body_invoices: "report_body machine rental req now d = Inr (u, d') \<Longrightarrow> db_invoices d' = db_invoices d"
  by (auto simp: report_body_def Let_def frame_simps dest!: settle_rental_invoices split: if_splits sum.splits)

section \<open>The contract of the handlers\<close>

interpretation register_handler: atomic_handler "register token req now" for token req now
proof
  fix d d' e x
  show "d' = d" if "register token req now d = (Inl e, d')"
    using that by (cases rule: register_cases [of req d token now]) auto
  assume ok: "register token req now d = (Inr x, d')"
  show "money_inv d'" if "money_inv d" "deposits_fit d"
  proof (cases rule: register_cases [of req d token now])
    case (known m)
    then show ?thesis using ok that(1) by (auto simp: apply_registration_def intro!: money_inv_update_machines)
  next
    case (new k d'')
    then show ?thesis
      using ok money_inv_insert_machine [OF that(1) new(2)] by (simp add: new_machine_row_def)
  qed (use ok in simp)
  show "invoice_total d \<le> invoice_total d'"
    using ok by (cases rule: register_cases [of req d token now])
      (auto simp: frame_simps db_invoices_result intro!: invoice_total_same)
qed

interpretation heartbeat_handler: atomic_handler "heartbeat auth online now" for auth online now
proof
  fix d d' e x
  show "d' = d" if "heartbeat auth online now d = (Inl e, d')"
    using that by (auto simp: heartbeat_def dest: in_transaction_Inl split: sum.splits)
  assume ok: "heartbeat auth online now d = (Inr x, d')"
  from ok show "money_inv d'" if "money_inv d" "deposits_fit d"
    by (rule heartbeat_InrE) (use that(1) in \<open>auto intro!: mark_delivered_wf money_inv_update_machines\<close>)
  from ok show "invoice_total d \<le> invoice_total d'"
    by (rule heartbeat_InrE) (simp add: invoice_total_same frame_simps)
qed

interpretation report_handler: atomic_handler "report auth req now" for auth req now
proof
  fix d d' e x
  show "d' = d" if "report auth req now d = (Inl e, d')"
    using that by (auto simp: report_def report_commit_def dest: in_transaction_Inl split: sum.splits)
  assume ok: "report auth req now d = (Inr x, d')"
  then obtain machine rental where rd: "report_read auth req d = Inr (machine, rental)"
    and body: "report_body machine rental req now d = Inr (x, d')"
    by (auto simp: report_def report_commit_def dest: in_transaction_InrD split: sum.splits)
  show "money_inv d'" if "money_inv d" "deposits_fit d"
    using report_body_money [OF that, of machine rental req now d'] report_read_InrD(1) [OF rd] body by simp
  show "invoice_total d \<le> invoice_total d'"
    by (rule invoice_total_same) (rule report_body_invoices [OF body])
qed

interpretation rate_handler: atomic_handler "rate auth new_rate" for auth new_rate
  by unfold_locales
    (auto simp: rate_def frame_simps split: sum.splits if_splits
      intro!: money_inv_update_machines invoice_total_same)

definition payout_db ::
  "'ln lightning_backend \<Rightarrow> string option \<Rightarrow> string \<Rightarrow> int \<Rightarrow> 'ln \<Rightarrow> db \<Rightarrow> (api_error + int) \<times> db" where
  "payout_db B auth bolt11 now lns d = (case payout B auth bolt11 now lns d of (res, _, d') \<Rightarrow> (res, d'))"

lemma payout_commit_eq:
  "payout_commit machine now d = (Inr (m_payout_balance machine),
     db_record now Payout (i64_neg (m_payout_balance machine)) None (Some (m_id machine)) None (Some ''payout'')
       (update_machines (\<lambda>m. m_id m = m_id machine) (\<lambda>m. m\<lparr>m_payout_balance := 0\<rparr>) d))"
  by (simp add: payout_commit_def payout_body_def in_transaction_def)

lemma payout_db_cases:
  obtains (fail) e where "payout_db B auth bolt11 now lns d = (Inl e, d)"
  | (ok) machine where "payout_read auth d = Inr machine"
      "payout_db B auth bolt11 now lns d = payout_commit machine now d"
      "\<exists>lns'. payout_pay B bolt11 lns = (Inr (), lns')"
proof (cases "payout_read auth d")
  case (Inr machine)
  obtain r lns' where p: "payout_pay B bolt11 lns = (r, lns')" by (cases "payout_pay B bolt11 lns")
  with Inr show thesis
    by (cases r) (auto simp: payout_db_def payout_def split: prod.splits intro: fail ok)
qed (simp add: payout_db_def payout_def fail)

interpretation payout_handler: atomic_handler "payout_db B auth bolt11 now lns" for B auth bolt11 now lns
proof
  fix d d' e x
  show "d' = d" if "payout_db B auth bolt11 now lns d = (Inl e, d')"
    using that by (cases rule: payout_db_cases [of B auth bolt11 now lns d]) (auto simp: payout_commit_eq)
  assume ok: "payout_db B auth bolt11 now lns d = (Inr x, d')"
  then obtain machine where rd: "payout_read auth d = Inr machine"
    and d': "payout_commit machine now d = (Inr x, d')"
    by (cases rule: payout_db_cases [of B auth bolt11 now lns d]) auto
  show "money_inv d'" if "money_inv d" "deposits_fit d"
    using money_inv_payout [OF that(1) payout_read_InrD(1) [OF rd]]
      owed_bound [OF that(1) payout_read_InrD(1) [OF rd]] that(2) d'
    by (auto simp: payout_commit_eq deposits_fit_def)
  show "invoice_total d \<le> invoice_total d'"
    using d' by (auto simp: payout_commit_eq frame_simps intro!: invoice_total_same)
qed

end
