(* ===== verification/Billing.thy ===== *)
theory Billing
  imports Agent
begin

text \<open>
  \<^verbatim>\<open>billing.rs\<close>: the ticker. A tick reads the clock once per invoice, once
  for \<open>mark_offline\<close> and once per running rental; \<open>clk\<close> gives the time each
  step of the loops sees. Each loop body is its own transaction, so an error leaves the
  work of the earlier iterations in place; the functions return the database with the
  result.
\<close>

datatype tick_error = LnError string | TickDb db_error

section \<open>poll_invoices\<close>

definition settle_invoice_body :: "invoice_row \<Rightarrow> int \<Rightarrow> db \<Rightarrow> tick_error + (unit \<times> db)" where
  "settle_invoice_body iv now d =
     (let d1 = update_invoices (\<lambda>i. i_payment_hash i = i_payment_hash iv)
                 (\<lambda>i. i\<lparr>i_settled := True\<rparr>) d
      in case add_balance (i_account_id iv) (i_sats iv) d1 of
           Inl e \<Rightarrow> Inl (TickDb e)
         | Inr d2 \<Rightarrow>
             Inr ((), db_record now Deposit (i_sats iv) (Some (i_account_id iv)) None None
               (Some ''deposit'') d2))"

definition settle_invoice :: "invoice_row \<Rightarrow> int \<Rightarrow> db \<Rightarrow> (tick_error + unit) \<times> db" where
  "settle_invoice iv now d = in_transaction (settle_invoice_body iv now) d"

fun poll_loop ::
  "'ln lightning_backend \<Rightarrow> (nat \<Rightarrow> int) \<Rightarrow> 'ln \<Rightarrow> invoice_row list \<Rightarrow> db \<Rightarrow> (tick_error + unit) \<times> db" where
  "poll_loop B clk lns [] d = (Inr (), d)"
| "poll_loop B clk lns (iv # ivs) d =
     (case is_settled B lns (i_payment_hash iv) of
        Inl e \<Rightarrow> (Inl (LnError e), d)
      | Inr settled \<Rightarrow>
          if \<not> settled then poll_loop B clk lns ivs d
          else
            (case settle_invoice iv (clk (length ivs)) d of
               (Inl e, d') \<Rightarrow> (Inl e, d')
             | (Inr _, d') \<Rightarrow> poll_loop B clk lns ivs d'))"

definition poll_invoices ::
  "'ln lightning_backend \<Rightarrow> (nat \<Rightarrow> int) \<Rightarrow> 'ln \<Rightarrow> db \<Rightarrow> (tick_error + unit) \<times> db" where
  "poll_invoices B clk lns d = poll_loop B clk lns (filter (\<lambda>i. \<not> i_settled i) (db_invoices d)) d"

section \<open>mark_offline\<close>

definition mark_offline :: "billing_config \<Rightarrow> int \<Rightarrow> db \<Rightarrow> db" where
  "mark_offline cfg now d =
     (let threshold = i64_sub now (heartbeat_timeout_secs cfg)
      in update_machines (\<lambda>m. m_online m \<and> m_last_heartbeat m < threshold) (\<lambda>m. m\<lparr>m_online := False\<rparr>) d)"

section \<open>enforce_budgets\<close>

definition evict_body :: "rental_row \<Rightarrow> int \<Rightarrow> db \<Rightarrow> tick_error + (unit \<times> db)" where
  "evict_body r now d =
     (let d1 = update_rentals (\<lambda>x. r_id x = r_id r)
                 (\<lambda>x. x\<lparr>r_status := Evicting, r_error := Some ''insufficient balance''\<rparr>) d
      in case insert_command (r_machine_id r) (command_to_json (StopRental (r_id r))) now d1 of
           Inl e \<Rightarrow> Inl (TickDb e)
         | Inr d2 \<Rightarrow>
             Inr ((), db_record now Evict 0 (Some (r_account_id r)) None (Some (r_id r))
               (Some ''insufficient balance'') d2))"

text \<open>Whether the loop goes past the rental, or what its reads fail with.\<close>

definition over_budget :: "int \<Rightarrow> rental_row \<Rightarrow> int \<Rightarrow> db \<Rightarrow> tick_error + bool" where
  "over_budget hb_timeout r now d =
     (case find_machine d (r_machine_id r) of
        None \<Rightarrow> Inl (TickDb RowNotFound)
      | Some m \<Rightarrow>
          if hb_timeout < i64_sub now (m_last_heartbeat m) then Inr False
          else
            (case find_account d (r_account_id r) of
               None \<Rightarrow> Inl (TickDb RowNotFound)
             | Some acct \<Rightarrow>
                 Inr (\<not> accrued_charge (r_created_at r) now (r_rate_sats_per_min r) \<le> a_balance_sats acct)))"

fun enforce_loop ::
  "int \<Rightarrow> (nat \<Rightarrow> int) \<Rightarrow> rental_row list \<Rightarrow> db \<Rightarrow> (tick_error + unit) \<times> db" where
  "enforce_loop hb_timeout clk [] d = (Inr (), d)"
| "enforce_loop hb_timeout clk (r # rs) d =
     (case over_budget hb_timeout r (clk (length rs)) d of
        Inl e \<Rightarrow> (Inl e, d)
      | Inr evict \<Rightarrow>
          if \<not> evict then enforce_loop hb_timeout clk rs d
          else
            (case in_transaction (evict_body r (clk (length rs))) d of
               (Inl e, d') \<Rightarrow> (Inl e, d')
             | (Inr _, d') \<Rightarrow> enforce_loop hb_timeout clk rs d'))"

definition enforce_budgets :: "billing_config \<Rightarrow> (nat \<Rightarrow> int) \<Rightarrow> db \<Rightarrow> (tick_error + unit) \<times> db" where
  "enforce_budgets cfg clk d =
     enforce_loop (heartbeat_timeout_secs cfg) clk (filter (\<lambda>r. r_status r = Running) (db_rentals d)) d"

section \<open>tick\<close>

text \<open>The clock readings of the three parts of a tick.\<close>

record tick_clock =
  tk_poll :: "nat \<Rightarrow> int"
  tk_offline :: int
  tk_enforce :: "nat \<Rightarrow> int"

definition tick ::
  "'ln lightning_backend \<Rightarrow> billing_config \<Rightarrow> tick_clock \<Rightarrow> 'ln \<Rightarrow> db \<Rightarrow> (tick_error + unit) \<times> db" where
  "tick B cfg tk lns d =
     (case poll_invoices B (tk_poll tk) lns d of
        (Inl e, d1) \<Rightarrow> (Inl e, d1)
      | (Inr _, d1) \<Rightarrow> enforce_budgets cfg (tk_enforce tk) (mark_offline cfg (tk_offline tk) d1))"

section \<open>Settling invoices\<close>

definition settled_row :: "string \<Rightarrow> invoice_row \<Rightarrow> invoice_row" where
  "settled_row h i = (if i_payment_hash i = h then i\<lparr>i_settled := True\<rparr> else i)"

lemma settle_invoice_cases:
  obtains (fail) e where "settle_invoice iv now d = (Inl e, d)"
  | (ok) d2 where "add_balance (i_account_id iv) (i_sats iv)
        (update_invoices (\<lambda>i. i_payment_hash i = i_payment_hash iv) (\<lambda>i. i\<lparr>i_settled := True\<rparr>) d) = Inr d2"
      "settle_invoice iv now d = (Inr (),
        db_record now Deposit (i_sats iv) (Some (i_account_id iv)) None None (Some ''deposit'') d2)"
  by (cases "add_balance (i_account_id iv) (i_sats iv)
        (update_invoices (\<lambda>i. i_payment_hash i = i_payment_hash iv) (\<lambda>i. i\<lparr>i_settled := True\<rparr>) d)")
    (auto simp: settle_invoice_def settle_invoice_body_def in_transaction_def)

lemma settle_invoice_invoices:
  "settle_invoice iv now d = (Inr u, d') \<Longrightarrow> db_invoices d' = map (settled_row (i_payment_hash iv)) (db_invoices d)"
  by (cases rule: settle_invoice_cases [of iv now d])
    (auto simp: frame_simps db_invoices_result(1) update_invoices_def sql_update_def settled_row_def)

lemma settle_invoice_money:
  assumes "money_inv d" "iv \<in> set (db_invoices d)" "\<not> i_settled iv"
  shows "money_inv (snd (settle_invoice iv now d))"
proof (cases rule: settle_invoice_cases [of iv now d])
  case (ok d2)
  then show ?thesis using money_inv_deposit [OF assms ok(1)] by simp
qed (simp add: assms(1))

text \<open>What the loop still has to do stays true of the database while it runs.\<close>

definition still_pending :: "invoice_row list \<Rightarrow> db \<Rightarrow> bool" where
  "still_pending ivs d \<longleftrightarrow> distinct (map i_payment_hash ivs) \<and>
     (\<forall>iv\<in>set ivs. iv \<in> set (db_invoices d) \<and> \<not> i_settled iv)"

lemma still_pending_settle:
  assumes "still_pending (iv # ivs) d" "settle_invoice iv now d = (Inr u, d')"
  shows "still_pending ivs d'"
proof -
  have "settled_row (i_payment_hash iv) jv = jv" if "jv \<in> set ivs" for jv
    using assms(1) that by (auto simp: still_pending_def settled_row_def image_iff)
  then show ?thesis
    using assms settle_invoice_invoices [OF assms(2)] by (force simp: still_pending_def image_iff)
qed

lemma poll_loop_step [consumes 2, case_names stop Nil skip settle]:
  assumes pend: "still_pending ivs d" and run: "poll_loop B clk lns ivs d = (res, d')"
    and stop: "\<And>ivs d e. still_pending ivs d \<Longrightarrow> P ivs d (Inl e) d"
    and nil: "\<And>d. P [] d (Inr ()) d"
    and skip: "\<And>iv ivs d res d'. still_pending (iv # ivs) d \<Longrightarrow>
        is_settled B lns (i_payment_hash iv) = Inr False \<Longrightarrow> P ivs d res d' \<Longrightarrow> P (iv # ivs) d res d'"
    and settle: "\<And>iv ivs d d1 res d'. still_pending (iv # ivs) d \<Longrightarrow>
        is_settled B lns (i_payment_hash iv) = Inr True \<Longrightarrow>
        settle_invoice iv (clk (length ivs)) d = (Inr (), d1) \<Longrightarrow> P ivs d1 res d' \<Longrightarrow> P (iv # ivs) d res d'"
  shows "P ivs d res d'"
  using pend run
proof (induction ivs arbitrary: d)
  case (Cons iv ivs)
  have tl: "still_pending ivs d" using Cons.prems(1) by (simp add: still_pending_def)
  show ?case
  proof (cases "is_settled B lns (i_payment_hash iv)")
    case (Inl e)
    with Cons.prems stop show ?thesis by auto
  next
    case (Inr s)
    show ?thesis
    proof (cases s)
      case True
      show ?thesis
      proof (cases rule: settle_invoice_cases [of iv "clk (length ivs)" d])
        case (fail e)
        with Cons.prems Inr True stop show ?thesis by auto
      next
        case (ok d2)
        with Cons.prems Inr True Cons.IH show ?thesis
          by (auto intro!: settle [OF Cons.prems(1) _ ok(2)] dest: still_pending_settle [OF Cons.prems(1)])
      qed
    qed (use Cons.prems Cons.IH [OF tl] Inr skip in auto)
  qed
qed (use nil in simp)

lemma poll_loop_money:
  assumes "still_pending ivs d" "poll_loop B clk lns ivs d = (res, d')"
  shows "money_inv d \<longrightarrow> money_inv d'"
  using assms
proof (induction rule: poll_loop_step)
  case (settle iv ivs d d1 res d')
  then show ?case using settle_invoice_money [of d iv "clk (length ivs)"] by (auto simp: still_pending_def)
qed auto

lemma settle_invoice_sats:
  "map i_sats (db_invoices (snd (settle_invoice iv now d))) = map i_sats (db_invoices d)"
proof (cases "settle_invoice iv now d")
  case (Pair res d')
  have row: "i_sats (settled_row h i) = i_sats i" for h i by (simp add: settled_row_def)
  from Pair show ?thesis
    using settle_invoice_invoices [of iv now d _ d'] settle_invoice_cases [of iv now d]
    by (cases res) (auto simp: row comp_def)
qed

lemma poll_loop_invoiced:
  "map i_sats (db_invoices (snd (poll_loop B clk lns ivs d))) = map i_sats (db_invoices d)"
proof (induction ivs arbitrary: d)
  case (Cons iv ivs)
  then show ?case using settle_invoice_sats [of iv "clk (length ivs)" d]
    by (auto split: sum.splits prod.splits)
qed simp

lemma still_pending_start: "db_wf d \<Longrightarrow> still_pending (filter (\<lambda>i. \<not> i_settled i) (db_invoices d)) d"
  by (simp add: still_pending_def wf_defs distinct_map_filter)

section \<open>Evictions\<close>

lemma evict_InrE:
  assumes "in_transaction (evict_body r now) d = (Inr u, d')"
  obtains d2 where "insert_command (r_machine_id r) (command_to_json (StopRental (r_id r))) now
      (update_rentals (\<lambda>x. r_id x = r_id r)
        (\<lambda>x. x\<lparr>r_status := Evicting, r_error := Some ''insufficient balance''\<rparr>) d) = Inr d2"
    and "d' = db_record now Evict 0 (Some (r_account_id r)) None (Some (r_id r)) (Some ''insufficient balance'') d2"
  using in_transaction_InrD [OF assms]
  by (auto simp: evict_body_def Let_def split: sum.splits intro: that)

lemma evict_money:
  assumes "money_inv d" "r_account_id r \<in> account_ids d" "in_transaction (evict_body r now) d = (Inr u, d')"
  shows "money_inv d'"
  using assms(3)
proof (rule evict_InrE)
  fix d2
  let ?d1 = "update_rentals (\<lambda>x. r_id x = r_id r)
      (\<lambda>x. x\<lparr>r_status := Evicting, r_error := Some ''insufficient balance''\<rparr>) d"
  assume cmd: "insert_command (r_machine_id r) (command_to_json (StopRental (r_id r))) now ?d1 = Inr d2"
    and d': "d' = db_record now Evict 0 (Some (r_account_id r)) None (Some (r_id r)) (Some ''insufficient balance'') d2"
  have "money_inv ?d1" by (rule money_inv_update_rentals [OF assms(1)]) simp_all
  then have "money_inv d2" using cmd by (rule money_inv_insert_command)
  moreover have "account_ids d2 = account_ids d"
    using cmd by (auto simp: insert_command_def update_rentals_def split: if_splits)
  ultimately show ?thesis unfolding d' using assms(2) by (intro money_inv_record_evict) simp_all
qed

lemma evict_accounts:
  "in_transaction (evict_body r now) d = (Inr u, d') \<Longrightarrow>
     db_accounts d' = db_accounts d \<and> db_machines d' = db_machines d \<and> db_invoices d' = db_invoices d"
  by (erule evict_InrE) (auto simp: insert_command_def update_rentals_def db_record_def split: if_splits)

lemma over_budget_accounts:
  "over_budget hb r now d = Inr b \<Longrightarrow> b \<Longrightarrow> r_account_id r \<in> account_ids d"
  by (auto simp: over_budget_def dest!: find_account_SomeD intro: rev_image_eqI
      split: option.splits if_splits)

lemma enforce_loop_invariant_in:
  assumes "I d"
    and "\<And>r k d d'. r \<in> set rs \<Longrightarrow> I d \<Longrightarrow> r_account_id r \<in> account_ids d \<Longrightarrow>
      in_transaction (evict_body r (clk k)) d = (Inr (), d') \<Longrightarrow> I d'"
  shows "I (snd (enforce_loop hb clk rs d))"
  using assms
proof (induction rs arbitrary: d)
  case (Cons r rs)
  note keep = Cons.prems(2) [of r, OF list.set_intros(1)]
  have rest: "I d' \<Longrightarrow> I (snd (enforce_loop hb clk rs d'))" for d'
    by (rule Cons.IH, assumption, rule Cons.prems(2)) simp_all
  show ?case
  proof (cases "over_budget hb r (clk (length rs)) d")
    case (Inr evict)
    show ?thesis
    proof (cases "in_transaction (evict_body r (clk (length rs))) d")
      case (Pair res d1)
      show ?thesis
      proof (cases res)
        case (Inl e)
        then have "d1 = d" using Pair by (simp add: in_transaction_Inl)
        with Inl Inr Pair Cons.prems(1) rest show ?thesis by simp
      next
        case ev: (Inr u)
        show ?thesis
        proof (cases evict)
          case True
          have "I d1"
            using keep [OF Cons.prems(1)] over_budget_accounts [OF Inr True] Pair ev by simp
          with True Inr Pair ev rest show ?thesis by simp
        qed (use Inr Cons.prems(1) rest in simp)
      qed
    qed
  qed (use Cons.prems(1) in simp)
qed simp

lemma enforce_loop_invariant:
  assumes "I d"
    and "\<And>r k d d'. I d \<Longrightarrow> r_account_id r \<in> account_ids d \<Longrightarrow>
      in_transaction (evict_body r (clk k)) d = (Inr (), d') \<Longrightarrow> I d'"
  shows "I (snd (enforce_loop hb clk rs d))"
  by (rule enforce_loop_invariant_in [of I, OF assms(1)]) (rule assms(2))

interpretation enforce_step: money_step "\<lambda>d. snd (enforce_budgets cfg clk d)" for cfg clk
proof
  fix d
  show "money_inv (snd (enforce_budgets cfg clk d))" if "money_inv d" "deposits_fit d"
    unfolding enforce_budgets_def
    by (rule enforce_loop_invariant [of money_inv, OF that(1)]) (rule evict_money)
  show "invoice_total d \<le> invoice_total (snd (enforce_budgets cfg clk d))"
    unfolding enforce_budgets_def
    by (rule enforce_loop_invariant [of "\<lambda>d'. invoice_total d \<le> invoice_total d'"])
      (auto simp: invoice_total_def dest!: evict_accounts)
qed

interpretation offline_step: money_step "mark_offline cfg now" for cfg now
  by unfold_locales
    (auto simp: mark_offline_def Let_def frame_simps intro!: money_inv_update_machines invoice_total_same)

lemma poll_money_step:
  "money_inv d \<Longrightarrow> money_inv (snd (poll_invoices B clk lns d))"
  unfolding poll_invoices_def
  using poll_loop_money [OF still_pending_start, of d B clk lns]
  by (cases "poll_loop B clk lns (filter (\<lambda>i. \<not> i_settled i) (db_invoices d)) d")
    (auto simp: money_inv_def)

end
