(* ===== verification/Tenant.thy ===== *)
theory Tenant
  imports Handler_Contract
begin

text \<open>
  \<^verbatim>\<open>routes/tenant.rs\<close>: the tenant-facing handlers. A read-only handler maps the
  database to its response or error; a handler that writes returns the database too. The
  handler of \<^verbatim>\<open>DELETE /rentals/{id}\<close> reads outside its transaction, so it is
  the composition of its two halves, which \<open>Concurrency\<close> interleaves.
\<close>

section \<open>GET /health\<close>

definition health :: "'ln app_state \<Rightarrow> health_response" where
  "health st = \<lparr>h_ok = True, h_ln_backend = st_ln_backend_name st\<rparr>"

section \<open>GET /offers\<close>

definition occupying_statuses :: "rental_status list" where
  "occupying_statuses = filter occupies_machine status_ALL"

definition occupying_in_list :: string where
  "occupying_in_list =
     join '','' (map (\<lambda>s. [CHR 0x27] @ status_as_str s @ [CHR 0x27]) occupying_statuses)"

definition machine_to_offer :: "machine_row \<Rightarrow> offer" where
  "machine_to_offer m =
     \<lparr>o_machine_id = m_id m, o_gpu_name = m_gpu_name m, o_gpu_count = as_i32 (m_gpu_count m),
      o_vram_mb = m_vram_mb m, o_cpu_name = m_cpu_name m, o_cpu_cores = as_i32 (m_cpu_cores m),
      o_ram_mb = m_ram_mb m, o_disk_gb = m_disk_gb m, o_disk_type = m_disk_type m,
      o_public_ip = m_public_ip m, o_country = m_country m,
      o_inet_down_mbps = m_inet_down_mbps m, o_inet_up_mbps = m_inet_up_mbps m,
      o_dlperf = m_dlperf m, o_rate_sats_per_min = m_rate_sats_per_min m,
      o_rate_sats_per_hour = i64_mul (m_rate_sats_per_min m) 60\<rparr>"

record offers_query =
  oq_gpu_name :: "string option"
  oq_min_vram_mb :: "int option"
  oq_min_gpu_count :: "int option"
  oq_max_rate_sats_per_min :: "int option"
  oq_sort :: "string option"
  oq_limit :: "int option"

text \<open>\<^verbatim>\<open>EXISTS (SELECT 1 FROM rentals r WHERE r.machine_id = ... AND r.status IN (...))\<close>.\<close>

definition machine_occupied :: "db \<Rightarrow> int \<Rightarrow> bool" where
  "machine_occupied d k \<longleftrightarrow>
     list_ex (\<lambda>r. r_machine_id r = k \<and> r_status r \<in> set occupying_statuses) (db_rentals d)"

definition opt_holds :: "('a \<Rightarrow> bool) \<Rightarrow> 'a option \<Rightarrow> bool" where
  "opt_holds p v = (case v of None \<Rightarrow> True | Some x \<Rightarrow> p x)"

definition offer_matches :: "offers_query \<Rightarrow> db \<Rightarrow> machine_row \<Rightarrow> bool" where
  "offer_matches q d m \<longleftrightarrow>
     m_online m \<and> \<not> machine_occupied d (m_id m)
     \<and> opt_holds (\<lambda>name. sql_like (CHR ''%'' # name @ [CHR ''%'']) (m_gpu_name m)) (oq_gpu_name q)
     \<and> opt_holds (\<lambda>v. v \<le> m_vram_mb m) (oq_min_vram_mb q)
     \<and> opt_holds (\<lambda>c. c \<le> m_gpu_count m) (oq_min_gpu_count q)
     \<and> opt_holds (\<lambda>r. m_rate_sats_per_min m \<le> r) (oq_max_rate_sats_per_min q)"

text \<open>
  The default sort key, computed by SQLite in double precision: \<open>fl\<close> is the rounding
  of a real to a double.
\<close>

definition value_key :: "(real \<Rightarrow> real) \<Rightarrow> machine_row \<Rightarrow> real" where
  "value_key fl m = fl (fl (real_of_int (m_rate_sats_per_min m)) / max (m_dlperf m) (fl (1 / 100)))"

definition order_offers :: "(real \<Rightarrow> real) \<Rightarrow> string option \<Rightarrow> machine_row list \<Rightarrow> machine_row list" where
  "order_offers fl how ms =
     (if how = Some ''rate'' then sort_key m_rate_sats_per_min ms
      else if how = Some ''dlperf'' then sort_key (\<lambda>m. - m_dlperf m) ms
      else sort_key (value_key fl) ms)"

definition offers_limit :: "int option \<Rightarrow> int" where
  "offers_limit l = max 1 (min 200 (case l of None \<Rightarrow> 200 | Some x \<Rightarrow> x))"

text \<open>
  \<open>scan\<close> is the order in which SQLite's plan visits the table, which decides the order
  of offers with equal keys and is otherwise unspecified.
\<close>

definition offers ::
  "(real \<Rightarrow> real) \<Rightarrow> (machine_row list \<Rightarrow> machine_row list) \<Rightarrow> offers_query \<Rightarrow> db \<Rightarrow> offer list" where
  "offers fl scan q d =
     map machine_to_offer
       (take (nat (offers_limit (oq_limit q)))
         (order_offers fl (oq_sort q) (filter (offer_matches q d) (scan (db_machines d)))))"

section \<open>Accounts\<close>

text \<open>\<open>ident\<close> is the fresh id of \<open>new_account_id\<close>.\<close>

definition create_account :: "string \<Rightarrow> int \<Rightarrow> db \<Rightarrow> (api_error + string) \<times> db" where
  "create_account ident now d =
     (case insert_account \<lparr>a_id = ident, a_balance_sats = 0, a_created_at = now\<rparr> d of
        Inl e \<Rightarrow> (Inl (of_db_error e), d)
      | Inr d' \<Rightarrow> (Inr ident, d'))"

definition get_account :: "string \<Rightarrow> db \<Rightarrow> api_error + account_response" where
  "get_account ident d =
     (case find_account d ident of
        None \<Rightarrow> Inl (not_found ''unknown account'')
      | Some acct \<Rightarrow>
          (case sql_sum 0 (map r_rate_sats_per_min
                  (filter (\<lambda>r. r_account_id r = ident \<and> r_status r = Running) (db_rentals d))) of
             Inl e \<Rightarrow> Inl (of_db_error e)
           | Inr burn \<Rightarrow>
               Inr \<lparr>ar_account_id = a_id acct, ar_balance_sats = a_balance_sats acct,
                    ar_burn_sats_per_min = burn,
                    ar_runway_minutes =
                      (if 0 < burn then Some (i64_div (a_balance_sats acct) burn) else None)\<rparr>))"

definition deposit ::
  "'ln lightning_backend \<Rightarrow> string \<Rightarrow> int \<Rightarrow> int \<Rightarrow> 'ln \<Rightarrow> db \<Rightarrow> (api_error + deposit_response) \<times> 'ln \<times> db" where
  "deposit B ident n_sats now lns d =
     (if n_sats < 1 then (Inl (bad_request ''deposit must be >= 1 sat''), lns, d)
      else if find_account d ident = None then (Inl (not_found ''unknown account''), lns, d)
      else
        (case create_invoice B lns (Sats n_sats) (''deposit for '' @ ident) of
           (Inl e, ln') \<Rightarrow> (Inl (bad_gateway (''invoice creation failed: '' @ e)), ln', d)
         | (Inr iv, ln') \<Rightarrow>
             (case insert_invoice
                     \<lparr>i_payment_hash = inv_payment_hash iv, i_account_id = ident, i_sats = n_sats,
                      i_bolt11 = inv_bolt11 iv, i_settled = False, i_created_at = now\<rparr> d of
                Inl e \<Rightarrow> (Inl (of_db_error e), ln', d)
              | Inr d' \<Rightarrow>
                  (Inr \<lparr>dp_bolt11 = inv_bolt11 iv, dp_payment_hash = inv_payment_hash iv,
                        dp_sats = n_sats\<rparr>, ln', d'))))"

section \<open>POST /rentals\<close>

definition rental_ssh_pubkey :: "create_rental_request \<Rightarrow> api_error + string" where
  "rental_ssh_pubkey req =
     (case map_option trim (cr_ssh_pubkey req) of
        Some k \<Rightarrow>
          if k \<noteq> [] then Inr k
          else if is_http_status_image (cr_image req) then Inr []
          else Inl (bad_request ''ssh_pubkey is required for this image (only metal: images may omit it)'')
      | None \<Rightarrow>
          if is_http_status_image (cr_image req) then Inr []
          else Inl (bad_request ''ssh_pubkey is required for this image (only metal: images may omit it)''))"

text \<open>The row the \<^verbatim>\<open>INSERT\<close> creates, with the columns' defaults; the id is assigned on insertion.\<close>

definition new_rental_row :: "create_rental_request \<Rightarrow> string \<Rightarrow> int \<Rightarrow> int \<Rightarrow> rental_row" where
  "new_rental_row req key rate now =
     \<lparr>r_id = 0, r_machine_id = cr_machine_id req, r_account_id = cr_account_id req,
      r_image = cr_image req, r_ssh_pubkey = key, r_status = Provisioning, r_kind = Ssh,
      r_ssh_host = None, r_ssh_port = None, r_container_id = None, r_error = None,
      r_rate_sats_per_min = rate, r_sats_charged = 0, r_minutes_billed = 0, r_paid_through = 0,
      r_created_at = now, r_ended_at = None\<rparr>"

text \<open>The writes of the transaction: the rental and its queued \<open>start_rental\<close>.\<close>

definition place_rental ::
  "create_rental_request \<Rightarrow> string \<Rightarrow> int \<Rightarrow> int \<Rightarrow> db \<Rightarrow> api_error + (create_rental_response \<times> db)" where
  "place_rental req key rate now d =
     (case insert_rental (new_rental_row req key rate now) d of
        Inl e \<Rightarrow> Inl (of_db_error e)
      | Inr (rental_id, d1) \<Rightarrow>
          (case insert_command (cr_machine_id req)
                  (command_to_json (StartRental rental_id (cr_image req) key)) now d1 of
             Inl e \<Rightarrow> Inl (of_db_error e)
           | Inr d2 \<Rightarrow>
               Inr (\<lparr>cs_rental_id = rental_id, cs_status = Provisioning,
                     cs_rate_sats_per_min = rate\<rparr>, d2)))"

definition create_rental_body ::
  "create_rental_request \<Rightarrow> int \<Rightarrow> db \<Rightarrow> api_error + (create_rental_response \<times> db)" where
  "create_rental_body req now d =
     (case find_machine d (cr_machine_id req) of
        None \<Rightarrow> Inl (not_found ''unknown machine'')
      | Some machine \<Rightarrow>
     (case find_account d (cr_account_id req) of
        None \<Rightarrow> Inl (not_found ''unknown account'')
      | Some account \<Rightarrow>
     (case rental_ssh_pubkey req of
        Inl e \<Rightarrow> Inl e
      | Inr key \<Rightarrow>
          if \<not> m_online machine then Inl (conflict ''machine is offline'')
          else if machine_occupied d (cr_machine_id req) then Inl (conflict ''machine already rented'')
          else if a_balance_sats account < m_rate_sats_per_min machine
          then Inl (payment_required ''balance below one minute at the machine's rate'')
          else place_rental req key (m_rate_sats_per_min machine) now d)))"

definition create_rental ::
  "create_rental_request \<Rightarrow> int \<Rightarrow> db \<Rightarrow> (api_error + create_rental_response) \<times> db" where
  "create_rental req now d = in_transaction (create_rental_body req now) d"

section \<open>GET /rentals/{id}\<close>

definition ssh_command :: "rental_row \<Rightarrow> string option" where
  "ssh_command r =
     (case (r_kind r, r_ssh_host r, r_ssh_port r) of
        (Ssh, Some host, Some port) \<Rightarrow> Some (''ssh -p '' @ show_int port @ '' root@'' @ host)
      | _ \<Rightarrow> None)"

definition get_rental :: "int \<Rightarrow> db \<Rightarrow> api_error + rental_response" where
  "get_rental ident d =
     (case find_rental d ident of
        None \<Rightarrow> Inl (not_found ''unknown rental'')
      | Some r \<Rightarrow>
          (case find_machine d (r_machine_id r) of
             None \<Rightarrow> Inl (of_db_error RowNotFound)
           | Some m \<Rightarrow>
               Inr \<lparr>rn_id = r_id r, rn_machine_id = r_machine_id r, rn_account_id = r_account_id r,
                    rn_image = r_image r, rn_status = r_status r, rn_kind = r_kind r,
                    rn_gpu_name = m_gpu_name m, rn_gpu_count = as_i32 (m_gpu_count m),
                    rn_ssh_host = r_ssh_host r, rn_ssh_port = map_option as_i32 (r_ssh_port r),
                    rn_ssh_command = ssh_command r,
                    rn_rate_sats_per_min = r_rate_sats_per_min r,
                    rn_sats_charged = r_sats_charged r, rn_minutes_billed = r_minutes_billed r,
                    rn_paid_through = r_paid_through r, rn_error = r_error r,
                    rn_created_at = r_created_at r, rn_ended_at = r_ended_at r\<rparr>))"

section \<open>DELETE /rentals/{id}\<close>

text \<open>
  The read outside the transaction: \<open>Inr (Inl status)\<close> answers at once,
  \<open>Inr (Inr r)\<close> goes on with the row it read.
\<close>

definition delete_rental_read :: "int \<Rightarrow> db \<Rightarrow> api_error + (string + rental_row)" where
  "delete_rental_read ident d =
     (case find_rental d ident of
        None \<Rightarrow> Inl (not_found ''unknown rental'')
      | Some r \<Rightarrow>
          if is_terminal (r_status r) \<or> r_status r = Evicting
          then Inr (Inl (status_as_str (r_status r)))
          else Inr (Inr r))"

definition delete_rental_body :: "rental_row \<Rightarrow> int \<Rightarrow> db \<Rightarrow> api_error + (unit \<times> db)" where
  "delete_rental_body r now d =
     (let d1 = update_rentals (\<lambda>x. r_id x = r_id r) (\<lambda>x. x\<lparr>r_status := Evicting\<rparr>) d
      in case insert_command (r_machine_id r) (command_to_json (StopRental (r_id r))) now d1 of
           Inl e \<Rightarrow> Inl (of_db_error e)
         | Inr d2 \<Rightarrow> Inr ((), d2))"

text \<open>The response is the pair of the rental's id and its status.\<close>

definition delete_rental_commit :: "rental_row \<Rightarrow> int \<Rightarrow> db \<Rightarrow> (api_error + (int \<times> string)) \<times> db" where
  "delete_rental_commit r now d =
     (case in_transaction (delete_rental_body r now) d of
        (Inl e, d') \<Rightarrow> (Inl e, d')
      | (Inr _, d') \<Rightarrow> (Inr (r_id r, ''evicting''), d'))"

definition delete_rental :: "int \<Rightarrow> int \<Rightarrow> db \<Rightarrow> (api_error + (int \<times> string)) \<times> db" where
  "delete_rental ident now d =
     (case delete_rental_read ident d of
        Inl e \<Rightarrow> (Inl e, d)
      | Inr (Inl status) \<Rightarrow> (Inr (ident, status), d)
      | Inr (Inr r) \<Rightarrow> delete_rental_commit r now d)"

section \<open>Inversion of the successful runs\<close>

lemma create_rental_InrE:
  assumes "create_rental req now d = (Inr resp, d')"
  obtains machine account key k d1
  where "find_machine d (cr_machine_id req) = Some machine" "find_account d (cr_account_id req) = Some account"
    and "rental_ssh_pubkey req = Inr key" "m_online machine" "\<not> machine_occupied d (cr_machine_id req)"
    and "m_rate_sats_per_min machine \<le> a_balance_sats account"
    and "insert_rental (new_rental_row req key (m_rate_sats_per_min machine) now) d = Inr (k, d1)"
    and "insert_command (cr_machine_id req) (command_to_json (StartRental k (cr_image req) key)) now d1 = Inr d'"
    and "resp = \<lparr>cs_rental_id = k, cs_status = Provisioning, cs_rate_sats_per_min = m_rate_sats_per_min machine\<rparr>"
proof -
  have "create_rental_body req now d = Inr (resp, d')"
    using assms unfolding create_rental_def by (rule in_transaction_InrD)
  then show thesis
    unfolding create_rental_body_def place_rental_def
    by (auto split: option.splits sum.splits if_splits prod.splits intro: that)
qed

lemma delete_rental_commit_InrE:
  assumes "delete_rental_commit r now d = (Inr resp, d')"
  obtains "insert_command (r_machine_id r) (command_to_json (StopRental (r_id r))) now
      (update_rentals (\<lambda>x. r_id x = r_id r) (\<lambda>x. x\<lparr>r_status := Evicting\<rparr>) d) = Inr d'"
    and "resp = (r_id r, ''evicting'')"
proof -
  obtain res where "in_transaction (delete_rental_body r now) d = (res, d')"
    using assms by (cases "in_transaction (delete_rental_body r now) d")
      (auto simp: delete_rental_commit_def split: sum.splits)
  moreover from this obtain u where "res = Inr u" "resp = (r_id r, ''evicting'')"
    using assms by (auto simp: delete_rental_commit_def split: sum.splits)
  ultimately have "delete_rental_body r now d = Inr (u, d')"
    by (auto dest: in_transaction_InrD)
  with \<open>resp = _\<close> show thesis
    by (auto simp: delete_rental_body_def Let_def split: sum.splits intro: that)
qed

lemma deposit_cases:
  assumes "deposit B ident x now lns d = (res, lns', d')"
  obtains (fail) e where "res = Inl e" "d' = d"
  | (ok) iv where "1 \<le> x" "create_invoice B lns (Sats x) (''deposit for '' @ ident) = (Inr iv, lns')"
      "insert_invoice \<lparr>i_payment_hash = inv_payment_hash iv, i_account_id = ident, i_sats = x,
         i_bolt11 = inv_bolt11 iv, i_settled = False, i_created_at = now\<rparr> d = Inr d'"
      "res = Inr \<lparr>dp_bolt11 = inv_bolt11 iv, dp_payment_hash = inv_payment_hash iv, dp_sats = x\<rparr>"
  using assms by (auto simp: deposit_def split: if_splits prod.splits sum.splits)

section \<open>The contract of the handlers\<close>

interpretation create_account_handler: atomic_handler "create_account ident now" for ident now
proof
  fix d d' e x
  show "d' = d" if "create_account ident now d = (Inl e, d')"
    using that by (auto simp: create_account_def split: sum.splits)
  assume ok: "create_account ident now d = (Inr x, d')"
  then have ins: "insert_account \<lparr>a_id = ident, a_balance_sats = 0, a_created_at = now\<rparr> d = Inr d'"
    by (auto simp: create_account_def split: sum.splits)
  show "money_inv d'" if "money_inv d" "deposits_fit d"
    using money_inv_insert_account [OF that(1) ins] by simp
  show "invoice_total d \<le> invoice_total d'"
    by (rule invoice_total_same) (rule db_invoices_result(2) [OF ins])
qed

definition deposit_db ::
  "'ln lightning_backend \<Rightarrow> string \<Rightarrow> int \<Rightarrow> int \<Rightarrow> 'ln \<Rightarrow> db \<Rightarrow> (api_error + deposit_response) \<times> db" where
  "deposit_db B ident x now lns d = (case deposit B ident x now lns d of (res, _, d') \<Rightarrow> (res, d'))"

interpretation deposit_handler: atomic_handler "deposit_db B ident x now lns" for B ident x now lns
proof
  fix d d' e y
  obtain res lns' d'' where dep: "deposit B ident x now lns d = (res, lns', d'')"
    by (cases "deposit B ident x now lns d") auto
  then have db: "deposit_db B ident x now lns d = (res, d'')" by (simp add: deposit_db_def)
  from dep show "d' = d" if "deposit_db B ident x now lns d = (Inl e, d')"
    using that db by (cases rule: deposit_cases) auto
  assume ok: "deposit_db B ident x now lns d = (Inr y, d')"
  from dep show "money_inv d'" if "money_inv d" "deposits_fit d"
    using that ok db by (cases rule: deposit_cases) (auto intro: money_inv_insert_invoice)
  from dep show "invoice_total d \<le> invoice_total d'"
    using ok db by (cases rule: deposit_cases)
      (auto simp: insert_invoice_def invoice_total_def split: if_splits)
qed

interpretation create_rental_handler: atomic_handler "create_rental req now" for req now
proof
  fix d d' e x
  show "d' = d" if "create_rental req now d = (Inl e, d')"
    using that unfolding create_rental_def by (rule in_transaction_Inl)
  assume ok: "create_rental req now d = (Inr x, d')"
  from ok show "money_inv d'" if "money_inv d" "deposits_fit d"
    by (rule create_rental_InrE)
      (rule money_inv_insert_command [OF money_inv_insert_rental [OF that(1)]])
  from ok show "invoice_total d \<le> invoice_total d'"
    by (rule create_rental_InrE) (simp add: invoice_total_same db_invoices_result)
qed

lemma money_inv_evicting [wf_intros]:
  "money_inv d \<Longrightarrow> money_inv (update_rentals p (\<lambda>x. x\<lparr>r_status := st\<rparr>) d)"
  by (rule money_inv_update_rentals) simp_all

interpretation delete_rental_handler: atomic_handler "delete_rental_commit r now" for r now
proof
  fix d d' e x
  show "d' = d" if "delete_rental_commit r now d = (Inl e, d')"
    using that by (auto simp: delete_rental_commit_def in_transaction_def split: sum.splits prod.splits)
  assume ok: "delete_rental_commit r now d = (Inr x, d')"
  from ok show "money_inv d'" if "money_inv d" "deposits_fit d"
    by (rule delete_rental_commit_InrE)
      (rule money_inv_insert_command [OF money_inv_evicting [OF that(1)]])
  from ok show "invoice_total d \<le> invoice_total d'"
    by (rule delete_rental_commit_InrE) (simp add: invoice_total_same db_invoices_result frame_simps)
qed

interpretation delete_rental_step: money_step "\<lambda>d. snd (delete_rental ident now d)" for ident now
proof
  fix d
  show "money_inv (snd (delete_rental ident now d))" if "money_inv d" "deposits_fit d"
    using that delete_rental_handler.as_step.keeps_money
    by (auto simp: delete_rental_def split: sum.splits)
  show "invoice_total d \<le> invoice_total (snd (delete_rental ident now d))"
    using delete_rental_handler.as_step.invoiced_mono
    by (auto simp: delete_rental_def split: sum.splits)
qed

end
