(* ===== verification/History.thy ===== *)
theory History
  imports Billing Tenant "HOL-Library.Sublist"
begin

text \<open>
  What the database never forgets. \<open>history d d'\<close> relates a database to a later one:
  the ledger is only appended to, the terms of a rental (machine, account, image, key, rate,
  creation time), the identity of a machine and the amount of an invoice never change, no
  row disappears, and a command once delivered stays delivered. Every handler and the ticker
  move along \<open>history\<close> (\<open>audited_step\<close>).
\<close>

definition rental_terms :: "rental_row \<Rightarrow> int \<times> int \<times> string \<times> string \<times> string \<times> int \<times> int" where
  "rental_terms r = (r_id r, r_machine_id r, r_account_id r, r_image r, r_ssh_pubkey r,
     r_rate_sats_per_min r, r_created_at r)"

definition machine_identity :: "machine_row \<Rightarrow> int \<times> string \<times> string \<times> int" where
  "machine_identity m = (m_id m, m_agent_token m, m_host_id m, m_created_at m)"

definition invoice_terms :: "invoice_row \<Rightarrow> string \<times> string \<times> int \<times> string" where
  "invoice_terms i = (i_payment_hash i, i_account_id i, i_sats i, i_bolt11 i)"

definition command_terms :: "command_row \<Rightarrow> int \<times> int \<times> json" where
  "command_terms c = (c_id c, c_machine_id c, c_payload c)"

definition delivered_ids :: "db \<Rightarrow> int set" where
  "delivered_ids d = c_id ` {c \<in> set (db_commands d). c_delivered c}"

definition settled_hashes :: "db \<Rightarrow> string set" where
  "settled_hashes d = i_payment_hash ` {i \<in> set (db_invoices d). i_settled i}"

definition history :: "db \<Rightarrow> db \<Rightarrow> bool" where
  "history d d' \<longleftrightarrow> prefix (db_ledger d) (db_ledger d') \<and>
     prefix (map rental_terms (db_rentals d)) (map rental_terms (db_rentals d')) \<and>
     prefix (map machine_identity (db_machines d)) (map machine_identity (db_machines d')) \<and>
     prefix (map a_id (db_accounts d)) (map a_id (db_accounts d')) \<and>
     prefix (map invoice_terms (db_invoices d)) (map invoice_terms (db_invoices d')) \<and>
     prefix (map command_terms (db_commands d)) (map command_terms (db_commands d')) \<and>
     delivered_ids d \<subseteq> delivered_ids d' \<and> settled_hashes d \<subseteq> settled_hashes d'"

lemma history_refl [simp]: "history d d"
  by (simp add: history_def)

lemma history_trans [trans]: "history d1 d2 \<Longrightarrow> history d2 d3 \<Longrightarrow> history d1 d3"
  unfolding history_def by (meson prefix_order.trans subset_trans)

section \<open>Statements\<close>

named_theorems audit_intros \<open>statements move along the history\<close>

lemma history_update_machines [audit_intros]:
  assumes "\<And>m. machine_identity (f m) = machine_identity m"
  shows "history d (update_machines p f d)"
  using assms by (simp add: history_def update_machines_def map_sql_update_frame delivered_ids_def settled_hashes_def)

lemma history_update_rentals [audit_intros]:
  assumes "\<And>r. rental_terms (f r) = rental_terms r"
  shows "history d (update_rentals p f d)"
  using assms by (simp add: history_def update_rentals_def map_sql_update_frame delivered_ids_def settled_hashes_def)

lemma history_settle [audit_intros]: "history d (update_invoices p (\<lambda>i. i\<lparr>i_settled := True\<rparr>) d)"
  using sql_update_marked_mono [of i_payment_hash "\<lambda>i. i\<lparr>i_settled := True\<rparr>" i_settled]
  by (simp add: history_def update_invoices_def map_sql_update_frame invoice_terms_def delivered_ids_def
      settled_hashes_def)

lemma history_deliver [audit_intros]: "history d (update_commands p (\<lambda>x. x\<lparr>c_delivered := True\<rparr>) d)"
  using sql_update_marked_mono [of c_id "\<lambda>x. x\<lparr>c_delivered := True\<rparr>" c_delivered]
  by (simp add: history_def update_commands_def map_sql_update_frame command_terms_def delivered_ids_def
      settled_hashes_def)

lemma history_record [audit_intros]: "history d (db_record ts k x a m r n d)"
  by (simp add: history_def db_record_def delivered_ids_def settled_hashes_def)

lemma history_record_charge [audit_intros]: "history d (record_charge ts a m r x d)"
  unfolding record_charge_def by (rule history_trans) (rule history_record)+

lemma history_add_balance [audit_intros]: "add_balance k x d = Inr d' \<Longrightarrow> history d d'"
  by (auto simp: add_balance_def history_def map_sql_update_frame delivered_ids_def settled_hashes_def
      split: if_splits)

lemma history_insert [audit_intros]:
  "insert_account a d = Inr d' \<Longrightarrow> history d d'"
  "insert_machine m d = Inr (k, d') \<Longrightarrow> history d d'"
  "insert_rental r d = Inr (k, d') \<Longrightarrow> history d d'"
  "insert_invoice i d = Inr d' \<Longrightarrow> history d d'"
  "insert_command c p t d = Inr d' \<Longrightarrow> history d d'"
  by (auto simp: insert_account_def insert_machine_def insert_rental_def insert_invoice_def
      insert_command_def Let_def history_def delivered_ids_def settled_hashes_def split: if_splits)

lemma history_mark_delivered [audit_intros]: "history d (mark_delivered cs d)"
  by (induction cs d rule: mark_delivered.induct) (auto intro: history_trans history_deliver)

section \<open>Handlers and ticker\<close>

locale audited_step =
  fixes step :: "db \<Rightarrow> db"
  assumes audit: "history d (step d)"
begin

lemma ledger_append_only: "prefix (db_ledger d) (db_ledger (step d))"
  using audit [of d] by (simp add: history_def)

end

text \<open>A step of the server keeps the money invariant and moves along the history.\<close>

locale server_step = money_step + audited_step

lemma history_in_transaction:
  "(\<And>x d'. body d = Inr (x, d') \<Longrightarrow> history d d') \<Longrightarrow> history d (snd (in_transaction body d))"
  by (rule in_transaction_inv) auto

lemma history_command_after_update:
  assumes "insert_command c j t (update_rentals p f d) = Inr d'" "\<And>r. rental_terms (f r) = rental_terms r"
  shows "history d d'"
  using history_update_rentals [OF assms(2)] history_insert(5) [OF assms(1)] by (rule history_trans)

lemma history_charge_rental:
  assumes "charge_rental machine rental x now d = Inr d'"
  shows "history d d'"
proof (cases "0 < x")
  case True
  with assms obtain d1 where d1: "add_balance (r_account_id rental) (- x) d = Inr d1"
    and d': "d' = record_charge now (r_account_id rental) (m_id machine) (r_id rental) x
        (update_machines (\<lambda>m. m_id m = m_id machine) (\<lambda>m. m\<lparr>m_payout_balance := m_payout_balance m + x\<rparr>) d1)"
    by (auto simp: charge_rental_def split: sum.splits)
  have "history d1 (update_machines (\<lambda>m. m_id m = m_id machine)
      (\<lambda>m. m\<lparr>m_payout_balance := m_payout_balance m + x\<rparr>) d1)"
    by (rule history_update_machines) (simp add: machine_identity_def)
  with history_add_balance [OF d1] show ?thesis
    unfolding d' by (blast intro: history_trans history_record_charge)
qed (use assms in \<open>simp add: charge_rental_def\<close>)

lemma history_settle_rental:
  assumes "settle_rental machine rental now d = Inr d'"
  shows "history d d'"
proof -
  obtain x c k d1 where d1: "charge_rental machine rental x now d = Inr d1"
    and d': "d' = update_rentals (\<lambda>r. r_id r = r_id rental) (\<lambda>r. r\<lparr>r_sats_charged := c, r_minutes_billed := k\<rparr>) d1"
    using assms by (auto simp: settle_rental_def Let_def split: option.splits sum.splits)
  have "history d1 d'" unfolding d' by (rule history_update_rentals) (simp add: rental_terms_def)
  with history_charge_rental [OF d1] show ?thesis by (rule history_trans)
qed

lemma history_report_body:
  assumes "report_body machine rental req now d = Inr (u, d')"
  shows "history d d'"
proof -
  let ?d1 = "update_rentals (\<lambda>r. r_id r = rp_rental_id req)
      (apply_report req (m_public_ip machine) (if is_terminal (rp_status req) then Some now else None)) d"
  have "history d ?d1" by (rule history_update_rentals) (simp add: rental_terms_def apply_report_def)
  moreover have "d' = ?d1 \<or> settle_rental machine rental now ?d1 = Inr d'"
    using assms by (auto simp: report_body_def Let_def split: if_splits sum.splits)
  ultimately show ?thesis using history_settle_rental history_trans by blast
qed

lemma history_report_commit: "history d (snd (report_commit machine rental req now d))"
  unfolding report_commit_def by (rule history_in_transaction) (rule history_report_body)

lemma history_payout_commit: "history d (snd (payout_commit machine now d))"
  unfolding payout_commit_eq snd_conv
  by (rule history_trans [OF history_update_machines history_record]) (simp add: machine_identity_def)

lemma history_delete_commit: "history d (snd (delete_rental_commit r now d))"
proof (cases "delete_rental_commit r now d")
  case (Pair res d')
  show ?thesis
  proof (cases res)
    case (Inl e)
    with Pair delete_rental_handler.err_unchanged [of r now d e d'] show ?thesis by simp
  next
    case (Inr x)
    with Pair have "delete_rental_commit r now d = (Inr x, d')" by simp
    then have "history d d'"
      by (rule delete_rental_commit_InrE) (erule history_command_after_update, simp add: rental_terms_def)
    with Pair show ?thesis by simp
  qed
qed

lemma history_evict: "history d (snd (in_transaction (evict_body r now) d))"
proof (cases "in_transaction (evict_body r now) d")
  case (Pair res d')
  show ?thesis
  proof (cases res)
    case (Inl e)
    with Pair in_transaction_Inl [of "evict_body r now" d e d'] show ?thesis by simp
  next
    case (Inr u)
    with Pair have "in_transaction (evict_body r now) d = (Inr u, d')" by simp
    then have "history d d'"
      by (rule evict_InrE)
        (simp, rule history_trans [OF _ history_record], erule history_command_after_update,
          simp add: rental_terms_def)
    with Pair show ?thesis by simp
  qed
qed

lemma history_settle_invoice: "history d (snd (settle_invoice iv now d))"
  by (cases rule: settle_invoice_cases [of iv now d])
    (auto intro: history_trans [OF _ history_record] history_trans [OF history_settle history_add_balance])

lemma history_poll_loop: "history d (snd (poll_loop B clk lns ivs d))"
proof (induction ivs arbitrary: d)
  case (Cons iv ivs)
  then show ?case
    using history_settle_invoice [of d iv "clk (length ivs)"]
    by (auto split: sum.splits prod.splits intro: history_trans)
qed simp

interpretation report_step: server_step "\<lambda>d. snd (report auth req now d)" for auth req now
  by unfold_locales (auto simp: report_def split: sum.splits intro: history_report_commit)

interpretation payout_step: server_step "\<lambda>d. snd (payout_db B auth bolt11 now lns d)"
  for B auth bolt11 now lns
proof
  fix d
  show "history d (snd (payout_db B auth bolt11 now lns d))"
    by (cases rule: payout_db_cases [of B auth bolt11 now lns d]) (auto intro: history_payout_commit)
qed

interpretation delete_step: server_step "\<lambda>d. snd (delete_rental ident now d)" for ident now
  by unfold_locales (auto simp: delete_rental_def split: sum.splits intro: history_delete_commit)

end
