(* ===== verification/Control_Plane.thy ===== *)
theory Control_Plane
  imports History
begin

text \<open>
  The server as a whole: \<open>handle\<close> is the router of \<^verbatim>\<open>lib.rs\<close>, one
  constructor of \<open>request\<close> per route, with the shared state threaded through;
  \<open>cp_step\<close> is what can happen to a server (a request, a tick, the passing of time, anything
  the Lightning side does, the process ending and being started again on its database). Requests are taken one at a time here; the split
  handlers are interleaved in \<open>Concurrency\<close>.
\<close>

section \<open>The router\<close>

datatype request =
    GetHealth
  | GetOffers offers_query
  | PostAccounts
  | GetAccount string
  | PostDeposit string int
  | PostRentals create_rental_request
  | GetRental int
  | DeleteRental int
  | PostRegister register_request
  | PostHeartbeat "string option" bool
  | PostReport "string option" report_request
  | PostRate "string option" int
  | PostPayout "string option" string

datatype response =
    HealthOk health_response
  | OffersOk "offer list"
  | AccountCreated "api_error + string"
  | AccountIs "api_error + account_response"
  | DepositIs "api_error + deposit_response"
  | RentalCreated "api_error + create_rental_response"
  | RentalIs "api_error + rental_response"
  | RentalDeleted "api_error + (int \<times> string)"
  | Registered "api_error + register_response"
  | Commands "api_error + command list"
  | Reported "api_error + unit"
  | Rated "api_error + unit"
  | PaidOut "api_error + int"

text \<open>
  What a handler gets from outside the state: the time its clock shows, the nanoseconds
  \<open>mix\<close> reads, SQLite's double rounding and the order its table scan visits.
\<close>

record outside =
  ev_now :: int
  ev_nanos :: "64 word"
  ev_fl :: "real \<Rightarrow> real"
  ev_scan :: "machine_row list \<Rightarrow> machine_row list"

definition put_db :: "'ln app_state \<Rightarrow> 'r \<times> db \<Rightarrow> 'r \<times> 'ln app_state" where
  "put_db st p = (fst p, st\<lparr>st_db := snd p\<rparr>)"

definition put_ln_db :: "'ln app_state \<Rightarrow> 'r \<times> 'ln \<times> db \<Rightarrow> 'r \<times> 'ln app_state" where
  "put_ln_db st p = (fst p, st\<lparr>st_ln_state := fst (snd p), st_db := snd (snd p)\<rparr>)"

definition next_mix :: "'ln app_state \<Rightarrow> 'ln app_state" where
  "next_mix st = st\<lparr>st_mix_counter := st_mix_counter st + 1\<rparr>"

definition handle_register :: "outside \<Rightarrow> register_request \<Rightarrow> 'ln app_state \<Rightarrow>
    (api_error + register_response) \<times> 'ln app_state" where
  "handle_register ev req st =
     (if sql_find (\<lambda>m. m_host_id m = rq_host_id req) (db_machines (st_db st)) = None
      then put_db (next_mix st)
             (register (new_agent_token (ev_nanos ev) (st_mix_counter st)) req (ev_now ev) (st_db st))
      else put_db st (register [] req (ev_now ev) (st_db st)))"

fun handle :: "outside \<Rightarrow> request \<Rightarrow> 'ln app_state \<Rightarrow> response \<times> 'ln app_state" where
  "handle ev GetHealth st = (HealthOk (health st), st)"
| "handle ev (GetOffers q) st = (OffersOk (offers (ev_fl ev) (ev_scan ev) q (st_db st)), st)"
| "handle ev PostAccounts st =
     map_prod AccountCreated (\<lambda>s. s) (put_db (next_mix st)
       (create_account (new_account_id (ev_nanos ev) (st_mix_counter st)) (ev_now ev) (st_db st)))"
| "handle ev (GetAccount k) st = (AccountIs (get_account k (st_db st)), st)"
| "handle ev (PostDeposit k x) st =
     map_prod DepositIs (\<lambda>s. s)
       (put_ln_db st (deposit (st_ln st) k x (ev_now ev) (st_ln_state st) (st_db st)))"
| "handle ev (PostRentals req) st =
     map_prod RentalCreated (\<lambda>s. s) (put_db st (create_rental req (ev_now ev) (st_db st)))"
| "handle ev (GetRental k) st = (RentalIs (get_rental k (st_db st)), st)"
| "handle ev (DeleteRental k) st =
     map_prod RentalDeleted (\<lambda>s. s) (put_db st (delete_rental k (ev_now ev) (st_db st)))"
| "handle ev (PostRegister req) st = map_prod Registered (\<lambda>s. s) (handle_register ev req st)"
| "handle ev (PostHeartbeat auth online) st =
     map_prod Commands (\<lambda>s. s) (put_db st (heartbeat auth online (ev_now ev) (st_db st)))"
| "handle ev (PostReport auth req) st =
     map_prod Reported (\<lambda>s. s) (put_db st (report auth req (ev_now ev) (st_db st)))"
| "handle ev (PostRate auth x) st =
     map_prod Rated (\<lambda>s. s) (put_db st (rate auth x (st_db st)))"
| "handle ev (PostPayout auth bolt11) st =
     map_prod PaidOut (\<lambda>s. s)
       (put_ln_db st (payout (st_ln st) auth bolt11 (ev_now ev) (st_ln_state st) (st_db st)))"

section \<open>The running server\<close>

definition server_init :: "'ln lightning_backend \<Rightarrow> 'ln \<Rightarrow> clock \<Rightarrow> string \<Rightarrow> 'ln app_state" where
  "server_init B lns clk name = \<lparr>st_db = db_empty, st_ln = B, st_ln_state = lns,
     st_billing = billing_default, st_clock = clk, st_ln_backend_name = name, st_mix_counter = 0\<rparr>"

inductive cp_step :: "'ln app_state \<Rightarrow> 'ln app_state \<Rightarrow> bool" where
  request: "clock_now t (st_clock st) = Some (ev_now ev) \<Longrightarrow> handle ev req st = (resp, st') \<Longrightarrow> cp_step st st'"
| ticker: "tick (st_ln st) (st_billing st) tk (st_ln_state st) (st_db st) = (res, d') \<Longrightarrow>
    cp_step st (st\<lparr>st_db := d'\<rparr>)"
| lightning: "cp_step st (st\<lparr>st_ln_state := lns'\<rparr>)"
| time: "cp_step st (st\<lparr>st_clock := clock_advance secs (st_clock st)\<rparr>)"
| restart: "cp_step st (st\<lparr>st_ln_state := lns', st_mix_counter := 0\<rparr>)"

inductive cp_reachable :: "'ln app_state \<Rightarrow> bool" where
  start: "cp_reachable (server_init B lns clk name)"
| step: "cp_reachable st \<Longrightarrow> cp_step st st' \<Longrightarrow> cp_reachable st'"

section \<open>Every transition is a server step\<close>

interpretation create_account_step: server_step "\<lambda>d. snd (create_account ident now d)" for ident now
  by unfold_locales (auto simp: create_account_def split: sum.splits intro: history_insert)

interpretation deposit_step: server_step "\<lambda>d. snd (deposit_db B ident x now lns d)" for B ident x now lns
proof
  fix d
  obtain res lns' d' where dep: "deposit B ident x now lns d = (res, lns', d')"
    by (cases "deposit B ident x now lns d") auto
  then have "snd (deposit_db B ident x now lns d) = d'" by (simp add: deposit_db_def)
  with dep show "history d (snd (deposit_db B ident x now lns d))"
    by (cases rule: deposit_cases) (auto intro: history_insert)
qed

interpretation create_rental_step: server_step "\<lambda>d. snd (create_rental req now d)" for req now
proof
  fix d
  show "history d (snd (create_rental req now d))"
    unfolding create_rental_def
  proof (rule history_in_transaction)
    fix x d' assume "create_rental_body req now d = Inr (x, d')"
    then have "create_rental req now d = (Inr x, d')" by (simp add: create_rental_def in_transaction_def)
    then show "history d d'" by (rule create_rental_InrE) (blast intro: history_trans history_insert)
  qed
qed

interpretation register_step: server_step "\<lambda>d. snd (register token req now d)" for token req now
proof
  fix d
  show "history d (snd (register token req now d))"
    by (cases rule: register_cases [of req d token now])
      (auto simp: apply_registration_def machine_identity_def intro!: history_update_machines
        dest: history_insert(2))
qed

interpretation heartbeat_step: server_step "\<lambda>d. snd (heartbeat auth online now d)" for auth online now
proof
  fix d
  have "history d (snd (in_transaction (heartbeat_body machine online now) d))" for machine
  proof (rule history_in_transaction)
    fix x d' assume "heartbeat_body machine online now d = Inr (x, d')"
    then obtain cs where d': "d' = mark_delivered cs (update_machines (\<lambda>m. m_id m = m_id machine)
        (\<lambda>m. m\<lparr>m_last_heartbeat := now, m_online := online\<rparr>) d)"
      by (auto simp: heartbeat_body_def Let_def split: sum.splits)
    show "history d d'" unfolding d'
      by (rule history_trans [OF history_update_machines history_mark_delivered])
        (simp add: machine_identity_def)
  qed
  then show "history d (snd (heartbeat auth online now d))"
    by (auto simp: heartbeat_def split: sum.splits)
qed

interpretation rate_step: server_step "\<lambda>d. snd (rate auth x d)" for auth x
  by unfold_locales (auto simp: rate_def machine_identity_def split: sum.splits intro!: history_update_machines)

interpretation offline_audit: server_step "mark_offline cfg now" for cfg now
  by unfold_locales (auto simp: mark_offline_def Let_def machine_identity_def intro!: history_update_machines)

interpretation enforce_audit: server_step "\<lambda>d. snd (enforce_budgets cfg clk d)" for cfg clk
proof
  fix d
  show "history d (snd (enforce_budgets cfg clk d))"
    unfolding enforce_budgets_def
  proof (rule enforce_loop_invariant [of "history d"])
    fix r k d1 d2
    assume "history d d1" "in_transaction (evict_body r (clk k)) d1 = (Inr (), d2)"
    then show "history d d2" using history_evict [of d1 r "clk k"] history_trans by fastforce
  qed simp
qed

interpretation tick_step: server_step "\<lambda>d. snd (tick B cfg tk lns d)" for B cfg tk lns
proof
  fix d
  obtain res d1 where p: "poll_invoices B (tk_poll tk) lns d = (res, d1)"
    by (cases "poll_invoices B (tk_poll tk) lns d")
  have tk: "snd (tick B cfg tk lns d) = (case res of Inl _ \<Rightarrow> d1
      | Inr _ \<Rightarrow> snd (enforce_budgets cfg (tk_enforce tk) (mark_offline cfg (tk_offline tk) d1)))"
    by (simp add: tick_def p split: sum.splits)
  have h1: "history d d1"
    using history_poll_loop [of d B "tk_poll tk" lns "filter (\<lambda>i. \<not> i_settled i) (db_invoices d)"] p
    by (simp add: poll_invoices_def)
  then show "history d (snd (tick B cfg tk lns d))"
    using offline_audit.audit [of d1 cfg "tk_offline tk"]
      enforce_audit.audit [of "mark_offline cfg (tk_offline tk) d1" cfg "tk_enforce tk"]
    by (auto simp: tk split: sum.splits intro: history_trans)
  have mono1: "invoice_total d1 = invoice_total d"
    using poll_loop_invoiced [of B "tk_poll tk" lns "filter (\<lambda>i. \<not> i_settled i) (db_invoices d)" d] p
    by (simp add: poll_invoices_def invoice_total_def)
  have offline: "deposits_fit (mark_offline cfg (tk_offline tk) d1) = deposits_fit d1"
    by (simp add: deposits_fit_def invoice_total_def mark_offline_def Let_def frame_simps)
  show "money_inv (snd (tick B cfg tk lns d))" if inv: "money_inv d" "deposits_fit d"
  proof -
    have d1: "money_inv d1" "deposits_fit d1"
      using poll_money_step [OF inv(1), of B "tk_poll tk" lns] p mono1 inv(2)
      by (simp_all add: deposits_fit_def)
    then have "money_inv (snd (enforce_budgets cfg (tk_enforce tk) (mark_offline cfg (tk_offline tk) d1)))"
      by (intro enforce_step.keeps_money offline_step.keeps_money) (simp_all add: offline)
    with d1 show ?thesis by (simp add: tk split: sum.splits)
  qed
  show "invoice_total d \<le> invoice_total (snd (tick B cfg tk lns d))"
    using mono1 offline_step.invoiced_mono [of d1 cfg "tk_offline tk"]
      enforce_step.invoiced_mono [of "mark_offline cfg (tk_offline tk) d1" cfg "tk_enforce tk"]
    by (auto simp: tk split: sum.splits)
qed

section \<open>The server's invariant\<close>

definition money_guard :: "'ln app_state \<Rightarrow> bool" where
  "money_guard st \<longleftrightarrow> (deposits_fit (st_db st) \<longrightarrow> money_inv (st_db st))"

text \<open>A transition of the state is a server step of its database, or leaves it alone.\<close>

lemma handle_db_cases:
  obtains f where "server_step f" "st_db (snd (handle ev req st)) = f (st_db st)"
proof -
  have idle: "server_step (\<lambda>d. d)" by unfold_locales simp_all
  show thesis
  proof (cases req)
    case PostAccounts
    then show ?thesis
      by (intro that [OF create_account_step.server_step_axioms]) (simp add: put_db_def next_mix_def)
  next
    case (PostDeposit k x)
    then show ?thesis
      by (intro that [OF deposit_step.server_step_axioms [of "st_ln st" k x "ev_now ev" "st_ln_state st"]])
        (simp add: put_ln_db_def deposit_db_def split: prod.splits)
  next
    case (PostRentals r)
    then show ?thesis
      by (intro that [OF create_rental_step.server_step_axioms]) (simp add: put_db_def)
  next
    case (DeleteRental k)
    then show ?thesis
      by (intro that [OF delete_step.server_step_axioms]) (simp add: put_db_def)
  next
    case (PostRegister r)
    then show ?thesis
      by (cases "sql_find (\<lambda>m. m_host_id m = rq_host_id r) (db_machines (st_db st))")
        (simp_all add: handle_register_def put_db_def next_mix_def that [OF register_step.server_step_axioms])
  next
    case (PostHeartbeat auth online)
    then show ?thesis
      by (intro that [OF heartbeat_step.server_step_axioms]) (simp add: put_db_def)
  next
    case (PostReport auth r)
    then show ?thesis
      by (intro that [OF report_step.server_step_axioms]) (simp add: put_db_def)
  next
    case (PostRate auth x)
    then show ?thesis
      by (intro that [OF rate_step.server_step_axioms]) (simp add: put_db_def)
  next
    case (PostPayout auth b)
    then show ?thesis
      by (intro that [OF payout_step.server_step_axioms
            [of "st_ln st" auth b "ev_now ev" "st_ln_state st"]])
        (simp add: put_ln_db_def payout_db_def split: prod.splits)
  qed (use that [OF idle] in simp_all)
qed

lemma cp_step_db:
  assumes "cp_step st st'"
  obtains f where "server_step f" "st_db st' = f (st_db st)"
  using assms
proof cases
  case (request t ev req resp)
  then show ?thesis using handle_db_cases [of ev req st] that by (metis snd_conv)
next
  case (ticker tk res d')
  then show ?thesis
    by (intro that [OF tick_step.server_step_axioms [of "st_ln st" "st_billing st" tk "st_ln_state st"]]) simp
next
  case (lightning lns')
  have "server_step (\<lambda>d. d)" by unfold_locales simp_all
  then show ?thesis by (rule that) (simp add: lightning)
next
  case (time secs)
  have "server_step (\<lambda>d. d)" by unfold_locales simp_all
  then show ?thesis by (rule that) (simp add: time)
next
  case (restart lns')
  have "server_step (\<lambda>d. d)" by unfold_locales simp_all
  then show ?thesis by (rule that) (simp add: restart)
qed

interpretation server: transition_system "\<lambda>st. \<exists>B lns clk name. st = server_init B lns clk name" cp_step money_guard
proof
  fix st :: "'a app_state"
  assume "\<exists>B lns clk name. st = server_init B lns clk name"
  then show "money_guard st" by (auto simp: server_init_def money_guard_def money_inv_empty)
next
  fix st st' :: "'a app_state"
  assume guard: "money_guard st" and step: "cp_step st st'"
  from step obtain f where "server_step f" "st_db st' = f (st_db st)" by (rule cp_step_db)
  with guard show "money_guard st'"
    unfolding money_guard_def using money_step.keeps_guard [of f "st_db st"] server_step.axioms(1) by metis
qed

lemma cp_reachable_run:
  "cp_reachable st \<Longrightarrow> \<exists>s0. (\<exists>B lns clk name. s0 = server_init B lns clk name) \<and> cp_step\<^sup>*\<^sup>* s0 st"
  by (induction rule: cp_reachable.induct) (blast intro: rtranclp.rtrancl_into_rtrancl)+

lemma reachable_money: "cp_reachable st \<Longrightarrow> deposits_fit (st_db st) \<Longrightarrow> money_inv (st_db st)"
  using cp_reachable_run server.reachable_inv unfolding money_guard_def by metis

lemma cp_step_history: "cp_step st st' \<Longrightarrow> history (st_db st) (st_db st')"
  using audited_step.audit server_step.axioms(2) by (metis cp_step_db)

lemma run_history: "cp_step\<^sup>*\<^sup>* st st' \<Longrightarrow> history (st_db st) (st_db st')"
  by (induction rule: rtranclp_induct) (auto intro: history_trans cp_step_history)

end
