(* ===== verification/Bank_Refinement.thy ===== *)
theory Bank_Refinement
  imports Control_Plane
begin

text \<open>
  The server implements the bank of \<open>Accounting\<close>: seen through \<open>bank_of\<close>, every
  handler does nothing or one transfer of the bank, and a tick does a sequence of deposits.
  The bank never lets an account pay more than it holds.
\<close>

inductive bank_step :: "bank \<Rightarrow> bank \<Rightarrow> bool" where
  deposit: "1 \<le> x \<Longrightarrow> bank_step b (bank_deposit a x b)"
| charge: "0 < x \<Longrightarrow> x \<le> bk_balance b a \<Longrightarrow> bank_step b (bank_charge a m x b)"
| payout: "0 < bk_owed b m \<Longrightarrow> bank_step b (bank_payout m b)"

section \<open>Statements\<close>

lemma bank_of_update_machines [frame_simps]:
  assumes "\<And>m. m_id (f m) = m_id m" "\<And>m. m_payout_balance (f m) = m_payout_balance m"
  shows "bank_of (update_machines p f d) = bank_of d"
  using assms by (simp add: bank_of_def frame_simps machine_owed_update_other)

lemma bank_of_same_tables:
  "db_machines d' = db_machines d \<Longrightarrow> db_accounts d' = db_accounts d \<Longrightarrow> bank_of d' = bank_of d"
  by (simp add: bank_of_def fun_eq_iff account_balance_def machine_owed_def find_account_def find_machine_def)

lemma bank_of_update_others [frame_simps]:
  "bank_of (update_invoices p f d) = bank_of d"
  "bank_of (update_commands q g d) = bank_of d"
  "bank_of (mark_delivered cs d) = bank_of d"
  by (rule bank_of_same_tables; simp add: update_invoices_def update_commands_def frame_simps)+

lemma bank_of_insert:
  "insert_rental r d = Inr (k, d') \<Longrightarrow> bank_of d' = bank_of d"
  "insert_command c j t d = Inr d' \<Longrightarrow> bank_of d' = bank_of d"
  "insert_invoice i d = Inr d' \<Longrightarrow> bank_of d' = bank_of d"
  by (rule bank_of_same_tables;
      auto simp: insert_rental_def insert_command_def insert_invoice_def Let_def split: if_splits)+

lemma bank_of_insert_owner:
  "insert_account a d = Inr d' \<Longrightarrow> a_balance_sats a = 0 \<Longrightarrow> bank_of d' = bank_of d"
  "insert_machine m d = Inr (k, d') \<Longrightarrow> m_payout_balance m = 0 \<Longrightarrow> bank_of d' = bank_of d"
  by (auto simp: insert_account_def insert_machine_def Let_def bank_of_def fun_eq_iff account_balance_def
      machine_owed_def find_account_def find_machine_def sql_find_append split: if_splits option.splits)

lemma bank_of_record_charge [frame_simps]: "bank_of (record_charge ts a m r x d) = bank_of d"
  by (simp add: record_charge_def frame_simps)

section \<open>Handlers\<close>

lemma bank_in_transaction:
  "(\<And>x d'. body d = Inr (x, d') \<Longrightarrow> bank_of d' = bank_of d) \<Longrightarrow>
   bank_of (snd (in_transaction body d)) = bank_of d"
  by (rule in_transaction_inv [of "\<lambda>d'. bank_of d' = bank_of d"]) simp_all

lemma bank_create_account: "bank_of (snd (create_account ident now d)) = bank_of d"
  by (auto simp: create_account_def dest: bank_of_insert_owner split: sum.splits)

lemma bank_deposit_invoice: "bank_of (snd (deposit_db B ident x now lns d)) = bank_of d"
proof -
  obtain res lns' d' where dep: "deposit B ident x now lns d = (res, lns', d')"
    by (cases "deposit B ident x now lns d") auto
  then show ?thesis by (cases rule: deposit_cases) (auto simp: deposit_db_def dep bank_of_insert(3))
qed

lemma bank_create_rental: "bank_of (snd (create_rental req now d)) = bank_of d"
proof (cases "create_rental req now d")
  case (Pair res d')
  show ?thesis
  proof (cases res)
    case (Inl e)
    with Pair create_rental_handler.err_unchanged [of req now d e d'] show ?thesis by simp
  next
    case (Inr x)
    with Pair have "create_rental req now d = (Inr x, d')" by simp
    then have "bank_of d' = bank_of d" by (rule create_rental_InrE) (simp add: bank_of_insert)
    with Pair show ?thesis by simp
  qed
qed

lemma bank_delete_commit: "bank_of (snd (delete_rental_commit r now d)) = bank_of d"
proof (cases "delete_rental_commit r now d")
  case (Pair res d')
  show ?thesis
  proof (cases res)
    case (Inl e)
    with Pair delete_rental_handler.err_unchanged [of r now d e d'] show ?thesis by simp
  next
    case (Inr x)
    with Pair have "delete_rental_commit r now d = (Inr x, d')" by simp
    then have "bank_of d' = bank_of d"
      by (rule delete_rental_commit_InrE) (simp add: bank_of_insert frame_simps)
    with Pair show ?thesis by simp
  qed
qed

lemma bank_delete_rental: "bank_of (snd (delete_rental ident now d)) = bank_of d"
  by (simp add: delete_rental_def bank_delete_commit split: sum.splits)

lemma bank_register: "bank_of (snd (register token req now d)) = bank_of d"
  by (cases rule: register_cases [of req d token now])
    (auto simp: frame_simps apply_registration_def new_machine_row_def dest: bank_of_insert_owner(2))

lemma bank_heartbeat: "bank_of (snd (heartbeat auth online now d)) = bank_of d"
proof -
  have "bank_of (snd (in_transaction (heartbeat_body machine online now) d)) = bank_of d" for machine
    by (rule bank_in_transaction) (auto simp: heartbeat_body_def Let_def frame_simps split: sum.splits)
  then show ?thesis by (simp add: heartbeat_def split: sum.splits)
qed

lemma bank_rate: "bank_of (snd (rate auth x d)) = bank_of d"
  by (simp add: rate_def frame_simps split: sum.splits)

lemma bank_charge_rental:
  assumes "charge_rental machine rental x now d = Inr d'" "r_account_id rental \<in> account_ids d"
    and "m_id machine \<in> machine_ids d"
  shows "bank_of d' = (if 0 < x then bank_charge (r_account_id rental) (m_id machine) x (bank_of d) else bank_of d)"
proof (cases "0 < x")
  case True
  with assms(1) obtain d1 where d1: "add_balance (r_account_id rental) (- x) d = Inr d1"
    and d': "d' = record_charge now (r_account_id rental) (m_id machine) (r_id rental) x
        (update_machines (\<lambda>m. m_id m = m_id machine) (\<lambda>m. m\<lparr>m_payout_balance := m_payout_balance m + x\<rparr>) d1)"
    by (auto simp: charge_rental_def split: sum.splits)
  note eff = add_balance_effect [OF d1 assms(2)]
  have "m_id machine \<in> machine_ids d1" using assms(3) by (simp add: eff)
  then have "machine_owed (update_machines (\<lambda>m. m_id m = m_id machine)
      (\<lambda>m. m\<lparr>m_payout_balance := m_payout_balance m + x\<rparr>) d1) =
      (machine_owed d)(m_id machine := machine_owed d (m_id machine) + x)"
    using machine_owed_update_key [of "m_id machine" d1 _ "\<lambda>v. v + x"] by (simp add: eff)
  with True show ?thesis
    unfolding d' by (simp add: frame_simps) (simp add: bank_of_def bank_charge_def frame_simps eff)
qed (use assms(1) in \<open>simp add: charge_rental_def\<close>)

text \<open>The charge a settlement applies.\<close>

definition stop_charge :: "rental_row \<Rightarrow> int \<Rightarrow> db \<Rightarrow> int" where
  "stop_charge rental now d =
     min (accrued_charge (r_created_at rental) now (r_rate_sats_per_min rental))
       (account_balance d (r_account_id rental))"

lemma settle_rental_bank:
  assumes "settle_rental machine rental now d = Inr d'" "m_id machine \<in> machine_ids d"
  shows "bank_of d' = (if 0 < stop_charge rental now d
    then bank_charge (r_account_id rental) (m_id machine) (stop_charge rental now d) (bank_of d)
    else bank_of d)"
proof -
  obtain acct where acct: "find_account d (r_account_id rental) = Some acct"
    using assms(1) by (auto simp: settle_rental_def split: option.splits)
  then have ch: "min (accrued_charge (r_created_at rental) now (r_rate_sats_per_min rental))
      (a_balance_sats acct) = stop_charge rental now d"
    by (simp add: stop_charge_def account_balance_def)
  obtain d1 where d1: "charge_rental machine rental (stop_charge rental now d) now d = Inr d1"
    and same: "bank_of d' = bank_of d1"
    using assms(1) acct ch by (auto simp: settle_rental_def Let_def frame_simps split: sum.splits)
  have "r_account_id rental \<in> account_ids d" using find_account_SomeD [OF acct] by force
  then show ?thesis unfolding same by (rule bank_charge_rental [OF d1 _ assms(2)])
qed

lemma report_body_bank:
  assumes "report_body machine rental req now d = Inr (u, d')" "m_id machine \<in> machine_ids d"
  shows "bank_of d' = (if is_terminal (rp_status req) \<and> \<not> is_terminal (r_status rental) \<and> 0 < stop_charge rental now d
    then bank_charge (r_account_id rental) (m_id machine) (stop_charge rental now d) (bank_of d)
    else bank_of d)"
proof -
  let ?d1 = "update_rentals (\<lambda>r. r_id r = rp_rental_id req)
      (apply_report req (m_public_ip machine) (if is_terminal (rp_status req) then Some now else None)) d"
  have d1: "bank_of ?d1 = bank_of d" "m_id machine \<in> machine_ids ?d1" "stop_charge rental now ?d1 = stop_charge rental now d"
    using assms(2) by (simp_all add: frame_simps stop_charge_def)
  show ?thesis
    using assms(1) settle_rental_bank [OF _ d1(2), of rental now d'] unfolding d1
    by (auto simp: report_body_def Let_def frame_simps split: if_splits sum.splits)
qed

lemma bank_report: "bank_step\<^sup>=\<^sup>= (bank_of d) (bank_of (snd (report auth req now d)))"
proof (cases "report auth req now d")
  case (Pair res d')
  show ?thesis
  proof (cases res)
    case (Inl e)
    with Pair report_handler.err_unchanged [of auth req now d e d'] show ?thesis by simp
  next
    case (Inr u)
    with Pair obtain machine rental where rd: "report_read auth req d = Inr (machine, rental)"
      and body: "report_body machine rental req now d = Inr (u, d')"
      by (auto simp: report_def report_commit_def dest: in_transaction_InrD split: sum.splits)
    have "stop_charge rental now d \<le> bk_balance (bank_of d) (r_account_id rental)"
      by (simp add: stop_charge_def bank_of_def)
    then show ?thesis
      using report_body_bank [OF body] report_read_InrD(1) [OF rd] Pair by (auto intro: bank_step.charge)
  qed
qed

lemma payout_commit_bank:
  assumes "machine \<in> set (db_machines d)"
  shows "bank_of (snd (payout_commit machine now d)) = bank_payout (m_id machine) (bank_of d)"
  using machine_owed_update_key [of "m_id machine" d "\<lambda>m. m\<lparr>m_payout_balance := 0\<rparr>" "\<lambda>_. 0"] assms
  by (simp add: payout_commit_eq frame_simps) (simp add: bank_of_def bank_payout_def frame_simps)

lemma bank_payout_db:
  assumes "machines_wf d"
  shows "bank_step\<^sup>=\<^sup>= (bank_of d) (bank_of (snd (payout_db B auth bolt11 now lns d)))"
proof (cases rule: payout_db_cases [of B auth bolt11 now lns d])
  case (ok machine)
  note rd = payout_read_InrD [OF ok(1)]
  have "0 < bk_owed (bank_of d) (m_id machine)"
    using rd(2) machine_owed_in [OF assms rd(1)] by (simp add: bank_of_def)
  then show ?thesis using ok(2) payout_commit_bank [OF rd(1)] by (simp add: bank_step.payout)
qed simp

section \<open>Ticker\<close>

lemma bank_settle_invoice:
  assumes "money_inv d" "iv \<in> set (db_invoices d)"
  shows "bank_step\<^sup>=\<^sup>= (bank_of d) (bank_of (snd (settle_invoice iv now d)))"
proof (cases rule: settle_invoice_cases [of iv now d])
  case (ok d2)
  have "1 \<le> i_sats iv" and acct: "i_account_id iv \<in> account_ids d"
    using assms by (simp_all add: money_inv_def amounts_ok_def wf_defs)
  have acct1: "i_account_id iv \<in> account_ids (update_invoices p f d)" for p f
    using acct by (simp add: update_invoices_def)
  have same: "bank_of (update_invoices p f d) = bank_of d" for p f
    by (simp add: frame_simps)
  have "bank_of d2 = bank_deposit (i_account_id iv) (i_sats iv) (bank_of d)"
    unfolding same [symmetric, of "\<lambda>i. i_payment_hash i = i_payment_hash iv" "\<lambda>i. i\<lparr>i_settled := True\<rparr>"]
    using add_balance_effect(1,2) [OF ok(1) acct1] by (simp add: bank_of_def bank_deposit_def)
  then show ?thesis
    using ok(2) bank_step.deposit [OF \<open>1 \<le> i_sats iv\<close>] by (simp add: frame_simps)
qed simp

lemma bank_poll_loop:
  assumes "still_pending ivs d" "poll_loop B clk lns ivs d = (res, d')"
  shows "money_inv d \<longrightarrow> bank_step\<^sup>*\<^sup>* (bank_of d) (bank_of d')"
  using assms
proof (induction rule: poll_loop_step)
  case (settle iv ivs d d1 res d')
  show ?case
  proof
    assume inv: "money_inv d"
    have iv: "iv \<in> set (db_invoices d)" "\<not> i_settled iv" using settle(1) by (simp_all add: still_pending_def)
    have "bank_step\<^sup>=\<^sup>= (bank_of d) (bank_of d1)"
      using bank_settle_invoice [OF inv iv(1), of "clk (length ivs)"] settle(3) by simp
    moreover have "money_inv d1"
      using settle_invoice_money [OF inv iv, of "clk (length ivs)"] settle(3) by simp
    ultimately show "bank_step\<^sup>*\<^sup>* (bank_of d) (bank_of d')"
      using settle.IH by (auto intro: converse_rtranclp_into_rtranclp)
  qed
qed auto

lemma bank_enforce: "bank_of (snd (enforce_budgets cfg clk d)) = bank_of d"
  unfolding enforce_budgets_def
  by (rule enforce_loop_invariant [of "\<lambda>d'. bank_of d' = bank_of d"])
    (auto dest!: evict_accounts bank_of_same_tables)

lemma bank_mark_offline: "bank_of (mark_offline cfg now d) = bank_of d"
  by (simp add: mark_offline_def Let_def frame_simps)

lemma bank_tick:
  assumes "money_inv d"
  shows "bank_step\<^sup>*\<^sup>* (bank_of d) (bank_of (snd (tick B cfg tk lns d)))"
proof -
  obtain res d1 where p: "poll_invoices B (tk_poll tk) lns d = (res, d1)"
    by (cases "poll_invoices B (tk_poll tk) lns d")
  have "db_wf d" using assms by (simp add: money_inv_def)
  then have "bank_step\<^sup>*\<^sup>* (bank_of d) (bank_of d1)"
    using bank_poll_loop [OF still_pending_start p [unfolded poll_invoices_def]] assms by simp
  then show ?thesis by (simp add: tick_def p bank_enforce bank_mark_offline split: sum.splits)
qed

section \<open>The server\<close>

lemma handle_bank:
  assumes "machines_wf (st_db st)"
  shows "bank_step\<^sup>=\<^sup>= (bank_of (st_db st)) (bank_of (st_db (snd (handle ev req st))))"
proof (cases req)
  case (PostDeposit k x)
  then show ?thesis
    using bank_deposit_invoice [of "st_ln st" k x "ev_now ev" "st_ln_state st" "st_db st"]
    by (simp add: put_ln_db_def deposit_db_def split: prod.splits)
next
  case (PostPayout auth b)
  then show ?thesis
    using bank_payout_db [OF assms, of "st_ln st" auth b "ev_now ev" "st_ln_state st"]
    by (simp add: put_ln_db_def payout_db_def split: prod.splits)
next
  case (PostReport auth r)
  then show ?thesis using bank_report [of "st_db st" auth r "ev_now ev"] by (simp add: put_db_def)
qed (simp_all add: put_db_def next_mix_def handle_register_def bank_create_account bank_create_rental
    bank_delete_rental bank_register bank_heartbeat bank_rate)

lemma cp_step_bank:
  assumes "cp_step st st'" "money_inv (st_db st)"
  shows "bank_step\<^sup>*\<^sup>* (bank_of (st_db st)) (bank_of (st_db st'))"
  using assms(1)
proof cases
  case (request t ev req resp)
  have "machines_wf (st_db st)" using assms(2) by (simp add: money_inv_def db_wf_def)
  then show ?thesis
    using handle_bank [of st ev req] request(2) by (auto intro: r_into_rtranclp)
next
  case (ticker tk res d')
  then show ?thesis
    using bank_tick [OF assms(2), of "st_ln st" "st_billing st" tk "st_ln_state st"] by simp
qed simp_all

end
