(* ===== verification/Samples.thy ===== *)
theory Samples
  imports Bank_Refinement
begin

text \<open>
  A small world the witnesses are evaluated in: one machine, one funded account, one settled
  invoice of 1000 sats, and a rental at 10 sats a minute from second 100 on. The ledger
  explains the balance, so the database satisfies the money invariant.
\<close>

definition demo_machine :: machine_row where
  "demo_machine = \<lparr>m_id = 1, m_agent_token = ''agt_1'', m_host_id = ''host-1'', m_gpu_name = ''RTX 4090'',
     m_gpu_count = 1, m_vram_mb = 24564, m_cpu_name = ''cpu'', m_cpu_cores = 8, m_ram_mb = 64000,
     m_disk_gb = 500, m_disk_type = Nvme, m_public_ip = ''1.2.3.4'', m_port_start = 40000,
     m_port_end = 40010, m_inet_down_mbps = None, m_inet_up_mbps = None, m_country = None,
     m_dlperf = 80, m_rate_sats_per_min = 10, m_payout_balance = 0, m_online = True,
     m_last_heartbeat = 100, m_hw_fingerprint = ''fp'', m_created_at = 50\<rparr>"

definition demo_register :: register_request where
  "demo_register = \<lparr>rq_host_id = ''host-1'', rq_gpu_name = ''RTX 4090'', rq_gpu_count = 1,
     rq_vram_mb = 24564, rq_cpu_name = ''cpu'', rq_cpu_cores = 8, rq_ram_mb = 64000,
     rq_disk_gb = 500, rq_disk_type = Nvme, rq_public_ip = ''1.2.3.4'', rq_port_start = 40000,
     rq_port_end = 40010, rq_inet_down_mbps = None, rq_inet_up_mbps = None, rq_country = None,
     rq_dlperf = 80, rq_rate_sats_per_min = 10, rq_hw_fingerprint = ''fp''\<rparr>"

definition demo_invoice :: invoice_row where
  "demo_invoice = \<lparr>i_payment_hash = ''h1'', i_account_id = ''acct_1'', i_sats = 1000,
     i_bolt11 = ''ln1'', i_settled = True, i_created_at = 60\<rparr>"

definition demo_open_invoice :: invoice_row where
  "demo_open_invoice = \<lparr>i_payment_hash = ''h2'', i_account_id = ''acct_1'', i_sats = 500,
     i_bolt11 = ''ln2'', i_settled = False, i_created_at = 61\<rparr>"

definition demo_deposit :: ledger_row where
  "demo_deposit = \<lparr>l_id = 1, l_ts = 70, l_account_id = Some ''acct_1'', l_machine_id = None,
     l_rental_id = None, l_delta_sats = 1000, l_kind = Deposit, l_note = Some ''deposit''\<rparr>"

definition demo_rental :: rental_row where
  "demo_rental = \<lparr>r_id = 1, r_machine_id = 1, r_account_id = ''acct_1'', r_image = ''ubuntu'',
     r_ssh_pubkey = ''key'', r_status = Running, r_kind = Ssh, r_ssh_host = Some ''1.2.3.4'',
     r_ssh_port = Some 40000, r_container_id = None, r_error = None, r_rate_sats_per_min = 10,
     r_sats_charged = 0, r_minutes_billed = 0, r_paid_through = 0, r_created_at = 100,
     r_ended_at = None\<rparr>"

text \<open>The idle machine, and the same world with the rental running.\<close>

definition demo_db :: db where
  "demo_db = \<lparr>db_machines = [demo_machine],
     db_accounts = [\<lparr>a_id = ''acct_1'', a_balance_sats = 1000, a_created_at = 55\<rparr>],
     db_rentals = [], db_invoices = [demo_invoice, demo_open_invoice], db_ledger = [demo_deposit],
     db_commands = []\<rparr>"

definition demo_rented :: db where
  "demo_rented = demo_db\<lparr>db_rentals := [demo_rental]\<rparr>"

definition demo_auth :: "string option" where
  "demo_auth = Some ''Bearer agt_1''"

definition demo_stop :: report_request where
  "demo_stop = \<lparr>rp_rental_id = 1, rp_status = Stopped, rp_kind = None, rp_ssh_port = None,
     rp_container_id = None, rp_error = None\<rparr>"

definition demo_rent_request :: create_rental_request where
  "demo_rent_request = \<lparr>cr_machine_id = 1, cr_account_id = ''acct_1'', cr_image = ''ubuntu'',
     cr_ssh_pubkey = Some ''key''\<rparr>"

definition demo_outside :: outside where
  "demo_outside = \<lparr>ev_now = 100, ev_nanos = 0, ev_fl = (\<lambda>x. x), ev_scan = (\<lambda>ms. ms)\<rparr>"

lemmas demo_defs = demo_machine_def demo_register_def demo_invoice_def demo_open_invoice_def demo_deposit_def
  demo_rental_def demo_db_def demo_rented_def demo_auth_def demo_stop_def demo_rent_request_def

lemma demo_tables [simp]:
  "db_machines demo_db = [demo_machine]" "db_rentals demo_db = []" "db_ledger demo_db = [demo_deposit]"
  "db_invoices demo_db = [demo_invoice, demo_open_invoice]" "db_commands demo_db = []"
  "db_machines demo_rented = [demo_machine]" "db_rentals demo_rented = [demo_rental]"
  "db_ledger demo_rented = [demo_deposit]" "db_commands demo_rented = []"
  "db_invoices demo_rented = [demo_invoice, demo_open_invoice]"
  "db_accounts demo_rented = db_accounts demo_db"
  by (simp_all add: demo_db_def demo_rented_def)

lemma demo_wf: "db_wf demo_db" "db_wf demo_rented"
  by (simp_all add: wf_defs) (simp_all add: demo_defs)

lemma demo_books: "books_balance demo_db" "books_balance demo_rented"
  by (auto simp: books_balance_def fun_eq_iff account_balance_def machine_owed_def account_ledger_def
      machine_ledger_def find_account_def find_machine_def entry_owned_def)
    (simp_all add: demo_defs)

lemma demo_money: "money_inv demo_db" "money_inv demo_rented"
  by (simp_all add: money_inv_def demo_wf demo_books amounts_ok_def kinds_ok_def kind_sum_def settled_total_def)
    (simp_all add: demo_defs)

lemma demo_fit: "deposits_fit demo_db" "deposits_fit demo_rented"
  by (simp_all add: deposits_fit_def invoice_total_def) (simp_all add: demo_defs)

lemma demo_authenticate: "authenticate demo_db demo_auth = Inr demo_machine"
    "authenticate demo_rented demo_auth = Inr demo_machine"
  by (simp_all add: authenticate_def) (simp_all add: demo_defs strip_prefix_def starts_with_def)

lemma demo_find:
  "find_machine demo_db 1 = Some demo_machine" "find_machine demo_rented 1 = Some demo_machine"
  "find_rental demo_rented 1 = Some demo_rental"
  "find_account demo_db ''acct_1'' = Some \<lparr>a_id = ''acct_1'', a_balance_sats = 1000, a_created_at = 55\<rparr>"
  "find_account demo_rented ''acct_1'' = Some \<lparr>a_id = ''acct_1'', a_balance_sats = 1000, a_created_at = 55\<rparr>"
  by (simp_all add: find_machine_def find_rental_def find_account_def) (simp_all add: demo_defs)

lemma demo_key: "rental_ssh_pubkey demo_rent_request = Inr ''key''"
  by code_simp

text \<open>The rental stopped after five minutes: 50 sats owed to the host.\<close>

definition demo_owed_db :: db where
  "demo_owed_db = snd (report demo_auth demo_stop 400 demo_rented)"

lemma demo_owed_money: "money_inv demo_owed_db" "deposits_fit demo_owed_db"
proof -
  show "money_inv demo_owed_db"
    unfolding demo_owed_db_def by (rule report_handler.as_step.keeps_money [OF demo_money(2) demo_fit(2)])
  have "db_invoices demo_owed_db = db_invoices demo_rented" by code_simp
  then show "deposits_fit demo_owed_db" using demo_fit(2) by (simp add: deposits_fit_def invoice_total_def)
qed

end
