(* ===== verification/Tenant_Spec.thy ===== *)
theory Tenant_Spec
  imports Samples "HOL-Library.Multiset"
begin

text \<open>
  What a tenant may rely on: when a rental is created and what it does, which machines are
  offered and in which order, what an account shows, that a rental never shows its key, and
  that stopping twice is stopping once.
\<close>

section \<open>Creating a rental\<close>

lemma occupied_iff: "machine_occupied d k \<longleftrightarrow> (\<exists>r\<in>set (db_rentals d). r_machine_id r = k \<and> occupies_machine (r_status r))"
  using status_ALL_complete by (auto simp: machine_occupied_def list_ex_iff occupying_statuses_def)

lemma insert_rental_ok:
  "cr_machine_id req \<in> machine_ids d \<Longrightarrow> cr_account_id req \<in> account_ids d \<Longrightarrow>
   \<exists>d1. insert_rental (new_rental_row req key rt now) d = Inr (next_id (map r_id (db_rentals d)), d1) \<and>
     d1 = d\<lparr>db_rentals := db_rentals d @ [(new_rental_row req key rt now)\<lparr>r_id := next_id (map r_id (db_rentals d))\<rparr>]\<rparr>"
  by (simp add: insert_rental_def Let_def new_rental_row_def)

text \<open>The queued command and the new row, as one expression.\<close>

definition with_rental :: "create_rental_request \<Rightarrow> string \<Rightarrow> int \<Rightarrow> int \<Rightarrow> db \<Rightarrow> db" where
  "with_rental req key rt now d =
     (let k = next_id (map r_id (db_rentals d))
      in d\<lparr>db_rentals := db_rentals d @ [(new_rental_row req key rt now)\<lparr>r_id := k\<rparr>],
           db_commands := db_commands d @ [\<lparr>c_id = next_id (map c_id (db_commands d)),
             c_machine_id = cr_machine_id req, c_payload = command_to_json (StartRental k (cr_image req) key),
             c_delivered = False, c_created_at = now\<rparr>]\<rparr>)"

lemma place_rental_ok:
  assumes "find_machine d (cr_machine_id req) = Some m" "find_account d (cr_account_id req) = Some a"
  shows "place_rental req key rt now d = Inr (\<lparr>cs_rental_id = next_id (map r_id (db_rentals d)),
      cs_status = Provisioning, cs_rate_sats_per_min = rt\<rparr>, with_rental req key rt now d)"
proof -
  have "cr_machine_id req \<in> machine_ids d" "cr_account_id req \<in> account_ids d"
    using find_machine_SomeD [OF assms(1)] find_account_SomeD [OF assms(2)] by force+
  then show ?thesis
    by (simp add: place_rental_def insert_rental_def insert_command_def with_rental_def Let_def new_rental_row_def)
qed

text \<open>
  C18: a rental is created exactly when the machine and the account exist, the key is
  acceptable for the image, the machine is online and occupied by no rental, and the account
  holds one minute at the machine's rate.
\<close>

theorem create_rental_accepts_iff:
  "is_ok (fst (create_rental req now d)) \<longleftrightarrow>
     (\<exists>m a key. find_machine d (cr_machine_id req) = Some m \<and> find_account d (cr_account_id req) = Some a \<and>
        rental_ssh_pubkey req = Inr key \<and> m_online m \<and>
        (\<forall>r\<in>set (db_rentals d). r_machine_id r = cr_machine_id req \<longrightarrow> is_terminal (r_status r)) \<and>
        m_rate_sats_per_min m \<le> a_balance_sats a)"
  (is "?ok \<longleftrightarrow> ?conds")
proof
  assume ?ok
  then obtain resp d' where "create_rental req now d = (Inr resp, d')"
    by (cases "create_rental req now d") (auto simp: is_ok_def split: sum.splits)
  then show ?conds
    by (rule create_rental_InrE) (auto simp: occupied_iff occupies_iff_not_terminal)
next
  assume ?conds
  then show ?ok
    by (auto simp: create_rental_def create_rental_body_def in_transaction_def occupied_iff
        occupies_iff_not_terminal place_rental_ok)
qed

theorem create_rental_accepts_iff_witness:
  "is_ok (fst (create_rental demo_rent_request 200 demo_db))"
  unfolding create_rental_accepts_iff
  by (rule exI [of _ demo_machine], rule exI [of _ "\<lparr>a_id = ''acct_1'', a_balance_sats = 1000, a_created_at = 55\<rparr>"],
      rule exI [of _ "''key''"])
    (simp add: demo_key, simp add: demo_rent_request_def demo_find, simp add: demo_machine_def)

text \<open>
  C19: a created rental is the only one occupying its machine, every other rental is untouched,
  its rate is the machine's rate at that moment, and no money moves.
\<close>

theorem create_rental_exclusive:
  assumes "create_rental req now d = (Inr resp, d')"
  shows "\<exists>r m. find_machine d (cr_machine_id req) = Some m \<and> db_rentals d' = db_rentals d @ [r] \<and>
      filter (\<lambda>x. r_machine_id x = cr_machine_id req \<and> occupies_machine (r_status x)) (db_rentals d') = [r] \<and>
      r_id r = cs_rental_id resp \<and> r_id r \<notin> r_id ` set (db_rentals d) \<and>
      r_account_id r = cr_account_id req \<and> r_image r = cr_image req \<and> r_created_at r = now \<and>
      r_rate_sats_per_min r = m_rate_sats_per_min m \<and> r_status r = Provisioning \<and>
      db_accounts d' = db_accounts d \<and> db_machines d' = db_machines d \<and> db_ledger d' = db_ledger d"
  using assms
proof (rule create_rental_InrE)
  fix machine account key k d1
  assume m: "find_machine d (cr_machine_id req) = Some machine" and a: "find_account d (cr_account_id req) = Some account"
    and "\<not> machine_occupied d (cr_machine_id req)"
    and ins: "insert_rental (new_rental_row req key (m_rate_sats_per_min machine) now) d = Inr (k, d1)"
    and cmd: "insert_command (cr_machine_id req) (command_to_json (StartRental k (cr_image req) key)) now d1 = Inr d'"
    and resp: "resp = \<lparr>cs_rental_id = k, cs_status = Provisioning, cs_rate_sats_per_min = m_rate_sats_per_min machine\<rparr>"
  let ?r = "(new_rental_row req key (m_rate_sats_per_min machine) now)\<lparr>r_id := k\<rparr>"
  have none: "filter (\<lambda>x. r_machine_id x = cr_machine_id req \<and> occupies_machine (r_status x)) (db_rentals d) = []"
    using \<open>\<not> machine_occupied d (cr_machine_id req)\<close> by (auto simp: occupied_iff filter_empty_conv)
  have d': "db_rentals d' = db_rentals d @ [?r]" "db_accounts d' = db_accounts d"
    "db_machines d' = db_machines d" "db_ledger d' = db_ledger d"
    using ins cmd by (auto simp: insert_rental_def insert_command_def Let_def split: if_splits)
  have k: "k = next_id (map r_id (db_rentals d))"
    using ins by (auto simp: insert_rental_def Let_def split: if_splits)
  have fresh: "k \<notin> r_id ` set (db_rentals d)"
    using next_id_fresh [of "map r_id (db_rentals d)"] by (simp add: k)
  show ?thesis
    by (rule exI [of _ ?r], rule exI [of _ machine])
      (use m fresh none in \<open>simp add: d' resp new_rental_row_def\<close>)
qed

lemma demo_create_rental:
  "create_rental demo_rent_request 200 demo_db =
     (Inr \<lparr>cs_rental_id = 1, cs_status = Provisioning, cs_rate_sats_per_min = 10\<rparr>,
      with_rental demo_rent_request ''key'' 10 200 demo_db)"
proof -
  have req: "cr_machine_id demo_rent_request = 1" "cr_account_id demo_rent_request = ''acct_1''"
    by (simp_all add: demo_rent_request_def)
  have m: "m_online demo_machine" "m_rate_sats_per_min demo_machine = 10" by (simp_all add: demo_machine_def)
  have occ: "\<not> machine_occupied demo_db 1" by (simp add: machine_occupied_def)
  show ?thesis
    using place_rental_ok [of demo_db demo_rent_request demo_machine _ "''key''" 10 200]
    by (simp add: create_rental_def create_rental_body_def in_transaction_def demo_key req m occ demo_find next_id_def)
qed

theorem create_rental_exclusive_witness:
  "\<exists>r. db_rentals (snd (create_rental demo_rent_request 200 demo_db)) = [r] \<and> r_rate_sats_per_min r = 10"
  using create_rental_exclusive [OF demo_create_rental] unfolding demo_create_rental
  by (auto simp: demo_find demo_rent_request_def demo_machine_def)

text \<open>
  a refused request writes nothing, and its status tells why: 404 for an unknown machine
  or account, 400 for a missing key, 409 for an offline or occupied machine, 402 for a balance
  below one minute.
\<close>

theorem create_rental_refusals:
  assumes "create_rental req now d = (Inl e, d')"
  shows "d' = d \<and>
    (case (find_machine d (cr_machine_id req), find_account d (cr_account_id req)) of
       (Some m, Some a) \<Rightarrow>
         (err_status e = 400 \<longleftrightarrow> \<not> is_ok (rental_ssh_pubkey req)) \<and>
         (err_status e = 409 \<longleftrightarrow> is_ok (rental_ssh_pubkey req) \<and>
            (\<not> m_online m \<or> machine_occupied d (cr_machine_id req))) \<and>
         (err_status e = 402 \<longleftrightarrow> is_ok (rental_ssh_pubkey req) \<and> m_online m \<and>
            \<not> machine_occupied d (cr_machine_id req) \<and> a_balance_sats a < m_rate_sats_per_min m)
     | _ \<Rightarrow> err_status e = 404)"
proof -
  have "d' = d" using create_rental_handler.err_unchanged [OF assms] .
  moreover have key: "rental_ssh_pubkey req = Inl x \<Longrightarrow> err_status x = 400" for x
    by (auto simp: rental_ssh_pubkey_def error_defs split: option.splits if_splits)
  ultimately show ?thesis
    using assms
    by (auto simp: create_rental_def create_rental_body_def in_transaction_def error_defs place_rental_ok
        is_ok_def split: option.splits sum.splits if_splits)
qed

theorem create_rental_refusals_witness:
  "err_status (projl (fst (create_rental demo_rent_request 200 demo_rented))) = 409"
proof -
  have req: "cr_machine_id demo_rent_request = 1" "cr_account_id demo_rent_request = ''acct_1''"
    by (simp_all add: demo_rent_request_def)
  have occ: "machine_occupied demo_rented 1"
    by (simp add: occupied_iff) (simp add: demo_rental_def)
  have "create_rental demo_rent_request 200 demo_rented = (Inl (conflict ''machine already rented''), demo_rented)"
    by (simp add: create_rental_def create_rental_body_def in_transaction_def demo_key req occ demo_find)
      (simp add: demo_machine_def)
  from create_rental_refusals [OF this] this show ?thesis
    by (simp add: req demo_find demo_key occ)
qed

section \<open>Offers\<close>

lemma set_order_offers [simp]: "set (order_offers fl how ms) = set ms"
  and length_order_offers [simp]: "length (order_offers fl how ms) = length ms"
  by (simp_all add: order_offers_def)

lemma offer_matches_iff:
  "offer_matches q d m \<longleftrightarrow> m_online m \<and>
     (\<forall>r\<in>set (db_rentals d). r_machine_id r = m_id m \<longrightarrow> is_terminal (r_status r)) \<and>
     (\<forall>name. oq_gpu_name q = Some name \<longrightarrow> sql_like (CHR ''%'' # name @ [CHR ''%'']) (m_gpu_name m)) \<and>
     (\<forall>v. oq_min_vram_mb q = Some v \<longrightarrow> v \<le> m_vram_mb m) \<and>
     (\<forall>c. oq_min_gpu_count q = Some c \<longrightarrow> c \<le> m_gpu_count m) \<and>
     (\<forall>x. oq_max_rate_sats_per_min q = Some x \<longrightarrow> m_rate_sats_per_min m \<le> x)"
  by (auto simp: offer_matches_def occupied_iff occupies_iff_not_terminal opt_holds_def split: option.splits)

text \<open>
  C20: every offer is a machine that is online, that no rental occupies, and that passes each
  filter of the query; and as long as fewer machines qualify than the limit, all of them are
  offered.
\<close>

theorem offers_are_available:
  assumes "mset (scan (db_machines d)) = mset (db_machines d)"
  shows "set (offers fl scan q d) \<subseteq> machine_to_offer ` {m \<in> set (db_machines d). offer_matches q d m} \<and>
    (int (length (filter (offer_matches q d) (db_machines d))) \<le> offers_limit (oq_limit q) \<longrightarrow>
       set (offers fl scan q d) = machine_to_offer ` {m \<in> set (db_machines d). offer_matches q d m})"
proof -
  have same: "set (scan (db_machines d)) = set (db_machines d)"
    using assms by (metis set_mset_mset)
  have len: "length (filter (offer_matches q d) (scan (db_machines d))) =
      length (filter (offer_matches q d) (db_machines d))"
    using assms by (metis mset_filter size_mset)
  let ?ms = "order_offers fl (oq_sort q) (filter (offer_matches q d) (scan (db_machines d)))"
  have "set (take n ?ms) \<subseteq> {m \<in> set (db_machines d). offer_matches q d m}" for n
    using set_take_subset [of n ?ms] by (auto simp: same)
  then have "set (offers fl scan q d) \<subseteq> machine_to_offer ` {m \<in> set (db_machines d). offer_matches q d m}"
    unfolding offers_def by (auto simp only: set_map)
  moreover have "take (nat (offers_limit (oq_limit q))) ?ms = ?ms"
    if "int (length (filter (offer_matches q d) (db_machines d))) \<le> offers_limit (oq_limit q)"
    using that by (simp add: len nat_le_iff le_nat_iff offers_limit_def)
  ultimately show ?thesis by (auto simp: offers_def same)
qed

definition demo_query :: offers_query where
  "demo_query = \<lparr>oq_gpu_name = None, oq_min_vram_mb = Some 16000, oq_min_gpu_count = None,
     oq_max_rate_sats_per_min = Some 10, oq_sort = None, oq_limit = None\<rparr>"

lemma demo_matches: "offer_matches demo_query demo_db demo_machine" "\<not> offer_matches demo_query demo_rented demo_machine"
  by (simp_all add: offer_matches_iff) (simp_all add: demo_query_def demo_machine_def demo_rental_def)

theorem offers_are_available_witness:
  "set (offers (\<lambda>x. x) rev demo_query demo_db) = {machine_to_offer demo_machine} \<and>
   set (offers (\<lambda>x. x) rev demo_query demo_rented) = {}"
proof -
  have lim: "offers_limit (oq_limit demo_query) = 200" by (simp add: offers_limit_def demo_query_def)
  have sel: "{m \<in> set (db_machines demo_db). offer_matches demo_query demo_db m} = {demo_machine}"
    "{m \<in> set (db_machines demo_rented). offer_matches demo_query demo_rented m} = {}"
    using demo_matches by auto
  show ?thesis
    using offers_are_available [of rev demo_db "\<lambda>x. x" demo_query]
      offers_are_available [of rev demo_rented "\<lambda>x. x" demo_query]
    unfolding sel lim by (simp add: demo_matches)
qed

definition offer_value :: "(real \<Rightarrow> real) \<Rightarrow> offer \<Rightarrow> real" where
  "offer_value fl x = fl (fl (real_of_int (o_rate_sats_per_min x)) / max (o_dlperf x) (fl (1 / 100)))"

lemma sorted_take: "sorted xs \<Longrightarrow> sorted (take n xs)"
  by (metis append_take_drop_id sorted_append)

text \<open>
  offers come in the order asked for: ascending rate, descending performance, or (by
  default) ascending sats per unit of performance; never more than the limit, which is
  between 1 and 200.
\<close>

theorem offers_sorted_and_limited:
  "(case oq_sort q of
      Some how \<Rightarrow>
        if how = ''rate'' then sorted (map o_rate_sats_per_min (offers fl scan q d))
        else if how = ''dlperf'' then sorted (map (\<lambda>x. - o_dlperf x) (offers fl scan q d))
        else sorted (map (offer_value fl) (offers fl scan q d))
    | None \<Rightarrow> sorted (map (offer_value fl) (offers fl scan q d))) \<and>
   int (length (offers fl scan q d)) \<le> offers_limit (oq_limit q) \<and>
   1 \<le> offers_limit (oq_limit q) \<and> offers_limit (oq_limit q) \<le> 200"
proof -
  have key: "o_rate_sats_per_min \<circ> machine_to_offer = m_rate_sats_per_min"
    "(\<lambda>x. - o_dlperf x) \<circ> machine_to_offer = (\<lambda>m. - m_dlperf m)"
    "offer_value fl \<circ> machine_to_offer = value_key fl"
    by (simp_all add: fun_eq_iff machine_to_offer_def offer_value_def value_key_def)
  have sort: "sorted (map f (take n (sort_key f xs)))" for f :: "machine_row \<Rightarrow> 'k::linorder" and n xs
    by (simp add: take_map [symmetric] sorted_take)
  have "int (length (offers fl scan q d)) \<le> offers_limit (oq_limit q)"
    "1 \<le> offers_limit (oq_limit q)" "offers_limit (oq_limit q) \<le> 200"
    by (simp_all add: offers_def offers_limit_def)
  moreover have "oq_sort q = Some ''rate'' \<Longrightarrow> sorted (map o_rate_sats_per_min (offers fl scan q d))"
    "oq_sort q = Some ''dlperf'' \<Longrightarrow> sorted (map (\<lambda>x. - o_dlperf x) (offers fl scan q d))"
    "oq_sort q \<noteq> Some ''rate'' \<Longrightarrow> oq_sort q \<noteq> Some ''dlperf'' \<Longrightarrow>
      sorted (map (offer_value fl) (offers fl scan q d))"
    unfolding offers_def order_offers_def by (simp_all add: key sort)
  ultimately show ?thesis by (cases "oq_sort q") simp_all
qed

text \<open>
  without LIKE wildcards in it, the \<open>gpu_name\<close> filter keeps exactly the machines
  whose name contains the text, ASCII letters compared without case.
\<close>

theorem gpu_name_filter_is_substring:
  assumes "CHR ''%'' \<notin> set name" "CHR ''_'' \<notin> set name"
  shows "offer_matches (q\<lparr>oq_gpu_name := Some name\<rparr>) d m \<longleftrightarrow>
    offer_matches (q\<lparr>oq_gpu_name := None\<rparr>) d m \<and>
    (\<exists>a u b. m_gpu_name m = a @ u @ b \<and> map ascii_lower u = map ascii_lower name)"
  by (auto simp: offer_matches_def opt_holds_def sql_like_substring [OF assms] simp del: sql_like.simps)

theorem gpu_name_filter_is_substring_witness:
  "offer_matches (demo_query\<lparr>oq_gpu_name := Some ''rtx''\<rparr>) demo_db demo_machine"
proof (rule gpu_name_filter_is_substring [THEN iffD2], simp, simp, rule conjI)
  show "offer_matches (demo_query\<lparr>oq_gpu_name := None\<rparr>) demo_db demo_machine"
    using demo_matches(1) by (simp add: demo_query_def)
  show "\<exists>a u b. m_gpu_name demo_machine = a @ u @ b \<and> map ascii_lower u = map ascii_lower ''rtx''"
    by (rule exI [of _ "[]"], rule exI [of _ "''RTX''"], rule exI [of _ "'' 4090''"])
      (simp only: demo_machine_def machine_row.select_convs, code_simp)
qed

text \<open>
  but the text is a LIKE pattern, not a literal: a percent sign alone finds every name.
\<close>

theorem gpu_name_filter_has_wildcards:
  "offer_matches (demo_query\<lparr>oq_gpu_name := Some ''4%9''\<rparr>) demo_db demo_machine"
  by code_simp

section \<open>Accounts\<close>

text \<open>
  the runway shown is the number of whole minutes the balance lasts at the burn rate, and
  the burn rate is the sum of the rates of the account's running rentals.
\<close>

lemma sql_sum_exact: "sql_sum acc xs = Inr s \<Longrightarrow> s = acc + sum_list xs"
  by (induction acc xs rule: sql_sum.induct) (auto split: if_splits)

theorem account_runway:
  assumes "get_account k d = Inr resp" "accounts_wf d"
  shows "ar_balance_sats resp = account_balance d k \<and>
    ar_burn_sats_per_min resp = sum_list (map r_rate_sats_per_min
      (filter (\<lambda>r. r_account_id r = k \<and> r_status r = Running) (db_rentals d))) \<and>
    (case ar_runway_minutes resp of
       None \<Rightarrow> ar_burn_sats_per_min resp \<le> 0
     | Some mins \<Rightarrow> mins * ar_burn_sats_per_min resp \<le> ar_balance_sats resp \<and>
         ar_balance_sats resp < (mins + 1) * ar_burn_sats_per_min resp)"
proof -
  obtain acct burn where acct: "find_account d k = Some acct"
    and burn: "sql_sum 0 (map r_rate_sats_per_min
        (filter (\<lambda>r. r_account_id r = k \<and> r_status r = Running) (db_rentals d))) = Inr burn"
    and resp: "resp = \<lparr>ar_account_id = a_id acct, ar_balance_sats = a_balance_sats acct,
        ar_burn_sats_per_min = burn,
        ar_runway_minutes = (if 0 < burn then Some (i64_div (a_balance_sats acct) burn) else None)\<rparr>"
    using assms(1) by (auto simp: get_account_def split: option.splits sum.splits)
  have "0 \<le> a_balance_sats acct"
    using find_account_SomeD [OF acct] assms(2) by (simp add: accounts_wf_def)
  moreover have "a div b * b \<le> a \<and> a < (a div b + 1) * b" if "0 < b" for a b :: int
  proof -
    have "a div b * b + a mod b = a" by (rule div_mult_mod_eq)
    moreover have "0 \<le> a mod b" "a mod b < b" using that by simp_all
    ultimately show ?thesis by (simp only: distrib_right mult_1) linarith
  qed
  ultimately show ?thesis
    using sql_sum_exact [OF burn] acct by (simp add: resp account_balance_def i64_div_nonneg)
qed

theorem account_runway_witness:
  "ar_runway_minutes (projr (get_account ''acct_1'' demo_rented)) = Some 100 \<and>
   (100 + 1) * ar_burn_sats_per_min (projr (get_account ''acct_1'' demo_rented)) > 1000"
proof -
  have got: "get_account ''acct_1'' demo_rented = Inr \<lparr>ar_account_id = ''acct_1'', ar_balance_sats = 1000,
      ar_burn_sats_per_min = 10, ar_runway_minutes = Some 100\<rparr>"
    by (simp add: get_account_def demo_find)
      (simp add: demo_rental_def in_i64_def i64_div_def signed_divide_int_def)
  have "accounts_wf demo_rented" using demo_wf by (simp add: db_wf_def)
  from account_runway [OF got this] got show ?thesis by simp
qed

section \<open>Reading a rental\<close>

text \<open>
  what \<^verbatim>\<open>GET /rentals/{id}\<close> answers does not depend on any rental's SSH key.
\<close>

theorem rental_key_never_shown:
  "get_rental k (update_rentals p (\<lambda>r. r\<lparr>r_ssh_pubkey := key r\<rparr>) d) = get_rental k d"
  by (simp add: get_rental_def find_rental_def find_machine_def update_rentals_def sql_find_update_frame
      ssh_command_def split: option.splits)

section \<open>Stopping a rental\<close>

text \<open>
  deleting a live rental marks it evicting and queues one stop command; deleting it again
  answers the same and writes nothing.
\<close>

lemma delete_rental_live:
  assumes "db_wf d" "find_rental d k = Some r" "\<not> is_terminal (r_status r)" "r_status r \<noteq> Evicting"
  shows "\<exists>d'. delete_rental k now d = (Inr (k, ''evicting''), d') \<and>
    find_rental d' k = Some (r\<lparr>r_status := Evicting\<rparr>) \<and>
    map c_payload (db_commands d') = map c_payload (db_commands d) @ [command_to_json (StopRental k)]"
proof -
  let ?d1 = "update_rentals (\<lambda>x. r_id x = r_id r) (\<lambda>x. x\<lparr>r_status := Evicting\<rparr>) d"
  have r: "r_id r = k" "r \<in> set (db_rentals d)" using find_rental_SomeD [OF assms(2)] by simp_all
  then have "r_machine_id r \<in> machine_ids ?d1"
    using assms(1) by (simp add: wf_defs update_rentals_def)
  then obtain d2 where d2: "insert_command (r_machine_id r) (command_to_json (StopRental (r_id r))) now ?d1 = Inr d2"
    by (simp add: insert_command_def)
  then have "delete_rental k now d = (Inr (k, ''evicting''), d2)"
    using assms r(1) by (simp add: delete_rental_def delete_rental_read_def delete_rental_commit_def
        delete_rental_body_def in_transaction_def)
  moreover have "find_rental d2 k = Some (r\<lparr>r_status := Evicting\<rparr>)"
    using d2 assms(2) r(1)
    by (auto simp: insert_command_def find_rental_def update_rentals_def sql_find_update_frame split: if_splits)
  moreover have "map c_payload (db_commands d2) = map c_payload (db_commands d) @ [command_to_json (StopRental k)]"
    using d2 r(1) by (auto simp: insert_command_def update_rentals_def split: if_splits)
  ultimately show ?thesis by blast
qed

theorem delete_rental_idempotent:
  assumes "db_wf d" "find_rental d k = Some r"
  shows "fst (delete_rental k now d) =
      Inr (k, if is_terminal (r_status r) then status_as_str (r_status r) else ''evicting'') \<and>
    delete_rental k now' (snd (delete_rental k now d)) = (fst (delete_rental k now d), snd (delete_rental k now d))"
proof (cases "is_terminal (r_status r) \<or> r_status r = Evicting")
  case True
  then have "delete_rental k t d = (Inr (k, status_as_str (r_status r)), d)" for t
    using assms(2) by (simp add: delete_rental_def delete_rental_read_def)
  with True show ?thesis by auto
next
  case False
  then obtain d' where d': "delete_rental k now d = (Inr (k, ''evicting''), d')"
    and r': "find_rental d' k = Some (r\<lparr>r_status := Evicting\<rparr>)"
    using delete_rental_live [OF assms] by blast
  from r' have "delete_rental k now' d' = (Inr (k, ''evicting''), d')"
    by (simp add: delete_rental_def delete_rental_read_def)
  with d' False show ?thesis by simp
qed

theorem delete_rental_idempotent_witness:
  "delete_rental 1 300 (snd (delete_rental 1 200 demo_rented)) =
     (Inr (1, ''evicting''), snd (delete_rental 1 200 demo_rented))"
  using delete_rental_idempotent [OF demo_wf(2) demo_find(3), of 200 300]
  by (simp add: demo_rental_def prod_eq_iff)

section \<open>Deposits\<close>

text \<open>
  on the mock backend, whose state knows every invoice of the database, a deposit of at
  least one sat into an existing account always succeeds, records exactly one open invoice of
  that amount and credits nothing yet.
\<close>

theorem mock_deposit_succeeds:
  assumes "1 \<le> x" "k \<in> account_ids d" "mock_good b" "mock_room b"
    and "\<forall>i\<in>set (db_invoices d). i_payment_hash i \<in> mock_issued b"
  shows "\<exists>resp b' d' i. deposit mock_backend k x now b d = (Inr resp, b', d') \<and>
    db_invoices d' = db_invoices d @ [i] \<and> i_account_id i = k \<and> i_sats i = x \<and> \<not> i_settled i \<and>
    i_payment_hash i = dp_payment_hash resp \<and> bank_of d' = bank_of d \<and> mock_good b' \<and>
    (\<forall>i\<in>set (db_invoices d'). i_payment_hash i \<in> mock_issued b')"
proof -
  obtain a where acct: "find_account d k = Some a"
    using assms(2) by (metis find_account_None_iff not_None_eq)
  obtain iv b' where inv: "create_invoice mock_backend b (Sats x) (''deposit for '' @ k) = (Inr iv, b')"
    by (simp add: mock_backend_def mock_create_invoice_def Let_def)
  note fresh = mock_ln.create_fresh [OF assms(3,4) inv]
  let ?i = "\<lparr>i_payment_hash = inv_payment_hash iv, i_account_id = k, i_sats = x,
      i_bolt11 = inv_bolt11 iv, i_settled = False, i_created_at = now\<rparr>"
  have ins: "insert_invoice ?i d = Inr (d\<lparr>db_invoices := db_invoices d @ [?i]\<rparr>)"
    using fresh assms(2,5) by (auto simp: insert_invoice_def)
  then have "deposit mock_backend k x now b d =
      (Inr \<lparr>dp_bolt11 = inv_bolt11 iv, dp_payment_hash = inv_payment_hash iv, dp_sats = x\<rparr>, b',
       d\<lparr>db_invoices := db_invoices d @ [?i]\<rparr>)"
    using assms(1) acct inv by (simp add: deposit_def)
  then show ?thesis
    using fresh assms(5) bank_of_insert(3) [OF ins] by (intro exI [of _ ?i] exI conjI) (assumption | auto)+
qed

theorem mock_deposit_succeeds_witness:
  "is_ok (fst (deposit mock_backend ''acct_1'' 250 100 (mock_new 0 0) (demo_db\<lparr>db_invoices := []\<rparr>)))"
proof -
  have "''acct_1'' \<in> account_ids (demo_db\<lparr>db_invoices := []\<rparr>)" by (simp add: demo_db_def)
  moreover have "mock_good (mock_new 0 0)" "mock_room (mock_new 0 0)"
    by (simp_all add: mock_good_def mock_room_def mock_new_def)
  ultimately show ?thesis
    using mock_deposit_succeeds [of 250 "''acct_1''" "demo_db\<lparr>db_invoices := []\<rparr>" "mock_new 0 0" 100]
    by (auto simp: is_ok_def split: sum.splits)
qed

end
