(* ===== verification/Agent_Spec.thy ===== *)
theory Agent_Spec
  imports Samples
begin

text \<open>
  What a host may rely on, and what a host can do to a tenant: registration is idempotent,
  only the token's machine acts, a stop charges exactly once what accrued and never more than
  the balance, a payout pays what is owed or changes nothing, commands are delivered in order.
\<close>

section \<open>Identity\<close>

text \<open>
  a request is taken for a machine exactly when it carries that machine's bearer token.
\<close>

theorem authenticate_iff:
  assumes "machines_wf d"
  shows "authenticate d auth = Inr m \<longleftrightarrow>
    m \<in> set (db_machines d) \<and> auth = Some (''Bearer '' @ m_agent_token m)"
  using authenticate_InrD authenticate_token [OF assms] by blast

theorem authenticate_iff_witness: "authenticate demo_db (Some ''Bearer agt_1'') = Inr demo_machine"
proof -
  have "machines_wf demo_db" using demo_wf by (simp add: db_wf_def)
  from authenticate_iff [OF this, of "Some ''Bearer agt_1''" demo_machine]
  show ?thesis by simp (simp add: demo_machine_def)
qed

text \<open>
  two tokens drawn at the same instant differ, as long as the counter has not gone
  round: the mixing of the counter is injective.
\<close>

theorem agent_tokens_distinct: "new_agent_token nanos a = new_agent_token nanos b \<longleftrightarrow> a = b"
proof -
  have less: "unat (w :: 64 word) < 16 ^ 16" for w
  proof -
    have "unat w < 2 ^ LENGTH(64)" by (rule unsigned_less)
    then show ?thesis by simp
  qed
  show ?thesis
    by (simp add: new_agent_token_def hex_fixed_inject [OF less less] mix_inject flip: word_unat_eq_iff)
qed

lemma register_again:
  assumes "register token req now d = (Inr resp, d1)" "rq_host_id req' = rq_host_id req"
  shows "\<exists>d2. register token' req' now' d1 = (Inr resp, d2) \<and>
    map machine_identity (db_machines d2) = map machine_identity (db_machines d1)"
proof -
  have "\<exists>m1. sql_find (\<lambda>m. m_host_id m = rq_host_id req') (db_machines d1) = Some m1 \<and>
      resp = \<lparr>rs_machine_id = m_id m1, rs_agent_token = m_agent_token m1\<rparr>"
  proof (cases rule: register_cases [of req d token now])
    case (known m)
    with assms show ?thesis
      by (auto simp: update_machines_def sql_find_update_frame apply_registration_def)
  next
    case (new k d')
    with assms show ?thesis
      by (auto simp: insert_machine_def Let_def sql_find_append new_machine_row_def split: if_splits)
  qed (use assms in simp)
  then obtain m1 where "sql_find (\<lambda>m. m_host_id m = rq_host_id req') (db_machines d1) = Some m1"
    "resp = \<lparr>rs_machine_id = m_id m1, rs_agent_token = m_agent_token m1\<rparr>" by blast
  moreover have "map machine_identity (db_machines (update_machines p (apply_registration req' now') d1)) =
      map machine_identity (db_machines d1)" for p
    by (simp add: update_machines_def map_sql_update_frame machine_identity_def apply_registration_def)
  ultimately show ?thesis by (simp add: register_def)
qed

text \<open>
  registration is idempotent on the host id: a host that registers again, with whatever
  hardware it reports, gets the machine id and token it already has, and no machine is added.
\<close>

theorem register_idempotent:
  assumes "register token req now d = (Inr resp, d1)" "rq_host_id req' = rq_host_id req"
  shows "\<exists>d2. register token' req' now' d1 = (Inr resp, d2) \<and>
    map machine_identity (db_machines d2) = map machine_identity (db_machines d1)"
  using assms by (rule register_again)

theorem register_idempotent_witness:
  "fst (register ''agt_2'' demo_register 300 (snd (register ''agt_1'' demo_register 100 db_empty))) =
     Inr \<lparr>rs_machine_id = 1, rs_agent_token = ''agt_1''\<rparr>"
proof -
  have "register ''agt_1'' demo_register 100 db_empty =
      (Inr \<lparr>rs_machine_id = 1, rs_agent_token = ''agt_1''\<rparr>, snd (register ''agt_1'' demo_register 100 db_empty))"
    by (simp add: register_def db_empty_def insert_machine_def next_id_def Let_def)
  from register_idempotent [OF this refl, of "''agt_2''" 300] show ?thesis by auto
qed

section \<open>The charge at stop\<close>

lemma stop_charge_bound: "stop_charge rental now d \<le> account_balance d (r_account_id rental)"
  by (simp add: stop_charge_def)

lemma add_balance_ok:
  assumes "accounts_wf d" "x \<le> account_balance d k"
  shows "\<exists>d'. add_balance k (- x) d = Inr d'"
proof -
  have "0 \<le> a_balance_sats a - x" if "a \<in> set (db_accounts d)" "a_id a = k" for a
    using account_balance_in [OF assms(1) that(1)] assms(2) that(2) by simp
  then show ?thesis by (auto simp: add_balance_def list_all_iff)
qed

lemma charge_rental_ok:
  assumes "accounts_wf d" "x \<le> account_balance d (r_account_id rental)"
  shows "\<exists>d'. charge_rental machine rental x now d = Inr d'"
  using add_balance_ok [OF assms] by (auto simp: charge_rental_def)

lemma charge_rental_rentals: "charge_rental machine rental x now d = Inr d' \<Longrightarrow> db_rentals d' = db_rentals d"
  by (auto simp: charge_rental_def record_charge_def db_record_def update_machines_def add_balance_def
      split: if_splits sum.splits)

lemma charge_rental_ledger:
  assumes "charge_rental machine rental x now d = Inr d'" "in_i64 x"
  shows "map (\<lambda>l. (l_kind l, l_account_id l, l_machine_id l, l_rental_id l, l_delta_sats l)) (db_ledger d') =
    map (\<lambda>l. (l_kind l, l_account_id l, l_machine_id l, l_rental_id l, l_delta_sats l)) (db_ledger d) @
    (if 0 < x then [(RentalCharge, Some (r_account_id rental), None, Some (r_id rental), - x),
       (HostCredit, None, Some (m_id machine), Some (r_id rental), x)] else [])"
  using assms by (auto simp: charge_rental_def record_charge_def db_ledger_record frame_simps add_balance_def
      i64_neg_def wrap64_def in_i64_def split: if_splits sum.splits)

lemma settle_report:
  assumes "money_inv d" "deposits_fit d" "report_read auth req d = Inr (machine, rental)"
    and "is_terminal (rp_status req)" "\<not> is_terminal (r_status rental)"
  shows "\<exists>d' r. report auth req now d = (Inr (), d') \<and>
    bank_of d' = (if 0 < stop_charge rental now d
      then bank_charge (r_account_id rental) (m_id machine) (stop_charge rental now d) (bank_of d)
      else bank_of d) \<and>
    find_rental d' (r_id rental) = Some r \<and> r_status r = rp_status req \<and> r_ended_at r = Some now \<and>
    r_sats_charged r = stop_charge rental now d \<and> r_minutes_billed r = i64_div (max (i64_sub now (r_created_at rental)) 0) 60"
proof -
  define x where "x = stop_charge rental now d"
  note rd = report_read_InrD [OF assms(3)]
  have wf: "db_wf d" using assms(1) by (simp add: money_inv_def)
  let ?upd = "apply_report req (m_public_ip machine) (Some now)"
  let ?d1 = "update_rentals (\<lambda>r. r_id r = rp_rental_id req) ?upd d"
  have acc: "db_accounts ?d1 = db_accounts d" "account_balance ?d1 = account_balance d" "accounts_wf ?d1"
    using wf by (simp_all add: update_rentals_def account_balance_def fun_eq_iff find_account_def db_wf_def accounts_wf_def)
  have "r_account_id rental \<in> account_ids d" using wf rd(2) by (simp add: wf_defs)
  then obtain acct where acct: "find_account d (r_account_id rental) = Some acct"
    by (metis find_account_None_iff not_None_eq)
  have x: "x = min (accrued_charge (r_created_at rental) now (r_rate_sats_per_min rental)) (a_balance_sats acct)"
    using acct by (simp add: x_def stop_charge_def account_balance_def)
  obtain d2 where d2: "charge_rental machine rental x now ?d1 = Inr d2"
    using charge_rental_ok [OF acc(3), of x rental machine now] by (auto simp: acc x_def stop_charge_def)
  let ?d3 = "update_rentals (\<lambda>r. r_id r = r_id rental) (\<lambda>r. r\<lparr>r_sats_charged := x,
      r_minutes_billed := i64_div (max (i64_sub now (r_created_at rental)) 0) 60\<rparr>) d2"
  have "settle_rental machine rental now ?d1 = Inr ?d3"
    using acct d2 by (simp add: settle_rental_def Let_def find_account_def acc x)
  then have rep: "report auth req now d = (Inr (), ?d3)"
    using assms(3,4,5) by (simp add: report_def report_commit_def in_transaction_def report_body_def Let_def)
  have body: "report_body machine rental req now d = Inr ((), ?d3)"
    using assms(4,5) \<open>settle_rental machine rental now ?d1 = Inr ?d3\<close> by (simp add: report_body_def Let_def)
  have bank: "bank_of ?d3 = (if 0 < x then bank_charge (r_account_id rental) (m_id machine) x (bank_of d) else bank_of d)"
    using report_body_bank [OF body] rd(1) assms(4,5) by (simp add: x_def)
  have "sql_find (\<lambda>r. r_id r = r_id rental) (db_rentals d) = Some rental"
    using wf rd(2) by (simp add: wf_defs sql_find_unique)
  then have "find_rental ?d3 (r_id rental) = Some ((?upd rental)\<lparr>r_sats_charged := x,
      r_minutes_billed := i64_div (max (i64_sub now (r_created_at rental)) 0) 60\<rparr>)"
    using charge_rental_rentals [OF d2] rd(3)
    by (simp add: find_rental_def update_rentals_def sql_find_update_frame apply_report_def)
  with rep bank show ?thesis unfolding x_def by (simp add: apply_report_def coalesce_def)
qed

text \<open>
  C13: the report that takes a live rental to a terminal state always goes through, moves
  exactly the accrued charge capped at the tenant's balance from the tenant to the host, and
  writes the charge, the minutes and the end into the rental. What accrues is the whole time from
  the rental's creation to the report, silence of the host included: \<^verbatim>\<open>docs/SPEC.md\<close>,
  section 5, and \<^verbatim>\<open>docs/BACKGROUND.md\<close>, section 4.4, have the clock stop for a silent host,
  which the code only does for the eviction, so the theorem disagrees with them
  (\<open>silence_is_charged\<close> in \<open>Billing_Spec\<close> is an instance).
\<close>

theorem report_settles_rental:
  assumes "money_inv d" "deposits_fit d" "report_read auth req d = Inr (machine, rental)"
    and "is_terminal (rp_status req)" "\<not> is_terminal (r_status rental)"
  shows "\<exists>d' r. report auth req now d = (Inr (), d') \<and>
    bank_of d' = (if 0 < stop_charge rental now d
      then bank_charge (r_account_id rental) (m_id machine) (stop_charge rental now d) (bank_of d)
      else bank_of d) \<and>
    find_rental d' (r_id rental) = Some r \<and> r_status r = rp_status req \<and> r_ended_at r = Some now \<and>
    r_sats_charged r = stop_charge rental now d \<and> r_minutes_billed r = i64_div (max (i64_sub now (r_created_at rental)) 0) 60"
  using assms by (rule settle_report)

lemma demo_report_read: "report_read demo_auth demo_stop demo_rented = Inr (demo_machine, demo_rental)"
  by (simp add: report_read_def demo_authenticate) (simp add: demo_defs)

theorem report_settles_rental_witness:
  "account_balance (snd (report demo_auth demo_stop 400 demo_rented)) ''acct_1'' = 950"
proof -
  have "is_terminal (rp_status demo_stop)" "\<not> is_terminal (r_status demo_rental)"
    by (simp_all add: demo_stop_def demo_rental_def)
  from report_settles_rental [OF demo_money(2) demo_fit(2) demo_report_read this, of 400]
  obtain d' where d': "report demo_auth demo_stop 400 demo_rented = (Inr (), d')"
    and bank: "bank_of d' = bank_charge ''acct_1'' 1 50 (bank_of demo_rented)"
    by (auto simp: stop_charge_def demo_rental_def demo_machine_def account_balance_def demo_find accrued_charge_def
        i64_sub_def i64_mul_def wrap64_def i64_div_def signed_divide_int_def)
  from bank have "account_balance d' = (bk_balance (bank_of demo_rented))(''acct_1'' := bk_balance (bank_of demo_rented) ''acct_1'' - 50)"
    by (simp add: bank_of_def bank_charge_def)
  then show ?thesis by (simp add: d' bank_of_def account_balance_def demo_find)
qed

text \<open>
  reporting on a rental that is already terminal moves no money, whatever it reports.
\<close>

theorem terminal_rereport_free:
  assumes "report_read auth req d = Inr (machine, rental)" "is_terminal (r_status rental)"
  shows "fst (report auth req now d) = Inr () \<and>
    bank_of (snd (report auth req now d)) = bank_of d \<and> db_ledger (snd (report auth req now d)) = db_ledger d"
  using assms by (simp add: report_def report_commit_def in_transaction_def report_body_def Let_def frame_simps)

definition demo_stopped :: db where
  "demo_stopped = demo_db\<lparr>db_rentals := [demo_rental\<lparr>r_status := Stopped\<rparr>]\<rparr>"

theorem terminal_rereport_free_witness:
  "bank_of (snd (report demo_auth demo_stop 900 demo_stopped)) = bank_of demo_stopped"
proof -
  have "authenticate demo_stopped demo_auth = Inr demo_machine"
    using demo_authenticate(1) authenticate_cong [of demo_stopped demo_db demo_auth]
    by (simp add: demo_stopped_def)
  then have "report_read demo_auth demo_stop demo_stopped = Inr (demo_machine, demo_rental\<lparr>r_status := Stopped\<rparr>)"
    by (simp add: report_read_def) (simp add: demo_stopped_def demo_defs)
  from terminal_rereport_free [OF this] show ?thesis by simp
qed

text \<open>
  C30: But a report may take a stopped rental back to running, and the next stop charges the
  whole time since creation again: after stop, running, stop the tenant has paid 30 sats for
  what a single stop at the same second charges 20, and the rental shows 20.
\<close>

definition demo_back :: report_request where
  "demo_back = demo_stop\<lparr>rp_status := Running\<rparr>"

definition demo_bounced :: db where
  "demo_bounced = snd (report demo_auth demo_stop 220
     (snd (report demo_auth demo_back 170 (snd (report demo_auth demo_stop 160 demo_rented)))))"

theorem bounced_rental_charged_twice:
  "account_balance demo_bounced ''acct_1'' = 970 \<and>
   map_option r_sats_charged (find_rental demo_bounced 1) = Some 20 \<and>
   account_balance (snd (report demo_auth demo_stop 220 demo_rented)) ''acct_1'' = 980"
  unfolding demo_bounced_def demo_back_def by code_simp

section \<open>Rates\<close>

text \<open>
  a rate below one sat is refused; an accepted rate changes that machine's price and
  nothing else, no rental and no account.
\<close>

theorem rate_changes_price_only:
  assumes "rate auth x d = (res, d')"
  shows "(is_ok res \<longleftrightarrow> is_ok (authenticate d auth) \<and> 1 \<le> x) \<and>
    db_rentals d' = db_rentals d \<and> db_accounts d' = db_accounts d \<and> db_ledger d' = db_ledger d \<and>
    db_commands d' = db_commands d \<and> db_invoices d' = db_invoices d \<and>
    db_machines d' = (case (authenticate d auth, res) of
      (Inr m, Inr _) \<Rightarrow> map (\<lambda>y. if m_id y = m_id m then y\<lparr>m_rate_sats_per_min := x\<rparr> else y) (db_machines d)
    | _ \<Rightarrow> db_machines d)"
  using assms
  by (auto simp: rate_def is_ok_def update_machines_def sql_update_def split: sum.splits if_splits)

theorem rate_changes_price_only_witness:
  "map m_rate_sats_per_min (db_machines (snd (rate demo_auth 25 demo_db))) = [25]"
  using rate_changes_price_only [of demo_auth 25 demo_db "Inr ()" "snd (rate demo_auth 25 demo_db)"]
  by (simp add: rate_def demo_authenticate)

section \<open>Payouts\<close>

text \<open>
  C17: a payout is either an error, and the database is as it was (so the balance stays owed
  when the payment fails), or the backend has paid the invoice, the response is what was owed,
  nothing is owed any more and the ledger has the payout.
\<close>

theorem payout_all_or_nothing:
  assumes "money_inv d" "deposits_fit d" "payout B auth bolt11 now lns d = (res, lns', d')"
  shows "case res of
      Inl e \<Rightarrow> d' = d
    | Inr paid \<Rightarrow> \<exists>m. authenticate d auth = Inr m \<and> pay_invoice B lns bolt11 = (Inr (), lns') \<and>
        0 < paid \<and> paid = machine_owed d (m_id m) \<and> machine_owed d' = (machine_owed d)(m_id m := 0) \<and>
        account_balance d' = account_balance d \<and> paid_out d' = paid_out d + paid"
proof (cases "payout_read auth d")
  case (Inl e)
  with assms(3) show ?thesis by (auto simp: payout_def)
next
  case (Inr m)
  note rd = payout_read_InrD [OF Inr]
  obtain r l where pay: "pay_invoice B lns bolt11 = (r, l)" by (cases "pay_invoice B lns bolt11")
  show ?thesis
  proof (cases r)
    case (Inl e)
    with assms(3) Inr pay show ?thesis by (auto simp: payout_def payout_pay_def)
  next
    case (Inr u)
    with assms(3) \<open>payout_read auth d = Inr m\<close> pay
    have res: "res = Inr (m_payout_balance m)" "lns' = l" "d' = snd (payout_commit m now d)"
      by (auto simp: payout_def payout_pay_def payout_commit_eq)
    have owed: "machine_owed d (m_id m) = m_payout_balance m"
      using machine_owed_in rd(1) assms(1) by (simp add: money_inv_def db_wf_def)
    have bank: "bank_of d' = bank_payout (m_id m) (bank_of d)"
      using payout_commit_bank [OF rd(1)] res(3) by simp
    have neg: "i64_neg (m_payout_balance m) = - m_payout_balance m"
      using owed_bound [OF assms(1) rd(1)] assms(2)
      by (simp add: i64_neg_def wrap64_id in_i64_def deposits_fit_def)
    have "paid_out d' = paid_out d + m_payout_balance m"
      by (simp add: paid_out_def res(3) payout_commit_eq kind_sum_record neg) (simp add: kind_sum_def frame_simps)
    with res bank owed rd pay Inr show ?thesis
      by (auto simp: bank_of_def bank_payout_def)
  qed
qed

theorem payout_all_or_nothing_witness:
  "paid_out (snd (snd (payout mock_backend demo_auth ''lnbc'' 500 (mock_new 0 0) demo_owed_db))) = 50"
proof -
  have p: "fst (payout mock_backend demo_auth ''lnbc'' 500 (mock_new 0 0) demo_owed_db) = Inr 50"
    and z: "paid_out demo_owed_db = 0" by code_simp+
  obtain lns' d' where r: "payout mock_backend demo_auth ''lnbc'' 500 (mock_new 0 0) demo_owed_db = (Inr 50, lns', d')"
    using p by (cases "payout mock_backend demo_auth ''lnbc'' 500 (mock_new 0 0) demo_owed_db") auto
  from payout_all_or_nothing [OF demo_owed_money r] show ?thesis by (auto simp: r z)
qed

section \<open>Command delivery\<close>

lemma pending_update_machines [simp]: "pending_commands k (update_machines p f d) = pending_commands k d"
  by (simp add: pending_commands_def update_machines_def)

lemma set_pending: "set (pending_commands k d) = {c \<in> set (db_commands d). c_machine_id c = k \<and> \<not> c_delivered c}"
  by (auto simp: pending_commands_def)

lemma sorted_pending: "sorted (map c_id (pending_commands k d))"
  by (simp add: pending_commands_def)

lemma mark_delivered_commands:
  "db_commands (mark_delivered cs d) =
     map (\<lambda>c. if c_id c \<in> c_id ` set cs then c\<lparr>c_delivered := True\<rparr> else c) (db_commands d)"
proof (induction cs d rule: mark_delivered.induct)
  case (2 c cs d)
  have "(if c_id y \<in> c_id ` set cs then y\<lparr>c_delivered := True\<rparr> else y) =
      (if c_id x \<in> c_id ` set (c # cs) then x\<lparr>c_delivered := True\<rparr> else x)"
    if "y = (if c_id x = c_id c then x\<lparr>c_delivered := True\<rparr> else x)" for x y :: command_row
    using that by auto
  then show ?case using 2 by (auto simp: update_commands_def sql_update_def)
qed simp

lemma decode_commands_map:
  "decode_commands cs = Inr cmds \<Longrightarrow> map (\<lambda>c. command_from_json (c_payload c)) cs = map Some cmds"
  by (induction cs arbitrary: cmds) (auto split: option.splits sum.splits)

lemma pending_after_delivery:
  assumes "commands_wf d"
  shows "pending_commands j (mark_delivered (pending_commands k d) d) = (if j = k then [] else pending_commands j d)"
proof -
  let ?f = "\<lambda>c. if c_id c \<in> c_id ` set (pending_commands k d) then c\<lparr>c_delivered := True\<rparr> else c"
  have mem: "c_id c \<in> c_id ` set (pending_commands k d) \<longleftrightarrow> c \<in> set (pending_commands k d)"
    if "c \<in> set (db_commands d)" for c
    using assms that by (auto simp: commands_wf_def set_pending distinct_map inj_on_def)
  have "filter (\<lambda>c. c_machine_id c = j \<and> \<not> c_delivered c) (map ?f (db_commands d)) =
      filter (\<lambda>c. c_machine_id c = j \<and> \<not> c_delivered c \<and> c \<notin> set (pending_commands k d)) (db_commands d)"
  proof -
    have "filter P (map ?f cs) = filter (\<lambda>c. P c \<and> c \<notin> set (pending_commands k d)) cs"
      if "set cs \<subseteq> set (db_commands d)" "\<And>c. P (c\<lparr>c_delivered := True\<rparr>) = False" for P cs
      using that(1) by (induction cs) (auto simp: mem that(2))
    from this [of "db_commands d"] show ?thesis by simp
  qed
  also have "\<dots> = (if j = k then [] else filter (\<lambda>c. c_machine_id c = j \<and> \<not> c_delivered c) (db_commands d))"
    by (auto simp: set_pending filter_empty_conv intro!: filter_cong)
  finally show ?thesis by (auto simp: pending_commands_def mark_delivered_commands)
qed

text \<open>
  C28: a heartbeat answers with exactly the undelivered commands of its machine, in the order
  of their ids, leaves none of them pending, and touches no other machine's queue.
\<close>

theorem heartbeat_drains_queue:
  assumes "commands_wf d" "heartbeat auth online now d = (Inr cmds, d')"
  shows "\<exists>m. authenticate d auth = Inr m \<and>
    map (\<lambda>c. command_from_json (c_payload c)) (pending_commands (m_id m) d) = map Some cmds \<and>
    sorted (map c_id (pending_commands (m_id m) d)) \<and>
    (\<forall>j. pending_commands j d' = (if j = m_id m then [] else pending_commands j d))"
  using assms(2)
proof (rule heartbeat_InrE)
  fix m d1
  assume m: "authenticate d auth = Inr m"
    and d1: "d1 = update_machines (\<lambda>x. m_id x = m_id m) (\<lambda>x. x\<lparr>m_last_heartbeat := now, m_online := online\<rparr>) d"
    and dec: "decode_commands (pending_commands (m_id m) d1) = Inr cmds"
    and d': "d' = mark_delivered (pending_commands (m_id m) d1) d1"
  have "commands_wf d1" using assms(1) by (simp add: d1 commands_wf_def update_machines_def)
  from pending_after_delivery [OF this] have "pending_commands j d' =
      (if j = m_id m then [] else pending_commands j d)" for j
    unfolding d' by (simp add: d1)
  with m decode_commands_map [OF dec] show ?thesis
    by (simp add: d1 sorted_pending)
qed

definition demo_queued :: db where
  "demo_queued = snd (create_rental demo_rent_request 200 demo_db)"

lemma demo_queued_heartbeat:
  "heartbeat demo_auth True 210 demo_queued =
     (Inr [StartRental 1 ''ubuntu'' ''key''], snd (heartbeat demo_auth True 210 demo_queued))"
  by (rule prod_eqI) (code_simp, simp)

lemma demo_queued_wf: "db_wf demo_queued"
  using create_rental_handler.as_step.keeps_money [OF demo_money(1) demo_fit(1), of demo_rent_request 200]
  by (simp add: demo_queued_def money_inv_def)

theorem heartbeat_drains_queue_witness:
  "pending_commands 1 (snd (heartbeat demo_auth True 210 demo_queued)) = []"
proof -
  have "authenticate demo_queued demo_auth = Inr demo_machine" by code_simp
  moreover have "commands_wf demo_queued" using demo_queued_wf by (simp add: db_wf_def)
  ultimately show ?thesis
    using heartbeat_drains_queue [OF _ demo_queued_heartbeat] by (auto simp: demo_machine_def)
qed

text \<open>
  the queued payloads are read back as the commands they were written from, so the
  decoding step of a heartbeat never fails on a command the server queued.
\<close>

theorem queued_command_roundtrip:
  assumes "in_i64 (cmd_rental_id c)"
  shows "command_from_json (command_to_json c) = Some c"
  using assms by (rule command_json_roundtrip)

theorem queued_command_roundtrip_witness:
  "command_from_json (command_to_json (StartRental 7 ''metal:gemm'' [])) = Some (StartRental 7 ''metal:gemm'' [])"
  by (rule queued_command_roundtrip) (simp add: in_i64_def)

end
