(* ===== verification/Billing_Spec.thy ===== *)
theory Billing_Spec
  imports Samples
begin

text \<open>
  What the ticker and the stop charge promise: an interval is never billed beyond its exact
  cost, a paid invoice is credited once however often the ticker runs, a silent machine is
  taken off the market, and only rentals over their budget are evicted, without any money
  moving.
\<close>

section \<open>The price of an interval\<close>

text \<open>
  C21: within 64 bits the charge of an interval is the exact cost of its seconds, rounded
  down to whole sats, so a tenant is never billed more than the time used and a host loses
  less than one sat.
\<close>

theorem accrued_never_overcharges:
  assumes "in_i64 (stop - start)" "in_i64 (max (stop - start) 0 * rt)" "0 \<le> rt"
  shows "0 \<le> accrued_charge start stop rt \<and>
    60 * accrued_charge start stop rt \<le> max (stop - start) 0 * rt \<and>
    max (stop - start) 0 * rt < 60 * accrued_charge start stop rt + 60"
proof -
  have "0 \<le> max (stop - start) 0 * rt" using assms(3) by simp
  then show ?thesis unfolding accrued_exact [OF assms] by (auto simp: pos_imp_zdiv_nonneg_iff)
qed

theorem accrued_never_overcharges_witness:
  "60 * accrued_charge 100 407 7 \<le> 307 * 7 \<and> 307 * 7 < 60 * accrued_charge 100 407 7 + 60"
  using accrued_never_overcharges [of 407 100 7] by (simp add: in_i64_def)

text \<open>
  whole minutes are billed at exactly the rate, so splitting a stay at a whole minute
  changes nothing.
\<close>

theorem accrued_whole_minutes_additive:
  assumes "0 \<le> rt" "0 \<le> n" "s + 60 * n \<le> e" "in_i64 (e - s)" "in_i64 ((e - s) * rt)"
  shows "accrued_charge s (s + 60 * n) rt = n * rt \<and>
    accrued_charge s e rt = n * rt + accrued_charge (s + 60 * n) e rt"
proof -
  have up: "in_i64 x" if "0 \<le> x" "x \<le> y" "in_i64 y" for x y
    using that by (simp add: in_i64_def)
  have m: "60 * n * rt \<le> (e - s) * rt" "(e - (s + 60 * n)) * rt \<le> (e - s) * rt"
    using assms by (auto intro!: mult_right_mono)
  have fit: "in_i64 (60 * n)" "in_i64 (60 * n * rt)" "in_i64 (e - (s + 60 * n))" "in_i64 ((e - (s + 60 * n)) * rt)"
    using assms up [of "60 * n" "e - s"] up [of "60 * n * rt" "(e - s) * rt"] up [of "e - (s + 60 * n)" "e - s"]
      up [of "(e - (s + 60 * n)) * rt" "(e - s) * rt"] m by simp_all
  have one: "accrued_charge s (s + 60 * n) rt = n * rt"
    using fit assms by (subst accrued_exact) (simp_all add: max_def)
  have split: "(e - s) * rt = n * rt * 60 + (e - (s + 60 * n)) * rt" by (simp add: algebra_simps)
  have whole: "max (e - s) 0 = e - s" using assms(2,3) by simp
  have "accrued_charge s e rt = (e - s) * rt div 60"
    using assms by (subst accrued_exact) (simp_all add: whole)
  also have "\<dots> = n * rt + (e - (s + 60 * n)) * rt div 60"
    unfolding split by simp
  also have "(e - (s + 60 * n)) * rt div 60 = accrued_charge (s + 60 * n) e rt"
    using fit assms by (subst accrued_exact) (simp_all add: max_def)
  finally show ?thesis using one by simp
qed

theorem accrued_whole_minutes_additive_witness:
  "accrued_charge 100 407 7 = 5 * 7 + accrued_charge 400 407 7"
  using accrued_whole_minutes_additive [of 7 5 100 407] by (simp add: in_i64_def)

section \<open>Deposits\<close>

definition paid_invoice :: "'ln lightning_backend \<Rightarrow> 'ln \<Rightarrow> invoice_row \<Rightarrow> bool" where
  "paid_invoice B lns i \<longleftrightarrow> is_settled B lns (i_payment_hash i) = Inr True"

definition paid_to :: "'ln lightning_backend \<Rightarrow> 'ln \<Rightarrow> string \<Rightarrow> invoice_row list \<Rightarrow> int" where
  "paid_to B lns k ivs = sum_list (map i_sats (filter (\<lambda>i. i_account_id i = k \<and> paid_invoice B lns i) ivs))"

lemma settle_invoice_credits:
  assumes "db_wf d" "iv \<in> set (db_invoices d)" "settle_invoice iv now d = (Inr (), d')"
  shows "account_balance d' = (account_balance d)(i_account_id iv := account_balance d (i_account_id iv) + i_sats iv)"
    and "db_wf d'"
proof -
  let ?d1 = "update_invoices (\<lambda>i. i_payment_hash i = i_payment_hash iv) (\<lambda>i. i\<lparr>i_settled := True\<rparr>) d"
  obtain d2 where add: "add_balance (i_account_id iv) (i_sats iv) ?d1 = Inr d2"
    and d': "d' = db_record now Deposit (i_sats iv) (Some (i_account_id iv)) None None (Some ''deposit'') d2"
    using assms(3) by (cases rule: settle_invoice_cases [of iv now d]) auto
  have acct: "i_account_id iv \<in> account_ids ?d1"
    using assms(1,2) by (simp add: wf_defs update_invoices_def)
  have "account_balance ?d1 = account_balance d"
    by (simp add: fun_eq_iff account_balance_def find_account_def update_invoices_def)
  then show "account_balance d' = (account_balance d)(i_account_id iv := account_balance d (i_account_id iv) + i_sats iv)"
    using add_balance_effect(1) [OF add acct] by (simp add: d' frame_simps)
  have "db_wf ?d1" using assms(1) by (rule update_invoices_wf) simp_all
  then show "db_wf d'" unfolding d' by (intro db_record_wf add_balance_wf [OF _ add])
qed

lemma poll_loop_credits:
  assumes "still_pending ivs d" "poll_loop B clk lns ivs d = (res, d')"
  shows "db_wf d \<longrightarrow> res = Inr () \<longrightarrow>
    (\<forall>k. account_balance d' k = account_balance d k + paid_to B lns k ivs) \<and>
    db_invoices d' = map (\<lambda>i. if i_payment_hash i \<in> i_payment_hash ` {j \<in> set ivs. paid_invoice B lns j}
      then i\<lparr>i_settled := True\<rparr> else i) (db_invoices d) \<and>
    (\<forall>iv\<in>set ivs. is_ok (is_settled B lns (i_payment_hash iv)))"
  using assms
proof (induction rule: poll_loop_step)
  case (skip iv ivs d res d')
  then have "{j \<in> set (iv # ivs). paid_invoice B lns j} = {j \<in> set ivs. paid_invoice B lns j}"
    by (auto simp: paid_invoice_def)
  with skip show ?case by (simp add: paid_to_def paid_invoice_def)
next
  case (settle iv ivs d d1 res d')
  show ?case
  proof (intro impI)
    assume wf: "db_wf d" and ok: "res = Inr ()"
    have iv: "iv \<in> set (db_invoices d)" using settle(1) by (simp add: still_pending_def)
    note cred = settle_invoice_credits [OF wf iv settle(3)]
    note IH = settle.IH [rule_format, OF cred(2) ok]
    have paid: "paid_invoice B lns iv" using settle(2) by (simp add: paid_invoice_def)
    have sel: "{j \<in> set (iv # ivs). paid_invoice B lns j} = insert iv {j \<in> set ivs. paid_invoice B lns j}"
      using paid by auto
    have inv: "db_invoices d' = map (\<lambda>i. if i_payment_hash i \<in> i_payment_hash ` {j \<in> set (iv # ivs). paid_invoice B lns j}
      then i\<lparr>i_settled := True\<rparr> else i) (db_invoices d)"
      using IH settle_invoice_invoices [OF settle(3)] unfolding sel by (simp add: settled_row_def comp_def)
    have "account_balance d' k = account_balance d k + paid_to B lns k (iv # ivs)" for k
      using IH paid by (simp add: cred(1) paid_to_def)
    with inv IH settle(2) show "(\<forall>k. account_balance d' k = account_balance d k + paid_to B lns k (iv # ivs)) \<and>
        db_invoices d' = map (\<lambda>i. if i_payment_hash i \<in> i_payment_hash ` {j \<in> set (iv # ivs). paid_invoice B lns j}
          then i\<lparr>i_settled := True\<rparr> else i) (db_invoices d) \<and>
        (\<forall>iv\<in>set (iv # ivs). is_ok (is_settled B lns (i_payment_hash iv)))" by simp
  qed
qed (simp_all add: paid_to_def)

lemma poll_loop_none_paid:
  "(\<forall>iv\<in>set ivs. is_settled B lns (i_payment_hash iv) = Inr False) \<Longrightarrow> poll_loop B clk lns ivs d = (Inr (), d)"
  by (induction ivs) simp_all

text \<open>
  C22: as long as the sats ever invoiced fit in an \<open>i64\<close>, a poll that goes through credits each
  account with exactly its open invoices that the backend calls settled, every balance stays in
  the 64 bits of its column, and polling again with the backend unchanged does nothing: no
  invoice is credited twice.
\<close>

theorem poll_credits_once:
  assumes "money_inv d" "deposits_fit d" "poll_invoices B clk lns d = (Inr (), d')"
  shows "(\<forall>k. account_balance d' k = account_balance d k +
      paid_to B lns k (filter (\<lambda>i. \<not> i_settled i) (db_invoices d))) \<and>
    (\<forall>a\<in>set (db_accounts d'). in_i64 (a_balance_sats a)) \<and>
    poll_invoices B clk' lns d' = (Inr (), d')"
proof -
  let ?ivs = "filter (\<lambda>i. \<not> i_settled i) (db_invoices d)"
  have wf: "db_wf d" using assms(1) by (simp add: money_inv_def)
  then have pend: "still_pending ?ivs d" by (rule still_pending_start)
  note run = assms(3) [unfolded poll_invoices_def]
  note res = poll_loop_credits [OF pend run, rule_format, OF wf refl]
  have "money_inv d'" using poll_loop_money [OF pend run] assms(1) by simp
  moreover have "invoice_total d' < 2 ^ 63"
    using poll_loop_invoiced [of B clk lns ?ivs d] run assms(2) by (simp add: deposits_fit_def invoice_total_def)
  ultimately have fits: "\<forall>a\<in>set (db_accounts d'). in_i64 (a_balance_sats a)"
    using balance_bound [of d'] by (fastforce simp: in_i64_def)
  have "is_settled B lns (i_payment_hash i) = Inr False"
    if "i \<in> set (db_invoices d')" "\<not> i_settled i" for i
  proof -
    from that obtain j where j: "j \<in> set (db_invoices d)"
      "i = (if i_payment_hash j \<in> i_payment_hash ` {j \<in> set ?ivs. paid_invoice B lns j} then j\<lparr>i_settled := True\<rparr> else j)"
      using res by auto
    with that have "i = j" "\<not> i_settled j" "\<not> paid_invoice B lns j" by (auto split: if_splits)
    moreover from j(1) this have "is_ok (is_settled B lns (i_payment_hash j))" using res by simp
    ultimately show ?thesis by (auto simp: is_ok_def paid_invoice_def split: sum.splits)
  qed
  then have "poll_invoices B clk' lns d' = (Inr (), d')"
    unfolding poll_invoices_def by (intro poll_loop_none_paid) auto
  with res fits show ?thesis by blast
qed

definition demo_lightning :: "string set lightning_backend" where
  "demo_lightning = \<lparr>create_invoice = (\<lambda>b s memo. (Inl ''closed'', b)), is_settled = (\<lambda>b h. Inr (h \<in> b)),
     pay_invoice = (\<lambda>b i. (Inr (), b))\<rparr>"

theorem poll_credits_once_witness:
  "account_balance (snd (poll_invoices demo_lightning (\<lambda>_. 90) {''h2''} demo_db)) ''acct_1'' = 1500"
proof -
  have "poll_invoices demo_lightning (\<lambda>_. 90) {''h2''} demo_db =
      (Inr (), snd (poll_invoices demo_lightning (\<lambda>_. 90) {''h2''} demo_db))"
    by (simp add: poll_invoices_def)
      (simp add: demo_lightning_def demo_invoice_def demo_open_invoice_def settle_invoice_def
        settle_invoice_body_def in_transaction_def add_balance_def update_invoices_def demo_db_def Let_def)
  from poll_credits_once [OF demo_money(1) demo_fit(1) this]
  show ?thesis
    by (simp add: account_balance_def demo_find)
      (simp add: paid_to_def paid_invoice_def demo_lightning_def demo_invoice_def demo_open_invoice_def)
qed

section \<open>Silent machines\<close>

lemma default_timeout: "heartbeat_timeout_secs billing_default = 90"
  by (simp add: heartbeat_timeout_secs_def billing_default_def from_secs_def wrap64_def)

lemma enforce_machines: "db_machines (snd (enforce_budgets cfg clk d)) = db_machines d"
  unfolding enforce_budgets_def
  by (rule enforce_loop_invariant [of "\<lambda>d'. db_machines d' = db_machines d"]) (auto dest!: evict_accounts)

text \<open>
  C25: after a tick that got past the invoices, no machine whose last heartbeat is more than 90
  seconds old is online, so none is offered.
\<close>

theorem silent_machine_not_offered:
  assumes "fst (poll_invoices B (tk_poll tk) lns d) = Inr ()" "in_i64 (tk_offline tk - 90)"
    and "m \<in> set (db_machines (snd (tick B billing_default tk lns d)))"
    and "offer_matches q (snd (tick B billing_default tk lns d)) m"
  shows "tk_offline tk - 90 \<le> m_last_heartbeat m"
proof -
  obtain d1 where p: "poll_invoices B (tk_poll tk) lns d = (Inr (), d1)"
    using assms(1) by (cases "poll_invoices B (tk_poll tk) lns d") auto
  have thr: "i64_sub (tk_offline tk) (heartbeat_timeout_secs billing_default) = tk_offline tk - 90"
    unfolding default_timeout using assms(2) by (simp add: i64_sub_def wrap64_id)
  have "m \<in> set (db_machines (mark_offline billing_default (tk_offline tk) d1))"
    using assms(3) by (simp add: tick_def p enforce_machines)
  moreover have "m_online m" using assms(4) by (simp add: offer_matches_def)
  moreover have "m \<noteq> x\<lparr>m_online := False\<rparr>" if "m_online m" for x using that by auto
  ultimately show ?thesis
    by (fastforce simp: mark_offline_def Let_def thr update_machines_def set_sql_update split: if_splits)
qed

definition demo_times :: tick_clock where
  "demo_times = \<lparr>tk_poll = (\<lambda>_. 150), tk_offline = 150, tk_enforce = (\<lambda>_. 150)\<rparr>"

definition demo_any :: offers_query where
  "demo_any = \<lparr>oq_gpu_name = None, oq_min_vram_mb = None, oq_min_gpu_count = None,
     oq_max_rate_sats_per_min = None, oq_sort = None, oq_limit = None\<rparr>"

theorem silent_machine_not_offered_witness:
  "60 \<le> m_last_heartbeat demo_machine"
proof -
  have poll: "poll_invoices demo_lightning (tk_poll demo_times) {} demo_db = (Inr (), demo_db)"
    by (simp add: poll_invoices_def demo_lightning_def)
  have off: "mark_offline billing_default 150 demo_db = demo_db"
    by (simp add: mark_offline_def update_machines_def sql_update_def Let_def)
      (simp add: demo_db_def demo_machine_def heartbeat_timeout_secs_def billing_default_def from_secs_def
        i64_sub_def wrap64_def)
  have "tick demo_lightning billing_default demo_times {} demo_db = (Inr (), demo_db)"
    by (simp add: tick_def poll) (simp add: demo_times_def off enforce_budgets_def)
  then show ?thesis
    using silent_machine_not_offered [of demo_lightning demo_times "{}" demo_db demo_machine demo_any]
    by (simp add: poll) (simp add: demo_times_def in_i64_def offer_matches_def demo_any_def opt_holds_def
        machine_occupied_def demo_machine_def)
qed

section \<open>Evictions\<close>

definition evicted :: "rental_row \<Rightarrow> rental_row" where
  "evicted r = r\<lparr>r_status := Evicting, r_error := Some ''insufficient balance''\<rparr>"

lemma over_budget_cong:
  "db_machines d' = db_machines d \<Longrightarrow> db_accounts d' = db_accounts d \<Longrightarrow> over_budget hb r now d' = over_budget hb r now d"
proof -
  assume "db_machines d' = db_machines d" "db_accounts d' = db_accounts d"
  then have same: "find_machine d' = find_machine d" "find_account d' = find_account d"
    by (simp_all add: fun_eq_iff find_machine_def find_account_def)
  show "over_budget hb r now d' = over_budget hb r now d" unfolding over_budget_def same ..
qed

lemma evict_ok:
  assumes "r_machine_id r \<in> machine_ids d"
  shows "\<exists>d'. in_transaction (evict_body r now) d = (Inr (), d') \<and>
    db_rentals d' = map (\<lambda>x. if r_id x = r_id r then evicted x else x) (db_rentals d) \<and>
    map c_payload (db_commands d') = map c_payload (db_commands d) @ [command_to_json (StopRental (r_id r))]"
  using assms
  by (auto simp: in_transaction_def evict_body_def Let_def insert_command_def update_rentals_def
      sql_update_def db_record_def evicted_def)

lemma over_budget_ok:
  "r_machine_id r \<in> machine_ids d \<Longrightarrow> r_account_id r \<in> account_ids d \<Longrightarrow> \<exists>b. over_budget hb r now d = Inr b"
  by (cases "find_machine d (r_machine_id r)"; cases "find_account d (r_account_id r)")
    (auto simp: over_budget_def find_machine_None_iff find_account_None_iff)

lemma enforce_loop_evicts:
  assumes "\<forall>r\<in>set rs. r_machine_id r \<in> machine_ids d \<and> r_account_id r \<in> account_ids d"
  shows "\<exists>d'. enforce_loop hb (\<lambda>_. now) rs d = (Inr (), d') \<and>
    db_rentals d' = map (\<lambda>x. if r_id x \<in> r_id ` {r \<in> set rs. over_budget hb r now d = Inr True}
      then evicted x else x) (db_rentals d) \<and>
    map c_payload (db_commands d') = map c_payload (db_commands d) @
      map (\<lambda>r. command_to_json (StopRental (r_id r))) (filter (\<lambda>r. over_budget hb r now d = Inr True) rs)"
  using assms
proof (induction rs arbitrary: d)
  case (Cons r rs)
  have "r_machine_id r \<in> machine_ids d" "r_account_id r \<in> account_ids d" using Cons.prems by simp_all
  then obtain b where b: "over_budget hb r now d = Inr b" using over_budget_ok by blast
  show ?case
  proof (cases b)
    case True
    obtain d1 where ev: "in_transaction (evict_body r now) d = (Inr (), d1)"
      and d1: "db_rentals d1 = map (\<lambda>x. if r_id x = r_id r then evicted x else x) (db_rentals d)"
        "map c_payload (db_commands d1) = map c_payload (db_commands d) @ [command_to_json (StopRental (r_id r))]"
      using evict_ok [of r d now] Cons.prems by auto
    note same = evict_accounts [OF ev]
    have ob: "over_budget hb x now d1 = over_budget hb x now d" for x
      using same by (intro over_budget_cong) simp_all
    have "\<forall>r\<in>set rs. r_machine_id r \<in> machine_ids d1 \<and> r_account_id r \<in> account_ids d1"
      using Cons.prems same by simp
    from Cons.IH [OF this] obtain d' where "enforce_loop hb (\<lambda>_. now) rs d1 = (Inr (), d')"
      "db_rentals d' = map (\<lambda>x. if r_id x \<in> r_id ` {r \<in> set rs. over_budget hb r now d = Inr True}
        then evicted x else x) (db_rentals d1)"
      "map c_payload (db_commands d') = map c_payload (db_commands d1) @
        map (\<lambda>r. command_to_json (StopRental (r_id r))) (filter (\<lambda>r. over_budget hb r now d = Inr True) rs)"
      unfolding ob by blast
    then show ?thesis
      using b True ev d1 by (auto simp: evicted_def image_iff)
  next
    case False
    have "{r' \<in> set (r # rs). over_budget hb r' now d = Inr True} = {r' \<in> set rs. over_budget hb r' now d = Inr True}"
      using b False by auto
    with Cons.IH [of d] Cons.prems b False show ?thesis by simp
  qed
qed simp

text \<open>
  C24: the code's budget check, with the clock at one reading: on a well-formed database it always
  goes through, evicts exactly the running rentals whose accrued cost since creation exceeds the
  balance of their account (their host not being silent), queues one stop per eviction, and moves
  no money. The specification asks for another ticker (\<^verbatim>\<open>docs/SPEC.md\<close>, section 5): one that
  debits each running rental a minute in advance and evicts it when the balance is below one
  minute's rate. The theorem is about the code, which follows the comment at the head of
  \<^verbatim>\<open>billing.rs\<close>; the two disagree in \<open>poor_rental_is_not_evicted\<close>.
\<close>

theorem enforce_evicts_exactly_over_budget:
  assumes "db_wf d"
  shows "\<exists>d'. enforce_budgets cfg (\<lambda>_. now) d = (Inr (), d') \<and>
    db_rentals d' = map (\<lambda>r. if r_status r = Running \<and> over_budget (heartbeat_timeout_secs cfg) r now d = Inr True
      then evicted r else r) (db_rentals d) \<and>
    map c_payload (db_commands d') = map c_payload (db_commands d) @
      map (\<lambda>r. command_to_json (StopRental (r_id r)))
        (filter (\<lambda>r. r_status r = Running \<and> over_budget (heartbeat_timeout_secs cfg) r now d = Inr True) (db_rentals d)) \<and>
    bank_of d' = bank_of d"
proof -
  let ?hb = "heartbeat_timeout_secs cfg"
  let ?rs = "filter (\<lambda>r. r_status r = Running) (db_rentals d)"
  have "\<forall>r\<in>set ?rs. r_machine_id r \<in> machine_ids d \<and> r_account_id r \<in> account_ids d"
    using assms by (simp add: wf_defs)
  from enforce_loop_evicts [OF this] obtain d' where d': "enforce_loop ?hb (\<lambda>_. now) ?rs d = (Inr (), d')"
    "db_rentals d' = map (\<lambda>x. if r_id x \<in> r_id ` {r \<in> set ?rs. over_budget ?hb r now d = Inr True}
      then evicted x else x) (db_rentals d)"
    "map c_payload (db_commands d') = map c_payload (db_commands d) @
      map (\<lambda>r. command_to_json (StopRental (r_id r))) (filter (\<lambda>r. over_budget ?hb r now d = Inr True) ?rs)"
    by blast
  have "r_id x \<in> r_id ` {r \<in> set ?rs. over_budget ?hb r now d = Inr True} \<longleftrightarrow>
      r_status x = Running \<and> over_budget ?hb x now d = Inr True" if "x \<in> set (db_rentals d)" for x
    using assms that by (auto simp: wf_defs distinct_map inj_on_def)
  then have "db_rentals d' = map (\<lambda>r. if r_status r = Running \<and> over_budget ?hb r now d = Inr True
      then evicted r else r) (db_rentals d)"
    unfolding d'(2) by (intro map_cong) simp_all
  moreover have "bank_of d' = bank_of d"
    using bank_enforce [of cfg "\<lambda>_. now" d] d'(1) by (simp add: enforce_budgets_def)
  ultimately show ?thesis
    using d'(1,3) by (simp add: enforce_budgets_def conj_commute)
qed

theorem enforce_evicts_exactly_over_budget_witness:
  "map r_status (db_rentals (snd (enforce_budgets \<lparr>bc_tick = 1, bc_heartbeat_timeout = 10 ^ 15\<rparr> (\<lambda>_. 7000) demo_rented))) = [Evicting]"
proof -
  have "over_budget (heartbeat_timeout_secs \<lparr>bc_tick = 1, bc_heartbeat_timeout = 10 ^ 15\<rparr>) demo_rental 7000 demo_rented = Inr True"
    by (simp add: over_budget_def demo_rental_def demo_find)
      (simp add: demo_machine_def heartbeat_timeout_secs_def i64_sub_def accrued_charge_def i64_mul_def
        i64_div_def signed_divide_int_def wrap64_def)
  moreover have "r_status demo_rental = Running" by (simp add: demo_rental_def)
  ultimately show ?thesis
    using enforce_evicts_exactly_over_budget [OF demo_wf(2), of "\<lparr>bc_tick = 1, bc_heartbeat_timeout = 10 ^ 15\<rparr>" 7000]
    by (auto simp: evicted_def)
qed

text \<open>
  where the specification evicts and the code does not: a running rental at 10 sats a minute whose
  account holds 5 sats, 12 seconds after its creation. Nothing has been charged for it either.
\<close>

definition poor_rented :: db where
  "poor_rented = demo_rented\<lparr>db_accounts := map (\<lambda>a. a\<lparr>a_balance_sats := 5\<rparr>) (db_accounts demo_rented)\<rparr>"

lemma enforce_one_passed:
  assumes "db_rentals d = [r]" "r_status r = Running" "over_budget (heartbeat_timeout_secs cfg) r now d = Inr False"
  shows "enforce_budgets cfg (\<lambda>_. now) d = (Inr (), d)"
  using assms by (simp add: enforce_budgets_def)

theorem poor_rental_is_not_evicted:
  "account_balance poor_rented ''acct_1'' < r_rate_sats_per_min demo_rental \<and> r_status demo_rental = Running \<and>
   enforce_budgets billing_default (\<lambda>_. 112) poor_rented = (Inr (), poor_rented)"
proof -
  have "db_rentals poor_rented = [demo_rental]" by (simp add: poor_rented_def)
  moreover have run: "r_status demo_rental = Running" by (simp add: demo_rental_def)
  moreover have "over_budget (heartbeat_timeout_secs billing_default) demo_rental 112 poor_rented = Inr False"
    unfolding default_timeout by code_simp
  ultimately have "enforce_budgets billing_default (\<lambda>_. 112) poor_rented = (Inr (), poor_rented)" by (rule enforce_one_passed)
  moreover have "account_balance poor_rented ''acct_1'' < r_rate_sats_per_min demo_rental" by code_simp
  ultimately show ?thesis using run by simp
qed

text \<open>
  a host's silence is charged: the specification and \<^verbatim>\<open>docs/BACKGROUND.md\<close> stop the billing clock
  of a host that is not heard from. The rental is 300 seconds old and its host has been silent
  since its creation; the budget check passes it over, whatever its cost, and the report of its
  end charges all 300 seconds.
\<close>

theorem silence_is_charged:
  "m_last_heartbeat demo_machine = r_created_at demo_rental \<and>
   enforce_budgets billing_default (\<lambda>_. 400) demo_rented = (Inr (), demo_rented) \<and>
   account_balance demo_rented ''acct_1'' = 1000 \<and>
   account_balance (snd (report demo_auth demo_stop 400 demo_rented)) ''acct_1'' = 950"
proof -
  have "db_rentals demo_rented = [demo_rental]" "r_status demo_rental = Running" by (simp_all add: demo_rental_def)
  moreover have "over_budget (heartbeat_timeout_secs billing_default) demo_rental 400 demo_rented = Inr False"
    unfolding default_timeout by code_simp
  ultimately have "enforce_budgets billing_default (\<lambda>_. 400) demo_rented = (Inr (), demo_rented)" by (rule enforce_one_passed)
  moreover have "m_last_heartbeat demo_machine = r_created_at demo_rental" by code_simp
  moreover have "account_balance demo_rented ''acct_1'' = 1000" by code_simp
  moreover have "account_balance (snd (report demo_auth demo_stop 400 demo_rented)) ''acct_1'' = 950" by code_simp
  ultimately show ?thesis by simp
qed

end
