(* ===== verification/Account_Books.thy ===== *)
theory Account_Books
  imports Samples
begin

text \<open>
  The part of the money invariant that needs no handler to run alone. \<open>acct_inv\<close>: every
  account's balance is the sum of its ledger rows. \<open>host_books\<close>: what the accounts hold
  and what the hosts were credited is what was deposited, and the hosts are owed no more than
  they were credited; so no balance and no amount owed exceeds what was invoiced. Each lemma is
  about one transaction with the rows it is given, however old they are.
\<close>

section \<open>The accounts' books\<close>

definition acct_inv :: "db \<Rightarrow> bool" where
  "acct_inv d \<longleftrightarrow> db_wf d \<and> account_balance d = account_ledger d \<and> (\<forall>l\<in>set (db_ledger d). entry_owned d l)"

lemma acct_inv_frame:
  assumes "acct_inv d" "db_wf d'" "account_balance d' = account_balance d" "db_ledger d' = db_ledger d"
    and "machine_ids d \<subseteq> machine_ids d'" "account_ids d \<subseteq> account_ids d'"
  shows "acct_inv d'"
  using assms entry_owned_mono [of d d'] by (auto simp: acct_inv_def account_ledger_def fun_eq_iff)

lemma acct_inv_update_machines [wf_intros]:
  assumes "acct_inv d" "\<And>m. m_id (f m) = m_id m" "\<And>m. m_agent_token (f m) = m_agent_token m"
    "\<And>m. m_host_id (f m) = m_host_id m"
  shows "acct_inv (update_machines p f d)"
  using assms by (intro acct_inv_frame [OF assms(1)] update_machines_wf) (simp_all add: acct_inv_def frame_simps)

lemma acct_inv_update_rentals [wf_intros]:
  assumes "acct_inv d" "\<And>r. r_id (f r) = r_id r" "\<And>r. r_machine_id (f r) = r_machine_id r"
    "\<And>r. r_account_id (f r) = r_account_id r"
  shows "acct_inv (update_rentals p f d)"
  using assms by (intro acct_inv_frame [OF assms(1)] update_rentals_wf) (simp_all add: acct_inv_def frame_simps)

lemma acct_inv_same_tables:
  assumes "acct_inv d" "db_wf d'" "db_machines d' = db_machines d" "db_accounts d' = db_accounts d"
    "db_ledger d' = db_ledger d"
  shows "acct_inv d'"
  using assms by (intro acct_inv_frame [OF assms(1)]) (simp_all add: fun_eq_iff account_balance_def find_account_def)

lemma acct_inv_update_commands [wf_intros]:
  assumes "acct_inv d"
  shows "acct_inv (update_commands p (\<lambda>c. c\<lparr>c_delivered := b\<rparr>) d)"
proof (rule acct_inv_same_tables [OF assms])
  show "db_wf (update_commands p (\<lambda>c. c\<lparr>c_delivered := b\<rparr>) d)"
    using assms by (intro update_commands_wf) (simp_all add: acct_inv_def)
qed (simp_all add: update_commands_def)

lemma acct_inv_mark_delivered [wf_intros]: "acct_inv d \<Longrightarrow> acct_inv (mark_delivered cs d)"
  by (induction cs d rule: mark_delivered.induct) (simp_all add: acct_inv_update_commands)

lemma acct_inv_insert_command [wf_intros]:
  assumes "acct_inv d" "insert_command m j now d = Inr d'"
  shows "acct_inv d'"
proof (rule acct_inv_same_tables [OF assms(1)])
  show "db_wf d'" using assms(1) by (intro insert_command_wf [OF _ assms(2)]) (simp add: acct_inv_def)
qed (use assms(2) in \<open>auto simp: insert_command_def split: if_splits\<close>)

lemma acct_inv_insert_rental [wf_intros]:
  assumes "acct_inv d" "insert_rental r d = Inr (k, d')"
  shows "acct_inv d'"
proof (rule acct_inv_same_tables [OF assms(1)])
  show "db_wf d'" using assms(1) by (intro insert_rental_wf [OF _ assms(2)]) (simp add: acct_inv_def)
qed (use assms(2) in \<open>auto simp: insert_rental_def Let_def split: if_splits\<close>)

lemma acct_inv_insert_invoice [wf_intros]:
  assumes "acct_inv d" "insert_invoice i d = Inr d'"
  shows "acct_inv d'"
proof (rule acct_inv_same_tables [OF assms(1)])
  show "db_wf d'" using assms(1) by (intro insert_invoice_wf [OF _ assms(2)]) (simp add: acct_inv_def)
qed (use assms(2) in \<open>auto simp: insert_invoice_def split: if_splits\<close>)

lemma acct_inv_insert_account [wf_intros]:
  assumes "acct_inv d" "insert_account a d = Inr d'" "a_balance_sats a = 0"
  shows "acct_inv d'"
proof (rule acct_inv_frame [OF assms(1)])
  show "db_wf d'" using assms(1) by (intro insert_account_wf [OF _ assms(2)]) (simp add: acct_inv_def)
  show "account_balance d' = account_balance d"
    using bank_of_insert_owner(1) [OF assms(2,3)] by (simp add: bank_of_def)
qed (use assms(2) in \<open>auto simp: insert_account_def split: if_splits\<close>)

lemma acct_inv_insert_machine [wf_intros]:
  assumes "acct_inv d" "insert_machine m d = Inr (k, d')"
  shows "acct_inv d'"
proof (rule acct_inv_frame [OF assms(1)])
  show "db_wf d'" using assms(1) by (intro insert_machine_wf [OF _ assms(2)]) (simp add: acct_inv_def)
qed (use assms(2) in \<open>auto simp: insert_machine_def Let_def account_balance_def find_account_def fun_eq_iff split: if_splits\<close>)

lemma acct_inv_record_account:
  assumes "db_wf d" "account_balance d = (account_ledger d)(a := account_ledger d a + x)"
    and "\<forall>l\<in>set (db_ledger d). entry_owned d l" "a \<in> account_ids d"
  shows "acct_inv (db_record ts k x (Some a) None r n d)"
  using assms by (simp add: acct_inv_def db_record_wf frame_simps account_ledger_record db_ledger_record)
    (simp add: entry_owned_def)

lemma acct_inv_record_machine:
  assumes "acct_inv d" "m \<in> machine_ids d"
  shows "acct_inv (db_record ts k x None (Some m) r n d)"
  using assms by (simp add: acct_inv_def db_record_wf frame_simps account_ledger_record db_ledger_record)
    (simp add: entry_owned_def)

text \<open>A credit or a debit with its ledger row.\<close>

lemma acct_inv_move:
  assumes inv: "acct_inv d" and add: "add_balance a x d = Inr d1" and a: "a \<in> account_ids d"
    and same: "account_balance d2 = account_balance d1" "account_ledger d2 = account_ledger d1" "db_ledger d2 = db_ledger d1"
      "machine_ids d2 = machine_ids d1" "account_ids d2 = account_ids d1" "db_wf d2"
  shows "acct_inv (db_record ts k x (Some a) None r n d2)"
proof (rule acct_inv_record_account)
  note eff = add_balance_effect [OF add a]
  show "account_balance d2 = (account_ledger d2)(a := account_ledger d2 a + x)"
    using inv by (simp add: same eff acct_inv_def)
  show "\<forall>l\<in>set (db_ledger d2). entry_owned d2 l"
    using inv entry_owned_mono [of d d2] by (simp add: same eff acct_inv_def)
  show "a \<in> account_ids d2" using a by (simp add: same eff)
qed (rule same(6))

section \<open>Transactions keep the accounts' books\<close>

lemma acct_charge:
  assumes inv: "acct_inv d" and ids: "a \<in> account_ids d" "m \<in> machine_ids d"
    and amt: "0 < x" "x < 2 ^ 63" and add: "add_balance a (- x) d = Inr d1"
  shows "acct_inv (record_charge ts a m r x
    (update_machines (\<lambda>y. m_id y = m) (\<lambda>y. y\<lparr>m_payout_balance := m_payout_balance y + x\<rparr>) d1))"
proof -
  let ?d2 = "update_machines (\<lambda>y. m_id y = m) (\<lambda>y. y\<lparr>m_payout_balance := m_payout_balance y + x\<rparr>) d1"
  have neg: "i64_neg x = - x" using amt by (simp add: i64_neg_def wrap64_id in_i64_def)
  note eff = add_balance_effect [OF add ids(1)]
  have "db_wf ?d2"
    using inv by (intro update_machines_wf add_balance_wf [OF _ add]) (simp_all add: acct_inv_def)
  then have "acct_inv (db_record ts RentalCharge (- x) (Some a) None (Some r) None ?d2)"
    by (intro acct_inv_move [OF inv add ids(1)]) (simp_all add: frame_simps)
  then show ?thesis
    unfolding record_charge_def neg using ids(2) by (intro acct_inv_record_machine) (simp_all add: frame_simps eff)
qed

lemma acct_settle_rental:
  assumes "acct_inv d" "settle_rental machine rental now d = Inr d'" "m_id machine \<in> machine_ids d"
  shows "acct_inv d'"
proof -
  obtain acct d1 where acct: "find_account d (r_account_id rental) = Some acct"
    and ch: "charge_rental machine rental (min (accrued_charge (r_created_at rental) now
        (r_rate_sats_per_min rental)) (a_balance_sats acct)) now d = Inr d1"
    and d': "\<exists>c k. d' = update_rentals (\<lambda>r. r_id r = r_id rental)
        (\<lambda>r. r\<lparr>r_sats_charged := c, r_minutes_billed := k\<rparr>) d1"
    using assms(2) by (auto simp: settle_rental_def Let_def split: option.splits sum.splits)
  have a: "r_account_id rental \<in> account_ids d" using find_account_SomeD [OF acct] by force
  have "min (accrued_charge (r_created_at rental) now (r_rate_sats_per_min rental)) (a_balance_sats acct) < 2 ^ 63"
    by (rule le_less_trans [OF min.cobounded1]) (use accrued_in_i64 in \<open>simp add: in_i64_def\<close>)
  then have "acct_inv d1"
    using ch assms(1) acct_charge [OF assms(1) a assms(3)]
    by (auto simp: charge_rental_def split: if_splits sum.splits)
  then show ?thesis using d' by (auto intro: acct_inv_update_rentals)
qed

lemma acct_report_body:
  assumes "acct_inv d" "report_body machine rental req now d = Inr (u, d')" "m_id machine \<in> machine_ids d"
  shows "acct_inv d'"
proof -
  let ?d1 = "update_rentals (\<lambda>r. r_id r = rp_rental_id req)
      (apply_report req (m_public_ip machine) (if is_terminal (rp_status req) then Some now else None)) d"
  have "acct_inv ?d1" by (rule acct_inv_update_rentals [OF assms(1)]) (simp_all add: apply_report_def)
  moreover have "m_id machine \<in> machine_ids ?d1" using assms(3) by (simp add: frame_simps)
  ultimately show ?thesis
    using assms(2) acct_settle_rental [of ?d1 machine rental now d']
    by (auto simp: report_body_def Let_def split: if_splits sum.splits)
qed

lemma acct_evict:
  assumes "acct_inv d" "r_account_id r \<in> account_ids d"
  shows "acct_inv (snd (in_transaction (evict_body r now) d))"
proof (rule in_transaction_inv [of acct_inv, OF assms(1)])
  fix u d' assume body: "evict_body r now d = Inr (u, d')"
  then have "in_transaction (evict_body r now) d = (Inr u, d')" by (simp add: in_transaction_def)
  then show "acct_inv d'"
  proof (rule evict_InrE)
    fix d2
    let ?d1 = "update_rentals (\<lambda>x. r_id x = r_id r)
        (\<lambda>x. x\<lparr>r_status := Evicting, r_error := Some ''insufficient balance''\<rparr>) d"
    assume cmd: "insert_command (r_machine_id r) (command_to_json (StopRental (r_id r))) now ?d1 = Inr d2"
      and d': "d' = db_record now Evict 0 (Some (r_account_id r)) None (Some (r_id r)) (Some ''insufficient balance'') d2"
    have "acct_inv ?d1" by (rule acct_inv_update_rentals [OF assms(1)]) simp_all
    then have "acct_inv d2" using cmd by (rule acct_inv_insert_command)
    moreover have "account_ids d2 = account_ids d"
      using cmd by (auto simp: insert_command_def update_rentals_def split: if_splits)
    ultimately show ?thesis unfolding d' using assms(2)
      by (intro acct_inv_record_account) (auto simp: acct_inv_def)
  qed
qed

lemma acct_delete_commit:
  assumes "acct_inv d"
  shows "acct_inv (snd (delete_rental_commit r now d))"
proof (cases "delete_rental_commit r now d")
  case (Pair res d')
  show ?thesis
  proof (cases res)
    case (Inl e)
    with Pair assms delete_rental_handler.err_unchanged [of r now d e d'] show ?thesis by simp
  next
    case (Inr x)
    with Pair have "delete_rental_commit r now d = (Inr x, d')" by simp
    moreover have "acct_inv (update_rentals p (\<lambda>x. x\<lparr>r_status := Evicting\<rparr>) d)" for p
      by (rule acct_inv_update_rentals [OF assms]) simp_all
    ultimately have "acct_inv d'"
      by (elim delete_rental_commit_InrE) (rule acct_inv_insert_command)
    with Pair show ?thesis by simp
  qed
qed

lemma acct_payout_commit:
  assumes "acct_inv d" "m_id m \<in> machine_ids d"
  shows "acct_inv (snd (payout_commit m now d))"
  unfolding payout_commit_eq snd_conv
  by (intro acct_inv_record_machine acct_inv_update_machines) (use assms in \<open>simp_all add: frame_simps\<close>)

lemma acct_settle_invoice:
  assumes "acct_inv d" "iv \<in> set (db_invoices d)"
  shows "acct_inv (snd (settle_invoice iv now d))"
proof (cases rule: settle_invoice_cases [of iv now d])
  case (ok d2)
  let ?d1 = "update_invoices (\<lambda>i. i_payment_hash i = i_payment_hash iv) (\<lambda>i. i\<lparr>i_settled := True\<rparr>) d"
  have wf1: "db_wf ?d1" using assms(1) by (intro update_invoices_wf) (simp_all add: acct_inv_def)
  have "acct_inv ?d1"
    by (rule acct_inv_same_tables [OF assms(1) wf1]) (simp_all add: update_invoices_def)
  moreover have "i_account_id iv \<in> account_ids ?d1"
    using assms by (simp add: acct_inv_def wf_defs update_invoices_def)
  ultimately show ?thesis
    unfolding ok(2) snd_conv using add_balance_wf [OF wf1 ok(1)]
    by (intro acct_inv_move [OF _ ok(1)]) simp_all
qed (simp add: assms(1))

section \<open>What bounds the balances\<close>

abbreviation host_credits :: "db \<Rightarrow> int" where
  "host_credits d \<equiv> kind_sum d HostCredit"

definition host_books :: "db \<Rightarrow> bool" where
  "host_books d \<longleftrightarrow> (\<forall>i\<in>set (db_invoices d). 1 \<le> i_sats i) \<and> (\<forall>m\<in>set (db_machines d). 0 \<le> m_payout_balance m) \<and>
     total_balance d + host_credits d = settled_total d \<and> total_owed d \<le> host_credits d"

lemma host_books_empty: "host_books db_empty"
  by (simp add: host_books_def db_empty_def total_balance_def total_owed_def settled_total_def kind_sum_def)

lemma host_books_bounds:
  assumes "db_wf d" "host_books d"
  shows "a \<in> set (db_accounts d) \<Longrightarrow> a_balance_sats a \<le> invoice_total d"
    and "m \<in> set (db_machines d) \<Longrightarrow> 0 \<le> m_payout_balance m \<and> m_payout_balance m \<le> invoice_total d"
proof -
  have acc: "\<forall>a\<in>set (db_accounts d). 0 \<le> a_balance_sats a" using assms(1) by (simp add: wf_defs)
  have mach: "\<forall>m\<in>set (db_machines d). 0 \<le> m_payout_balance m" using assms(2) by (simp add: host_books_def)
  have tot: "0 \<le> total_balance d" "0 \<le> total_owed d"
    unfolding total_balance_def total_owed_def by (intro sum_nonneg, fact)+
  have "settled_total d \<le> invoice_total d"
    unfolding settled_total_def invoice_total_def
    by (rule sum_filter_le) (use assms(2) in \<open>auto simp: host_books_def\<close>)
  then have le: "total_balance d \<le> invoice_total d" "total_owed d \<le> invoice_total d"
    using assms(2) tot by (simp_all add: host_books_def)
  show "a_balance_sats a \<le> invoice_total d" if "a \<in> set (db_accounts d)"
    using member_le_sum [OF that acc] le(1) by (simp add: total_balance_def)
  show "0 \<le> m_payout_balance m \<and> m_payout_balance m \<le> invoice_total d" if "m \<in> set (db_machines d)"
    using member_le_sum [OF that mach] le(2) mach that by (simp add: total_owed_def)
qed

text \<open>Statements that touch none of it.\<close>

definition quiet :: "db \<Rightarrow> db \<Rightarrow> bool" where
  "quiet d d' \<longleftrightarrow> total_balance d' = total_balance d \<and> total_owed d' = total_owed d \<and>
     host_credits d' = host_credits d \<and> settled_total d' = settled_total d \<and>
     ((\<forall>m\<in>set (db_machines d). 0 \<le> m_payout_balance m) \<longrightarrow> (\<forall>m\<in>set (db_machines d'). 0 \<le> m_payout_balance m)) \<and>
     ((\<forall>i\<in>set (db_invoices d). 1 \<le> i_sats i) \<longrightarrow> (\<forall>i\<in>set (db_invoices d'). 1 \<le> i_sats i))"

named_theorems quiet_intros \<open>statements that move no money\<close>

lemma quiet_books: "quiet d d' \<Longrightarrow> host_books d \<Longrightarrow> host_books d'"
  by (simp add: quiet_def host_books_def)

lemma quiet_refl [simp]: "quiet d d" by (simp add: quiet_def)

lemma quiet_trans [trans]: "quiet d d1 \<Longrightarrow> quiet d1 d2 \<Longrightarrow> quiet d d2"
  unfolding quiet_def by metis

lemma quiet_machines [quiet_intros]:
  "(\<And>m. m_payout_balance (f m) = m_payout_balance m) \<Longrightarrow> quiet d (update_machines p f d)"
  by (auto simp: quiet_def update_machines_def total_balance_def total_owed_def kind_sum_def settled_total_def
      sum_sql_update_other set_sql_update)

lemma quiet_statements [quiet_intros]:
  "quiet d (update_rentals p g d)" "quiet d (update_commands q h d)"
  "k \<noteq> HostCredit \<Longrightarrow> quiet d (db_record ts k x a m r n d)"
  by (simp_all add: quiet_def update_rentals_def update_commands_def db_record_def total_balance_def
      total_owed_def kind_sum_def settled_total_def)

lemma quiet_inserts [quiet_intros]:
  "insert_account a d = Inr d' \<Longrightarrow> a_balance_sats a = 0 \<Longrightarrow> quiet d d'"
  "insert_machine m d = Inr (k, d') \<Longrightarrow> m_payout_balance m = 0 \<Longrightarrow> quiet d d'"
  "insert_rental r d = Inr (k, d') \<Longrightarrow> quiet d d'"
  "insert_invoice i d = Inr d' \<Longrightarrow> 1 \<le> i_sats i \<Longrightarrow> \<not> i_settled i \<Longrightarrow> quiet d d'"
  "insert_command c j t d = Inr d' \<Longrightarrow> quiet d d'"
  by (auto simp: quiet_def insert_account_def insert_machine_def insert_rental_def insert_invoice_def
      insert_command_def Let_def total_balance_def total_owed_def kind_sum_def settled_total_def split: if_splits)

lemma quiet_mark_delivered [quiet_intros]: "quiet d (mark_delivered cs d)"
  by (induction cs d rule: mark_delivered.induct) (auto intro: quiet_trans quiet_statements(2))

lemma quiet_in_transaction:
  "(\<And>x d'. body d = Inr (x, d') \<Longrightarrow> quiet d d') \<Longrightarrow> quiet d (snd (in_transaction body d))"
  by (rule in_transaction_inv) auto

text \<open>What moves money: an account's balance, an amount owed.\<close>

lemma total_balance_add:
  assumes "db_wf d" "add_balance k x d = Inr d'" "k \<in> account_ids d"
  shows "total_balance d' = total_balance d + x"
proof -
  obtain a where a: "a \<in> set (db_accounts d)" "a_id a = k" using assms(3) by auto
  have "distinct (map a_id (db_accounts d))" using assms(1) by (simp add: wf_defs)
  from sum_sql_update_key [OF this a(1), of a_balance_sats "\<lambda>a. a\<lparr>a_balance_sats := a_balance_sats a + x\<rparr>"]
  show ?thesis using assms(2) a(2) by (auto simp: add_balance_def total_balance_def split: if_splits)
qed

lemma total_owed_update:
  assumes "db_wf d" "m \<in> set (db_machines d)" "\<And>y. m_payout_balance (f y) = g (m_payout_balance y)"
  shows "total_owed (update_machines (\<lambda>y. m_id y = m_id m) f d) =
    total_owed d - m_payout_balance m + g (m_payout_balance m)"
  using sum_sql_update_key [of m_id "db_machines d" m m_payout_balance f] assms
  by (simp add: wf_defs total_owed_def update_machines_def)

lemma add_balance_same:
  assumes "add_balance k x d = Inr d'"
  shows "db_machines d' = db_machines d" "db_invoices d' = db_invoices d" "db_ledger d' = db_ledger d"
  using assms by (auto simp: add_balance_def split: if_splits)

lemma host_books_charge:
  assumes "db_wf d" "host_books d" "charge_rental machine rental x now d = Inr d'"
    and "r_account_id rental \<in> account_ids d" "m_id machine \<in> machine_ids d"
  shows "host_books d'"
proof (cases "0 < x")
  case True
  let ?f = "\<lambda>m. m\<lparr>m_payout_balance := m_payout_balance m + x\<rparr>"
  obtain d1 where add: "add_balance (r_account_id rental) (- x) d = Inr d1"
    and d': "d' = record_charge now (r_account_id rental) (m_id machine) (r_id rental) x
      (update_machines (\<lambda>m. m_id m = m_id machine) ?f d1)"
    using assms(3) True by (auto simp: charge_rental_def split: sum.splits)
  note same = add_balance_same [OF add]
  obtain m where m: "m \<in> set (db_machines d1)" "m_id m = m_id machine" using assms(5) by (auto simp: same)
  have bal: "total_balance d1 = total_balance d - x" using total_balance_add [OF assms(1) add assms(4)] by simp
  have "total_owed (update_machines (\<lambda>y. m_id y = m_id m) ?f d1) = total_owed d1 + x"
    using total_owed_update [OF add_balance_wf [OF assms(1) add] m(1), of ?f "\<lambda>v. v + x"] by simp
  then have owed: "total_owed d' = total_owed d + x"
    by (simp add: d' m(2) record_charge_def db_record_def) (simp add: total_owed_def same)
  have "total_balance d' = total_balance d - x" "settled_total d' = settled_total d" "host_credits d' = host_credits d + x"
    using bal by (simp_all add: d' record_charge_def db_record_def update_machines_def total_balance_def
        settled_total_def kind_sum_def same)
  moreover have "db_invoices d' = db_invoices d"
    "db_machines d' = sql_update (\<lambda>m. m_id m = m_id machine) ?f (db_machines d)"
    by (simp_all add: d' record_charge_def db_record_def update_machines_def same)
  ultimately show ?thesis using assms(2) owed True by (auto simp: host_books_def set_sql_update)
qed (use assms(2,3) in \<open>simp add: charge_rental_def\<close>)

lemma host_books_settle:
  assumes "db_wf d" "host_books d" "settle_rental machine rental now d = Inr d'" "m_id machine \<in> machine_ids d"
  shows "host_books d'"
proof -
  obtain acct x d1 c k where acct: "find_account d (r_account_id rental) = Some acct"
    and ch: "charge_rental machine rental x now d = Inr d1"
    and d': "d' = update_rentals (\<lambda>r. r_id r = r_id rental) (\<lambda>r. r\<lparr>r_sats_charged := c, r_minutes_billed := k\<rparr>) d1"
    using assms(3) by (auto simp: settle_rental_def Let_def split: option.splits sum.splits)
  have "r_account_id rental \<in> account_ids d" using find_account_SomeD [OF acct] by force
  from host_books_charge [OF assms(1,2) ch this assms(4)] show ?thesis
    unfolding d' by (rule quiet_books [OF quiet_statements(1)])
qed

lemma host_books_report_body:
  assumes "db_wf d" "host_books d" "report_body machine rental req now d = Inr (u, d')" "m_id machine \<in> machine_ids d"
  shows "host_books d'"
proof -
  let ?d1 = "update_rentals (\<lambda>r. r_id r = rp_rental_id req)
      (apply_report req (m_public_ip machine) (if is_terminal (rp_status req) then Some now else None)) d"
  have "db_wf ?d1" by (rule update_rentals_wf [OF assms(1)]) (simp_all add: apply_report_def)
  moreover have "host_books ?d1" using quiet_statements(1) assms(2) by (rule quiet_books)
  moreover have "m_id machine \<in> machine_ids ?d1" using assms(4) by (simp add: frame_simps)
  ultimately show ?thesis
    using assms(3) host_books_settle [of ?d1 machine rental now d']
    by (auto simp: report_body_def Let_def split: if_splits sum.splits)
qed

lemma host_books_payout_commit:
  assumes "db_wf d" "host_books d" "m_id m \<in> machine_ids d"
  shows "host_books (snd (payout_commit m now d))"
proof -
  let ?d1 = "update_machines (\<lambda>y. m_id y = m_id m) (\<lambda>y. y\<lparr>m_payout_balance := 0\<rparr>) d"
  obtain x where x: "x \<in> set (db_machines d)" "m_id x = m_id m" using assms(3) by auto
  have "0 \<le> m_payout_balance x" using assms(2) x(1) by (simp add: host_books_def)
  moreover have "total_owed ?d1 = total_owed d - m_payout_balance x"
    using total_owed_update [OF assms(1) x(1), of _ "\<lambda>_. 0"] by (simp add: x(2))
  moreover have "total_balance ?d1 = total_balance d" "settled_total ?d1 = settled_total d"
    "host_credits ?d1 = host_credits d" "db_invoices ?d1 = db_invoices d"
    by (simp_all add: update_machines_def total_balance_def settled_total_def kind_sum_def)
  moreover have "\<forall>y\<in>set (db_machines ?d1). 0 \<le> m_payout_balance y"
    using assms(2) by (auto simp: host_books_def update_machines_def set_sql_update)
  ultimately have "host_books ?d1" using assms(2) by (simp add: host_books_def)
  then show ?thesis
    unfolding payout_commit_eq snd_conv by (rule quiet_books [OF quiet_statements(3), rotated]) simp
qed

lemma host_books_settle_invoice:
  assumes "db_wf d" "host_books d" "iv \<in> set (db_invoices d)" "\<not> i_settled iv"
  shows "host_books (snd (settle_invoice iv now d))"
proof (cases rule: settle_invoice_cases [of iv now d])
  case (ok d2)
  let ?d1 = "update_invoices (\<lambda>i. i_payment_hash i = i_payment_hash iv) (\<lambda>i. i\<lparr>i_settled := True\<rparr>) d"
  have wf: "db_wf ?d1" using assms(1) by (intro update_invoices_wf) simp_all
  have "i_account_id iv \<in> account_ids ?d1" using assms(1,3) by (simp add: wf_defs update_invoices_def)
  from total_balance_add [OF wf ok(1) this] have "total_balance d2 = total_balance d + i_sats iv"
    by (simp add: total_balance_def update_invoices_def)
  moreover have "settled_total d2 = settled_total d + i_sats iv"
    using settled_total_settle [OF assms(1,3,4)] add_balance_same(2) [OF ok(1)] by (simp add: settled_total_def)
  moreover have "total_owed d2 = total_owed d" "host_credits d2 = host_credits d" "db_machines d2 = db_machines d"
    "\<forall>i\<in>set (db_invoices d2). 1 \<le> i_sats i"
    using assms(2) by (auto simp: add_balance_same [OF ok(1)] total_owed_def kind_sum_def update_invoices_def
        host_books_def set_sql_update)
  ultimately have "host_books d2" using assms(2) by (simp add: host_books_def)
  then show ?thesis unfolding ok(2) snd_conv by (rule quiet_books [OF quiet_statements(3), rotated]) simp
qed (simp add: assms(2))

lemma quiet_evict: "quiet d (snd (in_transaction (evict_body r now) d))"
  by (rule quiet_in_transaction)
    (auto simp: evict_body_def Let_def split: sum.splits intro!: quiet_trans [OF _ quiet_statements(3)]
      intro: quiet_trans [OF quiet_statements(1) quiet_inserts(5)])

lemma quiet_delete_commit: "quiet d (snd (delete_rental_commit r now d))"
proof -
  have "quiet d (snd (in_transaction (delete_rental_body r now) d))"
    by (rule quiet_in_transaction)
      (auto simp: delete_rental_body_def Let_def split: sum.splits
        intro: quiet_trans [OF quiet_statements(1) quiet_inserts(5)])
  then show ?thesis by (auto simp: delete_rental_commit_def split: sum.splits prod.splits)
qed

end
