(* ===== verification/Concurrency.thy ===== *)
theory Concurrency
  imports Account_Books
begin

text \<open>
  Requests and the ticker run concurrently, and other statements may commit between any two
  queries a task awaits outside of a transaction. A \<open>flight\<close> is a handler between two of its
  awaits, with the rows it has read; a \<open>ticker\<close> is the place of the one ticker task in its
  three loops, with the lists it has fetched; \<open>conc_step\<close> advances any of them by one query,
  one transaction or one call of the Lightning node. Run without interruption they are the handlers
  and the \<open>tick\<close> (\<open>handlers_are_flights\<close>, \<open>tick_is_run\<close>). The accounts' books survive
  every interleaving; what a machine is owed does not, and a stop may be charged twice.
\<close>

section \<open>The handlers between their awaits\<close>

datatype flight =
    RegisterFlight string register_request "machine_row option"
  | HeartbeatFlight machine_row bool
  | RateFlight machine_row int
  | ReportAuthed machine_row report_request
  | ReportFlight machine_row rental_row report_request
  | PayoutFlight machine_row string
  | PaidFlight machine_row
  | DepositFlight string int
  | InvoicedFlight string int invoice
  | DeleteFlight rental_row

text \<open>The statement \<open>register\<close> ends with, by what its query had found.\<close>

definition register_write :: "string \<Rightarrow> register_request \<Rightarrow> machine_row option \<Rightarrow> int \<Rightarrow> db \<Rightarrow> db" where
  "register_write token req found now d =
     (case found of
        Some m \<Rightarrow> update_machines (\<lambda>x. m_id x = m_id m) (apply_registration req now) d
      | None \<Rightarrow>
          (case insert_machine (new_machine_row req token now) d of Inl e \<Rightarrow> d | Inr (k, d') \<Rightarrow> d'))"

definition rate_write :: "machine_row \<Rightarrow> int \<Rightarrow> db \<Rightarrow> db" where
  "rate_write m x d = (if x < 1 then d
     else update_machines (\<lambda>y. m_id y = m_id m) (\<lambda>y. y\<lparr>m_rate_sats_per_min := x\<rparr>) d)"

definition deposit_row :: "string \<Rightarrow> int \<Rightarrow> invoice \<Rightarrow> int \<Rightarrow> invoice_row" where
  "deposit_row ident x iv now = \<lparr>i_payment_hash = inv_payment_hash iv, i_account_id = ident, i_sats = x,
     i_bolt11 = inv_bolt11 iv, i_settled = False, i_created_at = now\<rparr>"

definition deposit_write :: "string \<Rightarrow> int \<Rightarrow> invoice \<Rightarrow> int \<Rightarrow> db \<Rightarrow> db" where
  "deposit_write ident x iv now d =
     (case insert_invoice (deposit_row ident x iv now) d of Inl e \<Rightarrow> d | Inr d' \<Rightarrow> d')"

text \<open>The second query of \<open>report\<close>.\<close>

definition report_rental :: "machine_row \<Rightarrow> report_request \<Rightarrow> db \<Rightarrow> rental_row option" where
  "report_rental m req d =
     sql_find (\<lambda>r. r_id r = rp_rental_id req \<and> r_machine_id r = m_id m) (db_rentals d)"

text \<open>What a flight does to the database when it commits; before its last await that is nothing.\<close>

fun flight_commit :: "flight \<Rightarrow> int \<Rightarrow> db \<Rightarrow> db" where
  "flight_commit (RegisterFlight token req found) now d = register_write token req found now d"
| "flight_commit (HeartbeatFlight m online) now d = snd (in_transaction (heartbeat_body m online now) d)"
| "flight_commit (RateFlight m x) now d = rate_write m x d"
| "flight_commit (ReportAuthed m req) now d = d"
| "flight_commit (ReportFlight m r req) now d = snd (report_commit m r req now d)"
| "flight_commit (PayoutFlight m bolt11) now d = d"
| "flight_commit (PaidFlight m) now d = snd (payout_commit m now d)"
| "flight_commit (DepositFlight ident x) now d = d"
| "flight_commit (InvoicedFlight ident x iv) now d = deposit_write ident x iv now d"
| "flight_commit (DeleteFlight r) now d = snd (delete_rental_commit r now d)"

section \<open>The ticker between its awaits\<close>

datatype ticker =
    TickIdle
  | TickPoll "invoice_row list"
  | TickOffline
  | TickList
  | TickCheck "rental_row list"
  | TickHeard rental_row int "rental_row list"
  | TickOver rental_row int "rental_row list"

text \<open>The two queries of \<open>over_budget\<close>: whether the host is silent, and whether the balance is short.\<close>

definition host_silent :: "int \<Rightarrow> rental_row \<Rightarrow> int \<Rightarrow> db \<Rightarrow> tick_error + bool" where
  "host_silent hb_timeout r now d =
     (case find_machine d (r_machine_id r) of
        None \<Rightarrow> Inl (TickDb RowNotFound)
      | Some m \<Rightarrow> Inr (hb_timeout < i64_sub now (m_last_heartbeat m)))"

definition balance_short :: "rental_row \<Rightarrow> int \<Rightarrow> db \<Rightarrow> tick_error + bool" where
  "balance_short r now d =
     (case find_account d (r_account_id r) of
        None \<Rightarrow> Inl (TickDb RowNotFound)
      | Some acct \<Rightarrow> Inr (\<not> accrued_charge (r_created_at r) now (r_rate_sats_per_min r) \<le> a_balance_sats acct))"

lemma over_budget_two_reads:
  "over_budget hb r now d =
     (case host_silent hb r now d of
        Inl e \<Rightarrow> Inl e
      | Inr silent \<Rightarrow> if silent then Inr False else balance_short r now d)"
  by (simp add: over_budget_def host_silent_def balance_short_def split: option.split)

text \<open>
  One step of the ticker task on the database. An error of the node or the database ends the tick,
  and the loop waits for the next one.
\<close>

inductive tick_step :: "billing_config \<Rightarrow> ticker \<times> db \<Rightarrow> ticker \<times> db \<Rightarrow> bool" for cfg where
  fetch: "tick_step cfg (TickIdle, d) (TickPoll (filter (\<lambda>i. \<not> i_settled i) (db_invoices d)), d)"
| poll_open: "tick_step cfg (TickPoll (iv # ivs), d) (TickPoll ivs, d)"
| poll_paid: "settle_invoice iv now d = (Inr (), d') \<Longrightarrow> tick_step cfg (TickPoll (iv # ivs), d) (TickPoll ivs, d')"
| poll_error: "tick_step cfg (TickPoll (iv # ivs), d) (TickIdle, d)"
| poll_done: "tick_step cfg (TickPoll [], d) (TickOffline, d)"
| offline: "tick_step cfg (TickOffline, d) (TickList, mark_offline cfg now d)"
| list_running: "tick_step cfg (TickList, d) (TickCheck (filter (\<lambda>r. r_status r = Running) (db_rentals d)), d)"
| check_silent: "host_silent (heartbeat_timeout_secs cfg) r now d = Inr True \<Longrightarrow>
    tick_step cfg (TickCheck (r # rs), d) (TickCheck rs, d)"
| check_heard: "host_silent (heartbeat_timeout_secs cfg) r now d = Inr False \<Longrightarrow>
    tick_step cfg (TickCheck (r # rs), d) (TickHeard r now rs, d)"
| check_funded: "balance_short r now d = Inr False \<Longrightarrow> tick_step cfg (TickHeard r now rs, d) (TickCheck rs, d)"
| check_over: "balance_short r now d = Inr True \<Longrightarrow> tick_step cfg (TickHeard r now rs, d) (TickOver r now rs, d)"
| evict: "in_transaction (evict_body r now) d = (Inr (), d') \<Longrightarrow>
    tick_step cfg (TickOver r now rs, d) (TickCheck rs, d')"
| check_error: "tk \<in> {TickCheck (r # rs), TickHeard r now rs, TickOver r now rs} \<Longrightarrow> tick_step cfg (tk, d) (TickIdle, d)"
| check_done: "tick_step cfg (TickCheck [], d) (TickIdle, d)"

section \<open>The interleaving semantics\<close>

record conc =
  cc_db :: db
  cc_flights :: "flight list"
  cc_ticker :: ticker

text \<open>
  \<open>started\<close> is the first query of a handler, \<open>resumed\<close> an await of one in flight.
  \<open>payout_paid\<close> and \<open>deposit_invoiced\<close> are the Ok of the Lightning node, whose answer is any
  invoice. A handler whose client goes away, or whose payment fails, is dropped; a restart drops
  them all.
\<close>

inductive started :: "db \<Rightarrow> flight \<Rightarrow> bool" for d where
  register: "started d (RegisterFlight token rreq (sql_find (\<lambda>m. m_host_id m = rq_host_id rreq) (db_machines d)))"
| heartbeat: "authenticate d auth = Inr m \<Longrightarrow> started d (HeartbeatFlight m online)"
| rate: "authenticate d auth = Inr m \<Longrightarrow> started d (RateFlight m x)"
| report: "authenticate d auth = Inr m \<Longrightarrow> started d (ReportAuthed m req)"
| payout: "payout_read auth d = Inr m \<Longrightarrow> started d (PayoutFlight m bolt11)"
| deposit: "1 \<le> x \<Longrightarrow> find_account d ident \<noteq> None \<Longrightarrow> started d (DepositFlight ident x)"
| delete: "delete_rental_read k d = Inr (Inr r) \<Longrightarrow> started d (DeleteFlight r)"

inductive resumed :: "db \<Rightarrow> flight \<Rightarrow> flight \<Rightarrow> bool" for d where
  report_found: "report_rental m req d = Some r \<Longrightarrow> resumed d (ReportAuthed m req) (ReportFlight m r req)"
| payout_paid: "resumed d (PayoutFlight m bolt11) (PaidFlight m)"
| deposit_invoiced: "resumed d (DepositFlight ident x) (InvoicedFlight ident x iv)"

inductive conc_step :: "billing_config \<Rightarrow> conc \<Rightarrow> conc \<Rightarrow> bool" for cfg where
  account: "conc_step cfg c (c\<lparr>cc_db := snd (create_account ident now (cc_db c))\<rparr>)"
| rental: "conc_step cfg c (c\<lparr>cc_db := snd (create_rental req now (cc_db c))\<rparr>)"
| start: "started (cc_db c) f \<Longrightarrow> conc_step cfg c (c\<lparr>cc_flights := f # cc_flights c\<rparr>)"
| resume: "cc_flights c = fs @ f # gs \<Longrightarrow> resumed (cc_db c) f f' \<Longrightarrow>
    conc_step cfg c (c\<lparr>cc_flights := fs @ f' # gs\<rparr>)"
| commit: "cc_flights c = fs @ f # gs \<Longrightarrow>
    conc_step cfg c (c\<lparr>cc_db := flight_commit f now (cc_db c), cc_flights := fs @ gs\<rparr>)"
| tick: "tick_step cfg (cc_ticker c, cc_db c) (tk, d') \<Longrightarrow> conc_step cfg c (c\<lparr>cc_db := d', cc_ticker := tk\<rparr>)"
| restart: "conc_step cfg c (c\<lparr>cc_flights := [], cc_ticker := TickIdle\<rparr>)"

definition conc_start :: "db \<Rightarrow> conc" where
  "conc_start d = \<lparr>cc_db = d, cc_flights = [], cc_ticker = TickIdle\<rparr>"

section \<open>Without interruption\<close>

text \<open>Each handler is its flight, read and committed on one database.\<close>

lemma handlers_are_flights:
  "snd (register token rreq now d) =
     flight_commit (RegisterFlight token rreq (sql_find (\<lambda>m. m_host_id m = rq_host_id rreq) (db_machines d))) now d"
  "snd (heartbeat auth online now d) =
     (case authenticate d auth of Inl e \<Rightarrow> d | Inr m \<Rightarrow> flight_commit (HeartbeatFlight m online) now d)"
  "snd (rate auth x d) = (case authenticate d auth of Inl e \<Rightarrow> d | Inr m \<Rightarrow> flight_commit (RateFlight m x) now d)"
  "snd (report auth req now d) =
     (case authenticate d auth of Inl e \<Rightarrow> d
      | Inr m \<Rightarrow> (case report_rental m req d of None \<Rightarrow> d | Some r \<Rightarrow> flight_commit (ReportFlight m r req) now d))"
  "snd (payout_db B auth bolt11 now lns d) =
     (case payout_read auth d of Inl e \<Rightarrow> d
      | Inr m \<Rightarrow> if is_ok (fst (payout_pay B bolt11 lns)) then flight_commit (PaidFlight m) now d else d)"
  "snd (deposit_db B ident x now lns d) =
     (if x < 1 \<or> find_account d ident = None then d
      else (case fst (create_invoice B lns (Sats x) (''deposit for '' @ ident)) of
              Inl e \<Rightarrow> d | Inr iv \<Rightarrow> flight_commit (InvoicedFlight ident x iv) now d))"
  "snd (delete_rental k now d) =
     (case delete_rental_read k d of Inr (Inr r) \<Rightarrow> flight_commit (DeleteFlight r) now d | _ \<Rightarrow> d)"
  by (auto simp: register_def register_write_def heartbeat_def rate_def rate_write_def report_def report_read_def
      report_rental_def payout_db_def payout_def deposit_db_def deposit_def deposit_write_def deposit_row_def
      delete_rental_def is_ok_def split: option.split sum.split prod.split)

lemma poll_loop_is_run:
  "poll_loop B clk lns ivs d = (res, d') \<Longrightarrow>
     (tick_step cfg)\<^sup>*\<^sup>* (TickPoll ivs, d) (case res of Inl e \<Rightarrow> TickIdle | Inr u \<Rightarrow> TickPoll [], d')"
proof (induction ivs arbitrary: d)
  case (Cons iv ivs)
  note first = converse_rtranclp_into_rtranclp [of "tick_step cfg"]
  show ?case
  proof (cases "is_settled B lns (i_payment_hash iv)")
    case (Inl e)
    with Cons.prems show ?thesis by (auto intro!: r_into_rtranclp tick_step.poll_error)
  next
    case (Inr paid)
    obtain r d1 where st: "settle_invoice iv (clk (length ivs)) d = (r, d1)" by fastforce
    consider "\<not> paid" | e where "paid" "r = Inl e" | "paid" "r = Inr ()" by (cases r) auto
    then show ?thesis
    proof cases
      case 1
      with Inr Cons.prems have "poll_loop B clk lns ivs d = (res, d')" by simp
      from first [OF tick_step.poll_open Cons.IH [OF this]] show ?thesis .
    next
      case 2
      then have "d1 = d" using st in_transaction_Inl [of "settle_invoice_body iv (clk (length ivs))" d e d1] by (simp add: settle_invoice_def)
      with 2 Inr st Cons.prems show ?thesis by (auto intro!: r_into_rtranclp tick_step.poll_error)
    next
      case 3
      with Inr st Cons.prems have "poll_loop B clk lns ivs d1 = (res, d')" by simp
      from first [OF tick_step.poll_paid Cons.IH [OF this]] st 3 show ?thesis by simp
    qed
  qed
qed auto

lemma enforce_loop_is_run:
  "enforce_loop (heartbeat_timeout_secs cfg) clk rs d = (res, d') \<Longrightarrow>
     (tick_step cfg)\<^sup>*\<^sup>* (TickCheck rs, d) (TickIdle, d')"
proof (induction rs arbitrary: d)
  case (Cons r rs)
  let ?now = "clk (length rs)"
  note first = converse_rtranclp_into_rtranclp [of "tick_step cfg"]
  have err: "tick_step cfg (tk, d) (TickIdle, d)"
    if "tk \<in> {TickCheck (r # rs), TickHeard r ?now rs, TickOver r ?now rs}" for tk
    using that by (rule tick_step.check_error)
  show ?case
  proof (cases "host_silent (heartbeat_timeout_secs cfg) r ?now d")
    case (Inl e)
    with Cons.prems err [of "TickCheck (r # rs)"] show ?thesis by (simp add: over_budget_two_reads)
  next
    case silent: (Inr silent)
    show ?thesis
    proof (cases silent)
      case True
      with silent have "tick_step cfg (TickCheck (r # rs), d) (TickCheck rs, d)" by (intro tick_step.check_silent) simp
      with True silent Cons show ?thesis by (simp add: over_budget_two_reads first)
    next
      case heard: False
      then have h: "tick_step cfg (TickCheck (r # rs), d) (TickHeard r ?now rs, d)"
        using silent by (intro tick_step.check_heard) simp
      show ?thesis
      proof (cases "balance_short r ?now d")
        case (Inl e)
        with Cons.prems silent heard h err [of "TickHeard r ?now rs"] show ?thesis
          by (simp add: over_budget_two_reads first)
      next
        case short: (Inr over)
        show ?thesis
        proof (cases over)
          case False
          then have "tick_step cfg (TickHeard r ?now rs, d) (TickCheck rs, d)"
            using short by (intro tick_step.check_funded) simp
          with False short silent heard Cons h show ?thesis by (simp add: over_budget_two_reads first)
        next
          case True
          then have o: "tick_step cfg (TickHeard r ?now rs, d) (TickOver r ?now rs, d)"
            using short by (intro tick_step.check_over) simp
          obtain x d1 where ev: "in_transaction (evict_body r ?now) d = (x, d1)" by fastforce
          show ?thesis
          proof (cases x)
            case (Inl e)
            then have "d1 = d" using ev in_transaction_Inl [of "evict_body r ?now" d e d1] by simp
            with Inl ev True short silent heard Cons.prems h o err [of "TickOver r ?now rs"] show ?thesis
              by (simp add: over_budget_two_reads first)
          next
            case (Inr u)
            then have e: "tick_step cfg (TickOver r ?now rs, d) (TickCheck rs, d1)"
              using ev by (intro tick_step.evict) simp
            have "enforce_loop (heartbeat_timeout_secs cfg) clk rs d1 = (res, d')"
              using Cons.prems silent heard short True ev Inr by (simp add: over_budget_two_reads)
            note ih = Cons.IH [OF this]
            show ?thesis by (rule first [OF h first [OF o first [OF e ih]]])
          qed
        qed
      qed
    qed
  qed
qed (auto intro: tick_step.check_done)

text \<open>A tick that is not interrupted is a run of the ticker task, from idle to idle.\<close>

lemma tick_is_run:
  assumes "tick B cfg tk lns d = (res, d')"
  shows "(tick_step cfg)\<^sup>*\<^sup>* (TickIdle, d) (TickIdle, d')"
proof -
  let ?ivs = "filter (\<lambda>i. \<not> i_settled i) (db_invoices d)"
  obtain r d1 where p: "poll_loop B (tk_poll tk) lns ?ivs d = (r, d1)" by fastforce
  note run = converse_rtranclp_into_rtranclp [of "tick_step cfg", OF tick_step.fetch poll_loop_is_run [OF p]]
  show ?thesis
  proof (cases r)
    case (Inl e)
    with run p assms show ?thesis by (simp add: tick_def poll_invoices_def)
  next
    case (Inr u)
    let ?d2 = "mark_offline cfg (tk_offline tk) d1"
    have e: "enforce_budgets cfg (tk_enforce tk) ?d2 = (res, d')"
      using assms p Inr by (simp add: tick_def poll_invoices_def)
    have "(tick_step cfg)\<^sup>*\<^sup>* (TickIdle, d) (TickPoll [], d1)" using run Inr by simp
    also have "tick_step cfg (TickPoll [], d1) (TickOffline, d1)" by (rule tick_step.poll_done)
    also have "tick_step cfg (TickOffline, d1) (TickList, ?d2)" by (rule tick_step.offline)
    also have "tick_step cfg (TickList, ?d2) (TickCheck (filter (\<lambda>r. r_status r = Running) (db_rentals ?d2)), ?d2)"
      by (rule tick_step.list_running)
    also have "(tick_step cfg)\<^sup>*\<^sup>* (TickCheck (filter (\<lambda>r. r_status r = Running) (db_rentals ?d2)), ?d2) (TickIdle, d')"
      using e unfolding enforce_budgets_def by (rule enforce_loop_is_run)
    finally show ?thesis .
  qed
qed

end
