(* ===== verification/Concurrency_Spec.thy ===== *)
theory Concurrency_Spec
  imports Concurrency
begin

text \<open>
  What survives every interleaving of \<open>Concurrency\<close>: the accounts' books, and, while the sats
  ever invoiced fit in an \<open>i64\<close>, the 64 bits of every balance column. What does not: the amount
  a machine is owed, and the single charge of a rental.
\<close>

section \<open>Flights keep the books\<close>


















section \<open>The ticker keeps the books\<close>




section \<open>Every interleaving\<close>

















section \<open>What does not survive\<close>



text \<open>
  a delete that read the rental before the host's report of its end commits after it,
  makes the stopped rental evicting again, and the answer to its stop command charges the
  tenant a second time: 30 sats where the stay cost 10.
\<close>

definition race_stopped :: db where
  "race_stopped = snd (report_commit demo_machine demo_rental demo_stop 160 demo_rented)"

definition race_revived :: db where
  "race_revived = snd (delete_rental_commit demo_rental 165 race_stopped)"

definition race_charged_twice :: db where
  "race_charged_twice = snd (report demo_auth demo_stop 220 race_revived)"

theorem late_delete_charges_twice:
  "\<exists>c. (conc_step cfg)\<^sup>*\<^sup>* (conc_start demo_rented) c \<and> cc_flights c = [] \<and>
     account_balance race_stopped ''acct_1'' = 990 \<and> map r_status (db_rentals race_stopped) = [Stopped] \<and>
     account_balance (cc_db c) ''acct_1'' = 970"
proof -
  let ?st = "\<lambda>d fs. \<lparr>cc_db = d, cc_flights = fs, cc_ticker = TickIdle\<rparr>"
  let ?m = "hd (db_machines race_revived)" and ?r = "hd (db_rentals race_revived)"
  have r0: "delete_rental_read 1 demo_rented = Inr (Inr demo_rental)" "authenticate demo_rented demo_auth = Inr demo_machine"
    "report_rental demo_machine demo_stop demo_rented = Some demo_rental"
    "authenticate race_revived demo_auth = Inr ?m" "report_rental ?m demo_stop race_revived = Some ?r" by code_simp+
  have final: "race_charged_twice = snd (report_commit ?m ?r demo_stop 220 race_revived)"
    using handlers_are_flights(4) [of demo_auth demo_stop 220 race_revived] r0(4,5) by (simp add: race_charged_twice_def)
  have auth: "conc_step cfg (?st d fs) (?st d (ReportAuthed m demo_stop # fs))" if "authenticate d demo_auth = Inr m" for d fs m
    using conc_step.start [of "?st d fs" _ cfg, simplified, OF started.report [OF that]] by simp
  have found: "conc_step cfg (?st d (ReportAuthed m demo_stop # fs)) (?st d (ReportFlight m r demo_stop # fs))"
    if "report_rental m demo_stop d = Some r" for d fs m r
    using conc_step.resume [of "?st d (ReportAuthed m demo_stop # fs)" "[]" _ fs, simplified, OF _ resumed.report_found [OF that]] by simp
  have "(conc_step cfg)\<^sup>*\<^sup>* (conc_start demo_rented) (conc_start demo_rented)" by simp
  also have "conc_step cfg (conc_start demo_rented) (?st demo_rented [DeleteFlight demo_rental])"
    using conc_step.start [of "conc_start demo_rented" _ cfg, unfolded conc_start_def, simplified, OF started.delete [OF r0(1)]]
    by (simp add: conc_start_def)
  also have "conc_step cfg \<dots> (?st demo_rented [ReportAuthed demo_machine demo_stop, DeleteFlight demo_rental])"
    by (rule auth [OF r0(2)])
  also have "conc_step cfg \<dots> (?st demo_rented [ReportFlight demo_machine demo_rental demo_stop, DeleteFlight demo_rental])"
    by (rule found [OF r0(3)])
  also have "conc_step cfg \<dots> (?st race_stopped [DeleteFlight demo_rental])"
    using conc_step.commit [of "?st demo_rented [ReportFlight demo_machine demo_rental demo_stop, DeleteFlight demo_rental]" "[]" _ _ cfg 160]
    by (simp add: race_stopped_def)
  also have "conc_step cfg \<dots> (?st race_revived [])"
    using conc_step.commit [of "?st race_stopped [DeleteFlight demo_rental]" "[]" _ "[]" cfg 165] by (simp add: race_revived_def)
  also have "conc_step cfg \<dots> (?st race_revived [ReportAuthed ?m demo_stop])" by (rule auth [OF r0(4)])
  also have "conc_step cfg \<dots> (?st race_revived [ReportFlight ?m ?r demo_stop])" by (rule found [OF r0(5)])
  also have "conc_step cfg \<dots> (?st race_charged_twice [])"
    using conc_step.commit [of "?st race_revived [ReportFlight ?m ?r demo_stop]" "[]" _ "[]" cfg 220] by (simp add: final)
  finally have "(conc_step cfg)\<^sup>*\<^sup>* (conc_start demo_rented) (?st race_charged_twice [])" .
  moreover have "account_balance race_stopped ''acct_1'' = 990" "map r_status (db_rentals race_stopped) = [Stopped]"
    "account_balance race_charged_twice ''acct_1'' = 970" by code_simp+
  ultimately show ?thesis by (intro exI [of _ "?st race_charged_twice []"]) simp
qed

end
