(* ===== verification/Command_Authority.thy ===== *)
theory Command_Authority
  imports Control_Plane
begin

text \<open>
  Who may make a host do something. Every command the server queues is about a rental on the
  machine it is queued for: it starts it with the image and the key of the tenant's request, or
  stops it (\<open>queue_authentic\<close>). Every handler and the ticker keep this
  (\<open>command_step\<close>, interpreted on each), so it holds of every reachable server.
\<close>

definition commanded :: "db \<Rightarrow> int \<Rightarrow> json \<Rightarrow> bool" where
  "commanded d machine payload \<longleftrightarrow>
     (\<exists>r\<in>set (db_rentals d). r_machine_id r = machine \<and>
        (payload = command_to_json (StartRental (r_id r) (r_image r) (r_ssh_pubkey r)) \<or>
         payload = command_to_json (StopRental (r_id r))))"

definition queue_authentic :: "db \<Rightarrow> bool" where
  "queue_authentic d \<longleftrightarrow> (\<forall>c\<in>set (db_commands d). commanded d (c_machine_id c) (c_payload c))"

section \<open>Commands and the terms of rentals\<close>

definition terms_kept :: "db \<Rightarrow> db \<Rightarrow> bool" where
  "terms_kept d d' \<longleftrightarrow> rental_terms ` set (db_rentals d) \<subseteq> rental_terms ` set (db_rentals d')"

lemma history_terms: "history d d' \<Longrightarrow> terms_kept d d'"
  unfolding history_def terms_kept_def by (metis set_map set_mono_prefix)

lemma terms_keptE:
  assumes "terms_kept d d'" "r \<in> set (db_rentals d)"
  obtains r' where "r' \<in> set (db_rentals d')" "rental_terms r' = rental_terms r"
  using assms unfolding terms_kept_def by (metis (no_types, lifting) image_iff subset_iff)

lemma commanded_mono:
  assumes "terms_kept d d'" "commanded d m j"
  shows "commanded d' m j"
proof -
  obtain r where r: "r \<in> set (db_rentals d)" "r_machine_id r = m"
    "j = command_to_json (StartRental (r_id r) (r_image r) (r_ssh_pubkey r)) \<or> j = command_to_json (StopRental (r_id r))"
    using assms(2) unfolding commanded_def by blast
  obtain r' where "r' \<in> set (db_rentals d')" "rental_terms r' = rental_terms r"
    using terms_keptE [OF assms(1) r(1)] .
  with r show ?thesis unfolding commanded_def rental_terms_def by (metis prod.inject)
qed

lemma queue_authentic_terms:
  "queue_authentic d \<longleftrightarrow> (\<forall>(k, m, j)\<in>command_terms ` set (db_commands d). commanded d m j)"
  by (simp add: queue_authentic_def command_terms_def)

lemma queue_frame:
  assumes "terms_kept d d'" "command_terms ` set (db_commands d') \<subseteq> command_terms ` set (db_commands d)"
    and "queue_authentic d"
  shows "queue_authentic d'"
  using assms(2,3) commanded_mono [OF assms(1)] unfolding queue_authentic_terms by blast

lemma queue_insert:
  assumes "insert_command m j now d = Inr d'" "commanded d m j" "queue_authentic d"
  shows "queue_authentic d'"
proof -
  have d': "db_rentals d' = db_rentals d"
    "set (db_commands d') = insert \<lparr>c_id = next_id (map c_id (db_commands d)), c_machine_id = m,
      c_payload = j, c_delivered = False, c_created_at = now\<rparr> (set (db_commands d))"
    using assms(1) by (auto simp: insert_command_def split: if_splits)
  then have "commanded d' m j" "\<And>m j. commanded d m j \<Longrightarrow> commanded d' m j"
    using assms(2) by (simp_all add: commanded_def)
  with assms(3) show ?thesis by (simp add: queue_authentic_def d'(2))
qed

lemma db_commands_frame [frame_simps]:
  "db_commands (update_machines p f d) = db_commands d"
  "db_commands (update_rentals q g d) = db_commands d"
  "db_commands (update_invoices i h d) = db_commands d"
  "db_commands (db_record ts k x a m rr n d) = db_commands d"
  "db_commands (record_charge ts a' m' r' x' d) = db_commands d"
  by (simp_all add: update_machines_def update_rentals_def update_invoices_def db_record_def record_charge_def)

lemma db_commands_result:
  "add_balance a x d = Inr d' \<Longrightarrow> db_commands d' = db_commands d"
  "insert_account ac d = Inr d' \<Longrightarrow> db_commands d' = db_commands d"
  "insert_machine m d = Inr (k, d') \<Longrightarrow> db_commands d' = db_commands d"
  "insert_rental r d = Inr (k, d') \<Longrightarrow> db_commands d' = db_commands d"
  "insert_invoice i d = Inr d' \<Longrightarrow> db_commands d' = db_commands d"
  by (auto simp: add_balance_def insert_account_def insert_machine_def insert_rental_def insert_invoice_def
      Let_def split: if_splits)

lemma mark_delivered_terms: "map command_terms (db_commands (mark_delivered cs d)) = map command_terms (db_commands d)"
proof (induction cs d rule: mark_delivered.induct)
  case (2 c cs d)
  then show ?case
    by (simp add: update_commands_def map_sql_update_frame command_terms_def)
qed simp

section \<open>Every transition\<close>

locale command_step = audited_step +
  assumes keeps_queue: "queue_authentic d \<Longrightarrow> queue_authentic (step d)"

text \<open>A transition that queues nothing.\<close>

lemma command_stepI:
  assumes "audited_step f" "\<And>d. command_terms ` set (db_commands (f d)) \<subseteq> command_terms ` set (db_commands d)"
  shows "command_step f"
  by (intro command_step.intro command_step_axioms.intro assms(1))
    (rule queue_frame [OF history_terms [OF audited_step.audit [OF assms(1)]] assms(2)])

interpretation create_account_commands: command_step "\<lambda>d. snd (create_account ident now d)" for ident now
  by (rule command_stepI [OF create_account_step.audited_step_axioms])
    (auto simp: create_account_def db_commands_result split: sum.splits)

interpretation deposit_commands: command_step "\<lambda>d. snd (deposit_db B ident x now lns d)" for B ident x now lns
proof (rule command_stepI [OF deposit_step.audited_step_axioms])
  fix d
  obtain res lns' d' where dep: "deposit B ident x now lns d = (res, lns', d')"
    by (cases "deposit B ident x now lns d") auto
  then have db: "snd (deposit_db B ident x now lns d) = d'" by (simp add: deposit_db_def)
  show "command_terms ` set (db_commands (snd (deposit_db B ident x now lns d))) \<subseteq> command_terms ` set (db_commands d)"
    unfolding db using dep by (cases rule: deposit_cases) (simp_all add: db_commands_result)
qed

interpretation create_rental_commands: command_step "\<lambda>d. snd (create_rental req now d)" for req now
proof (unfold_locales)
  fix d assume auth: "queue_authentic d"
  obtain res d' where run: "create_rental req now d = (res, d')" by fastforce
  show "queue_authentic (snd (create_rental req now d))"
  proof (cases res)
    case (Inl e)
    then show ?thesis using run create_rental_handler.err_unchanged auth by fastforce
  next
    case (Inr resp)
    with run have "create_rental req now d = (Inr resp, d')" by simp
    then show ?thesis
    proof (rule create_rental_InrE)
      fix machine key k d1
      assume ins: "insert_rental (new_rental_row req key (m_rate_sats_per_min machine) now) d = Inr (k, d1)"
        and cmd: "insert_command (cr_machine_id req) (command_to_json (StartRental k (cr_image req) key)) now d1 = Inr d'"
      let ?row = "(new_rental_row req key (m_rate_sats_per_min machine) now)\<lparr>r_id := k\<rparr>"
      have "?row \<in> set (db_rentals d1)"
        using ins by (auto simp: insert_rental_def Let_def split: if_splits)
      then have "commanded d1 (cr_machine_id req) (command_to_json (StartRental k (cr_image req) key))"
        unfolding commanded_def by (intro bexI [of _ ?row]) (simp_all add: new_rental_row_def)
      moreover have "queue_authentic d1"
        by (rule queue_frame [OF history_terms [OF history_insert(3) [OF ins]] _ auth])
          (simp add: db_commands_result(4) [OF ins])
      ultimately show ?thesis using queue_insert [OF cmd] run by simp
    qed
  qed
qed

text \<open>A stop command for a rental of which some row still has the terms.\<close>

lemma queue_stop:
  assumes "insert_command (r_machine_id r) (command_to_json (StopRental (r_id r))) now (update_rentals p f d) = Inr d'"
    and "\<And>x. rental_terms (f x) = rental_terms x"
    and "rental_terms r \<in> rental_terms ` set (db_rentals d)" "queue_authentic d"
  shows "queue_authentic d'"
proof (rule queue_insert [OF assms(1)])
  have kept: "terms_kept d (update_rentals p f d)" using history_update_rentals [OF assms(2)] by (rule history_terms)
  have "commanded d (r_machine_id r) (command_to_json (StopRental (r_id r)))"
    using assms(3) unfolding commanded_def rental_terms_def by auto
  then show "commanded (update_rentals p f d) (r_machine_id r) (command_to_json (StopRental (r_id r)))"
    by (rule commanded_mono [OF kept])
  show "queue_authentic (update_rentals p f d)"
    by (rule queue_frame [OF kept _ assms(4)]) (simp add: frame_simps)
qed

interpretation delete_commands: command_step "\<lambda>d. snd (delete_rental ident now d)" for ident now
proof (unfold_locales)
  fix d assume auth: "queue_authentic d"
  have commit: "queue_authentic (snd (delete_rental_commit r now d))" if "r \<in> set (db_rentals d)" for r
  proof -
    obtain res d' where run: "delete_rental_commit r now d = (res, d')" by fastforce
    show ?thesis
    proof (cases res)
      case (Inl e)
      then show ?thesis using run delete_rental_handler.err_unchanged auth by fastforce
    next
      case (Inr resp)
      with run have "delete_rental_commit r now d = (Inr resp, d')" by simp
      then have "queue_authentic d'"
        by (rule delete_rental_commit_InrE) (erule queue_stop, simp_all add: rental_terms_def that auth)
      with run show ?thesis by simp
    qed
  qed
  show "queue_authentic (snd (delete_rental ident now d))"
    unfolding delete_rental_def using auth commit
    by (auto simp: delete_rental_read_def find_rental_def dest!: sql_find_SomeD split: sum.splits option.splits if_splits)
qed

interpretation register_commands: command_step "\<lambda>d. snd (register token req now d)" for token req now
proof (rule command_stepI [OF register_step.audited_step_axioms])
  fix d show "command_terms ` set (db_commands (snd (register token req now d))) \<subseteq> command_terms ` set (db_commands d)"
    by (cases rule: register_cases [of req d token now]) (simp_all add: frame_simps db_commands_result)
qed

interpretation heartbeat_commands: command_step "\<lambda>d. snd (heartbeat auth online now d)" for auth online now
proof (rule command_stepI [OF heartbeat_step.audited_step_axioms])
  fix d
  have "command_terms ` set (db_commands (snd (in_transaction (heartbeat_body machine online now) d))) =
      command_terms ` set (db_commands d)" for machine
  proof (rule in_transaction_inv)
    fix x d' assume "heartbeat_body machine online now d = Inr (x, d')"
    then obtain cs where d': "d' = mark_delivered cs (update_machines (\<lambda>m. m_id m = m_id machine)
        (\<lambda>m. m\<lparr>m_last_heartbeat := now, m_online := online\<rparr>) d)"
      by (auto simp: heartbeat_body_def Let_def split: sum.splits)
    show "command_terms ` set (db_commands d') = command_terms ` set (db_commands d)"
      unfolding d' set_map [symmetric] mark_delivered_terms frame_simps ..
  qed simp
  then show "command_terms ` set (db_commands (snd (heartbeat auth online now d))) \<subseteq> command_terms ` set (db_commands d)"
    by (auto simp: heartbeat_def split: sum.splits)
qed

lemma report_body_commands: "report_body machine rental req now d = Inr (u, d') \<Longrightarrow> db_commands d' = db_commands d"
  by (auto simp: report_body_def settle_rental_def charge_rental_def Let_def frame_simps db_commands_result
      split: if_splits sum.splits option.splits)

interpretation report_commands: command_step "\<lambda>d. snd (report auth req now d)" for auth req now
proof (rule command_stepI [OF report_step.audited_step_axioms])
  fix d
  have "db_commands (snd (report_commit machine rental req now d)) = db_commands d" for machine rental
    unfolding report_commit_def by (rule in_transaction_inv) (auto dest: report_body_commands)
  then show "command_terms ` set (db_commands (snd (report auth req now d))) \<subseteq> command_terms ` set (db_commands d)"
    by (auto simp: report_def split: sum.splits)
qed

interpretation rate_commands: command_step "\<lambda>d. snd (rate auth x d)" for auth x
  by (rule command_stepI [OF rate_step.audited_step_axioms]) (auto simp: rate_def frame_simps split: sum.splits)

interpretation payout_commands: command_step "\<lambda>d. snd (payout_db B auth bolt11 now lns d)" for B auth bolt11 now lns
proof (rule command_stepI [OF payout_step.audited_step_axioms])
  fix d show "command_terms ` set (db_commands (snd (payout_db B auth bolt11 now lns d))) \<subseteq> command_terms ` set (db_commands d)"
    by (cases rule: payout_db_cases [of B auth bolt11 now lns d]) (simp_all add: payout_commit_eq frame_simps)
qed

section \<open>The ticker and the server\<close>

lemma settle_invoice_commands: "db_commands (snd (settle_invoice iv now d)) = db_commands d"
  by (cases rule: settle_invoice_cases [of iv now d]) (simp_all add: frame_simps db_commands_result(1))

lemma poll_loop_commands: "db_commands (snd (poll_loop B clk lns ivs d)) = db_commands d"
proof (induction ivs arbitrary: d)
  case (Cons iv ivs)
  then show ?case
    using settle_invoice_commands [of iv "clk (length ivs)" d] by (auto split: sum.splits prod.splits)
qed simp

interpretation offline_commands: command_step "mark_offline cfg now" for cfg now
  by (rule command_stepI [OF offline_audit.audited_step_axioms]) (simp add: mark_offline_def Let_def frame_simps)

interpretation enforce_commands: command_step "\<lambda>d. snd (enforce_budgets cfg clk d)" for cfg clk
proof (unfold_locales)
  fix d assume auth: "queue_authentic d"
  let ?rs = "filter (\<lambda>r. r_status r = Running) (db_rentals d)"
  have "queue_authentic (snd (enforce_budgets cfg clk d)) \<and> history d (snd (enforce_budgets cfg clk d))"
    unfolding enforce_budgets_def
  proof (rule enforce_loop_invariant_in [of "\<lambda>d'. queue_authentic d' \<and> history d d'"])
    fix r k d1 d2
    assume r: "r \<in> set ?rs" and d1: "queue_authentic d1 \<and> history d d1"
      and ev: "in_transaction (evict_body r (clk k)) d1 = (Inr (), d2)"
    have terms: "rental_terms r \<in> rental_terms ` set (db_rentals d1)"
      using r history_terms [of d d1] d1 unfolding terms_kept_def by auto
    from ev have "queue_authentic d2"
    proof (rule evict_InrE)
      fix d3
      assume cmd: "insert_command (r_machine_id r) (command_to_json (StopRental (r_id r))) (clk k)
          (update_rentals (\<lambda>x. r_id x = r_id r)
            (\<lambda>x. x\<lparr>r_status := Evicting, r_error := Some ''insufficient balance''\<rparr>) d1) = Inr d3"
        and d2: "d2 = db_record (clk k) Evict 0 (Some (r_account_id r)) None (Some (r_id r)) (Some ''insufficient balance'') d3"
      have "queue_authentic d3" using queue_stop [OF cmd _ terms] d1 by (simp add: rental_terms_def)
      then show "queue_authentic d2"
        unfolding d2 by (rule queue_frame [OF history_terms [OF history_record], rotated]) (simp add: frame_simps)
    qed
    moreover have "history d1 d2" using history_evict [of d1 r "clk k"] ev by simp
    ultimately show "queue_authentic d2 \<and> history d d2" using d1 history_trans by blast
  qed (simp add: auth)
  then show "queue_authentic (snd (enforce_budgets cfg clk d))" ..
qed

interpretation tick_commands: command_step "\<lambda>d. snd (tick B cfg tk lns d)" for B cfg tk lns
proof (unfold_locales)
  fix d assume auth: "queue_authentic d"
  obtain res d1 where p: "poll_invoices B (tk_poll tk) lns d = (res, d1)"
    by (cases "poll_invoices B (tk_poll tk) lns d")
  have hist: "history d d1" and same: "db_commands d1 = db_commands d"
    using history_poll_loop [of d B "tk_poll tk" lns "filter (\<lambda>i. \<not> i_settled i) (db_invoices d)"]
      poll_loop_commands [of B "tk_poll tk" lns "filter (\<lambda>i. \<not> i_settled i) (db_invoices d)" d] p
    by (simp_all add: poll_invoices_def)
  have "queue_authentic d1" by (rule queue_frame [OF history_terms [OF hist] _ auth]) (simp add: same)
  then show "queue_authentic (snd (tick B cfg tk lns d))"
    using enforce_commands.keeps_queue [OF offline_commands.keeps_queue]
    by (auto simp: tick_def p split: sum.splits)
qed

lemma handle_commands: "queue_authentic (st_db st) \<Longrightarrow> queue_authentic (st_db (snd (handle ev req st)))"
proof (cases req)
  case (PostDeposit k x)
  assume "queue_authentic (st_db st)"
  from deposit_commands.keeps_queue [OF this, of "st_ln st" k x "ev_now ev" "st_ln_state st"] show ?thesis
    by (simp add: PostDeposit put_ln_db_def deposit_db_def split: prod.splits)
next
  case (PostPayout auth b)
  assume "queue_authentic (st_db st)"
  from payout_commands.keeps_queue [OF this, of "st_ln st" auth b "ev_now ev" "st_ln_state st"] show ?thesis
    by (simp add: PostPayout put_ln_db_def payout_db_def split: prod.splits)
next
  case (PostRegister r)
  assume "queue_authentic (st_db st)"
  then show ?thesis
    by (simp add: PostRegister handle_register_def put_db_def next_mix_def register_commands.keeps_queue)
qed (simp_all add: put_db_def next_mix_def create_account_commands.keeps_queue create_rental_commands.keeps_queue
    delete_commands.keeps_queue heartbeat_commands.keeps_queue report_commands.keeps_queue rate_commands.keeps_queue)

lemma cp_step_commands: "cp_step st st' \<Longrightarrow> queue_authentic (st_db st) \<Longrightarrow> queue_authentic (st_db st')"
proof (induction rule: cp_step.induct)
  case (request t st ev req resp st')
  then show ?case using handle_commands [of st ev req] by (simp del: handle.simps)
next
  case (ticker st tk res d')
  then show ?case
    using tick_commands.keeps_queue [of "st_db st" "st_ln st" "st_billing st" tk "st_ln_state st"] by simp
qed simp_all

interpretation command_queue: transition_system
  "\<lambda>st. \<exists>B lns clk name. st = server_init B lns clk name" cp_step "\<lambda>st. queue_authentic (st_db st)"
proof
  show "queue_authentic (st_db st)" if "\<exists>B lns clk name. st = server_init B lns clk name" for st :: "'a app_state"
    using that by (auto simp: server_init_def queue_authentic_def db_empty_def)
qed (rule cp_step_commands)

end
