(* ===== verification/Host_Runtime.thy ===== *)
theory Host_Runtime
  imports Core_Model "HOL-Library.AList"
begin

text \<open>
  \<^verbatim>\<open>crates/host-agent/src/runtime.rs\<close>: the trait \<open>HostRuntime\<close> as a
  record of its operations, the port and image helpers, the Docker backend over the calls of
  the \<^verbatim>\<open>bollard\<close> client it makes (\<open>docker_ops\<close>, a parameter), the Metal
  backend over the process calls it makes (\<open>os_ops\<close>, a parameter), and the contract
  \<open>port_contract\<close> both interpret. An \<open>anyhow\<close> error is the chain of its
  messages, outermost context first.
\<close>

section \<open>The trait\<close>

record rental_spec =
  sp_rental_id :: int
  sp_image :: string
  sp_ssh_pubkey :: string

record started =
  sd_container_id :: string
  sd_ssh_port :: int
  sd_kind :: rental_kind

record running_rental =
  rr_rental_id :: int
  rr_container_id :: string
  rr_ssh_port :: int

record 'rt host_runtime =
  start_rental :: "'rt \<Rightarrow> rental_spec \<Rightarrow> (anyhow + started) \<times> 'rt"
  stop_rental :: "'rt \<Rightarrow> int \<Rightarrow> (anyhow + unit) \<times> 'rt"
  running_rentals :: "'rt \<Rightarrow> (anyhow + running_rental list) \<times> 'rt"
  available :: "'rt \<Rightarrow> anyhow + int list"

definition connect_check :: "int \<Rightarrow> int \<Rightarrow> anyhow + unit" where
  "connect_check port_start port_end =
     (if port_start \<le> port_end then Inr ()
      else Inl [''port_start ('' @ show_int port_start @ '') must be <= port_end ('' @ show_int port_end @ '')''])"

section \<open>Ports, names, images\<close>

definition pick_free_port :: "int \<Rightarrow> int \<Rightarrow> int set \<Rightarrow> int option" where
  "pick_free_port lo hi used = List.find (\<lambda>p. p \<notin> used) [lo..hi]"

definition free_ports :: "int \<Rightarrow> int \<Rightarrow> int set \<Rightarrow> int list" where
  "free_ports lo hi used = filter (\<lambda>p. p \<notin> used) [lo..hi]"

definition container_name :: "int \<Rightarrow> string" where
  "container_name rental_id = ''vgpu-rental-'' @ show_int rental_id"

definition rfind :: "char \<Rightarrow> string \<Rightarrow> nat option" where
  "rfind c s = (if c \<in> set s then Some (length s - 1 - length (takeWhile (\<lambda>x. x \<noteq> c) (rev s))) else None)"

definition split_image_tag :: "string \<Rightarrow> string \<times> string" where
  "split_image_tag img =
     (let last_segment_start = (case rfind (CHR ''/'') img of Some i \<Rightarrow> i + 1 | None \<Rightarrow> 0)
      in case rfind (CHR '':'') (drop last_segment_start img) of
           Some rel \<Rightarrow>
             (let sep = last_segment_start + rel in (take sep img, drop (sep + 1) img))
         | None \<Rightarrow> (img, ''latest''))"

section \<open>The Docker backend\<close>

datatype docker_error = DockerResponseServerError nat string | OtherDockerError string

definition is_not_found :: "docker_error \<Rightarrow> bool" where
  "is_not_found e = (case e of DockerResponseServerError s _ \<Rightarrow> s = 404 | _ \<Rightarrow> False)"

definition is_not_modified :: "docker_error \<Rightarrow> bool" where
  "is_not_modified e = (case e of DockerResponseServerError s _ \<Rightarrow> s = 304 | _ \<Rightarrow> False)"

record container_config =
  cfg_image :: string
  cfg_env :: "string list"
  cfg_exposed_ports :: "string list"
  cfg_labels :: "(string \<times> string) list"
  cfg_port_bindings :: "(string \<times> string \<times> string) list"
  cfg_gpu_count :: int

record container =
  ct_id :: "string option"
  ct_labels :: "(string \<times> string) list option"

text \<open>The calls of the Docker client; \<open>dk_display\<close> is how it prints an error.\<close>

record 'dk docker_ops =
  dk_create_image :: "'dk \<Rightarrow> string \<Rightarrow> string \<Rightarrow> (docker_error + unit) list \<times> 'dk"
  dk_remove_container :: "'dk \<Rightarrow> string \<Rightarrow> (docker_error + unit) \<times> 'dk"
  dk_create_container :: "'dk \<Rightarrow> string \<Rightarrow> container_config \<Rightarrow> (docker_error + string) \<times> 'dk"
  dk_start_container :: "'dk \<Rightarrow> string \<Rightarrow> (docker_error + unit) \<times> 'dk"
  dk_stop_container :: "'dk \<Rightarrow> string \<Rightarrow> (docker_error + unit) \<times> 'dk"
  dk_list_containers :: "'dk \<Rightarrow> string \<Rightarrow> docker_error + container list"
  dk_display :: "docker_error \<Rightarrow> string"

definition LABEL_RENTAL_ID :: string where "LABEL_RENTAL_ID = ''io.vgpu.rental_id''"
definition LABEL_SSH_PORT :: string where "LABEL_SSH_PORT = ''io.vgpu.ssh_port''"
definition CONTAINER_SSH_PORT :: string where "CONTAINER_SSH_PORT = ''22/tcp''"

record 'dk docker_runtime =
  dr_docker :: "'dk"
  dr_port_start :: int
  dr_port_end :: int

text \<open>One step of the loop of \<open>running_rentals\<close>: \<open>None\<close> is its \<^verbatim>\<open>continue\<close>.\<close>

definition decode_container :: "container \<Rightarrow> running_rental option" where
  "decode_container c =
     (let labels = (case ct_labels c of None \<Rightarrow> [] | Some ls \<Rightarrow> ls)
      in case (map_of labels LABEL_RENTAL_ID, map_of labels LABEL_SSH_PORT) of
           (Some rid, Some port) \<Rightarrow>
             (case (parse_i64 rid, parse_i32 port) of
                (Some rental_id, Some ssh_port) \<Rightarrow>
                  Some \<lparr>rr_rental_id = rental_id,
                        rr_container_id = (case ct_id c of None \<Rightarrow> [] | Some i \<Rightarrow> i),
                        rr_ssh_port = ssh_port\<rparr>
              | _ \<Rightarrow> None)
         | _ \<Rightarrow> None)"

definition docker_running_rentals ::
  "'dk docker_ops \<Rightarrow> 'dk docker_runtime \<Rightarrow> anyhow + running_rental list" where
  "docker_running_rentals D rt =
     (case dk_list_containers D (dr_docker rt) LABEL_RENTAL_ID of
        Inl e \<Rightarrow> Inl [''listing containers'', dk_display D e]
      | Inr containers \<Rightarrow> Inr (List.map_filter decode_container containers))"

definition docker_used_ports :: "'dk docker_ops \<Rightarrow> 'dk docker_runtime \<Rightarrow> anyhow + int set" where
  "docker_used_ports D rt =
     (case docker_running_rentals D rt of
        Inl e \<Rightarrow> Inl e
      | Inr rs \<Rightarrow> Inr (rr_ssh_port ` set rs))"

fun pull_stream :: "'dk docker_ops \<Rightarrow> (docker_error + unit) list \<Rightarrow> anyhow + unit" where
  "pull_stream D [] = Inr ()"
| "pull_stream D (Inl e # items) = Inl [''image pull stream'', dk_display D e]"
| "pull_stream D (Inr u # items) = pull_stream D items"

definition docker_pull_image ::
  "'dk docker_ops \<Rightarrow> 'dk docker_runtime \<Rightarrow> string \<Rightarrow> (anyhow + unit) \<times> 'dk docker_runtime" where
  "docker_pull_image D rt img =
     (let (from_image, tag) = split_image_tag img;
          (items, dk) = dk_create_image D (dr_docker rt) from_image tag
      in (pull_stream D items, rt\<lparr>dr_docker := dk\<rparr>))"

definition docker_force_remove ::
  "'dk docker_ops \<Rightarrow> 'dk docker_runtime \<Rightarrow> string \<Rightarrow> (anyhow + unit) \<times> 'dk docker_runtime" where
  "docker_force_remove D rt name =
     (case dk_remove_container D (dr_docker rt) name of
        (Inr _, dk) \<Rightarrow> (Inr (), rt\<lparr>dr_docker := dk\<rparr>)
      | (Inl e, dk) \<Rightarrow>
          if is_not_found e then (Inr (), rt\<lparr>dr_docker := dk\<rparr>)
          else (Inl [''removing container'', dk_display D e], rt\<lparr>dr_docker := dk\<rparr>))"

definition rental_labels :: "int \<Rightarrow> int \<Rightarrow> (string \<times> string) list" where
  "rental_labels rental_id ssh_port =
     [(LABEL_RENTAL_ID, show_int rental_id), (LABEL_SSH_PORT, show_int ssh_port)]"

definition rental_config :: "rental_spec \<Rightarrow> int \<Rightarrow> container_config" where
  "rental_config spec ssh_port =
     \<lparr>cfg_image = sp_image spec,
      cfg_env = [''PUBLIC_KEY='' @ sp_ssh_pubkey spec, ''SSH_PUBLIC_KEY='' @ sp_ssh_pubkey spec],
      cfg_exposed_ports = [CONTAINER_SSH_PORT],
      cfg_labels = rental_labels (sp_rental_id spec) ssh_port,
      cfg_port_bindings = [(CONTAINER_SSH_PORT, ''0.0.0.0'', show_int ssh_port)],
      cfg_gpu_count = - 1\<rparr>"

text \<open>From the free port on: clear a stale container, create, start.\<close>

definition docker_launch ::
  "'dk docker_ops \<Rightarrow> 'dk docker_runtime \<Rightarrow> rental_spec \<Rightarrow> int \<Rightarrow> (anyhow + started) \<times> 'dk docker_runtime" where
  "docker_launch D rt spec ssh_port =
     (let name = container_name (sp_rental_id spec)
      in case docker_force_remove D rt name of
           (Inl e, rt1) \<Rightarrow> (Inl e, rt1)
         | (Inr _, rt1) \<Rightarrow>
             (case dk_create_container D (dr_docker rt1) name (rental_config spec ssh_port) of
                (Inl e, dk2) \<Rightarrow> (Inl [''creating container'', dk_display D e], rt1\<lparr>dr_docker := dk2\<rparr>)
              | (Inr cid, dk2) \<Rightarrow>
                  (case dk_start_container D dk2 name of
                     (Inl e, dk3) \<Rightarrow> (Inl [''starting container'', dk_display D e], rt1\<lparr>dr_docker := dk3\<rparr>)
                   | (Inr _, dk3) \<Rightarrow>
                       (Inr \<lparr>sd_container_id = cid, sd_ssh_port = ssh_port, sd_kind = Ssh\<rparr>,
                        rt1\<lparr>dr_docker := dk3\<rparr>))))"

definition docker_start_rental ::
  "'dk docker_ops \<Rightarrow> 'dk docker_runtime \<Rightarrow> rental_spec \<Rightarrow> (anyhow + started) \<times> 'dk docker_runtime" where
  "docker_start_rental D rt spec =
     (case docker_pull_image D rt (sp_image spec) of
        (Inl e, rt1) \<Rightarrow> (Inl ((''pulling image '' @ sp_image spec) # e), rt1)
      | (Inr _, rt1) \<Rightarrow>
          (case docker_used_ports D rt1 of
             Inl e \<Rightarrow> (Inl e, rt1)
           | Inr used \<Rightarrow>
               (case pick_free_port (dr_port_start rt1) (dr_port_end rt1) used of
                  None \<Rightarrow> (Inl [''no free SSH port in '' @ show_int (dr_port_start rt1) @ ''..='' @
                              show_int (dr_port_end rt1)], rt1)
                | Some ssh_port \<Rightarrow> docker_launch D rt1 spec ssh_port)))"

definition docker_stop_rental ::
  "'dk docker_ops \<Rightarrow> 'dk docker_runtime \<Rightarrow> int \<Rightarrow> (anyhow + unit) \<times> 'dk docker_runtime" where
  "docker_stop_rental D rt rental_id =
     (let name = container_name rental_id
      in case dk_stop_container D (dr_docker rt) name of
           (Inr _, dk) \<Rightarrow> docker_force_remove D (rt\<lparr>dr_docker := dk\<rparr>) name
         | (Inl e, dk) \<Rightarrow>
             if is_not_found e \<or> is_not_modified e then docker_force_remove D (rt\<lparr>dr_docker := dk\<rparr>) name
             else (Inl [''stopping container'', dk_display D e], rt\<lparr>dr_docker := dk\<rparr>))"

definition docker_available :: "'dk docker_ops \<Rightarrow> 'dk docker_runtime \<Rightarrow> anyhow + int list" where
  "docker_available D rt =
     (case docker_used_ports D rt of
        Inl e \<Rightarrow> Inl e
      | Inr used \<Rightarrow> Inr (free_ports (dr_port_start rt) (dr_port_end rt) used))"

definition docker_host_runtime :: "'dk docker_ops \<Rightarrow> 'dk docker_runtime host_runtime" where
  "docker_host_runtime D = \<lparr>start_rental = docker_start_rental D, stop_rental = docker_stop_rental D,
     running_rentals = (\<lambda>rt. (docker_running_rentals D rt, rt)), available = docker_available D\<rparr>"

section \<open>The Metal backend\<close>

datatype metal_task = Gemm int

text \<open>\<^verbatim>\<open>split_once(':')\<close>.\<close>

definition split_once :: "char \<Rightarrow> string \<Rightarrow> (string \<times> string) option" where
  "split_once c s = (if c \<in> set s then Some (takeWhile (\<lambda>x. x \<noteq> c) s, tl (dropWhile (\<lambda>x. x \<noteq> c) s)) else None)"

text \<open>The messages quote the image with Rust's \<^verbatim>\<open>{:?}\<close>, given as \<open>dbg\<close>.\<close>

definition parse_task :: "(string \<Rightarrow> string) \<Rightarrow> string \<Rightarrow> anyhow + metal_task" where
  "parse_task dbg img =
     (case strip_prefix ''metal:'' img of
        None \<Rightarrow> Inl [''this host runs native Metal jobs only '' @ [CHR 0xE2, CHR 0x80, CHR 0x94] @
                  '' image must be 'metal:gemm[:N]' (got '' @ dbg img @ '')'']
      | Some rest \<Rightarrow>
          (let (task, arg) = (case split_once (CHR '':'') rest of Some (t, a) \<Rightarrow> (t, Some a) | None \<Rightarrow> (rest, None))
           in if task = ''gemm'' then
                (case (case arg of None \<Rightarrow> Some 2048 | Some a \<Rightarrow> parse_u32 a) of
                   None \<Rightarrow> Inl [''invalid GEMM size in '' @ dbg img]
                 | Some n \<Rightarrow>
                     if 256 \<le> n \<and> n \<le> 16384 \<and> n mod 8 = 0 then Inr (Gemm n)
                     else Inl [''GEMM size must be a multiple of 8 in 256..=16384 (got '' @ show_int n @ '')''])
              else Inl [''unknown Metal task '' @ dbg task @ ''; supported: gemm'']))"

text \<open>
  What the backend asks of the operating system: spawn the worker (the child's handle),
  whether it has exited, and kill it.
\<close>

record 'os os_ops =
  os_spawn :: "'os \<Rightarrow> string \<Rightarrow> string list \<Rightarrow> (string + nat) \<times> 'os"
  os_exited :: "'os \<Rightarrow> nat \<Rightarrow> bool"
  os_kill :: "'os \<Rightarrow> nat \<Rightarrow> 'os"

record job =
  jb_child :: nat
  jb_port :: int

text \<open>The \<^verbatim>\<open>HashMap\<close> of jobs is an association list in its iteration order.\<close>

record 'os metal_runtime =
  mt_exe :: string
  mt_port_start :: int
  mt_port_end :: int
  mt_jobs :: "(int \<times> job) list"
  mt_os :: "'os"

definition metal_connect :: "string \<Rightarrow> int \<Rightarrow> int \<Rightarrow> 'os \<Rightarrow> 'os metal_runtime" where
  "metal_connect exe port_start port_end os =
     \<lparr>mt_exe = exe, mt_port_start = port_start, mt_port_end = port_end, mt_jobs = [], mt_os = os\<rparr>"

definition metal_used_ports :: "'os metal_runtime \<Rightarrow> int set" where
  "metal_used_ports rt = (\<lambda>e. jb_port (snd e)) ` set (mt_jobs rt)"

definition metal_start_rental ::
  "'os os_ops \<Rightarrow> (string \<Rightarrow> string) \<Rightarrow> 'os metal_runtime \<Rightarrow> rental_spec \<Rightarrow> (anyhow + started) \<times> 'os metal_runtime" where
  "metal_start_rental P dbg rt spec =
     (case parse_task dbg (sp_image spec) of
        Inl e \<Rightarrow> (Inl e, rt)
      | Inr (Gemm n) \<Rightarrow>
          (case pick_free_port (mt_port_start rt) (mt_port_end rt) (metal_used_ports rt) of
             None \<Rightarrow> (Inl [''no free port in '' @ show_int (mt_port_start rt) @ ''..='' @ show_int (mt_port_end rt)], rt)
           | Some port \<Rightarrow>
               (case os_spawn P (mt_os rt) (mt_exe rt) [''__mac-worker'', show_int n, show_int port] of
                  (Inl e, os) \<Rightarrow> (Inl [''spawning the native Metal worker'', e], rt\<lparr>mt_os := os\<rparr>)
                | (Inr child, os) \<Rightarrow>
                    (Inr \<lparr>sd_container_id = ''metal-job-'' @ show_int (sp_rental_id spec),
                          sd_ssh_port = port, sd_kind = HttpStatus\<rparr>,
                     rt\<lparr>mt_jobs := AList.update (sp_rental_id spec) \<lparr>jb_child = child, jb_port = port\<rparr> (mt_jobs rt),
                        mt_os := os\<rparr>))))"

definition metal_stop_rental ::
  "'os os_ops \<Rightarrow> 'os metal_runtime \<Rightarrow> int \<Rightarrow> (anyhow + unit) \<times> 'os metal_runtime" where
  "metal_stop_rental P rt rental_id =
     (case map_of (mt_jobs rt) rental_id of
        None \<Rightarrow> (Inr (), rt)
      | Some jb \<Rightarrow> (Inr (), rt\<lparr>mt_jobs := AList.delete rental_id (mt_jobs rt),
                               mt_os := os_kill P (mt_os rt) (jb_child jb)\<rparr>))"

definition metal_running_rentals ::
  "'os os_ops \<Rightarrow> 'os metal_runtime \<Rightarrow> (anyhow + running_rental list) \<times> 'os metal_runtime" where
  "metal_running_rentals P rt =
     (let alive = filter (\<lambda>e. \<not> os_exited P (mt_os rt) (jb_child (snd e))) (mt_jobs rt)
      in (Inr (map (\<lambda>e. \<lparr>rr_rental_id = fst e, rr_container_id = ''metal-job-'' @ show_int (fst e),
                         rr_ssh_port = jb_port (snd e)\<rparr>) alive),
          rt\<lparr>mt_jobs := alive\<rparr>))"

definition metal_available :: "'os metal_runtime \<Rightarrow> anyhow + int list" where
  "metal_available rt = Inr (free_ports (mt_port_start rt) (mt_port_end rt) (metal_used_ports rt))"

definition metal_host_runtime :: "'os os_ops \<Rightarrow> (string \<Rightarrow> string) \<Rightarrow> 'os metal_runtime host_runtime" where
  "metal_host_runtime P dbg = \<lparr>start_rental = metal_start_rental P dbg, stop_rental = metal_stop_rental P,
     running_rentals = metal_running_rentals P, available = metal_available\<rparr>"

end
