(* ===== verification/Benchmark.thy ===== *)
theory Benchmark
  imports Core_Model "HOL-Library.Char_ord" "HOL-Library.List_Lexorder" "HOL-Library.Multiset"
begin

text \<open>
  \<^verbatim>\<open>crates/host-agent/src/benchmark.rs\<close>: what a host reports about its GPUs.
  NVML and \<^verbatim>\<open>system_profiler\<close> are parameters (their answers), and so are the
  hash function of the \<^verbatim>\<open>sha2\<close> crate and the rounding \<open>fl\<close> of a
  double addition.
\<close>

section \<open>Inventory\<close>

record gpu_info =
  g_name :: string
  g_uuid :: string
  g_pci_bus_id :: string
  g_vram_mb :: int

record inventory =
  iv_gpus :: "gpu_info list"
  iv_dlperf :: real
  iv_hw_fingerprint :: string

definition inventory_gpu_count :: "inventory \<Rightarrow> int" where
  "inventory_gpu_count iv = as_i32 (int (length (iv_gpus iv)))"

definition inventory_gpu_name :: "inventory \<Rightarrow> string" where
  "inventory_gpu_name iv = (case iv_gpus iv of [] \<Rightarrow> ''unknown'' | g # _ \<Rightarrow> g_name g)"

definition inventory_vram_mb :: "inventory \<Rightarrow> int" where
  "inventory_vram_mb iv = (case iv_gpus iv of [] \<Rightarrow> 0 | g # _ \<Rightarrow> g_vram_mb g)"

text \<open>What NVML answers for one device, each call with the text of its error.\<close>

record nvml_device =
  nd_memory_total :: "string + int"
  nd_name :: "string + string"
  nd_uuid :: "string + string"
  nd_bus_id :: "string + string"

definition nvml_gpu :: "nvml_device \<Rightarrow> string + gpu_info" where
  "nvml_gpu dev =
     (case nd_memory_total dev of Inl e \<Rightarrow> Inl e | Inr mem \<Rightarrow>
      (case nd_name dev of Inl e \<Rightarrow> Inl e | Inr name \<Rightarrow>
      (case nd_uuid dev of Inl e \<Rightarrow> Inl e | Inr uuid \<Rightarrow>
      (case nd_bus_id dev of Inl e \<Rightarrow> Inl e | Inr bus \<Rightarrow>
         Inr \<lparr>g_name = name, g_uuid = uuid, g_pci_bus_id = bus,
              g_vram_mb = mem div (1024 * 1024)\<rparr>))))"

fun nvml_gpus :: "(nat \<Rightarrow> string + nvml_device) \<Rightarrow> nat list \<Rightarrow> string + gpu_info list" where
  "nvml_gpus device_by_index [] = Inr []"
| "nvml_gpus device_by_index (i # is) =
     (case device_by_index i of Inl e \<Rightarrow> Inl e | Inr dev \<Rightarrow>
      (case nvml_gpu dev of Inl e \<Rightarrow> Inl e | Inr g \<Rightarrow>
      (case nvml_gpus device_by_index is of Inl e \<Rightarrow> Inl e | Inr gs \<Rightarrow> Inr (g # gs))))"

definition inventory_linux ::
  "string + unit \<Rightarrow> string + nat \<Rightarrow> (nat \<Rightarrow> string + nvml_device) \<Rightarrow> string + gpu_info list" where
  "inventory_linux nvml_init device_count device_by_index =
     (case nvml_init of
        Inl e \<Rightarrow> Inl (''NVML init failed (is the NVIDIA driver installed?): '' @ e)
      | Inr _ \<Rightarrow>
          (case device_count of
             Inl e \<Rightarrow> Inl e
           | Inr n \<Rightarrow> nvml_gpus device_by_index [0..<n]))"

definition apple_unified_memory_mb :: "int \<Rightarrow> int" where
  "apple_unified_memory_mb total_memory = total_memory div (1024 * 1024)"

text \<open>
  The one GPU of an Apple host, from what \<^verbatim>\<open>system_profiler\<close> printed: its
  name and its number of cores, the machine's serial number, and the memory in bytes.
\<close>

definition inventory_macos :: "string option \<Rightarrow> string option \<Rightarrow> string option \<Rightarrow> int \<Rightarrow> gpu_info list" where
  "inventory_macos gpu_name sppci_cores serial total_memory =
     (let name = (case gpu_name of None \<Rightarrow> ''Apple GPU'' | Some n \<Rightarrow> n);
          cores = Option.bind sppci_cores (\<lambda>s. parse_i64 (trim s));
          ident = (case serial of None \<Rightarrow> name | Some s \<Rightarrow> s)
      in [\<lparr>g_name = name, g_uuid = ''apple-gpu-'' @ ident,
           g_pci_bus_id = (case cores of None \<Rightarrow> [] | Some c \<Rightarrow> show_int c @ ''-core''),
           g_vram_mb = apple_unified_memory_mb total_memory\<rparr>])"

section \<open>Fingerprint\<close>

definition fingerprint_tuple :: "gpu_info \<Rightarrow> string" where
  "fingerprint_tuple g = g_name g @ ''|'' @ g_uuid g @ ''|'' @ g_pci_bus_id g"

text \<open>The bytes the hasher is fed: every tuple of the sorted list, then a zero byte.\<close>

definition fingerprint_bytes :: "gpu_info list \<Rightarrow> string" where
  "fingerprint_bytes gpus = concat (map (\<lambda>t. t @ [CHR 0x00]) (sort (map fingerprint_tuple gpus)))"

definition fingerprint :: "(string \<Rightarrow> nat list) \<Rightarrow> gpu_info list \<Rightarrow> string" where
  "fingerprint sha256 gpus = concat (map (hex_fixed 2) (sha256 (fingerprint_bytes gpus)))"

section \<open>Performance score\<close>

text \<open>
  \<^verbatim>\<open>str::to_lowercase\<close>, as far as a search for an ASCII string can tell: the
  ASCII letters, and the two other characters whose lower case contains an ASCII letter (the
  Kelvin sign and the dotted capital I); the bytes of all others stay as they are.
\<close>

fun to_lowercase :: "string \<Rightarrow> string" where
  "to_lowercase [] = []"
| "to_lowercase (c # cs) =
     (if c = CHR 0xE2 \<and> take 2 cs = [CHR 0x84, CHR 0xAA]
      then CHR ''k'' # to_lowercase (drop 2 cs)
      else if c = CHR 0xC4 \<and> take 1 cs = [CHR 0xB0]
      then CHR ''i'' # CHR 0xCC # CHR 0x87 # to_lowercase (drop 1 cs)
      else ascii_lower c # to_lowercase cs)"

fun str_contains :: "string \<Rightarrow> string \<Rightarrow> bool" where
  "str_contains needle [] = (needle = [])"
| "str_contains needle (c # cs) = (starts_with needle (c # cs) \<or> str_contains needle cs)"

definition DLPERF_TABLE :: "(string \<times> real) list" where
  "DLPERF_TABLE =
     [(''h200'', 320), (''h100'', 300), (''a100'', 160), (''l40s'', 95), (''l40'', 90), (''a40'', 74),
      (''a30'', 55), (''a10g'', 32), (''a10'', 30), (''l4'', 24), (''v100'', 28), (''t4'', 16),
      (''rtx 6000 ada'', 90), (''rtx a6000'', 78), (''rtx a5000'', 55), (''rtx a4000'', 40),
      (''4090'', 42), (''4080'', 30), (''4070 ti'', 26), (''4070'', 20), (''3090 ti'', 31),
      (''3090'', 27), (''3080'', 24), (''3070'', 17), (''2080 ti'', 16)]"

definition APPLE_TABLE :: "(string \<times> real) list" where
  "APPLE_TABLE =
     [(''m3 ultra'', 13), (''m2 ultra'', 11), (''m1 ultra'', 10), (''m4 max'', 9), (''m3 max'', 8),
      (''m2 max'', 7), (''m1 max'', 6), (''m4 pro'', 6), (''m3 pro'', 5), (''m2 pro'', 9 / 2),
      (''m1 pro'', 4), (''m4'', 4), (''m3'', 3), (''m2'', 5 / 2), (''m1'', 2)]"

fun table_score :: "string \<Rightarrow> (string \<times> real) list \<Rightarrow> real option" where
  "table_score lname [] = None"
| "table_score lname ((needle, score) # rest) =
     (if str_contains needle lname then Some score else table_score lname rest)"

definition apple_dlperf :: "string \<Rightarrow> real" where
  "apple_dlperf lname = (case table_score lname APPLE_TABLE of Some s \<Rightarrow> s | None \<Rightarrow> 3)"

definition lookup_dlperf :: "string \<Rightarrow> real" where
  "lookup_dlperf name =
     (let lname = to_lowercase name
      in if str_contains ''apple'' lname then apple_dlperf lname
         else (case table_score lname DLPERF_TABLE of Some s \<Rightarrow> s | None \<Rightarrow> 18))"

definition gemm_score :: "real option" where
  "gemm_score = None"

text \<open>The iterator's sum of doubles: from zero, from the left, every addition rounded.\<close>

definition dlperf :: "(real \<Rightarrow> real) \<Rightarrow> gpu_info list \<Rightarrow> real" where
  "dlperf fl gpus =
     (case gemm_score of
        Some measured \<Rightarrow> measured
      | None \<Rightarrow> foldl (\<lambda>acc x. fl (acc + x)) 0 (map (\<lambda>g. lookup_dlperf (g_name g)) gpus))"

section \<open>Probe\<close>

definition probe ::
  "(string \<Rightarrow> nat list) \<Rightarrow> (real \<Rightarrow> real) \<Rightarrow> string + gpu_info list \<Rightarrow> string + inventory" where
  "probe sha256 fl found =
     (case found of
        Inl e \<Rightarrow> Inl e
      | Inr gpus \<Rightarrow>
          if gpus = [] then
            Inl (''no NVIDIA GPU detected '' @ [CHR 0xE2, CHR 0x80, CHR 0x94] @
                 '' nothing to offer'')
          else Inr \<lparr>iv_gpus = gpus, iv_dlperf = dlperf fl gpus, iv_hw_fingerprint = fingerprint sha256 gpus\<rparr>)"

section \<open>What the fingerprint determines\<close>

lemma concat_terminated_inject:
  assumes "\<forall>x\<in>set xs. z \<notin> set x" "\<forall>y\<in>set ys. z \<notin> set y"
    and "concat (map (\<lambda>t. t @ [z]) xs) = concat (map (\<lambda>t. t @ [z]) ys)"
  shows "xs = ys"
  using assms
proof (induction xs arbitrary: ys)
  case Nil
  then show ?case by (cases ys) auto
next
  case (Cons x xs)
  show ?case
  proof (cases ys)
    case Nil
    then show ?thesis using Cons.prems by simp
  next
    case ys: (Cons y ys')
    let ?rest = "\<lambda>zs. concat (map (\<lambda>t. t @ [z]) zs)"
    have eq: "x @ z # ?rest xs = y @ z # ?rest ys'" using Cons.prems(3) ys by simp
    have "z \<notin> set x" "z \<notin> set y" using Cons.prems(1,2) ys by auto
    then have "x = y" using eq by (metis takeWhile_sep)
    with eq have "?rest xs = ?rest ys'" by simp
    with Cons.IH [of ys'] Cons.prems(1,2) ys \<open>x = y\<close> show ?thesis by simp
  qed
qed

lemma fingerprint_bytes_mset:
  "mset (map fingerprint_tuple gs) = mset (map fingerprint_tuple gs') \<Longrightarrow>
    fingerprint_bytes gs = fingerprint_bytes gs'"
  using properties_for_sort [of "sort (map fingerprint_tuple gs')" "map fingerprint_tuple gs"]
  by (simp add: fingerprint_bytes_def del: mset_map)

lemma fingerprint_bytes_inject:
  assumes "\<forall>g\<in>set (gs @ gs'). CHR 0x00 \<notin> set (fingerprint_tuple g)"
    and "fingerprint_bytes gs = fingerprint_bytes gs'"
  shows "mset (map fingerprint_tuple gs) = mset (map fingerprint_tuple gs')"
proof -
  have "sort (map fingerprint_tuple gs) = sort (map fingerprint_tuple gs')"
    by (rule concat_terminated_inject [of _ "CHR 0x00"])
      (use assms in \<open>auto simp: fingerprint_bytes_def\<close>)
  then show ?thesis by (metis mset_sort)
qed

text \<open>
  the fingerprint does not depend on the order the GPUs are enumerated in, and the bytes
  it hashes determine the GPUs' name, id and slot tuples up to order (no such text holds a
  zero byte): swapping a card changes what is hashed.
\<close>

theorem fingerprint_identifies_hardware:
  "(mset (map fingerprint_tuple gs) = mset (map fingerprint_tuple gs') \<longrightarrow>
      fingerprint sha256 gs = fingerprint sha256 gs') \<and>
   ((\<forall>g\<in>set (gs @ gs'). CHR 0x00 \<notin> set (fingerprint_tuple g)) \<longrightarrow>
      fingerprint_bytes gs = fingerprint_bytes gs' \<longrightarrow>
      mset (map fingerprint_tuple gs) = mset (map fingerprint_tuple gs'))"
  using fingerprint_bytes_mset fingerprint_bytes_inject by (metis fingerprint_def)

definition demo_gpu :: "string \<Rightarrow> gpu_info" where
  "demo_gpu uuid = \<lparr>g_name = ''NVIDIA GeForce RTX 4090'', g_uuid = uuid, g_pci_bus_id = ''00000000:01:00.0'',
     g_vram_mb = 24564\<rparr>"

theorem fingerprint_identifies_hardware_witness:
  "fingerprint (map of_char) [demo_gpu ''GPU-a'', demo_gpu ''GPU-b''] =
     fingerprint (map of_char) [demo_gpu ''GPU-b'', demo_gpu ''GPU-a''] \<and>
   fingerprint_bytes [demo_gpu ''GPU-a''] \<noteq> fingerprint_bytes [demo_gpu ''GPU-c'']"
proof
  show "fingerprint (map of_char) [demo_gpu ''GPU-a'', demo_gpu ''GPU-b''] =
      fingerprint (map of_char) [demo_gpu ''GPU-b'', demo_gpu ''GPU-a'']"
    using fingerprint_identifies_hardware [of "[demo_gpu ''GPU-a'', demo_gpu ''GPU-b'']"
        "[demo_gpu ''GPU-b'', demo_gpu ''GPU-a'']"] by simp
  show "fingerprint_bytes [demo_gpu ''GPU-a''] \<noteq> fingerprint_bytes [demo_gpu ''GPU-c'']"
  proof -
    have "\<forall>g\<in>set ([demo_gpu ''GPU-a''] @ [demo_gpu ''GPU-c'']). CHR 0x00 \<notin> set (fingerprint_tuple g)"
      "fingerprint_tuple (demo_gpu ''GPU-a'') \<noteq> fingerprint_tuple (demo_gpu ''GPU-c'')"
      by code_simp+
    then show ?thesis
      using fingerprint_identifies_hardware [of "[demo_gpu ''GPU-a'']" "[demo_gpu ''GPU-c'']"] by auto
  qed
qed

section \<open>What the tables score\<close>

text \<open>
  every row of the two tables is reached by the model it names, except the RTX A4000: the
  row \<open>a40\<close> for the data-centre A40 comes first and matches it, so the card is listed
  at 74 in place of 40.
\<close>

theorem dlperf_rows_reached:
  "list_all (\<lambda>(needle, score). lookup_dlperf needle = score \<longleftrightarrow> needle \<noteq> ''rtx a4000'') DLPERF_TABLE \<and>
   list_all (\<lambda>(needle, score). lookup_dlperf (''Apple '' @ needle) = score) APPLE_TABLE \<and>
   lookup_dlperf ''NVIDIA RTX A4000'' = 74"
  by code_simp

lemma table_score_half:
  "list_all (\<lambda>(n, s). \<exists>k::nat. 0 < k \<and> k \<le> 640 \<and> s = real k / 2) t \<Longrightarrow> table_score l t = Some x \<Longrightarrow>
    \<exists>k::nat. 0 < k \<and> k \<le> 640 \<and> x = real k / 2"
  by (induction l t rule: table_score.induct) (auto split: if_splits)

lemma half_integer: "0 < k \<Longrightarrow> k \<le> 640 \<Longrightarrow> x = real k / 2 \<Longrightarrow> \<exists>k::nat. 0 < k \<and> k \<le> 640 \<and> x = real k / 2"
  by blast

lemma half_real:
  assumes "0 < (s :: real)" "s \<le> 320" "2 * s = of_int \<lfloor>2 * s\<rfloor>"
  shows "\<exists>k::nat. 0 < k \<and> k \<le> 640 \<and> s = real k / 2"
proof -
  define k where "k = nat \<lfloor>2 * s\<rfloor>"
  have k: "real k = 2 * s" using assms(1,3) unfolding k_def by linarith
  then have "0 < k" "k \<le> 640" using assms(1,2) by linarith+
  with k show ?thesis by (intro exI [of _ k]) simp
qed

lemma table_bounds:
  "list_all (\<lambda>(n, s). 0 < s \<and> s \<le> 320 \<and> 2 * s = of_int \<lfloor>2 * s\<rfloor>) DLPERF_TABLE"
  "list_all (\<lambda>(n, s). 0 < s \<and> s \<le> 320 \<and> 2 * s = of_int \<lfloor>2 * s\<rfloor>) APPLE_TABLE"
  by (simp_all add: DLPERF_TABLE_def APPLE_TABLE_def)

lemma tables_half:
  "list_all (\<lambda>(n, s). \<exists>k::nat. 0 < k \<and> k \<le> 640 \<and> s = real k / 2) DLPERF_TABLE"
  "list_all (\<lambda>(n, s). \<exists>k::nat. 0 < k \<and> k \<le> 640 \<and> s = real k / 2) APPLE_TABLE"
  using table_bounds half_real unfolding list_all_iff split_beta by blast+

lemma lookup_half: "\<exists>k::nat. 0 < k \<and> k \<le> 640 \<and> lookup_dlperf name = real k / 2"
proof -
  have "\<exists>k::nat. 0 < k \<and> k \<le> 640 \<and> apple_dlperf l = real k / 2" for l
    using table_score_half [OF tables_half(2), of l] half_integer [of 6 3]
    by (auto simp: apple_dlperf_def split: option.split)
  moreover have "\<exists>k::nat. 0 < k \<and> k \<le> 640 \<and> (18::real) = real k / 2"
    using half_integer [of 36 18] by simp
  ultimately show ?thesis
    using table_score_half [OF tables_half(1), of "to_lowercase name"]
    by (auto simp: lookup_dlperf_def Let_def split: option.split)
qed

lemma foldl_fl_halves:
  assumes exact: "\<And>j::nat. j < 2 ^ 52 \<Longrightarrow> fl (real j / 2) = real j / 2"
    and "real m * 640 + real a < 2 ^ 52" "k \<le> 640"
  shows "foldl (\<lambda>acc x. fl (acc + x)) (real a / 2) (replicate m (real k / 2)) = (real a + real m * real k) / 2"
  using assms(2)
proof (induction m arbitrary: a)
  case (Suc m)
  have le: "real (a + k) + real m * 640 < 2 ^ 52" using Suc.prems assms(3) by (simp add: algebra_simps)
  then have "real (a + k) < 2 ^ 52" by (smt (verit) mult_nonneg_nonneg of_nat_0_le_iff)
  then have "a + k < 2 ^ 52" by (metis of_nat_less_iff of_nat_numeral of_nat_power)
  then have "fl (real a / 2 + real k / 2) = real (a + k) / 2"
    using exact [of "a + k"] by (simp add: add_divide_distrib)
  then have "foldl (\<lambda>acc x. fl (acc + x)) (real a / 2) (replicate (Suc m) (real k / 2)) =
      foldl (\<lambda>acc x. fl (acc + x)) (real (a + k) / 2) (replicate m (real k / 2))"
    by (simp only: replicate_Suc foldl_Cons)
  with Suc.IH [of "a + k"] le show ?case by (simp add: algebra_simps)
qed simp

text \<open>
  a host of equal cards scores exactly the number of cards times the positive score of one
  (doubles that are multiples of one half below 2 to the 51 are exact), so it is ranked
  linearly in what it offers.
\<close>

theorem dlperf_linear:
  assumes "\<And>j::nat. j < 2 ^ 52 \<Longrightarrow> fl (real j / 2) = real j / 2"
    and "\<And>g. g \<in> set gpus \<Longrightarrow> g_name g = name" "length gpus < 2 ^ 31"
  shows "dlperf fl gpus = real (length gpus) * lookup_dlperf name \<and> 0 < lookup_dlperf name"
proof -
  obtain k where k: "0 < k" "k \<le> 640" "lookup_dlperf name = real k / 2" using lookup_half by blast
  have "map (\<lambda>g. lookup_dlperf (g_name g)) gpus = replicate (length gpus) (real k / 2)"
    using assms(2) k(3) by (induction gpus) auto
  moreover have "real (length gpus) < 2 ^ 31" using assms(3) by (metis of_nat_less_iff of_nat_numeral of_nat_power)
  then have "real (length gpus) * 640 + real (0::nat) < 2 ^ 52" by simp
  from foldl_fl_halves [OF assms(1) this k(2)] have
    "foldl (\<lambda>acc x. fl (acc + x)) 0 (replicate (length gpus) (real k / 2)) = real (length gpus) * real k / 2"
    by simp
  ultimately have "dlperf fl gpus = real (length gpus) * real k / 2"
    by (simp only: dlperf_def gemm_score_def option.case)
  with k(1,3) show ?thesis by (simp only: times_divide_eq_right) simp
qed

theorem dlperf_linear_witness: "dlperf (\<lambda>x. x) [demo_gpu ''GPU-a'', demo_gpu ''GPU-b''] = 84"
proof -
  let ?gs = "[demo_gpu ''GPU-a'', demo_gpu ''GPU-b'']"
  have names: "\<And>g. g \<in> set ?gs \<Longrightarrow> g_name g = ''NVIDIA GeForce RTX 4090''"
    by (auto simp: demo_gpu_def)
  have short: "length ?gs < 2 ^ 31" by simp
  have "lookup_dlperf ''NVIDIA GeForce RTX 4090'' = 42" by code_simp
  with dlperf_linear [OF refl names short] show ?thesis by (simp del: One_nat_def)
qed

end
