(* ===== verification/Host_Agent.thy ===== *)
theory Host_Agent
  imports Control_Plane Host_Runtime Benchmark
begin

text \<open>
  \<^verbatim>\<open>crates/host-agent/src/main.rs\<close>: the agent's persisted identity, the
  registration request it builds from its flags and its hardware, the dispatch of one command
  to the host runtime, and the heartbeat loop as a step relation over the server, the runtime
  and the commands received but not yet executed. The file system, the JSON text of
  \<^verbatim>\<open>serde_json\<close> and what \<^verbatim>\<open>sysinfo\<close> reports are parameters.
\<close>

section \<open>The agent's state file\<close>

definition HEARTBEAT_TIMEOUT_SECS :: nat where
  "HEARTBEAT_TIMEOUT_SECS = 90"

record agent_state =
  as_host_id :: string
  as_machine_id :: "int option"
  as_agent_token :: "string option"

text \<open>\<^verbatim>\<open>derive(Serialize, Deserialize)\<close>: an absent or null optional is \<open>None\<close>.\<close>

definition json_of_opt :: "('a \<Rightarrow> json) \<Rightarrow> 'a option \<Rightarrow> json" where
  "json_of_opt enc v = (case v of None \<Rightarrow> JNull | Some x \<Rightarrow> enc x)"

definition agent_state_to_json :: "agent_state \<Rightarrow> json" where
  "agent_state_to_json s =
     JObj [(''host_id'', JStr (as_host_id s)), (''machine_id'', json_of_opt JInt (as_machine_id s)),
           (''agent_token'', json_of_opt JStr (as_agent_token s))]"

definition agent_state_of_fields :: "(string \<times> json) list \<Rightarrow> agent_state option" where
  "agent_state_of_fields fs =
     (case (Option.bind (json_field ''host_id'' fs) json_str,
            json_opt json_i64 (json_field ''machine_id'' fs),
            json_opt json_str (json_field ''agent_token'' fs)) of
        (Some h, Some m, Some t) \<Rightarrow> Some \<lparr>as_host_id = h, as_machine_id = m, as_agent_token = t\<rparr>
      | _ \<Rightarrow> None)"

definition agent_state_from_json :: "json \<Rightarrow> agent_state option" where
  "agent_state_from_json j = json_struct [''host_id'', ''machine_id'', ''agent_token''] agent_state_of_fields j"

text \<open>The file system and the JSON text: \<open>js_parse\<close> and \<open>js_print\<close> are \<^verbatim>\<open>serde_json\<close>.\<close>

record 'fs file_ops =
  fo_exists :: "'fs \<Rightarrow> string \<Rightarrow> bool"
  fo_read :: "'fs \<Rightarrow> string \<Rightarrow> string + string"
  fo_write :: "'fs \<Rightarrow> string \<Rightarrow> string \<Rightarrow> (string + unit) \<times> 'fs"
  js_print :: "json \<Rightarrow> string"
  js_parse :: "string \<Rightarrow> string + json"

definition save_state :: "'fs file_ops \<Rightarrow> string \<Rightarrow> agent_state \<Rightarrow> 'fs \<Rightarrow> (anyhow + unit) \<times> 'fs" where
  "save_state F path s fs =
     (case fo_write F fs path (js_print F (agent_state_to_json s)) of
        (Inl e, fs') \<Rightarrow> (Inl [''writing state file '' @ path, e], fs')
      | (Inr _, fs') \<Rightarrow> (Inr (), fs'))"

text \<open>\<open>new_id\<close> is the fresh UUID.\<close>

definition load_or_init_state ::
  "'fs file_ops \<Rightarrow> string \<Rightarrow> string \<Rightarrow> 'fs \<Rightarrow> (anyhow + agent_state) \<times> 'fs" where
  "load_or_init_state F path new_id fs =
     (if fo_exists F fs path then
        (case fo_read F fs path of
           Inl e \<Rightarrow> (Inl [''reading state file '' @ path, e], fs)
         | Inr raw \<Rightarrow>
             (case js_parse F raw of
                Inl e \<Rightarrow> (Inl [''parsing state file'', e], fs)
              | Inr j \<Rightarrow>
                  (case agent_state_from_json j of
                     None \<Rightarrow> (Inl [''parsing state file'', ''invalid state''], fs)
                   | Some s \<Rightarrow> (Inr s, fs))))
      else
        (let s = \<lparr>as_host_id = new_id, as_machine_id = None, as_agent_token = None\<rparr>
         in case save_state F path s fs of
              (Inl e, fs') \<Rightarrow> (Inl e, fs')
            | (Inr _, fs') \<Rightarrow> (Inr s, fs')))"

section \<open>What the host registers\<close>

record host_specs =
  hs_cpu_name :: string
  hs_cpu_cores :: int
  hs_ram_mb :: int
  hs_disk_gb :: int
  hs_disk_type :: disk_type

datatype disk_kind = KindSSD | KindHDD | KindUnknown

definition disk_type_of_kind :: "disk_kind \<Rightarrow> disk_type" where
  "disk_type_of_kind k = (case k of KindSSD \<Rightarrow> Ssd | KindHDD \<Rightarrow> Hdd | KindUnknown \<Rightarrow> Unknown)"

text \<open>\<^verbatim>\<open>Iterator::max_by_key\<close>: the last of the elements with the largest key.\<close>

definition max_by_key :: "('a \<Rightarrow> int) \<Rightarrow> 'a list \<Rightarrow> 'a option" where
  "max_by_key f xs = foldl (\<lambda>best x. case best of None \<Rightarrow> Some x | Some b \<Rightarrow> if f b \<le> f x then Some x else Some b) None xs"

text \<open>From the brands of the CPUs, the memory and the disks' sizes in bytes.\<close>

definition collect_host_specs :: "string list \<Rightarrow> int \<Rightarrow> (int \<times> disk_kind) list \<Rightarrow> host_specs" where
  "collect_host_specs brands total_memory disks =
     (let name = (case brands of [] \<Rightarrow> [] | b # _ \<Rightarrow> trim b);
          (gb, kind) = (case max_by_key fst disks of
             None \<Rightarrow> (0, Unknown)
           | Some (space, k) \<Rightarrow> (space div 1000000000, disk_type_of_kind k))
      in \<lparr>hs_cpu_name = (if name = [] then ''unknown'' else name),
          hs_cpu_cores = as_i32 (int (length brands)), hs_ram_mb = total_memory div (1024 * 1024),
          hs_disk_gb = gb, hs_disk_type = kind\<rparr>)"

record agent_args =
  ag_control_plane :: string
  ag_public_ip :: string
  ag_rate_sats_per_min :: int
  ag_port_start :: int
  ag_port_end :: int
  ag_heartbeat_secs :: nat
  ag_state_file :: string
  ag_country :: "string option"
  ag_inet_down_mbps :: "real option"
  ag_inet_up_mbps :: "real option"

definition check_args :: "agent_args \<Rightarrow> anyhow + unit" where
  "check_args args =
     (if 1 \<le> ag_rate_sats_per_min args then Inr ()
      else Inl [''rate_sats_per_min must be >= 1 (SPEC '' @ [CHR 0xC2, CHR 0xA7] @ ''2)''])"

definition warns_heartbeat :: "agent_args \<Rightarrow> bool" where
  "warns_heartbeat args \<longleftrightarrow> HEARTBEAT_TIMEOUT_SECS \<le> ag_heartbeat_secs args"

definition register_req :: "agent_args \<Rightarrow> agent_state \<Rightarrow> inventory \<Rightarrow> host_specs \<Rightarrow> register_request" where
  "register_req args s iv specs =
     \<lparr>rq_host_id = as_host_id s, rq_gpu_name = inventory_gpu_name iv, rq_gpu_count = inventory_gpu_count iv,
      rq_vram_mb = inventory_vram_mb iv, rq_cpu_name = hs_cpu_name specs, rq_cpu_cores = hs_cpu_cores specs,
      rq_ram_mb = hs_ram_mb specs, rq_disk_gb = hs_disk_gb specs, rq_disk_type = hs_disk_type specs,
      rq_public_ip = ag_public_ip args, rq_port_start = ag_port_start args, rq_port_end = ag_port_end args,
      rq_inet_down_mbps = ag_inet_down_mbps args, rq_inet_up_mbps = ag_inet_up_mbps args,
      rq_country = ag_country args, rq_dlperf = iv_dlperf iv,
      rq_rate_sats_per_min = ag_rate_sats_per_min args, rq_hw_fingerprint = iv_hw_fingerprint iv\<rparr>"

text \<open>What the agent keeps of a successful registration.\<close>

definition remember :: "agent_state \<Rightarrow> register_response \<Rightarrow> agent_state" where
  "remember s resp = s\<lparr>as_machine_id := Some (rs_machine_id resp), as_agent_token := Some (rs_agent_token resp)\<rparr>"

text \<open>
  The part of \<^verbatim>\<open>main\<close> before the loop, against a server's \<open>register\<close>: the
  checks, the state file, the probe, the registration, and the identity written back. The
  result is the state the loop starts with.
\<close>

definition agent_startup ::
  "'fs file_ops \<Rightarrow> (register_request \<Rightarrow> 'srv \<Rightarrow> (anyhow + register_response) \<times> 'srv) \<Rightarrow>
   agent_args \<Rightarrow> string \<Rightarrow> string + inventory \<Rightarrow> host_specs \<Rightarrow> 'fs \<Rightarrow> 'srv \<Rightarrow>
   (anyhow + agent_state) \<times> 'fs \<times> 'srv" where
  "agent_startup F send args new_id probed specs fs srv =
     (case check_args args of
        Inl e \<Rightarrow> (Inl e, fs, srv)
      | Inr _ \<Rightarrow>
     (case load_or_init_state F (ag_state_file args) new_id fs of
        (Inl e, fs1) \<Rightarrow> (Inl e, fs1, srv)
      | (Inr s, fs1) \<Rightarrow>
     (case probed of
        Inl e \<Rightarrow> (Inl [''probing GPU inventory'', e], fs1, srv)
      | Inr iv \<Rightarrow>
     (case send (register_req args s iv specs) srv of
        (Inl e, srv1) \<Rightarrow> (Inl (''registering with control plane'' # e), fs1, srv1)
      | (Inr resp, srv1) \<Rightarrow>
     (case save_state F (ag_state_file args) (remember s resp) fs1 of
        (Inl e, fs2) \<Rightarrow> (Inl e, fs2, srv1)
      | (Inr _, fs2) \<Rightarrow> (Inr (remember s resp), fs2, srv1))))))"

section \<open>The control-plane client\<close>

text \<open>A response is its status and body; \<open>status_text\<close> is how a status prints.\<close>

definition ensure_ok :: "(nat \<Rightarrow> string) \<Rightarrow> nat \<times> string \<Rightarrow> anyhow + string" where
  "ensure_ok status_text resp =
     (case resp of (status, body) \<Rightarrow>
        if 200 \<le> status \<and> status < 300 then Inr body
        else Inl [''control plane returned '' @ status_text status @ '': '' @ body])"

section \<open>Dispatch\<close>

definition report_started :: "int \<Rightarrow> anyhow + started \<Rightarrow> report_request" where
  "report_started rental_id r =
     (case r of
        Inr st \<Rightarrow>
          \<lparr>rp_rental_id = rental_id, rp_status = Running, rp_kind = Some (sd_kind st),
           rp_ssh_port = Some (sd_ssh_port st), rp_container_id = Some (sd_container_id st), rp_error = None\<rparr>
      | Inl e \<Rightarrow>
          \<lparr>rp_rental_id = rental_id, rp_status = Failed, rp_kind = None, rp_ssh_port = None,
           rp_container_id = None, rp_error = Some (error_chain e)\<rparr>)"

definition report_stopped :: "int \<Rightarrow> anyhow + unit \<Rightarrow> report_request" where
  "report_stopped rental_id r =
     (case r of
        Inr _ \<Rightarrow>
          \<lparr>rp_rental_id = rental_id, rp_status = Stopped, rp_kind = None, rp_ssh_port = None,
           rp_container_id = None, rp_error = None\<rparr>
      | Inl e \<Rightarrow>
          \<lparr>rp_rental_id = rental_id, rp_status = Failed, rp_kind = None, rp_ssh_port = None,
           rp_container_id = None, rp_error = Some (error_chain e)\<rparr>)"

fun dispatch :: "'rt host_runtime \<Rightarrow> command \<Rightarrow> 'rt \<Rightarrow> report_request \<times> 'rt" where
  "dispatch R (StartRental rental_id img key) rt =
     (case start_rental R rt \<lparr>sp_rental_id = rental_id, sp_image = img, sp_ssh_pubkey = key\<rparr> of
        (r, rt') \<Rightarrow> (report_started rental_id r, rt'))"
| "dispatch R (StopRental rental_id) rt =
     (case stop_rental R rt rental_id of (r, rt') \<Rightarrow> (report_stopped rental_id r, rt'))"

section \<open>The heartbeat loop\<close>

text \<open>
  The server, the host's runtime, and the commands that a heartbeat brought and whose task has
  not finished. A task is taken as one step: what other tasks of the same host do while it
  waits for the runtime is not interleaved here. \<open>elsewhere\<close> is every other client, the
  ticker, and a request of this agent whose answer got lost.
\<close>

record ('ln, 'rt) world =
  w_server :: "'ln app_state"
  w_runtime :: 'rt
  w_tasks :: "command list"

definition bearer :: "string \<Rightarrow> string option" where
  "bearer token = Some (''Bearer '' @ token)"

inductive agent_step ::
  "'rt host_runtime \<Rightarrow> string \<Rightarrow> ('ln, 'rt) world \<Rightarrow> ('ln, 'rt) world \<Rightarrow> bool" for R token where
  beat: "clock_now t (st_clock (w_server w)) = Some (ev_now ev) \<Longrightarrow>
    handle ev (PostHeartbeat (bearer token) True) (w_server w) = (Commands (Inr cmds), st') \<Longrightarrow>
    agent_step R token w (w\<lparr>w_server := st', w_tasks := w_tasks w @ cmds\<rparr>)"
| beat_failed: "clock_now t (st_clock (w_server w)) = Some (ev_now ev) \<Longrightarrow>
    handle ev (PostHeartbeat (bearer token) True) (w_server w) = (Commands (Inl e), st') \<Longrightarrow>
    agent_step R token w (w\<lparr>w_server := st'\<rparr>)"
| task: "clock_now t (st_clock (w_server w)) = Some (ev_now ev) \<Longrightarrow>
    w_tasks w = xs @ cmd # ys \<Longrightarrow> dispatch R cmd (w_runtime w) = (rep, rt') \<Longrightarrow>
    handle ev (PostReport (bearer token) rep) (w_server w) = (Reported r, st') \<Longrightarrow>
    agent_step R token w \<lparr>w_server = st', w_runtime = rt', w_tasks = xs @ ys\<rparr>"
| report_lost: "w_tasks w = xs @ cmd # ys \<Longrightarrow> dispatch R cmd (w_runtime w) = (rep, rt') \<Longrightarrow>
    agent_step R token w (w\<lparr>w_runtime := rt', w_tasks := xs @ ys\<rparr>)"
| shutdown: "clock_now t (st_clock (w_server w)) = Some (ev_now ev) \<Longrightarrow>
    handle ev (PostHeartbeat (bearer token) False) (w_server w) = (resp, st') \<Longrightarrow>
    agent_step R token w (w\<lparr>w_server := st', w_tasks := []\<rparr>)"
| elsewhere: "cp_step (w_server w) st' \<Longrightarrow> agent_step R token w (w\<lparr>w_server := st'\<rparr>)"

text \<open>
  Seen from the server an agent is one more client: each of its steps is a step of the server
  or leaves it alone, so the server's invariants hold whatever the agents do.
\<close>

lemma agent_step_server: "agent_step R token w w' \<Longrightarrow> cp_step\<^sup>*\<^sup>* (w_server w) (w_server w')"
proof (induction rule: agent_step.induct)
  case (elsewhere w st')
  then show ?case by simp
qed (simp_all del: handle.simps, (rule r_into_rtranclp, rule cp_step.request, assumption, assumption)+)

interpretation agent_system: transition_system
  "\<lambda>w. \<exists>B lns clk name. w_server w = server_init B lns clk name" "agent_step R token" "\<lambda>w. money_guard (w_server w)"
  for R token
proof
  fix w w' :: "('c, 'b) world"
  show "money_guard (w_server w)" if "\<exists>B lns clk name. w_server w = server_init B lns clk name"
    by (rule server.init_inv) (rule that)
  show "money_guard (w_server w')" if "money_guard (w_server w)" "agent_step R token w w'"
    by (rule server.run_inv [OF agent_step_server [OF that(2)] that(1)])
qed

end
