(* ===== verification/Agent_Authority.thy ===== *)
theory Agent_Authority
  imports Command_Authority Host_Agent
begin

text \<open>
  The authority of commands seen from a host: the tasks of an agent are commands the server
  queued for the machine that carries the agent's token, so they are about the rentals of that
  machine, with the image and the key their tenants asked for.
\<close>

definition ordered_by :: "db \<Rightarrow> string \<Rightarrow> command \<Rightarrow> bool" where
  "ordered_by d token cmd \<longleftrightarrow>
     (\<exists>m\<in>set (db_machines d). m_agent_token m = token \<and>
        (\<exists>r\<in>set (db_rentals d). r_machine_id r = m_id m \<and>
           (cmd = StartRental (r_id r) (r_image r) (r_ssh_pubkey r) \<or> cmd = StopRental (r_id r))))"

lemma command_from_json_inj: "command_from_json (command_to_json c) = Some cmd \<Longrightarrow> cmd = c"
  by (cases c)
    (auto simp: command_from_json_def command_of_tag_def json_struct_def start_of_fields_def stop_of_fields_def
      fields_once_def json_field_def
      split: option.splits if_splits)

lemma ordered_mono:
  assumes "history d d'" "ordered_by d token cmd"
  shows "ordered_by d' token cmd"
proof -
  obtain m r where m: "m \<in> set (db_machines d)" "m_agent_token m = token"
    and r: "r \<in> set (db_rentals d)" "r_machine_id r = m_id m"
    and cmd: "cmd = StartRental (r_id r) (r_image r) (r_ssh_pubkey r) \<or> cmd = StopRental (r_id r)"
    using assms(2) unfolding ordered_by_def by blast
  have "machine_identity ` set (db_machines d) \<subseteq> machine_identity ` set (db_machines d')"
    using assms(1) unfolding history_def by (metis set_map set_mono_prefix)
  then obtain m' where m': "m' \<in> set (db_machines d')" "machine_identity m' = machine_identity m"
    using m(1) by (metis image_eqI imageE subsetD)
  obtain r' where r': "r' \<in> set (db_rentals d')" "rental_terms r' = rental_terms r"
    using terms_keptE [OF history_terms [OF assms(1)] r(1)] .
  have "m_agent_token m' = token" "m_id m' = m_id m" using m' m(2) by (simp_all add: machine_identity_def)
  moreover have "r_machine_id r' = m_id m" "r_id r' = r_id r" "r_image r' = r_image r" "r_ssh_pubkey r' = r_ssh_pubkey r"
    using r' r(2) by (simp_all add: rental_terms_def)
  ultimately show ?thesis
    unfolding ordered_by_def using m'(1) r'(1) cmd by metis
qed

lemma decoded_payload:
  "decode_commands cs = Inr cmds \<Longrightarrow> cmd \<in> set cmds \<Longrightarrow> \<exists>c\<in>set cs. command_from_json (c_payload c) = Some cmd"
  by (induction cs arbitrary: cmds) (auto split: option.splits sum.splits)

lemma heartbeat_ordered:
  assumes "queue_authentic d" "heartbeat (bearer token) online now d = (Inr cmds, d')" "cmd \<in> set cmds"
  shows "ordered_by d token cmd"
  using assms(2)
proof (rule heartbeat_InrE)
  fix m d1
  assume auth: "authenticate d (bearer token) = Inr m"
    and d1: "d1 = update_machines (\<lambda>x. m_id x = m_id m) (\<lambda>x. x\<lparr>m_last_heartbeat := now, m_online := online\<rparr>) d"
    and dec: "decode_commands (pending_commands (m_id m) d1) = Inr cmds"
  have m: "m \<in> set (db_machines d)" "m_agent_token m = token"
    using authenticate_InrD [OF auth] by (simp_all add: bearer_def)
  obtain c where c: "c \<in> set (db_commands d)" "c_machine_id c = m_id m" "command_from_json (c_payload c) = Some cmd"
    using decoded_payload [OF dec assms(3)] by (auto simp: d1 pending_commands_def update_machines_def)
  then obtain r where r: "r \<in> set (db_rentals d)" "r_machine_id r = m_id m"
    "c_payload c = command_to_json (StartRental (r_id r) (r_image r) (r_ssh_pubkey r)) \<or>
      c_payload c = command_to_json (StopRental (r_id r))"
    using assms(1) unfolding queue_authentic_def commanded_def by metis
  then have "cmd = StartRental (r_id r) (r_image r) (r_ssh_pubkey r) \<or> cmd = StopRental (r_id r)"
    using c(3) command_from_json_inj by metis
  with m r(1,2) show ?thesis unfolding ordered_by_def by blast
qed

definition tasks_ordered :: "string \<Rightarrow> ('ln, 'rt) world \<Rightarrow> bool" where
  "tasks_ordered token w \<longleftrightarrow> queue_authentic (st_db (w_server w)) \<and>
     (\<forall>cmd\<in>set (w_tasks w). ordered_by (st_db (w_server w)) token cmd)"

lemma agent_step_tasks:
  "agent_step R token w w' \<Longrightarrow> tasks_ordered token w \<Longrightarrow> \<forall>cmd\<in>set (w_tasks w').
    cmd \<in> set (w_tasks w) \<or> ordered_by (st_db (w_server w)) token cmd"
proof (induction rule: agent_step.induct)
  case (beat t w ev cmds st')
  obtain d' where "heartbeat (bearer token) True (ev_now ev) (st_db (w_server w)) = (Inr cmds, d')"
    using beat(2) by (cases "heartbeat (bearer token) True (ev_now ev) (st_db (w_server w))") (auto simp: put_db_def)
  with beat(3) show ?case using heartbeat_ordered unfolding tasks_ordered_def by fastforce
qed auto

lemma agent_step_ordered:
  assumes "agent_step R token w w'" "tasks_ordered token w"
  shows "tasks_ordered token w'"
proof -
  note run = agent_step_server [OF assms(1)]
  have "queue_authentic (st_db (w_server w'))"
    using command_queue.run_inv [OF run] assms(2) by (simp add: tasks_ordered_def)
  moreover have "\<forall>cmd\<in>set (w_tasks w'). ordered_by (st_db (w_server w')) token cmd"
    using agent_step_tasks [OF assms] assms(2) ordered_mono [OF run_history [OF run]]
    unfolding tasks_ordered_def by blast
  ultimately show ?thesis by (simp add: tasks_ordered_def)
qed

interpretation agent_orders: transition_system
  "\<lambda>w. (\<exists>B lns clk name. w_server w = server_init B lns clk name) \<and> w_tasks w = []" "agent_step R token" "tasks_ordered token"
  for R token
proof
  fix w w' :: "('c, 'b) world"
  show "tasks_ordered token w" if "(\<exists>B lns clk name. w_server w = server_init B lns clk name) \<and> w_tasks w = []"
    using that by (auto simp: tasks_ordered_def server_init_def queue_authentic_def db_empty_def)
  show "tasks_ordered token w'" if "tasks_ordered token w" "agent_step R token w w'"
    using that by (metis agent_step_ordered)
qed

text \<open>The steps of everyone else, seen in the world of one agent.\<close>

lemma elsewhere_run:
  "cp_step\<^sup>*\<^sup>* st st' \<Longrightarrow> (agent_step R token)\<^sup>*\<^sup>*
    \<lparr>w_server = st, w_runtime = rt, w_tasks = ts\<rparr> \<lparr>w_server = st', w_runtime = rt, w_tasks = ts\<rparr>"
proof (induction rule: rtranclp_induct)
  case (step st1 st2)
  have "agent_step R token \<lparr>w_server = st1, w_runtime = rt, w_tasks = ts\<rparr> \<lparr>w_server = st2, w_runtime = rt, w_tasks = ts\<rparr>"
    using agent_step.elsewhere [of "\<lparr>w_server = st1, w_runtime = rt, w_tasks = ts\<rparr>" st2 R token] step(2) by simp
  with step.IH show ?case by (rule rtranclp.rtrancl_into_rtrancl)
qed simp

end
