(* ===== verification/Host_Spec.thy ===== *)
theory Host_Spec
  imports Host_Runtime
begin

text \<open>
  The contract of the host runtimes and what the backends promise: a started rental gets a
  port of the machine's range, a container the Docker backend starts is found again by a
  restarted agent while it runs, and an image reference is split where Docker splits it.
\<close>

section \<open>Ports\<close>

lemma find_least:
  assumes "sorted xs"
  shows "List.find P xs = Some x \<longleftrightarrow> x \<in> set xs \<and> P x \<and> (\<forall>y\<in>set xs. y < x \<longrightarrow> \<not> P (y :: int))"
  using assms
proof (induction xs)
  case (Cons a xs)
  then have ge: "\<And>y. y \<in> set xs \<Longrightarrow> a \<le> y" by simp
  show ?case
  proof (cases "P a")
    case True
    then show ?thesis by (auto dest: ge)
  next
    case False
    with Cons show ?thesis by (auto dest: ge)
  qed
qed simp

text \<open>
  the port chosen is the lowest of the range that is not in use, and there is none
  exactly when the whole range is in use.
\<close>

theorem pick_free_port_lowest:
  "(pick_free_port lo hi used = Some p \<longleftrightarrow>
      lo \<le> p \<and> p \<le> hi \<and> p \<notin> used \<and> (\<forall>q. lo \<le> q \<longrightarrow> q < p \<longrightarrow> q \<in> used)) \<and>
   (pick_free_port lo hi used = None \<longleftrightarrow> {lo..hi} \<subseteq> used)"
proof
  show "pick_free_port lo hi used = Some p \<longleftrightarrow>
      lo \<le> p \<and> p \<le> hi \<and> p \<notin> used \<and> (\<forall>q. lo \<le> q \<longrightarrow> q < p \<longrightarrow> q \<in> used)"
    unfolding pick_free_port_def find_least [OF sorted_upto] by auto
  show "pick_free_port lo hi used = None \<longleftrightarrow> {lo..hi} \<subseteq> used"
    by (auto simp: pick_free_port_def find_None_iff subset_iff)
qed

theorem pick_free_port_lowest_witness: "pick_free_port 40000 40010 {40000, 40001, 40003} = Some 40002"
  using pick_free_port_lowest [of 40000 40010 "{40000, 40001, 40003}" 40002] by auto

lemma pick_free_port_SomeD: "pick_free_port lo hi used = Some p \<Longrightarrow> lo \<le> p \<and> p \<le> hi \<and> p \<notin> used"
  unfolding pick_free_port_def by (auto simp: find_Some_iff dest: nth_mem)

lemma free_ports_spec: "sorted (free_ports lo hi used)" "set (free_ports lo hi used) = {lo..hi} - used"
  by (auto simp: free_ports_def sorted_filter [where f = "\<lambda>x. x", simplified])

section \<open>The contract\<close>

locale port_contract =
  fixes R :: "'rt host_runtime"
    and lo hi :: "'rt \<Rightarrow> int"
  assumes start_port: "start_rental R rt spec = (Inr st, rt') \<Longrightarrow> lo rt \<le> sd_ssh_port st \<and> sd_ssh_port st \<le> hi rt"
    and available_ports: "available R rt = Inr ps \<Longrightarrow> sorted ps \<and> set ps \<subseteq> {lo rt..hi rt}"
    and start_range: "lo (snd (start_rental R rt spec)) = lo rt \<and> hi (snd (start_rental R rt spec)) = hi rt"
    and stop_range: "lo (snd (stop_rental R rt k)) = lo rt \<and> hi (snd (stop_rental R rt k)) = hi rt"
begin

text \<open>Whatever is started or stopped before, a started rental gets a port of the machine's range.\<close>

lemma start_after_stop_in_range:
  assumes "start_rental R (snd (stop_rental R rt k)) spec = (Inr st, rt')"
  shows "lo rt \<le> sd_ssh_port st \<and> sd_ssh_port st \<le> hi rt"
  using start_port [OF assms] by (simp add: stop_range)

end

lemma docker_pull_range [simp]:
  "dr_port_start (snd (docker_pull_image D rt img)) = dr_port_start rt"
  "dr_port_end (snd (docker_pull_image D rt img)) = dr_port_end rt"
  by (simp_all add: docker_pull_image_def Let_def split: prod.splits)

lemma docker_remove_range [simp]:
  "dr_port_start (snd (docker_force_remove D rt n)) = dr_port_start rt"
  "dr_port_end (snd (docker_force_remove D rt n)) = dr_port_end rt"
  by (simp_all add: docker_force_remove_def split: prod.splits sum.splits)

lemma docker_launch_range [simp]:
  "dr_port_start (snd (docker_launch D rt spec p)) = dr_port_start rt"
  "dr_port_end (snd (docker_launch D rt spec p)) = dr_port_end rt"
proof -
  obtain r rt1 where fr: "docker_force_remove D rt (container_name (sp_rental_id spec)) = (r, rt1)"
    by (cases "docker_force_remove D rt (container_name (sp_rental_id spec))")
  have "dr_port_start rt1 = dr_port_start rt" "dr_port_end rt1 = dr_port_end rt"
    using docker_remove_range [of D rt "container_name (sp_rental_id spec)"] by (simp_all add: fr)
  then show "dr_port_start (snd (docker_launch D rt spec p)) = dr_port_start rt"
    "dr_port_end (snd (docker_launch D rt spec p)) = dr_port_end rt"
    by (simp_all add: docker_launch_def Let_def fr split: prod.splits sum.splits)
qed

lemma docker_launch_port:
  "docker_launch D rt spec p = (Inr st, rt') \<Longrightarrow> sd_ssh_port st = p \<and> sd_kind st = Ssh"
  by (auto simp: docker_launch_def Let_def split: prod.splits sum.splits)

lemma docker_start_InrE:
  assumes "docker_start_rental D rt spec = (Inr st, rt')"
  obtains rt1 used where "docker_pull_image D rt (sp_image spec) = (Inr (), rt1)"
    and "docker_used_ports D rt1 = Inr used" "sd_ssh_port st \<notin> used"
    and "dr_port_start rt \<le> sd_ssh_port st" "sd_ssh_port st \<le> dr_port_end rt"
proof -
  obtain r rt1 where pull: "docker_pull_image D rt (sp_image spec) = (r, rt1)"
    by (cases "docker_pull_image D rt (sp_image spec)")
  with assms obtain used p where "r = Inr ()" "docker_used_ports D rt1 = Inr used"
    "pick_free_port (dr_port_start rt1) (dr_port_end rt1) used = Some p"
    "docker_launch D rt1 spec p = (Inr st, rt')"
    by (auto simp: docker_start_rental_def split: sum.splits option.splits)
  moreover have "dr_port_start rt1 = dr_port_start rt" "dr_port_end rt1 = dr_port_end rt"
    using docker_pull_range [of D rt "sp_image spec"] by (simp_all add: pull)
  ultimately show thesis
    using pull pick_free_port_SomeD docker_launch_port by (fastforce intro: that)
qed

interpretation docker_ports: port_contract "docker_host_runtime D" dr_port_start dr_port_end for D
proof
  fix rt :: "'a docker_runtime" and spec st rt' ps k
  show "dr_port_start rt \<le> sd_ssh_port st \<and> sd_ssh_port st \<le> dr_port_end rt"
    if "start_rental (docker_host_runtime D) rt spec = (Inr st, rt')"
  proof -
    have "docker_start_rental D rt spec = (Inr st, rt')" using that by (simp add: docker_host_runtime_def)
    then show ?thesis by (rule docker_start_InrE) simp
  qed
  show "sorted ps \<and> set ps \<subseteq> {dr_port_start rt..dr_port_end rt}"
    if "available (docker_host_runtime D) rt = Inr ps"
    using that by (auto simp: docker_host_runtime_def docker_available_def free_ports_spec split: sum.splits)
  have pull: "dr_port_start rt1 = dr_port_start rt \<and> dr_port_end rt1 = dr_port_end rt"
    if "docker_pull_image D rt img = (r, rt1)" for img r rt1
    using docker_pull_range [of D rt img] by (simp add: that)
  show "dr_port_start (snd (start_rental (docker_host_runtime D) rt spec)) = dr_port_start rt \<and>
      dr_port_end (snd (start_rental (docker_host_runtime D) rt spec)) = dr_port_end rt"
    by (auto simp: docker_host_runtime_def docker_start_rental_def dest!: pull split: prod.splits sum.splits option.splits)
  show "dr_port_start (snd (stop_rental (docker_host_runtime D) rt k)) = dr_port_start rt \<and>
      dr_port_end (snd (stop_rental (docker_host_runtime D) rt k)) = dr_port_end rt"
    by (simp add: docker_host_runtime_def docker_stop_rental_def Let_def split: prod.splits sum.splits)
qed

lemma metal_start_cases:
  obtains (fail) e os where "metal_start_rental P dbg rt spec = (Inl e, rt\<lparr>mt_os := os\<rparr>)"
  | (ok) n port child os where "parse_task dbg (sp_image spec) = Inr (Gemm n)"
      "pick_free_port (mt_port_start rt) (mt_port_end rt) (metal_used_ports rt) = Some port"
      "metal_start_rental P dbg rt spec =
        (Inr \<lparr>sd_container_id = ''metal-job-'' @ show_int (sp_rental_id spec), sd_ssh_port = port, sd_kind = HttpStatus\<rparr>,
         rt\<lparr>mt_jobs := AList.update (sp_rental_id spec) \<lparr>jb_child = child, jb_port = port\<rparr> (mt_jobs rt), mt_os := os\<rparr>)"
proof (cases "parse_task dbg (sp_image spec)")
  case (Inl e)
  then show thesis by (intro fail [of e "mt_os rt"]) (simp add: metal_start_rental_def)
next
  case (Inr t)
  obtain n where t: "t = Gemm n" by (cases t)
  show thesis
  proof (cases "pick_free_port (mt_port_start rt) (mt_port_end rt) (metal_used_ports rt)")
    case None
    with Inr t show thesis by (intro fail [of _ "mt_os rt"]) (simp add: metal_start_rental_def)
  next
    case (Some port)
    obtain r os where sp: "os_spawn P (mt_os rt) (mt_exe rt) [''__mac-worker'', show_int n, show_int port] = (r, os)"
      by (cases "os_spawn P (mt_os rt) (mt_exe rt) [''__mac-worker'', show_int n, show_int port]")
    with Inr t Some fail [of _ os] ok [of n port os] show thesis
      by (cases r) (simp_all add: metal_start_rental_def)
  qed
qed

interpretation metal_ports: port_contract "metal_host_runtime P dbg" mt_port_start mt_port_end for P dbg
proof
  fix rt :: "'a metal_runtime" and spec st rt' ps k
  show "mt_port_start rt \<le> sd_ssh_port st \<and> sd_ssh_port st \<le> mt_port_end rt"
    if "start_rental (metal_host_runtime P dbg) rt spec = (Inr st, rt')"
    using that by (cases rule: metal_start_cases [of P dbg rt spec])
      (auto simp: metal_host_runtime_def dest: pick_free_port_SomeD)
  show "sorted ps \<and> set ps \<subseteq> {mt_port_start rt..mt_port_end rt}"
    if "available (metal_host_runtime P dbg) rt = Inr ps"
    using that by (auto simp: metal_host_runtime_def metal_available_def free_ports_spec)
  show "mt_port_start (snd (start_rental (metal_host_runtime P dbg) rt spec)) = mt_port_start rt \<and>
      mt_port_end (snd (start_rental (metal_host_runtime P dbg) rt spec)) = mt_port_end rt"
    by (cases rule: metal_start_cases [of P dbg rt spec]) (auto simp: metal_host_runtime_def)
  show "mt_port_start (snd (stop_rental (metal_host_runtime P dbg) rt k)) = mt_port_start rt \<and>
      mt_port_end (snd (stop_rental (metal_host_runtime P dbg) rt k)) = mt_port_end rt"
    by (simp add: metal_host_runtime_def metal_stop_rental_def split: option.splits)
qed

section \<open>Images\<close>

lemma rfind_None [simp]: "c \<notin> set s \<Longrightarrow> rfind c s = None"
  by (simp add: rfind_def)

lemma split_once_append: "c \<notin> set t \<Longrightarrow> split_once c (t @ c # a) = Some (t, a)"
  by (simp add: split_once_def takeWhile_sep dropWhile_sep)

lemma rfind_append: "c \<notin> set t \<Longrightarrow> rfind c (s @ c # t) = Some (length s)"
proof -
  assume "c \<notin> set t"
  then have "takeWhile (\<lambda>x. x \<noteq> c) (rev t @ c # rev s) = rev t"
    by (subst takeWhile_append2) auto
  then show ?thesis by (simp add: rfind_def)
qed

lemma split_last:
  assumes "c \<in> set s"
  obtains pre post where "s = pre @ c # post" "c \<notin> set post"
  using split_list_last [OF assms] by blast

text \<open>The part after the last slash, in which a colon separates the tag.\<close>

lemma split_image_tag_segment:
  assumes "CHR ''/'' \<notin> set seg" "pre = [] \<or> (\<exists>p. pre = p @ ''/'')"
  shows "split_image_tag (pre @ seg) =
    (case rfind (CHR '':'') seg of
       Some i \<Rightarrow> (pre @ take i seg, drop (i + 1) seg)
     | None \<Rightarrow> (pre @ seg, ''latest''))"
proof -
  have "(case rfind (CHR ''/'') (pre @ seg) of Some i \<Rightarrow> i + 1 | None \<Rightarrow> 0) = length pre"
    using assms by (auto simp: rfind_append)
  then show ?thesis by (auto simp: split_image_tag_def Let_def split: option.splits)
qed

lemma slash_prefix:
  obtains pre seg where "s = pre @ seg" "CHR ''/'' \<notin> set seg" "pre = [] \<or> (\<exists>p. pre = p @ ''/'')"
proof (cases "CHR ''/'' \<in> set s")
  case True
  then obtain p seg where "s = p @ CHR ''/'' # seg" "CHR ''/'' \<notin> set seg" by (rule split_last)
  then show thesis using that [of "p @ ''/''" seg] by simp
qed (use that [of "[]" s] in simp)

text \<open>
  an image reference \<open>repo:tag\<close> is split into its two parts, whatever colons and
  slashes the repository has (a registry's \<open>host:port/\<close> included); a reference
  whose last path segment has no colon is the whole repository with the tag
  \<open>latest\<close>; and the parts of a split with a colon put together are the reference.
\<close>

theorem split_image_tag_parts:
  "(CHR ''/'' \<notin> set tag \<longrightarrow> CHR '':'' \<notin> set tag \<longrightarrow> split_image_tag (repo @ '':'' @ tag) = (repo, tag)) \<and>
   (CHR ''/'' \<notin> set seg \<longrightarrow> CHR '':'' \<notin> set seg \<longrightarrow>
      split_image_tag seg = (seg, ''latest'') \<and>
      split_image_tag (host @ ''/'' @ seg) = (host @ ''/'' @ seg, ''latest'')) \<and>
   (split_image_tag img = (img, ''latest'') \<or>
      (\<exists>r t. split_image_tag img = (r, t) \<and> img = r @ '':'' @ t \<and> CHR ''/'' \<notin> set t))"
proof (intro conjI impI)
  assume tag: "CHR ''/'' \<notin> set tag" "CHR '':'' \<notin> set tag"
  obtain pre s where ps: "repo = pre @ s" "CHR ''/'' \<notin> set s" "pre = [] \<or> (\<exists>p. pre = p @ ''/'')"
    by (rule slash_prefix)
  with tag show "split_image_tag (repo @ '':'' @ tag) = (repo, tag)"
    using split_image_tag_segment [of "s @ '':'' @ tag" pre] rfind_append [of "CHR '':''" tag s] by simp
next
  assume seg: "CHR ''/'' \<notin> set seg" "CHR '':'' \<notin> set seg"
  then show "split_image_tag seg = (seg, ''latest'')"
    using split_image_tag_segment [of seg "[]"] by simp
  show "split_image_tag (host @ ''/'' @ seg) = (host @ ''/'' @ seg, ''latest'')"
    using seg split_image_tag_segment [of seg "host @ ''/''"] by simp
next
  obtain pre seg where ps: "img = pre @ seg" "CHR ''/'' \<notin> set seg" "pre = [] \<or> (\<exists>p. pre = p @ ''/'')"
    by (rule slash_prefix)
  show "split_image_tag img = (img, ''latest'') \<or>
      (\<exists>r t. split_image_tag img = (r, t) \<and> img = r @ '':'' @ t \<and> CHR ''/'' \<notin> set t)"
  proof (cases "CHR '':'' \<in> set seg")
    case True
    then obtain r t where "seg = r @ CHR '':'' # t" "CHR '':'' \<notin> set t" by (rule split_last)
    with ps show ?thesis
      using split_image_tag_segment [of seg pre] rfind_append [of "CHR '':''" t r] by simp
  next
    case False
    with ps show ?thesis
      using split_image_tag_segment [of seg pre] by simp
  qed
qed

theorem split_image_tag_parts_witness:
  "split_image_tag ''pytorch/pytorch:2.3.0'' = (''pytorch/pytorch'', ''2.3.0'') \<and>
   split_image_tag ''registry.local:5000/team/img'' = (''registry.local:5000/team/img'', ''latest'')"
  using split_image_tag_parts [of "''2.3.0''" "''pytorch/pytorch''" "''img''" "''registry.local:5000/team''" "[]"]
  by simp

text \<open>
  the Metal backend accepts exactly the images \<open>metal:gemm\<close>, for a size of
  2048, and \<open>metal:gemm:N\<close> for a number between 256 and 16384 that is a multiple
  of 8: no tenant string becomes anything but the size of a matrix.
\<close>

theorem parse_task_accepts:
  "parse_task dbg img = Inr (Gemm n) \<longleftrightarrow>
     (img = ''metal:gemm'' \<and> n = 2048) \<or>
     (\<exists>a. img = ''metal:gemm:'' @ a \<and> parse_u32 a = Some n \<and> 256 \<le> n \<and> n \<le> 16384 \<and> n mod 8 = 0)"
proof (cases "strip_prefix ''metal:'' img")
  case None
  then have "\<nexists>t. img = ''metal:'' @ t" using strip_prefix_Some_iff by (metis option.distinct(1))
  then have "img \<noteq> ''metal:'' @ ''gemm''" "\<And>a. img \<noteq> ''metal:'' @ ''gemm:'' @ a" by blast+
  with None show ?thesis by (simp add: parse_task_def)
next
  case (Some rest)
  then have img: "img = ''metal:'' @ rest" by (simp add: strip_prefix_Some_iff)
  show ?thesis
  proof (cases "CHR '':'' \<in> set rest")
    case False
    then have so: "split_once (CHR '':'') rest = None" by (simp add: split_once_def)
    have "rest \<noteq> ''gemm:'' @ a" for a using False by auto
    with img show ?thesis
      unfolding parse_task_def Some by (auto simp: so Let_def split: if_splits)
  next
    case True
    then obtain t a where ta: "rest = t @ CHR '':'' # a" "CHR '':'' \<notin> set t"
      using split_list_first [OF True] by blast
    then have so: "split_once (CHR '':'') rest = Some (t, a)"
      by (simp add: split_once_append)
    have eq: "rest = ''gemm:'' @ b \<longleftrightarrow> t = ''gemm'' \<and> a = b" for b
    proof
      assume "rest = ''gemm:'' @ b"
      then have "split_once (CHR '':'') (''gemm:'' @ b) = Some (t, a)" using so by simp
      then show "t = ''gemm'' \<and> a = b" by (simp add: split_once_def)
    qed (use ta in simp)
    have "rest \<noteq> ''gemm''" using True by auto
    then have short: "img \<noteq> ''metal:gemm''" using img by simp
    have long: "(\<exists>b. img = ''metal:gemm:'' @ b \<and> Q b) \<longleftrightarrow> t = ''gemm'' \<and> Q a" for Q
    proof -
      have "img = ''metal:gemm:'' @ b \<longleftrightarrow> t = ''gemm'' \<and> a = b" for b
        unfolding eq [symmetric] by (simp add: img)
      then show ?thesis by (simp only:) simp
    qed
    have "parse_task dbg img = Inr (Gemm n) \<longleftrightarrow>
      t = ''gemm'' \<and> parse_u32 a = Some n \<and> 256 \<le> n \<and> n \<le> 16384 \<and> n mod 8 = 0"
      by (cases "parse_u32 a") (auto simp: parse_task_def Some so)
    then show ?thesis unfolding long using short by simp
  qed
qed

section \<open>The ports of the Metal backend\<close>

text \<open>
  The backend's jobs: one per rental, no two on one port, every port in the range. Whether it
  holds depends on how the starts interleave (\<open>Host_Tasks_Spec\<close>).
\<close>

definition metal_inv :: "'os metal_runtime \<Rightarrow> bool" where
  "metal_inv rt \<longleftrightarrow> distinct (map fst (mt_jobs rt)) \<and> distinct (map (jb_port \<circ> snd) (mt_jobs rt)) \<and>
     (\<forall>e\<in>set (mt_jobs rt). mt_port_start rt \<le> jb_port (snd e) \<and> jb_port (snd e) \<le> mt_port_end rt)"

lemma set_update_subset: "set (AList.update k v xs) \<subseteq> insert (k, v) (set xs)"
  by (induction xs) (auto split: if_splits)

lemma distinct_update_map:
  assumes "distinct (map f xs)" "f (k, v) \<notin> f ` set xs"
  shows "distinct (map f (AList.update k v xs))"
  using assms
proof (induction xs)
  case (Cons x xs)
  then show ?case using set_update_subset [of k v xs] by (cases x) (auto simp: image_iff)
qed simp

lemma set_delete_subset: "set (AList.delete k xs) \<subseteq> set xs"
  by (auto simp: AList.delete_eq)

lemma distinct_delete_map: "distinct (map f xs) \<Longrightarrow> distinct (map f (AList.delete k xs))"
  by (simp add: AList.delete_eq distinct_map_filter)

section \<open>Containers across restarts\<close>

lemma map_filter_mem: "f x = Some y \<Longrightarrow> x \<in> set xs \<Longrightarrow> y \<in> set (List.map_filter f xs)"
  by (force simp: map_filter_def image_iff)

lemma decode_labels:
  assumes "map_of ls LABEL_RENTAL_ID = Some (show_int k)" "map_of ls LABEL_SSH_PORT = Some (show_int p)" "in_i64 k" "in_i32 p"
  shows "decode_container \<lparr>ct_id = Some c, ct_labels = Some ls\<rparr> =
    Some \<lparr>rr_rental_id = k, rr_container_id = c, rr_ssh_port = p\<rparr>"
  using assms by (simp add: decode_container_def parse_i64_show_int parse_i32_show_int)

text \<open>
  What is relied on of the Docker daemon. \<open>dv_labels\<close> are the labels of a container by its id,
  those of its image among them, and \<open>dv_running\<close> whether it runs: a created container has the
  labels of its configuration, which override the image's; starting a container changes the labels
  of none; a listing has the containers that run (its \<^verbatim>\<open>all\<close> is false) and carry the label it
  filters by, with their id and labels.
\<close>

record 'dk docker_view =
  dv_labels :: "'dk \<Rightarrow> string \<Rightarrow> (string \<times> string) list option"
  dv_running :: "'dk \<Rightarrow> string \<Rightarrow> bool"

definition docker_laws :: "'dk docker_ops \<Rightarrow> 'dk docker_view \<Rightarrow> bool" where
  "docker_laws D V \<longleftrightarrow>
     (\<forall>dk name cfg cid dk'. dk_create_container D dk name cfg = (Inr cid, dk') \<longrightarrow>
        (\<exists>ls. dv_labels V dk' cid = Some ls \<and> (\<forall>k v. map_of (cfg_labels cfg) k = Some v \<longrightarrow> map_of ls k = Some v))) \<and>
     (\<forall>dk name r dk' cid. dk_start_container D dk name = (r, dk') \<longrightarrow> dv_labels V dk' cid = dv_labels V dk cid) \<and>
     (\<forall>dk label cs cid ls. dk_list_containers D dk label = Inr cs \<longrightarrow> dv_labels V dk cid = Some ls \<longrightarrow>
        dv_running V dk cid \<longrightarrow> map_of ls label \<noteq> None \<longrightarrow>
        (\<exists>ls'. \<lparr>ct_id = Some cid, ct_labels = Some ls'\<rparr> \<in> set cs \<and> map_of ls' = map_of ls))"

lemma docker_launch_InrE:
  assumes "docker_launch D rt spec p = (Inr st, rt')"
  obtains dk dk1 dk2 where
    "dk_create_container D dk (container_name (sp_rental_id spec)) (rental_config spec p) = (Inr (sd_container_id st), dk1)"
    "dk_start_container D dk1 (container_name (sp_rental_id spec)) = (Inr (), dk2)"
    "dr_docker rt' = dk2"
  using assms by (auto simp: docker_launch_def Let_def split: prod.splits sum.splits)

lemma docker_lawsD:
  assumes "docker_laws D V"
  shows "dk_create_container D dk name cfg = (Inr cid, dk') \<Longrightarrow>
      \<exists>ls. dv_labels V dk' cid = Some ls \<and> (\<forall>k v. map_of (cfg_labels cfg) k = Some v \<longrightarrow> map_of ls k = Some v)"
    and "dk_start_container D dk name = (r, dk') \<Longrightarrow> dv_labels V dk' cid = dv_labels V dk cid"
    and "dk_list_containers D dk label = Inr cs \<Longrightarrow> dv_labels V dk cid = Some ls \<Longrightarrow> dv_running V dk cid \<Longrightarrow>
      map_of ls label \<noteq> None \<Longrightarrow> \<exists>ls'. \<lparr>ct_id = Some cid, ct_labels = Some ls'\<rparr> \<in> set cs \<and> map_of ls' = map_of ls"
  using assms unfolding docker_laws_def by blast+

text \<open>
  C29: a container that a Docker host has started is found again by a restarted agent, with its
  ports or others, for as long as it runs: whenever a listing succeeds while the daemon still has
  the container and runs it, \<open>running_rentals\<close> gives the rental its id, its container and its
  port, whatever labels the image has, so that the port is in use for the next rental; and the
  port was free of every container the daemon listed before the start. A container that ends at
  once is not listed, and its port is free again.
\<close>

theorem docker_started_is_recovered:
  assumes "docker_laws D V" "docker_start_rental D rt spec = (Inr st, rt')"
    and later: "dv_labels V (dr_docker rt2) (sd_container_id st) = dv_labels V (dr_docker rt') (sd_container_id st)"
      "dv_running V (dr_docker rt2) (sd_container_id st)" "docker_running_rentals D rt2 = Inr rs"
    and ints: "in_i64 (sp_rental_id spec)" "in_i32 (dr_port_start rt)" "in_i32 (dr_port_end rt)"
  shows "\<lparr>rr_rental_id = sp_rental_id spec, rr_container_id = sd_container_id st, rr_ssh_port = sd_ssh_port st\<rparr> \<in> set rs \<and>
    (\<exists>used. docker_used_ports D rt2 = Inr used \<and> sd_ssh_port st \<in> used) \<and>
    (\<exists>used. docker_used_ports D (snd (docker_pull_image D rt (sp_image spec))) = Inr used \<and> sd_ssh_port st \<notin> used)"
proof -
  obtain rt1 used where pull: "docker_pull_image D rt (sp_image spec) = (Inr (), rt1)"
    and used: "docker_used_ports D rt1 = Inr used" "sd_ssh_port st \<notin> used"
    and range: "dr_port_start rt \<le> sd_ssh_port st" "sd_ssh_port st \<le> dr_port_end rt"
    using assms(2) by (rule docker_start_InrE)
  from assms(2) pull used obtain p where launch: "docker_launch D rt1 spec p = (Inr st, rt')"
    by (auto simp: docker_start_rental_def split: option.splits)
  then have p: "p = sd_ssh_port st" by (auto dest: docker_launch_port)
  obtain dk dk1 dk2 where dk:
    "dk_create_container D dk (container_name (sp_rental_id spec)) (rental_config spec p) = (Inr (sd_container_id st), dk1)"
    "dk_start_container D dk1 (container_name (sp_rental_id spec)) = (Inr (), dk2)" "dr_docker rt' = dk2"
    using launch by (rule docker_launch_InrE)
  from docker_lawsD(1) [OF assms(1) dk(1)] obtain ls where "dv_labels V dk1 (sd_container_id st) = Some ls"
    and cfg: "\<And>k v. map_of (rental_labels (sp_rental_id spec) p) k = Some v \<Longrightarrow> map_of ls k = Some v"
    by (auto simp: rental_config_def)
  with docker_lawsD(2) [OF assms(1) dk(2)] have ls: "dv_labels V (dr_docker rt2) (sd_container_id st) = Some ls"
    by (simp add: later(1) dk(3))
  have labels: "map_of ls LABEL_RENTAL_ID = Some (show_int (sp_rental_id spec))" "map_of ls LABEL_SSH_PORT = Some (show_int p)"
    by (rule cfg, simp add: rental_labels_def LABEL_RENTAL_ID_def LABEL_SSH_PORT_def)+
  obtain cs where cs: "dk_list_containers D (dr_docker rt2) LABEL_RENTAL_ID = Inr cs"
    and rs: "rs = List.map_filter decode_container cs"
    using later(3) by (auto simp: docker_running_rentals_def split: sum.splits)
  from docker_lawsD(3) [OF assms(1) cs ls later(2)] labels(1)
  obtain ls' where c: "\<lparr>ct_id = Some (sd_container_id st), ct_labels = Some ls'\<rparr> \<in> set cs" "map_of ls' = map_of ls"
    by auto
  have "in_i32 p" using ints(2,3) range by (simp add: p in_i32_def)
  with labels c(2) have "decode_container \<lparr>ct_id = Some (sd_container_id st), ct_labels = Some ls'\<rparr> =
      Some \<lparr>rr_rental_id = sp_rental_id spec, rr_container_id = sd_container_id st, rr_ssh_port = sd_ssh_port st\<rparr>"
    by (simp add: decode_labels ints(1) p)
  with c(1) have found: "\<lparr>rr_rental_id = sp_rental_id spec, rr_container_id = sd_container_id st,
      rr_ssh_port = sd_ssh_port st\<rparr> \<in> set rs"
    unfolding rs by (rule map_filter_mem [rotated])
  then have "\<exists>used. docker_used_ports D rt2 = Inr used \<and> sd_ssh_port st \<in> used"
    using later(3) by (force simp: docker_used_ports_def)
  with found show ?thesis using pull used by auto
qed

text \<open>
  A daemon for the witness: its containers with their configuration, and whether they run. Its
  images have labels too, one of them under a name the agent uses.
\<close>

type_synonym demo_containers = "(string \<times> container_config \<times> bool) list"

definition demo_image_labels :: "(string \<times> string) list" where
  "demo_image_labels = [(''maintainer'', ''team''), (LABEL_SSH_PORT, ''1'')]"

definition demo_docker :: "demo_containers docker_ops" where
  "demo_docker =
     \<lparr>dk_create_image = (\<lambda>dk repo tag. ([Inr ()], dk)),
      dk_remove_container = (\<lambda>dk name. (Inr (), filter (\<lambda>c. fst c \<noteq> name) dk)),
      dk_create_container = (\<lambda>dk name cfg. (Inr name, (name, cfg, False) # dk)),
      dk_start_container = (\<lambda>dk name. (Inr (), map (\<lambda>(n, cfg, running). (n, cfg, running \<or> n = name)) dk)),
      dk_stop_container = (\<lambda>dk name. (Inr (), map (\<lambda>(n, cfg, running). (n, cfg, running \<and> n \<noteq> name)) dk)),
      dk_list_containers = (\<lambda>dk label. Inr (List.map_filter (\<lambda>(n, cfg, running).
        if running \<and> map_of (cfg_labels cfg @ demo_image_labels) label \<noteq> None
        then Some \<lparr>ct_id = Some n, ct_labels = Some (cfg_labels cfg @ demo_image_labels)\<rparr> else None) dk)),
      dk_display = (\<lambda>e. ''docker'')\<rparr>"

definition demo_docker_view :: "demo_containers docker_view" where
  "demo_docker_view = \<lparr>dv_labels = (\<lambda>dk cid. map_option (\<lambda>(cfg, running). cfg_labels cfg @ demo_image_labels) (map_of dk cid)),
     dv_running = (\<lambda>dk cid. case map_of dk cid of None \<Rightarrow> False | Some (cfg, running) \<Rightarrow> running)\<rparr>"

definition demo_docker_runtime :: "demo_containers docker_runtime" where
  "demo_docker_runtime = \<lparr>dr_docker = [], dr_port_start = 40000, dr_port_end = 40009\<rparr>"

definition demo_spec :: rental_spec where
  "demo_spec = \<lparr>sp_rental_id = 7, sp_image = ''repo/img:1'', sp_ssh_pubkey = ''key''\<rparr>"

lemma demo_docker_laws: "docker_laws demo_docker demo_docker_view"
  unfolding docker_laws_def
proof (intro conjI allI impI)
  fix dk :: demo_containers and name cfg cid dk'
  assume "dk_create_container demo_docker dk name cfg = (Inr cid, dk')"
  then show "\<exists>ls. dv_labels demo_docker_view dk' cid = Some ls \<and>
      (\<forall>k v. map_of (cfg_labels cfg) k = Some v \<longrightarrow> map_of ls k = Some v)"
    by (auto simp: demo_docker_def demo_docker_view_def map_add_def)
next
  fix dk :: demo_containers and name r dk' cid
  assume "dk_start_container demo_docker dk name = (r, dk')"
  moreover have "map_of (map (\<lambda>(n, cfg, running). (n, cfg, running \<or> n = name)) dk) cid =
      map_option (\<lambda>(cfg, running). (cfg, running \<or> cid = name)) (map_of dk cid)"
    by (induction dk) auto
  ultimately show "dv_labels demo_docker_view dk' cid = dv_labels demo_docker_view dk cid"
    by (auto simp: demo_docker_def demo_docker_view_def option.map_comp comp_def split_def)
next
  fix dk :: demo_containers and label cs cid ls
  assume list: "dk_list_containers demo_docker dk label = Inr cs" and ls: "dv_labels demo_docker_view dk cid = Some ls"
    and run: "dv_running demo_docker_view dk cid" and lab: "map_of ls label \<noteq> None"
  from ls run obtain cfg where c: "map_of dk cid = Some (cfg, True)" "ls = cfg_labels cfg @ demo_image_labels"
    by (auto simp: demo_docker_view_def split: option.splits prod.splits)
  from map_of_SomeD [OF c(1)] lab c(2) list
  have "\<lparr>ct_id = Some cid, ct_labels = Some ls\<rparr> \<in> set cs"
    by (auto simp: demo_docker_def intro!: map_filter_mem [of _ "(cid, cfg, True)"] simp del: map_of_eq_None_iff)
  then show "\<exists>ls'. \<lparr>ct_id = Some cid, ct_labels = Some ls'\<rparr> \<in> set cs \<and> map_of ls' = map_of ls" by blast
qed

definition demo_started :: demo_containers where
  "demo_started = [(container_name 7, rental_config demo_spec 40000, True)]"

lemma demo_docker_start:
  "docker_start_rental demo_docker demo_docker_runtime demo_spec =
    (Inr \<lparr>sd_container_id = container_name 7, sd_ssh_port = 40000, sd_kind = Ssh\<rparr>,
     demo_docker_runtime\<lparr>dr_docker := demo_started\<rparr>)"
proof -
  have "pick_free_port 40000 40009 {} = Some 40000" by (auto simp: pick_free_port_def upto_rec1)
  then show ?thesis
    by (simp add: docker_start_rental_def docker_pull_image_def docker_used_ports_def docker_running_rentals_def
        docker_launch_def docker_force_remove_def demo_docker_def demo_docker_runtime_def demo_spec_def demo_started_def
        map_filter_simps Let_def split: prod.splits)
qed

text \<open>The agent comes back with another range of ports and lists what runs.\<close>

theorem docker_started_is_recovered_witness:
  "\<exists>rs. docker_running_rentals demo_docker \<lparr>dr_docker = demo_started, dr_port_start = 50000, dr_port_end = 50009\<rparr> = Inr rs \<and>
     \<lparr>rr_rental_id = 7, rr_container_id = container_name 7, rr_ssh_port = 40000\<rparr> \<in> set rs"
proof -
  let ?rt2 = "\<lparr>dr_docker = demo_started, dr_port_start = 50000, dr_port_end = 50009\<rparr>"
  obtain rs where rs: "docker_running_rentals demo_docker ?rt2 = Inr rs"
    by (simp add: docker_running_rentals_def demo_docker_def)
  have "dv_running demo_docker_view demo_started (container_name 7)" by (simp add: demo_docker_view_def demo_started_def)
  with docker_started_is_recovered [OF demo_docker_laws demo_docker_start, of ?rt2 rs] rs show ?thesis
    by (simp add: demo_docker_runtime_def demo_spec_def in_i64_def in_i32_def)
qed

end
