(* ===== verification/Host_Agent_Spec.thy ===== *)
theory Host_Agent_Spec
  imports Host_Agent Host_Spec Agent_Spec Tenant_Spec
begin

text \<open>
  What the agent, its runtime and the server do together: a rental that is created, delivered
  and started ends up running at an address its tenant can reach; a start that fails is charged
  for the time it took; a restarted agent keeps its identity.
\<close>

section \<open>Reports on the wire\<close>

lemma dispatch_rental_id: "dispatch R cmd rt = (rep, rt') \<Longrightarrow> rp_rental_id rep = cmd_rental_id cmd"
  by (cases cmd) (auto simp: report_started_def report_stopped_def split: prod.splits sum.splits)

lemma dispatch_terminal:
  "dispatch R (StopRental k) rt = (rep, rt') \<Longrightarrow> is_terminal (rp_status rep)"
  by (auto simp: report_stopped_def is_terminal_def split: prod.splits sum.splits)

section \<open>From the request to the running rental\<close>

lemma pending_with_rental:
  assumes "pending_commands (cr_machine_id req) d = []"
  shows "pending_commands (cr_machine_id req) (with_rental req key rt now d) =
    [\<lparr>c_id = next_id (map c_id (db_commands d)), c_machine_id = cr_machine_id req,
      c_payload = command_to_json (StartRental (next_id (map r_id (db_rentals d))) (cr_image req) key),
      c_delivered = False, c_created_at = now\<rparr>]"
proof -
  have "filter (\<lambda>c. c_machine_id c = cr_machine_id req \<and> \<not> c_delivered c) (db_commands d) = []"
    using assms unfolding pending_commands_def by (metis length_0_conv length_sort)
  then show ?thesis by (simp add: pending_commands_def with_rental_def Let_def)
qed

lemma create_rental_with:
  assumes "create_rental req now d = (Inr resp, d')"
  obtains m key where "find_machine d (cr_machine_id req) = Some m" "rental_ssh_pubkey req = Inr key"
    and "d' = with_rental req key (m_rate_sats_per_min m) now d"
    and "cs_rental_id resp = next_id (map r_id (db_rentals d))"
  using assms
proof (rule create_rental_InrE)
  fix machine account key k d1
  assume m: "find_machine d (cr_machine_id req) = Some machine" and a: "find_account d (cr_account_id req) = Some account"
    and key: "rental_ssh_pubkey req = Inr key"
    and ins: "insert_rental (new_rental_row req key (m_rate_sats_per_min machine) now) d = Inr (k, d1)"
    and cmd: "insert_command (cr_machine_id req) (command_to_json (StartRental k (cr_image req) key)) now d1 = Inr d'"
    and resp: "resp = \<lparr>cs_rental_id = k, cs_status = Provisioning, cs_rate_sats_per_min = m_rate_sats_per_min machine\<rparr>"
  have "place_rental req key (m_rate_sats_per_min machine) now d = Inr (resp, d')"
    using ins cmd by (simp add: place_rental_def resp)
  with place_rental_ok [OF m a, of key "m_rate_sats_per_min machine" now] m key show thesis
    by (intro that) auto
qed

lemma heartbeat_one:
  assumes "authenticate d auth = Inr m" "pending_commands (m_id m) d = [c]"
    and "command_from_json (c_payload c) = Some cmd"
  shows "\<exists>d'. heartbeat auth online now d = (Inr [cmd], d') \<and> db_rentals d' = db_rentals d \<and>
    db_machines d' = sql_update (\<lambda>x. m_id x = m_id m) (\<lambda>x. x\<lparr>m_last_heartbeat := now, m_online := online\<rparr>) (db_machines d)"
  using assms
  by (simp add: heartbeat_def heartbeat_body_def Let_def in_transaction_def frame_simps update_commands_def)
    (simp add: update_machines_def)

lemma report_live:
  assumes "report_read auth req d = Inr (m, r)" "\<not> is_terminal (rp_status req)"
  shows "report auth req now d = (Inr (), update_rentals (\<lambda>x. r_id x = rp_rental_id req)
      (apply_report req (m_public_ip m) None) d)"
  using assms by (simp add: report_def report_commit_def in_transaction_def report_body_def Let_def)

lemma sql_find_key_and:
  assumes "r \<in> set rs" "distinct (map k rs)" "q r" "k r = x"
  shows "sql_find (\<lambda>y. k y = x \<and> q y) rs = Some r"
  using assms by (induction rs) (auto simp: image_iff)

lemma report_read_after:
  assumes "db_wf d" "m \<in> set (db_machines d)" "r \<in> set (db_rentals d')" "distinct (map r_id (db_rentals d'))"
    and "r_machine_id r = m_id m" "r_id r = rp_rental_id rep"
    and "db_machines d' = sql_update (\<lambda>x. m_id x = m_id m) f (db_machines d)"
    and "\<And>x. m_id (f x) = m_id x \<and> m_agent_token (f x) = m_agent_token x \<and> m_host_id (f x) = m_host_id x"
  shows "report_read (bearer (m_agent_token m)) rep d' = Inr (f m, r)"
proof -
  have "machines_wf d'" using assms(1,8) by (simp add: wf_defs assms(7) sql_update_def comp_def if_distrib cong: if_cong)
  moreover have "f m \<in> set (db_machines d')" using assms(2) by (auto simp: assms(7) set_sql_update)
  ultimately have auth: "authenticate d' (bearer (m_agent_token m)) = Inr (f m)"
    using authenticate_token [of d' "f m"] assms(8) by (simp add: bearer_def)
  have "sql_find (\<lambda>x. r_id x = rp_rental_id rep \<and> r_machine_id x = m_id m) (db_rentals d') = Some r"
    using assms(3-6) by (intro sql_find_key_and) simp_all
  with auth assms(8) show ?thesis by (simp add: report_read_def)
qed


text \<open>The delivery: the heartbeat after the creation brings the start command.\<close>

lemma provision_delivery:
  assumes "db_wf d" "pending_commands (cr_machine_id req) d = []"
    and "create_rental req t0 d = (Inr resp, d1)" "in_i64 (cs_rental_id resp)"
    and "find_machine d (cr_machine_id req) = Some m" "rental_ssh_pubkey req = Inr key"
  shows "\<exists>d2. heartbeat (bearer (m_agent_token m)) True t1 d1 =
      (Inr [StartRental (cs_rental_id resp) (cr_image req) key], d2) \<and>
    db_rentals d2 = db_rentals d @ [(new_rental_row req key (m_rate_sats_per_min m) t0)\<lparr>r_id := cs_rental_id resp\<rparr>] \<and>
    db_machines d2 = sql_update (\<lambda>x. m_id x = m_id m) (\<lambda>x. x\<lparr>m_last_heartbeat := t1, m_online := True\<rparr>) (db_machines d) \<and>
    bank_of d2 = bank_of d \<and> cs_rental_id resp \<notin> r_id ` set (db_rentals d)"
proof -
  define k where "k = cs_rental_id resp"
  let ?cmd = "StartRental k (cr_image req) key"
  obtain d1: "d1 = with_rental req key (m_rate_sats_per_min m) t0 d" "k = next_id (map r_id (db_rentals d))"
    using create_rental_with [OF assms(3)] assms(5,6) unfolding k_def by (metis option.inject sum.inject(2))
  have mem: "m \<in> set (db_machines d)" "m_id m = cr_machine_id req" using find_machine_SomeD [OF assms(5)] by simp_all
  have tables: "db_rentals d1 = db_rentals d @ [(new_rental_row req key (m_rate_sats_per_min m) t0)\<lparr>r_id := k\<rparr>]"
    "db_machines d1 = db_machines d"
    by (simp_all add: d1(1) with_rental_def Let_def d1(2))
  have bank1: "bank_of d1 = bank_of d"
    using bank_create_rental [of req t0 d] assms(3) by simp
  have "machines_wf d1" using assms(1) tables(2) by (simp add: db_wf_def machines_wf_def)
  then have auth: "authenticate d1 (bearer (m_agent_token m)) = Inr m"
    using authenticate_token [of d1 m] mem(1) tables(2) by (simp add: bearer_def)
  obtain c where c: "pending_commands (m_id m) d1 = [c]" "c_payload c = command_to_json ?cmd"
    using pending_with_rental [OF assms(2), of key "m_rate_sats_per_min m" t0] by (simp add: mem(2) d1)
  have "command_from_json (c_payload c) = Some ?cmd"
    unfolding c(2) by (rule command_json_roundtrip) (use assms(4) in \<open>simp add: k_def\<close>)
  from heartbeat_one [OF auth c(1) this, of True t1]
  obtain d2 where hb: "heartbeat (bearer (m_agent_token m)) True t1 d1 = (Inr [?cmd], d2)"
    and d2: "db_rentals d2 = db_rentals d1"
      "db_machines d2 = sql_update (\<lambda>x. m_id x = m_id m) (\<lambda>x. x\<lparr>m_last_heartbeat := t1, m_online := True\<rparr>) (db_machines d)"
    by (auto simp: tables)
  moreover have "bank_of d2 = bank_of d" using bank_heartbeat [of _ True t1 d1] hb bank1 by (metis snd_conv)
  moreover have "k \<notin> r_id ` set (db_rentals d)"
    using next_id_fresh [of "map r_id (db_rentals d)"] by (simp add: d1(2))
  ultimately show ?thesis unfolding k_def [symmetric] by (auto simp: tables)
qed

text \<open>
  C14: the life of a rental from request to tenant's address. When a machine with an empty queue
  is rented and its agent can start the workload, then: its next heartbeat brings exactly the
  start command of that rental, with the image and key of the request; dispatching it calls
  the runtime with them; the report is accepted and moves no money; and the tenant then reads
  a running rental at the machine's public address and the port the runtime chose.
\<close>

theorem provision_end_to_end:
  assumes "db_wf d" "pending_commands (cr_machine_id req) d = []"
    and "create_rental req t0 d = (Inr resp, d1)" "in_i64 (cs_rental_id resp)"
    and "find_machine d (cr_machine_id req) = Some m" "rental_ssh_pubkey req = Inr key"
    and "start_rental R rt \<lparr>sp_rental_id = cs_rental_id resp, sp_image = cr_image req, sp_ssh_pubkey = key\<rparr> = (Inr st, rt')"
  shows "\<exists>d2 rep d3 r. heartbeat (bearer (m_agent_token m)) True t1 d1 =
      (Inr [StartRental (cs_rental_id resp) (cr_image req) key], d2) \<and>
    dispatch R (StartRental (cs_rental_id resp) (cr_image req) key) rt = (rep, rt') \<and>
    report (bearer (m_agent_token m)) rep t2 d2 = (Inr (), d3) \<and> bank_of d3 = bank_of d \<and>
    get_rental (cs_rental_id resp) d3 = Inr r \<and> rn_status r = Running \<and> rn_kind r = sd_kind st \<and>
    rn_ssh_host r = Some (m_public_ip m) \<and> rn_ssh_port r = Some (as_i32 (sd_ssh_port st)) \<and>
    rn_rate_sats_per_min r = m_rate_sats_per_min m"
proof -
  let ?k = "cs_rental_id resp"
  let ?f = "\<lambda>x. x\<lparr>m_last_heartbeat := t1, m_online := True\<rparr>"
  let ?r = "(new_rental_row req key (m_rate_sats_per_min m) t0)\<lparr>r_id := ?k\<rparr>"
  have mem: "m \<in> set (db_machines d)" "m_id m = cr_machine_id req" using find_machine_SomeD [OF assms(5)] by simp_all
  obtain d2 where hb: "heartbeat (bearer (m_agent_token m)) True t1 d1 = (Inr [StartRental ?k (cr_image req) key], d2)"
    and d2: "db_rentals d2 = db_rentals d @ [?r]" "db_machines d2 = sql_update (\<lambda>x. m_id x = m_id m) ?f (db_machines d)"
      "bank_of d2 = bank_of d" "?k \<notin> r_id ` set (db_rentals d)"
    using provision_delivery [OF assms(1-6), of t1] by blast
  define rep where "rep = report_started ?k (Inr st)"
  have rep: "rp_status rep = Running" "rp_kind rep = Some (sd_kind st)" "rp_ssh_port rep = Some (sd_ssh_port st)"
    "rp_rental_id rep = ?k" by (simp_all add: rep_def report_started_def)
  have dist: "distinct (map r_id (db_rentals d2))" and in_r: "?r \<in> set (db_rentals d2)"
    using assms(1) d2(4) by (auto simp: d2(1) wf_defs)
  have rm: "r_machine_id ?r = m_id m" "r_id ?r = rp_rental_id rep" by (simp_all add: mem(2) new_rental_row_def rep)
  have read: "report_read (bearer (m_agent_token m)) rep d2 = Inr (?f m, ?r)"
    by (rule report_read_after [OF assms(1) mem(1) in_r dist rm d2(2)]) simp
  define d3 where "d3 = update_rentals (\<lambda>x. r_id x = ?k) (apply_report rep (m_public_ip (?f m)) None) d2"
  have report: "report (bearer (m_agent_token m)) rep t2 d2 = (Inr (), d3)"
    using report_live [OF read, of t2] by (simp add: rep is_terminal_def d3_def)
  have "find_rental d3 ?k = Some (apply_report rep (m_public_ip m) None ?r)"
    using sql_find_unique [OF dist in_r refl]
    by (simp add: find_rental_def d3_def update_rentals_def sql_find_update_frame apply_report_def)
  moreover have "find_machine d3 (m_id m) = Some (?f m)"
    using sql_find_unique [of m_id "db_machines d" m] assms(1) mem(1)
    by (simp add: find_machine_def d3_def update_rentals_def d2(2) sql_find_update_frame wf_defs)
  ultimately have "\<exists>r. get_rental ?k d3 = Inr r \<and> rn_status r = Running \<and> rn_kind r = sd_kind st \<and>
    rn_ssh_host r = Some (m_public_ip m) \<and> rn_ssh_port r = Some (as_i32 (sd_ssh_port st)) \<and>
    rn_rate_sats_per_min r = m_rate_sats_per_min m"
    by (simp add: get_rental_def apply_report_def rep new_rental_row_def mem(2))
  moreover have "bank_of d3 = bank_of d" by (simp add: d3_def frame_simps d2(3))
  moreover have "dispatch R (StartRental ?k (cr_image req) key) rt = (rep, rt')" using assms(7) by (simp add: rep_def)
  ultimately show ?thesis using hb report by blast
qed

theorem provision_end_to_end_witness:
  "\<exists>d2 rep d3 r. heartbeat demo_auth True 205 (snd (create_rental demo_rent_request 200 demo_db)) =
      (Inr [StartRental 1 ''ubuntu'' ''key''], d2) \<and> report demo_auth rep 215 d2 = (Inr (), d3) \<and>
    get_rental 1 d3 = Inr r \<and> rn_status r = Running \<and> rn_ssh_port r = Some 40000"
proof -
  let ?spec = "\<lparr>sp_rental_id = 1, sp_image = ''ubuntu'', sp_ssh_pubkey = ''key''\<rparr>"
  define R where "R = \<lparr>start_rental = (\<lambda>u spec. (Inr \<lparr>sd_container_id = ''c'', sd_ssh_port = 40000, sd_kind = Ssh\<rparr>, u)),
     stop_rental = (\<lambda>u k. (Inr (), u)), running_rentals = (\<lambda>u. (Inr [], u)), available = (\<lambda>u::unit. Inr [])\<rparr>"
  have st: "start_rental R () ?spec = (Inr \<lparr>sd_container_id = ''c'', sd_ssh_port = 40000, sd_kind = Ssh\<rparr>, ())"
    by (simp add: R_def)
  have req: "cr_machine_id demo_rent_request = 1" "cr_image demo_rent_request = ''ubuntu''"
    by (simp_all add: demo_rent_request_def)
  have "in_i64 1" by (simp add: in_i64_def)
  with provision_end_to_end [OF demo_wf(1) _ demo_create_rental, of demo_machine "''key''" R "()", simplified req, simplified,
      OF _ _ _ _ st, of 205 215] show ?thesis
    by (simp add: demo_find demo_key pending_commands_def demo_auth_def bearer_def demo_create_rental as_i32_def)
      (simp add: demo_machine_def, blast)
qed

section \<open>A start that fails\<close>

text \<open>
  when the runtime cannot start the workload, the report ends the rental as failed and
  charges the tenant for the time since the request, as if the rental had run: what accrued
  until the report, capped at the balance, goes from the tenant to the host.
\<close>

theorem failed_start_is_charged:
  assumes "money_inv d" "deposits_fit d"
    and "start_rental R rt \<lparr>sp_rental_id = k, sp_image = img, sp_ssh_pubkey = key\<rparr> = (Inl e, rt')"
    and "dispatch R (StartRental k img key) rt = (rep, rt'')"
    and "report_read auth rep d = Inr (m, r)" "r_status r = Provisioning" "0 < stop_charge r now d"
  shows "\<exists>d' r'. report auth rep now d = (Inr (), d') \<and> find_rental d' k = Some r' \<and> r_status r' = Failed \<and>
    r_sats_charged r' = stop_charge r now d \<and>
    bank_of d' = bank_charge (r_account_id r) (m_id m) (stop_charge r now d) (bank_of d)"
proof -
  have rep: "rp_status rep = Failed" "rp_rental_id rep = k"
    using assms(3,4) by (auto simp: report_started_def)
  have "is_terminal (rp_status rep)" "\<not> is_terminal (r_status r)" by (simp_all add: rep assms(6) is_terminal_def)
  from settle_report [OF assms(1,2,5) this, of now] report_read_InrD(3) [OF assms(5)] rep assms(7)
  show ?thesis by auto
qed

definition demo_pending :: db where
  "demo_pending = update_rentals (\<lambda>r. True) (\<lambda>r. r\<lparr>r_status := Provisioning\<rparr>) demo_rented"

definition demo_broken :: "unit host_runtime" where
  "demo_broken = \<lparr>start_rental = (\<lambda>u spec. (Inl [''pulling image'', ''no such image''], u)),
     stop_rental = (\<lambda>u k. (Inr (), u)), running_rentals = (\<lambda>u. (Inr [], u)), available = (\<lambda>u. Inr [])\<rparr>"

lemma demo_pending_facts:
  "money_inv demo_pending" "deposits_fit demo_pending"
  "report_read demo_auth (fst (dispatch demo_broken (StartRental 1 img key) ())) demo_pending =
     Inr (demo_machine, demo_rental\<lparr>r_status := Provisioning\<rparr>)"
  "stop_charge (demo_rental\<lparr>r_status := Provisioning\<rparr>) 400 demo_pending = 50"
proof -
  show "money_inv demo_pending" unfolding demo_pending_def by (rule money_inv_evicting [OF demo_money(2)])
  show "deposits_fit demo_pending"
    using demo_fit(2) by (simp add: demo_pending_def deposits_fit_def invoice_total_def frame_simps)
  have tables: "db_machines demo_pending = db_machines demo_rented"
    "db_rentals demo_pending = [demo_rental\<lparr>r_status := Provisioning\<rparr>]"
    by (simp_all add: demo_pending_def update_rentals_def sql_update_def)
  have rental: "r_id demo_rental = 1" "r_machine_id demo_rental = m_id demo_machine"
    by (simp_all add: demo_rental_def demo_machine_def)
  show "report_read demo_auth (fst (dispatch demo_broken (StartRental 1 img key) ())) demo_pending =
     Inr (demo_machine, demo_rental\<lparr>r_status := Provisioning\<rparr>)"
    using demo_authenticate(2) authenticate_cong [OF tables(1), of demo_auth]
    by (simp add: report_read_def tables(2) rental demo_broken_def report_started_def)
  show "stop_charge (demo_rental\<lparr>r_status := Provisioning\<rparr>) 400 demo_pending = 50"
    unfolding demo_pending_def by code_simp
qed

theorem failed_start_is_charged_witness:
  "\<exists>d' r'. report demo_auth (fst (dispatch demo_broken (StartRental 1 ''ubuntu'' ''key'') ())) 400 demo_pending = (Inr (), d') \<and>
     find_rental d' 1 = Some r' \<and> r_status r' = Failed \<and> r_sats_charged r' = 50"
proof -
  have st: "start_rental demo_broken () \<lparr>sp_rental_id = 1, sp_image = ''ubuntu'', sp_ssh_pubkey = ''key''\<rparr> =
      (Inl [''pulling image'', ''no such image''], ())"
    by (simp add: demo_broken_def)
  have di: "dispatch demo_broken (StartRental 1 ''ubuntu'' ''key'') () =
      (fst (dispatch demo_broken (StartRental 1 ''ubuntu'' ''key'') ()), ())" by (simp add: demo_broken_def)
  have "r_status (demo_rental\<lparr>r_status := Provisioning\<rparr>) = Provisioning"
    "0 < stop_charge (demo_rental\<lparr>r_status := Provisioning\<rparr>) 400 demo_pending"
    by (simp_all add: demo_pending_facts(4))
  from failed_start_is_charged [OF demo_pending_facts(1,2) st di demo_pending_facts(3) this]
  show ?thesis unfolding demo_pending_facts(4) by blast
qed

section \<open>Restarts\<close>

lemma agent_state_roundtrip:
  assumes "\<And>k. as_machine_id s = Some k \<Longrightarrow> in_i64 k"
  shows "agent_state_from_json (agent_state_to_json s) = Some s"
  using assms by (cases "as_machine_id s"; cases "as_agent_token s")
    (simp_all add: agent_state_from_json_def agent_state_of_fields_def json_struct_def agent_state_to_json_def
      json_of_opt_def fields_once_def
      json_field_def json_opt_def)

text \<open>What the file system and \<^verbatim>\<open>serde_json\<close> are relied on for: what is written is read back,
  and the text of the state parses to it.\<close>

definition keeps_files :: "'fs file_ops \<Rightarrow> agent_state \<Rightarrow> bool" where
  "keeps_files F s \<longleftrightarrow>
     (\<forall>fs path raw. \<exists>fs'. fo_write F fs path raw = (Inr (), fs') \<and> fo_exists F fs' path \<and> fo_read F fs' path = Inr raw) \<and>
     js_parse F (js_print F (agent_state_to_json s)) = Inr (agent_state_to_json s)"

text \<open>The server's registration as the agent sees it.\<close>

definition send_register ::
  "string \<Rightarrow> int \<Rightarrow> register_request \<Rightarrow> db \<Rightarrow> (anyhow + register_response) \<times> db" where
  "send_register token now req d =
     (case register token req now d of (Inl e, d') \<Rightarrow> (Inl [''control plane returned an error''], d') | (Inr r, d') \<Rightarrow> (Inr r, d'))"

lemma agent_startup_InrE:
  assumes "agent_startup F send args new_id probed specs fs srv = (Inr s, fs', srv')"
  obtains s0 fs1 iv resp where "load_or_init_state F (ag_state_file args) new_id fs = (Inr s0, fs1)"
    and "probed = Inr iv" "send (register_req args s0 iv specs) srv = (Inr resp, srv')"
    and "save_state F (ag_state_file args) (remember s0 resp) fs1 = (Inr (), fs')" "s = remember s0 resp"
  using assms unfolding agent_startup_def by (auto split: sum.splits prod.splits)

lemma load_saved:
  assumes "keeps_files F s" "save_state F path s fs = (Inr (), fs')" "\<And>k. as_machine_id s = Some k \<Longrightarrow> in_i64 k"
  shows "load_or_init_state F path new_id fs' = (Inr s, fs')"
proof -
  obtain fs2 where "fo_write F fs path (js_print F (agent_state_to_json s)) = (Inr (), fs2)" "fo_exists F fs2 path"
    "fo_read F fs2 path = Inr (js_print F (agent_state_to_json s))"
    using assms(1) unfolding keeps_files_def by blast
  with assms show ?thesis
    by (simp add: load_or_init_state_def save_state_def keeps_files_def agent_state_roundtrip)
qed

text \<open>
  C15: an agent that is started again, with other flags and other hardware but the same state
  file, is the same host to the server: it comes up with the host id, machine id and token of
  its first start, and no machine is added.
\<close>

theorem agent_restart_keeps_identity:
  assumes "keeps_files F s"
    and "agent_startup F (send_register token now) args new_id probed specs fs d = (Inr s, fs1, d1)"
    and "ag_state_file args' = ag_state_file args" "1 \<le> ag_rate_sats_per_min args'"
    and "\<And>k. as_machine_id s = Some k \<Longrightarrow> in_i64 k"
  shows "\<exists>fs2 d2. agent_startup F (send_register token' now') args' new_id' (Inr iv') specs' fs1 d1 = (Inr s, fs2, d2) \<and>
    map machine_identity (db_machines d2) = map machine_identity (db_machines d1)"
proof -
  obtain s0 fs0 iv resp where "send_register token now (register_req args s0 iv specs) d = (Inr resp, d1)"
    and saved: "save_state F (ag_state_file args) (remember s0 resp) fs0 = (Inr (), fs1)" and s: "s = remember s0 resp"
    using assms(2) by (rule agent_startup_InrE)
  then have reg: "register token (register_req args s0 iv specs) now d = (Inr resp, d1)"
    by (auto simp: send_register_def split: prod.splits sum.splits)
  have "rq_host_id (register_req args' s iv' specs') = rq_host_id (register_req args s0 iv specs)"
    by (simp add: register_req_def s remember_def)
  from register_again [OF reg this, of token' now'] obtain d2 where
    d2: "register token' (register_req args' s iv' specs') now' d1 = (Inr resp, d2)"
      "map machine_identity (db_machines d2) = map machine_identity (db_machines d1)" by blast
  have load: "load_or_init_state F (ag_state_file args') new_id' fs1 = (Inr s, fs1)"
    using load_saved [OF _ saved] assms(1,5) unfolding s assms(3) by blast
  obtain fs2 where "fo_write F fs1 (ag_state_file args') (js_print F (agent_state_to_json s)) = (Inr (), fs2)"
    using assms(1) unfolding keeps_files_def by blast
  then have "save_state F (ag_state_file args') (remember s resp) fs1 = (Inr (), fs2)"
    by (simp add: save_state_def s remember_def)
  with load d2(1) assms(4) have
    "agent_startup F (send_register token' now') args' new_id' (Inr iv') specs' fs1 d1 = (Inr s, fs2, d2)"
    by (simp add: agent_startup_def check_args_def send_register_def) (simp add: s remember_def)
  with d2(2) show ?thesis by blast
qed

definition demo_files :: "(string \<Rightarrow> string option) file_ops" where
  "demo_files =
     \<lparr>fo_exists = (\<lambda>fs path. fs path \<noteq> None),
      fo_read = (\<lambda>fs path. case fs path of None \<Rightarrow> Inl ''no such file'' | Some raw \<Rightarrow> Inr raw),
      fo_write = (\<lambda>fs path raw. (Inr (), fs(path \<mapsto> raw))),
      js_print = (\<lambda>j. ''state''),
      js_parse = (\<lambda>raw. Inr (agent_state_to_json
        \<lparr>as_host_id = ''host-9'', as_machine_id = Some 1, as_agent_token = Some ''agt_1''\<rparr>))\<rparr>"

definition demo_args :: agent_args where
  "demo_args = \<lparr>ag_control_plane = ''http://cp'', ag_public_ip = ''1.2.3.4'', ag_rate_sats_per_min = 10,
     ag_port_start = 40000, ag_port_end = 40099, ag_heartbeat_secs = 30, ag_state_file = ''state.json'',
     ag_country = None, ag_inet_down_mbps = None, ag_inet_up_mbps = None\<rparr>"

definition demo_inventory :: inventory where
  "demo_inventory = \<lparr>iv_gpus = [demo_gpu ''GPU-a''], iv_dlperf = 42, iv_hw_fingerprint = ''fp''\<rparr>"

definition demo_specs :: host_specs where
  "demo_specs = \<lparr>hs_cpu_name = ''cpu'', hs_cpu_cores = 8, hs_ram_mb = 64000, hs_disk_gb = 500, hs_disk_type = Ssd\<rparr>"

definition demo_agent :: agent_state where
  "demo_agent = \<lparr>as_host_id = ''host-9'', as_machine_id = Some 1, as_agent_token = Some ''agt_1''\<rparr>"

lemma demo_startup:
  "agent_startup demo_files (send_register ''agt_1'' 100) demo_args ''host-9'' (Inr demo_inventory) demo_specs
     Map.empty db_empty =
   (Inr demo_agent, [''state.json'' \<mapsto> ''state'', ''state.json'' \<mapsto> ''state''],
    snd (send_register ''agt_1'' 100 (register_req demo_args demo_agent demo_inventory demo_specs) db_empty))"
  by (simp add: agent_startup_def check_args_def demo_args_def load_or_init_state_def save_state_def demo_files_def
      send_register_def register_def db_empty_def insert_machine_def next_id_def Let_def remember_def demo_agent_def
      register_req_def)

theorem agent_restart_keeps_identity_witness:
  "fst (agent_startup demo_files (send_register ''agt_2'' 900) (demo_args\<lparr>ag_rate_sats_per_min := 20\<rparr>) ''host-7''
     (Inr demo_inventory) demo_specs [''state.json'' \<mapsto> ''state'', ''state.json'' \<mapsto> ''state'']
     (snd (send_register ''agt_1'' 100 (register_req demo_args demo_agent demo_inventory demo_specs) db_empty))) =
   Inr demo_agent"
proof -
  have "keeps_files demo_files demo_agent"
    by (auto simp: keeps_files_def demo_files_def demo_agent_def)
  moreover have "ag_state_file (demo_args\<lparr>ag_rate_sats_per_min := 20\<rparr>) = ag_state_file demo_args"
    "1 \<le> ag_rate_sats_per_min (demo_args\<lparr>ag_rate_sats_per_min := 20\<rparr>)" by simp_all
  moreover have "in_i64 k" if "as_machine_id demo_agent = Some k" for k
    using that by (simp add: demo_agent_def in_i64_def)
  ultimately show ?thesis
    using agent_restart_keeps_identity [OF _ demo_startup, of "demo_args\<lparr>ag_rate_sats_per_min := 20\<rparr>" "''agt_2''" 900
        "''host-7''" demo_inventory demo_specs] by auto
qed

end
