(* ===== verification/Tenant_Cli.thy ===== *)
theory Tenant_Cli
  imports Core_Model
begin

text \<open>
  \<^verbatim>\<open>crates/vgpu/src/main.rs\<close>: the tenant's command line. Every command is a
  function from what it can call (\<open>cli_ops\<close>: the HTTP client, serde's decoders, the file
  it reads a key from, the table printer, the rounding of doubles) to the lines it prints or
  the error it ends with.
\<close>

section \<open>Money and value\<close>

definition approx_sign :: string where
  "approx_sign = [CHR 0xE2, CHR 0x89, CHR 0x88]"

definition fmt_sats :: "(real \<Rightarrow> real) \<Rightarrow> int \<Rightarrow> string" where
  "fmt_sats fl sats =
     (let btc = fl (fl (of_int sats) / 100000000); usd = fl (btc * 100000)
      in show_int sats @ '' sats  ('' @ approx_sign @ '' '' @ fmt_fixed 8 btc @ '' BTC '' @
         approx_sign @ '' $'' @ fmt_fixed 2 usd @ '')'')"

definition cli_value :: "(real \<Rightarrow> real) \<Rightarrow> int \<Rightarrow> real \<Rightarrow> real" where
  "cli_value fl rate_sats_per_min dlperf = fl (fl (of_int rate_sats_per_min) / max dlperf (fl (1 / 100)))"

definition endpoint_hint :: "rental_kind \<Rightarrow> string option \<Rightarrow> int option \<Rightarrow> (string \<times> string) option" where
  "endpoint_hint kind host port =
     (case (host, port) of
        (Some h, Some p) \<Rightarrow>
          Some (case kind of
             Ssh \<Rightarrow> (''SSH:'', ''ssh -p '' @ show_int p @ '' root@'' @ h)
           | HttpStatus \<Rightarrow> (''Status:'', ''curl http://'' @ h @ '':'' @ show_int p @ ''/'')
           | HttpOpenai \<Rightarrow> (''LLM API:'', ''curl http://'' @ h @ '':'' @ show_int p @
               ''/v1/chat/completions -H content-type:application/json -d '' @ [CHR 0x27] @
               ''{'' @ quote_sign @ ''messages'' @ quote_sign @ '':[{'' @ quote_sign @ ''role'' @ quote_sign @ '':'' @
               quote_sign @ ''user'' @ quote_sign @ '','' @ quote_sign @ ''content'' @ quote_sign @ '':'' @
               quote_sign @ ''hi'' @ quote_sign @ ''}],'' @ quote_sign @ ''max_tokens'' @ quote_sign @ '':64}'' @
               [CHR 0x27]))
      | _ \<Rightarrow> None)"

section \<open>The client\<close>

fun trim_end_matches :: "char \<Rightarrow> string \<Rightarrow> string" where
  "trim_end_matches c s = rev (dropWhile (\<lambda>x. x = c) (rev s))"

declare trim_end_matches.simps [simp del]

definition client_new :: "string \<Rightarrow> string" where
  "client_new base = trim_end_matches (CHR ''/'') base"

definition client_url :: "string \<Rightarrow> string \<Rightarrow> string" where
  "client_url base path = base @ path"

datatype http_body = NoBody | DepositBody int | RentalBody create_rental_request

datatype http_request =
    HttpGet string "(string \<times> string) list"
  | HttpPost string http_body
  | HttpDelete string

text \<open>
  \<open>co_send\<close> answers with the status and the text of the body or the text of a transport
  error; \<open>co_error\<close> is the string under \<^verbatim>\<open>"error"\<close> of a JSON text.
\<close>

record cli_ops =
  co_send :: "http_request \<Rightarrow> string + (nat \<times> string)"
  co_status_text :: "nat \<Rightarrow> string"
  co_error :: "string \<Rightarrow> string option"
  co_health :: "string \<Rightarrow> string + health_response"
  co_offers :: "string \<Rightarrow> string + offer list"
  co_account_id :: "string \<Rightarrow> string + string"
  co_account :: "string \<Rightarrow> string + account_response"
  co_deposit :: "string \<Rightarrow> string + deposit_response"
  co_created :: "string \<Rightarrow> string + create_rental_response"
  co_rental :: "string \<Rightarrow> string + rental_response"
  co_deleted :: "string \<Rightarrow> string + string option"
  co_read_file :: "string \<Rightarrow> string + string"
  co_table :: "string list \<Rightarrow> string list list \<Rightarrow> string"
  co_fl :: "real \<Rightarrow> real"

definition parse_response :: "cli_ops \<Rightarrow> (string \<Rightarrow> string + 't) \<Rightarrow> nat \<times> string \<Rightarrow> string list + 't" where
  "parse_response C decode resp =
     (case resp of (status, body) \<Rightarrow>
        if 200 \<le> status \<and> status < 300 then
          (case decode body of
             Inl e \<Rightarrow> Inl [''decoding response: '' @ body, e]
           | Inr x \<Rightarrow> Inr x)
        else
          (let msg = (case co_error C body of Some m \<Rightarrow> m | None \<Rightarrow> body)
           in Inl [''control plane returned '' @ co_status_text C status @ '': '' @ msg]))"

definition call :: "cli_ops \<Rightarrow> (string \<Rightarrow> string + 't) \<Rightarrow> http_request \<Rightarrow> string list + 't" where
  "call C decode req =
     (case co_send C req of
        Inl e \<Rightarrow> Inl [e]
      | Inr resp \<Rightarrow> parse_response C decode resp)"

section \<open>Commands\<close>

record offers_args =
  oa_gpu :: "string option"
  oa_min_vram_mb :: "int option"
  oa_min_gpu_count :: "int option"
  oa_max_rate :: "int option"
  oa_sort :: "string option"
  oa_limit :: "int option"

record rent_args =
  ra_machine_id :: int
  ra_account_id :: string
  ra_image :: string
  ra_ssh_key :: "string option"
  ra_ssh_key_file :: "string option"

datatype cli_cmd =
    CliHealth
  | CliOffers offers_args
  | CliCreateAccount
  | CliAccount string
  | CliDeposit string int
  | CliRent rent_args
  | CliRental int
  | CliStop int

definition cli_health :: "cli_ops \<Rightarrow> string \<Rightarrow> string list + string list" where
  "cli_health C base =
     (case call C (co_health C) (HttpGet (client_url base ''/health'') []) of
        Inl e \<Rightarrow> Inl e
      | Inr h \<Rightarrow> Inr [''Control plane '' @ (if h_ok h then ''OK'' else ''DEGRADED'') @
                    ''  (lightning backend: '' @ h_ln_backend h @ '')''])"

definition opt_param :: "string \<Rightarrow> string option \<Rightarrow> (string \<times> string) list" where
  "opt_param k v = (case v of None \<Rightarrow> [] | Some s \<Rightarrow> [(k, s)])"

definition offers_params :: "offers_args \<Rightarrow> (string \<times> string) list" where
  "offers_params a =
     opt_param ''gpu_name'' (oa_gpu a)
     @ opt_param ''min_vram_mb'' (map_option show_int (oa_min_vram_mb a))
     @ opt_param ''min_gpu_count'' (map_option show_int (oa_min_gpu_count a))
     @ opt_param ''max_rate_sats_per_min'' (map_option show_int (oa_max_rate a))
     @ opt_param ''sort'' (oa_sort a)
     @ opt_param ''limit'' (map_option show_int (oa_limit a))"

definition offer_cells :: "(real \<Rightarrow> real) \<Rightarrow> offer \<Rightarrow> string list" where
  "offer_cells fl x =
     [show_int (o_machine_id x), o_gpu_name x, show_int (o_gpu_count x),
      show_int (i64_div (o_vram_mb x) 1024) @ '' GB'', fmt_fixed 0 (o_dlperf x),
      show_int (o_rate_sats_per_min x), show_int (o_rate_sats_per_hour x),
      fmt_fixed 2 (cli_value fl (o_rate_sats_per_min x) (o_dlperf x)),
      (case o_country x of None \<Rightarrow> ''-'' | Some c \<Rightarrow> c)]"

definition cli_offers :: "cli_ops \<Rightarrow> string \<Rightarrow> offers_args \<Rightarrow> string list + string list" where
  "cli_offers C base args =
     (case call C (co_offers C) (HttpGet (client_url base ''/offers'') (offers_params args)) of
        Inl e \<Rightarrow> Inl e
      | Inr offers \<Rightarrow>
          if offers = [] then Inr [''No machines available.'']
          else Inr [co_table C
                      [''ID'', ''GPU'', ''#'', ''VRAM'', ''dlperf'', ''sats/min'', ''sats/hr'', ''value'', ''loc'']
                      (map (offer_cells (co_fl C)) offers),
                    '''', ''value = sats/min per unit of dlperf (lower is better). ~$100k/BTC.''])"

definition cli_create_account :: "cli_ops \<Rightarrow> string \<Rightarrow> string list + string list" where
  "cli_create_account C base =
     (case call C (co_account_id C) (HttpPost (client_url base ''/accounts'') NoBody) of
        Inl e \<Rightarrow> Inl e
      | Inr k \<Rightarrow> Inr [''Created account: '' @ k, ''Fund it with:  vgpu deposit '' @ k @ '' <sats>''])"

definition cli_account :: "cli_ops \<Rightarrow> string \<Rightarrow> string \<Rightarrow> string list + string list" where
  "cli_account C base k =
     (case call C (co_account C) (HttpGet (client_url base (''/accounts/'' @ k)) []) of
        Inl e \<Rightarrow> Inl e
      | Inr a \<Rightarrow>
          Inr [''Account '' @ ar_account_id a,
               ''  Balance: '' @ fmt_sats (co_fl C) (ar_balance_sats a),
               ''  Burn:    '' @ show_int (ar_burn_sats_per_min a) @ '' sats/min'',
               (case ar_runway_minutes a of
                  Some m \<Rightarrow> ''  Runway:  '' @ show_int m @ '' minutes''
                | None \<Rightarrow> ''  Runway:  '' @ [CHR 0xE2, CHR 0x80, CHR 0x94] @ '' (no running rentals)'')])"

definition cli_deposit :: "cli_ops \<Rightarrow> string \<Rightarrow> string \<Rightarrow> int \<Rightarrow> string list + string list" where
  "cli_deposit C base k sats =
     (case call C (co_deposit C) (HttpPost (client_url base (''/accounts/'' @ k @ ''/deposit'')) (DepositBody sats)) of
        Inl e \<Rightarrow> Inl e
      | Inr r \<Rightarrow>
          Inr [''Deposit invoice for '' @ fmt_sats (co_fl C) (dp_sats r), ''  BOLT11:       '' @ dp_bolt11 r,
               ''  Payment hash: '' @ dp_payment_hash r, '''',
               ''Pay the invoice to credit your balance (the mock backend settles automatically).''])"

text \<open>The key of \<open>rent\<close>: the literal, else the trimmed file, else none for a \<open>metal:\<close> image.\<close>

definition rent_key :: "cli_ops \<Rightarrow> rent_args \<Rightarrow> string list + string option" where
  "rent_key C args =
     (case (ra_ssh_key args, ra_ssh_key_file args) of
        (Some k, _) \<Rightarrow> Inr (Some k)
      | (None, Some path) \<Rightarrow>
          (case co_read_file C path of
             Inl e \<Rightarrow> Inl [''reading '' @ path, e]
           | Inr text \<Rightarrow> Inr (Some (trim text)))
      | (None, None) \<Rightarrow>
          if is_http_status_image (ra_image args) then Inr None
          else Inl [''provide --ssh-key or --ssh-key-file (only metal: images may omit it)''])"

definition rent_request :: "rent_args \<Rightarrow> string option \<Rightarrow> create_rental_request" where
  "rent_request args key =
     \<lparr>cr_machine_id = ra_machine_id args, cr_account_id = ra_account_id args, cr_image = ra_image args,
      cr_ssh_pubkey = key\<rparr>"

definition cli_rent :: "cli_ops \<Rightarrow> string \<Rightarrow> rent_args \<Rightarrow> string list + string list" where
  "cli_rent C base args =
     (case rent_key C args of
        Inl e \<Rightarrow> Inl e
      | Inr key \<Rightarrow>
          (case call C (co_created C) (HttpPost (client_url base ''/rentals'') (RentalBody (rent_request args key))) of
             Inl e \<Rightarrow> Inl e
           | Inr r \<Rightarrow>
               Inr [''Rental '' @ show_int (cs_rental_id r) @ '' created  ['' @ status_as_str (cs_status r) @
                      '']  at '' @ show_int (cs_rate_sats_per_min r) @ '' sats/min'',
                    ''Track it with:  vgpu rental '' @ show_int (cs_rental_id r)]))"

definition rental_lines :: "rental_response \<Rightarrow> string list" where
  "rental_lines r =
     [''Rental '' @ show_int (rn_id r) @ ''  ['' @ status_as_str (rn_status r) @ '']'',
      ''  GPU:     '' @ rn_gpu_name r @ '' x'' @ show_int (rn_gpu_count r),
      ''  Image:   '' @ rn_image r,
      (case endpoint_hint (rn_kind r) (rn_ssh_host r) (rn_ssh_port r) of
         Some (label, hint) \<Rightarrow> ''  '' @ pad_right 8 (CHR '' '') label @ '' '' @ hint
       | None \<Rightarrow> ''  '' @ pad_right 8 (CHR '' '') ''Endpoint:'' @ '' (pending '' @
                 [CHR 0xE2, CHR 0x80, CHR 0x94] @ '' not running yet)''),
      ''  Billed:  '' @ show_int (rn_sats_charged r) @ '' sats over '' @ show_int (rn_minutes_billed r) @ '' min'']
     @ (case rn_error r of None \<Rightarrow> [] | Some e \<Rightarrow> [''  Error:   '' @ e])"

definition cli_rental :: "cli_ops \<Rightarrow> string \<Rightarrow> int \<Rightarrow> string list + string list" where
  "cli_rental C base k =
     (case call C (co_rental C) (HttpGet (client_url base (''/rentals/'' @ show_int k)) []) of
        Inl e \<Rightarrow> Inl e
      | Inr r \<Rightarrow> Inr (rental_lines r))"

definition cli_stop :: "cli_ops \<Rightarrow> string \<Rightarrow> int \<Rightarrow> string list + string list" where
  "cli_stop C base k =
     (case call C (co_deleted C) (HttpDelete (client_url base (''/rentals/'' @ show_int k))) of
        Inl e \<Rightarrow> Inl e
      | Inr status \<Rightarrow>
          Inr [''Rental '' @ show_int k @ '' -> '' @
               (case status of None \<Rightarrow> ''evicting'' | Some s \<Rightarrow> s) @ '' (stop queued)''])"

fun cli_main :: "cli_ops \<Rightarrow> string \<Rightarrow> cli_cmd \<Rightarrow> string list + string list" where
  "cli_main C control_plane CliHealth = cli_health C (client_new control_plane)"
| "cli_main C control_plane (CliOffers args) = cli_offers C (client_new control_plane) args"
| "cli_main C control_plane CliCreateAccount = cli_create_account C (client_new control_plane)"
| "cli_main C control_plane (CliAccount k) = cli_account C (client_new control_plane) k"
| "cli_main C control_plane (CliDeposit k sats) = cli_deposit C (client_new control_plane) k sats"
| "cli_main C control_plane (CliRent args) = cli_rent C (client_new control_plane) args"
| "cli_main C control_plane (CliRental k) = cli_rental C (client_new control_plane) k"
| "cli_main C control_plane (CliStop k) = cli_stop C (client_new control_plane) k"

end
