(* ===== verification/Tenant_Cli_Spec.thy ===== *)
theory Tenant_Cli_Spec
  imports Tenant_Cli Samples
begin

text \<open>
  What a tenant sees: the exact amount in bitcoin, the connection command the server means, and
  a key check that agrees with the server's.
\<close>

section \<open>Amounts\<close>

lemma round_even_near:
  assumes "\<bar>y - of_int n\<bar> < 1 / 2"
  shows "round_even y = n"
proof (cases "of_int n \<le> y")
  case True
  with assms have "\<lfloor>y\<rfloor> = n" by (intro floor_unique) auto
  with True assms show ?thesis by (simp add: round_even_def Let_def)
next
  case False
  with assms have "\<lfloor>y\<rfloor> = n - 1" by (intro floor_unique) auto
  with False assms show ?thesis by (simp add: round_even_def Let_def)
qed

text \<open>Rounding to nearest: a relative error of at most one half of the last place.\<close>

definition rounds_to_double :: "(real \<Rightarrow> real) \<Rightarrow> bool" where
  "rounds_to_double fl \<longleftrightarrow> (\<forall>x. \<bar>fl x - x\<bar> \<le> \<bar>x\<bar> / 2 ^ 53) \<and> (\<forall>k::int. \<bar>k\<bar> \<le> 2 ^ 53 \<longrightarrow> fl (of_int k) = of_int k)"

lemma scaled_near:
  assumes "0 \<le> x" "x \<le> 21000000" "\<bar>y - x\<bar> \<le> x / 2 ^ 53"
  shows "0 \<le> y \<and> \<bar>\<bar>y\<bar> * 10 ^ 8 - x * 10 ^ 8\<bar> < (1 / 2 :: real)"
proof -
  have c: "(2 :: real) ^ 53 = 9007199254740992" by simp
  have e: "y - x \<le> x / 9007199254740992" "x - y \<le> x / 9007199254740992"
    using assms(3) unfolding c abs_le_iff by linarith+
  then have y: "0 \<le> y" using assms(1) by linarith
  have "y * 100000000 - x * 100000000 < 1 / 2" "x * 100000000 - y * 100000000 < 1 / 2"
    using e assms(1,2) by linarith+
  then have "\<bar>y * 100000000 - x * 100000000\<bar> < 1 / 2" unfolding abs_less_iff by linarith
  with y show ?thesis by simp
qed

lemma btc_near:
  assumes "rounds_to_double fl" "0 \<le> s" "s \<le> 2100000000000000"
  shows "0 \<le> fl (fl (of_int s) / 100000000) \<and>
    \<bar>\<bar>fl (fl (of_int s) / 100000000)\<bar> * 10 ^ 8 - of_int s\<bar> < 1 / 2"
proof -
  have "\<bar>s\<bar> \<le> 2 ^ 53" using assms(2,3) by simp
  then have int: "fl (of_int s) = of_int s" using assms(1) unfolding rounds_to_double_def by blast
  define x where "x = (of_int s :: real) / 100000000"
  have x: "0 \<le> x" "x \<le> 21000000" "x * 10 ^ 8 = of_int s" using assms(2,3) by (simp_all add: x_def)
  have "\<bar>fl x - x\<bar> \<le> \<bar>x\<bar> / 2 ^ 53" using assms(1) unfolding rounds_to_double_def by blast
  then have "\<bar>fl x - x\<bar> \<le> x / 2 ^ 53" using x(1) by (simp only: abs_of_nonneg)
  from scaled_near [OF x(1,2) this] show ?thesis unfolding int x_def [symmetric] x(3) by blast
qed

lemma fmt_fixed_near:
  assumes "0 \<le> s" "0 \<le> x" "round_even (\<bar>x\<bar> * 10 ^ k) = s" "k \<noteq> 0"
  shows "fmt_fixed k x = show_int (s div 10 ^ k) @ ''.'' @ pad_left k (CHR ''0'') (show_int (s mod 10 ^ k))"
proof -
  have nonneg: "\<not> s mod 10 ^ k < 0" by (simp add: not_less)
  have "show_nat (nat s div 10 ^ k) = show_int (s div 10 ^ k)" "show_nat (nat s mod 10 ^ k) = show_int (s mod 10 ^ k)"
    using assms(1) nonneg by (simp_all add: show_int_def nat_div_distrib nat_mod_distrib nat_power_eq pos_imp_zdiv_neg_iff)
  then show ?thesis using assms by (simp add: fmt_fixed_def)
qed

text \<open>
  C40: although the amount passes through two rounded double operations, the bitcoin amount the
  tenant reads is exact to the satoshi for every amount that can exist (21 million bitcoin).
\<close>

theorem fmt_sats_btc_exact:
  assumes "rounds_to_double fl" "0 \<le> s" "s \<le> 2100000000000000"
  shows "\<exists>rest. fmt_sats fl s = show_int s @ '' sats  ('' @ approx_sign @ '' '' @
    show_int (s div 100000000) @ ''.'' @ pad_left 8 (CHR ''0'') (show_int (s mod 100000000)) @ '' BTC '' @ rest"
proof -
  let ?x = "fl (fl (of_int s) / 100000000)"
  note near = btc_near [OF assms]
  note near = btc_near [OF assms]
  have "round_even (\<bar>?x\<bar> * 10 ^ 8) = s" by (rule round_even_near) (use near in blast)
  with near have "fmt_fixed 8 ?x = show_int (s div 10 ^ 8) @ ''.'' @ pad_left 8 (CHR ''0'') (show_int (s mod 10 ^ 8))"
    using assms(2) by (intro fmt_fixed_near) simp_all
  moreover have "(10 :: int) ^ 8 = 100000000" by simp
  ultimately have "fmt_fixed 8 ?x = show_int (s div 100000000) @ ''.'' @ pad_left 8 (CHR ''0'') (show_int (s mod 100000000))"
    by (simp only:)
  then show ?thesis unfolding fmt_sats_def Let_def by simp
qed

theorem fmt_sats_btc_exact_witness:
  "\<exists>rest. fmt_sats (\<lambda>x. x) 60000 = show_int 60000 @ '' sats  ('' @ approx_sign @ '' '' @
     show_int 0 @ ''.'' @ pad_left 8 (CHR ''0'') (show_int 60000) @ '' BTC '' @ rest"
proof -
  have "rounds_to_double (\<lambda>x. x)" by (simp add: rounds_to_double_def)
  moreover have "(60000 :: int) div 100000000 = 0" "(60000 :: int) mod 100000000 = 60000" by simp_all
  ultimately show ?thesis using fmt_sats_btc_exact [of "\<lambda>x. x" 60000] by (simp only:)
qed

section \<open>Connecting\<close>

text \<open>
  for a rental the server answers with, the command line shows an SSH command exactly when
  the server gives one, and it is the same command.
\<close>

theorem hint_agrees_with_server:
  assumes "get_rental k d = Inr resp" "find_rental d k = Some r" "\<And>p. r_ssh_port r = Some p \<Longrightarrow> in_i32 p"
  shows "rn_ssh_command resp = Some c \<longleftrightarrow>
    endpoint_hint (rn_kind resp) (rn_ssh_host resp) (rn_ssh_port resp) = Some (''SSH:'', c)"
proof -
  have "rn_kind resp = r_kind r \<and> rn_ssh_host resp = r_ssh_host r \<and>
      rn_ssh_port resp = map_option as_i32 (r_ssh_port r) \<and> rn_ssh_command resp = ssh_command r"
    using assms(1,2) by (auto simp: get_rental_def split: option.splits)
  then show ?thesis
    using assms(3)
    by (cases "r_kind r"; cases "r_ssh_host r"; cases "r_ssh_port r")
      (auto simp: endpoint_hint_def ssh_command_def as_i32_id)
qed

theorem hint_agrees_with_server_witness:
  "\<exists>resp. get_rental 1 demo_rented = Inr resp \<and>
     endpoint_hint (rn_kind resp) (rn_ssh_host resp) (rn_ssh_port resp) = Some (''SSH:'', ''ssh -p '' @ show_int 40000 @ '' root@1.2.3.4'')"
proof -
  have r: "r_ssh_port demo_rental = Some 40000" "r_machine_id demo_rental = 1" "ssh_command demo_rental = Some (''ssh -p '' @ show_int 40000 @ '' root@1.2.3.4'')"
    by (simp_all add: demo_rental_def ssh_command_def)
  obtain resp where resp: "get_rental 1 demo_rented = Inr resp" "rn_ssh_command resp = ssh_command demo_rental"
    by (simp add: get_rental_def demo_find r(2))
  have "in_i32 p" if "r_ssh_port demo_rental = Some p" for p using that by (simp add: r(1) in_i32_def)
  from hint_agrees_with_server [OF resp(1) demo_find(3) this] show ?thesis using resp r(3) by auto
qed

section \<open>Renting\<close>

text \<open>
  the key check of the command line agrees with the server's. What \<open>rent\<close> sends is
  refused for its key only when a blank key was given for an image that needs one; and what it
  refuses to send without asking is what the server would refuse.
\<close>

theorem rent_key_agrees_with_server:
  "(\<forall>key. rent_key C args = Inr key \<longrightarrow>
      (is_ok (rental_ssh_pubkey (rent_request args key)) \<longleftrightarrow>
        is_http_status_image (ra_image args) \<or> (\<exists>k. key = Some k \<and> trim k \<noteq> []))) \<and>
   (ra_ssh_key args = None \<longrightarrow> ra_ssh_key_file args = None \<longrightarrow>
      is_ok (rent_key C args) = is_ok (rental_ssh_pubkey (rent_request args None)))"
  by (auto simp: rental_ssh_pubkey_def rent_request_def rent_key_def is_ok_def split: option.splits sum.splits)

definition demo_rent_args :: rent_args where
  "demo_rent_args = \<lparr>ra_machine_id = 1, ra_account_id = ''acct_1'', ra_image = ''ubuntu'',
     ra_ssh_key = None, ra_ssh_key_file = None\<rparr>"

theorem rent_key_agrees_with_server_witness:
  "\<forall>C. \<not> is_ok (rent_key C demo_rent_args) \<and>
   is_ok (rental_ssh_pubkey (rent_request (demo_rent_args\<lparr>ra_ssh_key := Some ''key''\<rparr>) (Some ''key'')))"
proof
  fix C
  have "\<not> is_http_status_image ''ubuntu''" "trim ''key'' \<noteq> []" by code_simp+
  then show "\<not> is_ok (rent_key C demo_rent_args) \<and>
     is_ok (rental_ssh_pubkey (rent_request (demo_rent_args\<lparr>ra_ssh_key := Some ''key''\<rparr>) (Some ''key'')))"
    using rent_key_agrees_with_server [of C demo_rent_args]
      rent_key_agrees_with_server [of C "demo_rent_args\<lparr>ra_ssh_key := Some ''key''\<rparr>"]
    by (auto simp: demo_rent_args_def rent_key_def rental_ssh_pubkey_def rent_request_def)
qed

section \<open>Requests\<close>

lemma client_new_slashes: "client_new (base @ replicate n (CHR ''/'')) = client_new base"
  by (simp add: client_new_def trim_end_matches.simps dropWhile_replicate)

lemma offers_params_read:
  "map_of (offers_params a) ''gpu_name'' = oa_gpu a"
  "map_of (offers_params a) ''sort'' = oa_sort a"
  "map_of (offers_params a) ''limit'' = map_option show_int (oa_limit a)"
  "map_of (offers_params a) ''min_vram_mb'' = map_option show_int (oa_min_vram_mb a)"
  "map_of (offers_params a) ''min_gpu_count'' = map_option show_int (oa_min_gpu_count a)"
  "map_of (offers_params a) ''max_rate_sats_per_min'' = map_option show_int (oa_max_rate a)"
  by (auto simp: offers_params_def opt_param_def map_add_def split: option.split)

end
