(* ===== verification/Gpu_Bench.thy ===== *)
theory Gpu_Bench
  imports Rust_Strings
begin

text \<open>
  The host side of \<^verbatim>\<open>crates/gpu-bench\<close>: the \<open>Backend\<close> trait as a record of its
  methods, what its three implementations compute around their kernels, the network probe, the
  suite, and the \<^verbatim>\<open>run\<close> command with its choice of backend and its tables. Effects go
  through a world \<open>'w\<close>: drivers, network, clock and terminal are functions on it. A double
  is a real; \<open>f64_ops\<close> rounds.
\<close>

section \<open>The trait\<close>

datatype precision = F32 | F16

fun precision_size :: "precision \<Rightarrow> nat" where
  "precision_size F32 = 4"
| "precision_size F16 = 2"

fun precision_str :: "precision \<Rightarrow> string" where
  "precision_str F32 = ''fp32''"
| "precision_str F16 = ''fp16''"

record device_info =
  di_name :: string
  di_backend :: string
  di_device_type :: string

record gemm_result =
  gr_device :: string
  gr_backend :: string
  gr_precision :: precision
  gr_n :: nat
  gr_iterations :: nat
  gr_seconds :: real
  gr_tflops :: real
  gr_verified :: bool

record bandwidth_result =
  br_device :: string
  br_backend :: string
  br_bytes_per_iter :: nat
  br_iterations :: nat
  br_seconds :: real
  br_gb_per_s :: real

record network_result =
  nr_down_mbps :: real
  nr_up_mbps :: real
  nr_latency_ms :: real

record 'w backend =
  be_device_info :: device_info
  be_gemm :: "nat \<Rightarrow> precision \<Rightarrow> nat \<Rightarrow> nat \<Rightarrow> 'w \<Rightarrow> (anyhow + gemm_result) \<times> 'w"
  be_bandwidth :: "nat \<Rightarrow> nat \<Rightarrow> nat \<Rightarrow> 'w \<Rightarrow> (anyhow + bandwidth_result) \<times> 'w"

record f64_ops =
  f_round :: "real \<Rightarrow> real"
  f_powi :: "real \<Rightarrow> nat \<Rightarrow> real"

definition gemm_tflops :: "f64_ops \<Rightarrow> nat \<Rightarrow> nat \<Rightarrow> real \<Rightarrow> real" where
  "gemm_tflops F n iterations seconds =
     (let r = f_round F in r (r (r (r (2 * f_powi F (real n) 3) * real iterations) / seconds) / 10 ^ 12))"

definition gb_per_s :: "f64_ops \<Rightarrow> nat \<Rightarrow> nat \<Rightarrow> real \<Rightarrow> real" where
  "gb_per_s F bytes_per_iter iterations seconds =
     (let r = f_round F in r (r (r (r (real bytes_per_iter) * real iterations) / seconds) / 10 ^ 9))"

section \<open>The backends\<close>

text \<open>
  A buffer is a function of the index. \<open>run\<close> is one dispatch of the kernel for the size
  and precision, with both inputs all ones; \<open>k\<close> dispatches are submitted at once.
\<close>

type_synonym buffer = "nat \<Rightarrow> real"

definition time_dispatches :: "(buffer \<Rightarrow> buffer) \<Rightarrow> nat \<Rightarrow> buffer \<Rightarrow> buffer" where
  "time_dispatches run iterations c = (run ^^ iterations) c"

definition native_verified :: "nat \<Rightarrow> real \<Rightarrow> bool" where
  "native_verified n x \<longleftrightarrow> \<bar>x - real n\<bar> < max (real n * (1 / 1000)) 1"

section \<open>The network probe\<close>

definition DOWN_URL :: string where
  "DOWN_URL = ''https://speed.cloudflare.com/__down''"

definition UP_URL :: string where
  "UP_URL = ''https://speed.cloudflare.com/__up''"

record net_config =
  nc_down_bytes :: nat
  nc_up_bytes :: nat
  nc_latency_samples :: nat

definition net_config_default :: net_config where
  "net_config_default = \<lparr>nc_down_bytes = 25000000, nc_up_bytes = 10000000, nc_latency_samples = 5\<rparr>"

text \<open>
  A reply: what its body reads (the sizes of the chunks, or an I/O error), the seconds from the
  request to the end of the body and the seconds of the body alone.
\<close>

record http_reply =
  hr_body :: "string + nat list"
  hr_secs :: real
  hr_body_secs :: real

record 'w http_client =
  hc_get :: "string \<Rightarrow> 'w \<Rightarrow> (string + http_reply) \<times> 'w"
  hc_post :: "string \<Rightarrow> nat \<Rightarrow> 'w \<Rightarrow> (string + real) \<times> 'w"

definition to_mbps :: "f64_ops \<Rightarrow> nat \<Rightarrow> real \<Rightarrow> real" where
  "to_mbps F bytes secs =
     (let r = f_round F in r (r (r (r (real bytes) * 8) / max secs (r (1 / 10 ^ 9))) / 10 ^ 6))"

text \<open>The loop of \<^verbatim>\<open>measure_latency\<close>; \<open>None\<close> is the infinity it starts from.\<close>

fun latency_loop ::
  "f64_ops \<Rightarrow> 'w http_client \<Rightarrow> nat \<Rightarrow> real option \<Rightarrow> 'w \<Rightarrow> (anyhow + real option) \<times> 'w" where
  "latency_loop F C 0 best w = (Inr best, w)"
| "latency_loop F C (Suc k) best w =
     (case hc_get C (DOWN_URL @ ''?bytes=0'') w of
        (Inl e, w') \<Rightarrow> (Inl [''latency request failed: '' @ e], w')
      | (Inr r, w') \<Rightarrow>
          (case hr_body r of
             Inl e \<Rightarrow> (Inl [e], w')
           | Inr _ \<Rightarrow>
               (let ms = f_round F (hr_secs r * 1000)
                in latency_loop F C k (Some (case best of None \<Rightarrow> ms | Some b \<Rightarrow> min b ms)) w')))"

definition measure_latency :: "f64_ops \<Rightarrow> 'w http_client \<Rightarrow> nat \<Rightarrow> 'w \<Rightarrow> (anyhow + real option) \<times> 'w" where
  "measure_latency F C samples w = latency_loop F C (max samples 1) None w"

text \<open>The reader is read until it gives nothing.\<close>

definition measure_download :: "f64_ops \<Rightarrow> 'w http_client \<Rightarrow> nat \<Rightarrow> 'w \<Rightarrow> (anyhow + real) \<times> 'w" where
  "measure_download F C bytes w =
     (case hc_get C (DOWN_URL @ ''?bytes='' @ show_nat bytes) w of
        (Inl e, w') \<Rightarrow> (Inl [''download request failed: '' @ e], w')
      | (Inr r, w') \<Rightarrow>
          (case hr_body r of
             Inl e \<Rightarrow> (Inl [e], w')
           | Inr chunks \<Rightarrow> (Inr (to_mbps F (sum_list (takeWhile (\<lambda>n. n \<noteq> 0) chunks)) (hr_body_secs r)), w')))"

definition measure_upload :: "f64_ops \<Rightarrow> 'w http_client \<Rightarrow> nat \<Rightarrow> 'w \<Rightarrow> (anyhow + real) \<times> 'w" where
  "measure_upload F C bytes w =
     (case hc_post C UP_URL bytes w of
        (Inl e, w') \<Rightarrow> (Inl [''upload request failed: '' @ e], w')
      | (Inr secs, w') \<Rightarrow> (Inr (to_mbps F bytes secs), w'))"

text \<open>
  At least one sample is taken, so the latency is a number: the \<open>None\<close> of
  \<open>measure_latency\<close> does not occur (\<open>latency_is_measured\<close> below).
\<close>

definition probe_network :: "f64_ops \<Rightarrow> 'w http_client \<Rightarrow> net_config \<Rightarrow> 'w \<Rightarrow> (anyhow + network_result) \<times> 'w" where
  "probe_network F C cfg w =
     (case measure_latency F C (nc_latency_samples cfg) w of
        (Inl e, w1) \<Rightarrow> (Inl e, w1)
      | (Inr latency, w1) \<Rightarrow>
          (case measure_download F C (nc_down_bytes cfg) w1 of
             (Inl e, w2) \<Rightarrow> (Inl e, w2)
           | (Inr down, w2) \<Rightarrow>
               (case measure_upload F C (nc_up_bytes cfg) w2 of
                  (Inl e, w3) \<Rightarrow> (Inl e, w3)
                | (Inr up, w3) \<Rightarrow>
                    (Inr \<lparr>nr_down_mbps = down, nr_up_mbps = up, nr_latency_ms = the latency\<rparr>, w3))))"

lemma latency_loop_some:
  "best \<noteq> None \<or> 0 < k \<Longrightarrow> fst (latency_loop F C k best w) = Inr l \<Longrightarrow> l \<noteq> None"
  by (induction F C k best w rule: latency_loop.induct)
    (auto simp: Let_def split: prod.splits sum.splits)

lemma latency_is_measured: "fst (measure_latency F C samples w) = Inr l \<Longrightarrow> l \<noteq> None"
  unfolding measure_latency_def by (rule latency_loop_some) auto

section \<open>The suite\<close>

record suite_config =
  sc_n :: nat
  sc_iters :: nat
  sc_warmup :: nat
  sc_bandwidth_elems :: nat
  sc_include_fp16 :: bool
  sc_include_network :: bool

definition suite_config_default :: suite_config where
  "suite_config_default =
     \<lparr>sc_n = 2048, sc_iters = 50, sc_warmup = 10, sc_bandwidth_elems = 32000000,
      sc_include_fp16 = True, sc_include_network = True\<rparr>"

record suite_report =
  rr_device :: device_info
  rr_gemm_fp32 :: "gemm_result option"
  rr_gemm_fp16 :: "gemm_result option"
  rr_bandwidth :: "bandwidth_result option"
  rr_network :: "network_result option"

text \<open>What the program calls: the backends' constructors, standard error, the spinner, HTTP.\<close>

record 'w bench_ops =
  bo_wgpu :: "'w \<Rightarrow> (anyhow + 'w backend) \<times> 'w"
  bo_metal :: "'w \<Rightarrow> (anyhow + 'w backend) \<times> 'w"
  bo_cuda :: "'w \<Rightarrow> (anyhow + 'w backend) \<times> 'w"
  bo_eprintln :: "string \<Rightarrow> 'w \<Rightarrow> 'w"
  bo_message :: "string \<Rightarrow> 'w \<Rightarrow> 'w"
  bo_client :: "'w http_client"
  bo_f64 :: f64_ops

text \<open>A best-effort phase: its error is a note on standard error.\<close>

definition best_effort ::
  "'w bench_ops \<Rightarrow> string \<Rightarrow> (anyhow + 'r) \<times> 'w \<Rightarrow> 'r option \<times> 'w" where
  "best_effort ops what r =
     (case r of
        (Inr x, w) \<Rightarrow> (Some x, w)
      | (Inl e, w) \<Rightarrow> (None, bo_eprintln ops (''note: '' @ what @ '' skipped ('' @ error_head e @ '')'') w))"

definition run_suite ::
  "'w bench_ops \<Rightarrow> 'w backend \<Rightarrow> suite_config \<Rightarrow> (string \<Rightarrow> 'w \<Rightarrow> 'w) \<Rightarrow> 'w \<Rightarrow> (anyhow + suite_report) \<times> 'w" where
  "run_suite ops be cfg on_phase w =
     (case be_gemm be (sc_n cfg) F32 (sc_warmup cfg) (sc_iters cfg) (on_phase ''fp32 GEMM'' w) of
        (Inl e, w1) \<Rightarrow> (Inl e, w1)
      | (Inr g32, w1) \<Rightarrow>
          (let (g16, w2) =
                 (if sc_include_fp16 cfg then
                    best_effort ops ''fp16 GEMM''
                      (be_gemm be (sc_n cfg) F16 (sc_warmup cfg) (sc_iters cfg) (on_phase ''fp16 GEMM'' w1))
                  else (None, w1));
               (bw, w3) =
                 best_effort ops ''bandwidth''
                   (be_bandwidth be (sc_bandwidth_elems cfg) (sc_warmup cfg) (sc_iters cfg)
                      (on_phase ''memory bandwidth'' w2));
               (nw, w4) =
                 (if sc_include_network cfg then
                    best_effort ops ''network probe''
                      (probe_network (bo_f64 ops) (bo_client ops) net_config_default (on_phase ''network probe'' w3))
                  else (None, w3))
           in (Inr \<lparr>rr_device = be_device_info be, rr_gemm_fp32 = Some g32, rr_gemm_fp16 = g16,
                    rr_bandwidth = bw, rr_network = nw\<rparr>, w4)))"

end
