(* ===== verification/Gpu_Bench_Cli.thy ===== *)
theory Gpu_Bench_Cli
  imports Gpu_Bench
begin

text \<open>
  \<^verbatim>\<open>crates/gpu-bench/src/main.rs\<close>: which backend \<^verbatim>\<open>run\<close> measures, in which
  order, and what it prints. What \<^verbatim>\<open>cfg\<close> decides at build time is a record of the
  build; the rendering of tables and of JSON is not modelled, a table is its header and rows.
\<close>

section \<open>The arguments\<close>

datatype backend_choice = Auto | Wgpu | Metal | Cuda

record run_args =
  ra_n :: nat
  ra_iters :: nat
  ra_warmup :: nat
  ra_bandwidth_m :: nat
  ra_backend :: backend_choice
  ra_skip_fp16 :: bool
  ra_json :: bool
  ra_verbose :: bool

record build =
  bd_macos :: bool
  bd_cuda :: bool

section \<open>Choosing a backend\<close>

definition concrete ::
  "backend_choice \<Rightarrow> (anyhow + 'w backend) \<times> 'w \<Rightarrow> (anyhow + 'w backend \<times> backend_choice) \<times> 'w" where
  "concrete c r =
     (case r of (Inl e, w) \<Rightarrow> (Inl e, w) | (Inr b, w) \<Rightarrow> (Inr (b, c), w))"

definition auto_wgpu :: "'w bench_ops \<Rightarrow> bool \<Rightarrow> 'w \<Rightarrow> (anyhow + 'w backend \<times> backend_choice) \<times> 'w" where
  "auto_wgpu ops verbose w =
     concrete Wgpu (bo_wgpu ops (if verbose then bo_eprintln ops ''auto backend: portable wgpu'' w else w))"

definition auto_native ::
  "'w bench_ops \<Rightarrow> bool \<Rightarrow> backend_choice \<Rightarrow> string \<Rightarrow> string \<Rightarrow> (anyhow + 'w backend) \<times> 'w \<Rightarrow>
   (anyhow + 'w backend \<times> backend_choice) \<times> 'w" where
  "auto_native ops verbose c found name r =
     (case r of
        (Inr b, w) \<Rightarrow> (Inr (b, c), if verbose then bo_eprintln ops (''auto backend: '' @ found) w else w)
      | (Inl e, w) \<Rightarrow> auto_wgpu ops verbose
          (bo_eprintln ops (''auto backend: '' @ name @ '' unavailable ('' @ error_chain e @ ''); falling back to wgpu'') w))"

definition make_auto_backend ::
  "build \<Rightarrow> 'w bench_ops \<Rightarrow> bool \<Rightarrow> 'w \<Rightarrow> (anyhow + 'w backend \<times> backend_choice) \<times> 'w" where
  "make_auto_backend bd ops verbose w =
     (if bd_cuda bd then auto_native ops verbose Cuda ''cuBLAS (native NVIDIA)'' ''cuBLAS'' (bo_cuda ops w)
      else if bd_macos bd then auto_native ops verbose Metal ''native Metal (Apple GPU)'' ''Metal'' (bo_metal ops w)
      else auto_wgpu ops verbose w)"

fun make_backend ::
  "build \<Rightarrow> 'w bench_ops \<Rightarrow> backend_choice \<Rightarrow> bool \<Rightarrow> 'w \<Rightarrow> (anyhow + 'w backend \<times> backend_choice) \<times> 'w" where
  "make_backend bd ops Auto verbose w = make_auto_backend bd ops verbose w"
| "make_backend bd ops Wgpu verbose w = concrete Wgpu (bo_wgpu ops w)"
| "make_backend bd ops Metal verbose w =
     (if bd_macos bd then concrete Metal (bo_metal ops w)
      else (Inl [''the metal backend is macOS-only''], w))"
| "make_backend bd ops Cuda verbose w =
     (if bd_cuda bd then concrete Cuda (bo_cuda ops w)
      else (Inl [''cuda backend not built '' @ [CHR 0xE2, CHR 0x80, CHR 0x94] @
        '' rebuild with `--features cuda` on an NVIDIA host''], w))"

section \<open>Labels and cells\<close>

fun backend_label :: "backend_choice \<Rightarrow> string" where
  "backend_label Metal = ''Native (Metal)''"
| "backend_label Cuda = ''Native (cuBLAS)''"
| "backend_label Wgpu = ''Portable (wgpu)''"
| "backend_label Auto = ''auto''"

definition native_peak_desc :: "backend_choice \<Rightarrow> string" where
  "native_peak_desc c =
     (case c of
        Metal \<Rightarrow> ''peak via Apple matrix units (simdgroup_matrix)''
      | Cuda \<Rightarrow> ''peak via NVIDIA tensor cores (cuBLAS)''
      | _ \<Rightarrow> ''native peak'')"

definition em_dash :: string where
  "em_dash = [CHR 0xE2, CHR 0x80, CHR 0x94]"

text \<open>\<open>None\<close> is the panic of \<^verbatim>\<open>unreachable!\<close>.\<close>

fun backend_note :: "backend_choice \<Rightarrow> string option" where
  "backend_note Wgpu = Some (''portable ALU throughput (no tensor cores) '' @ em_dash @
     '' good for ranking, below vendor peak.'')"
| "backend_note Metal = Some (''native Metal simdgroup_matrix (Apple matrix units) '' @ em_dash @
     '' a basic kernel: above the portable path, below a fully-tuned library.'')"
| "backend_note Cuda = Some ''cuBLAS on NVIDIA tensor cores.''"
| "backend_note Auto = None"

definition tflops_cell :: "gemm_result option \<Rightarrow> string" where
  "tflops_cell g =
     (case g of
        Some g \<Rightarrow> if gr_verified g then fmt_fixed 2 (gr_tflops g) @ '' TFLOP/s''
                  else fmt_fixed 2 (gr_tflops g) @ '' TFLOP/s (unverified)''
      | None \<Rightarrow> ''n/a'')"

definition bandwidth_cell :: "bandwidth_result option \<Rightarrow> string" where
  "bandwidth_cell b = (case b of Some b \<Rightarrow> fmt_fixed 1 (br_gb_per_s b) @ '' GB/s'' | None \<Rightarrow> ''n/a'')"

definition down_arrow :: string where
  "down_arrow = [CHR 0xE2, CHR 0x86, CHR 0x93]"

definition up_arrow :: string where
  "up_arrow = [CHR 0xE2, CHR 0x86, CHR 0x91]"

definition network_summary :: "network_result option \<Rightarrow> string" where
  "network_summary nw =
     (case nw of
        Some nw \<Rightarrow> ''Network: '' @ fmt_fixed 0 (nr_down_mbps nw) @ down_arrow @ '' / '' @
          fmt_fixed 0 (nr_up_mbps nw) @ up_arrow @ '' Mbps, latency '' @ fmt_fixed 1 (nr_latency_ms nw) @ '' ms''
      | None \<Rightarrow> ''Network: probe failed (offline?)'')"

section \<open>What is printed\<close>

datatype printed = Text string | Rows "string list" "string list list"

definition device_line :: "device_info \<Rightarrow> string" where
  "device_line d = ''Device:  '' @ di_name d @ '' ('' @ di_backend d @ '', '' @ di_device_type d @ '')''"

definition gemm_row :: "gemm_result \<Rightarrow> string list" where
  "gemm_row g =
     [''GEMM '' @ precision_str (gr_precision g),
      fmt_fixed 2 (gr_tflops g) @ '' TFLOP/s'',
      ''n='' @ show_nat (gr_n g) @ '', '' @ show_nat (gr_iterations g) @ '' iters, '' @
        fmt_fixed 3 (gr_seconds g) @ ''s'' @
        (if gr_verified g then '', verified'' else '' '' @ em_dash @ '' UNVERIFIED'')]"

definition opt_list :: "'a option \<Rightarrow> 'a list" where
  "opt_list x = (case x of None \<Rightarrow> [] | Some y \<Rightarrow> [y])"

definition print_single :: "f64_ops \<Rightarrow> suite_report \<Rightarrow> backend_choice \<Rightarrow> run_args \<Rightarrow> printed list option" where
  "print_single F r resolved args =
     (let gemms = map gemm_row (opt_list (rr_gemm_fp32 r) @ opt_list (rr_gemm_fp16 r));
          skipped = (if rr_gemm_fp16 r = None \<and> \<not> ra_skip_fp16 args then
                       [[''GEMM fp16'', ''n/a'', ''not supported on this device'']] else []);
          bw = map (\<lambda>bw. [''Memory bandwidth'', fmt_fixed 1 (br_gb_per_s bw) @ '' GB/s'',
                 fmt_fixed 0 (f_round F (f_round F (real (br_bytes_per_iter bw)) / 10 ^ 6)) @ '' MB/iter, '' @
                 show_nat (br_iterations bw) @ '' iters, '' @ fmt_fixed 3 (br_seconds bw) @ ''s''])
               (opt_list (rr_bandwidth r));
          net = (case rr_network r of
                   Some nw \<Rightarrow> [''Network'',
                     fmt_fixed 0 (nr_down_mbps nw) @ down_arrow @ '' / '' @ fmt_fixed 0 (nr_up_mbps nw) @ up_arrow @ '' Mbps'',
                     ''latency '' @ fmt_fixed 1 (nr_latency_ms nw) @ '' ms (speed.cloudflare.com)'']
                 | None \<Rightarrow> [''Network'', ''n/a'', ''probe failed (offline?)''])
      in case backend_note resolved of
           None \<Rightarrow> None
         | Some note \<Rightarrow>
             Some [Text (device_line (rr_device r)),
                   Rows [''Measurement'', ''Value'', ''Detail''] (gemms @ skipped @ bw @ [net]),
                   Text (CHR 0x0A # ''Note: '' @ note)])"

definition print_comparison :: "suite_report \<Rightarrow> backend_choice \<Rightarrow> suite_report \<Rightarrow> run_args \<Rightarrow> printed list" where
  "print_comparison native resolved portable args =
     [Text (device_line (rr_device native)),
      Rows [''Measurement'', backend_label Wgpu, backend_label resolved]
        ([[''GEMM fp32'', tflops_cell (rr_gemm_fp32 portable), tflops_cell (rr_gemm_fp32 native)]] @
         (if ra_skip_fp16 args then []
          else [[''GEMM fp16'', tflops_cell (rr_gemm_fp16 portable), tflops_cell (rr_gemm_fp16 native)]]) @
         [[''Memory bandwidth'', bandwidth_cell (rr_bandwidth portable), bandwidth_cell (rr_bandwidth native)]]),
      Rows [] [[network_summary (rr_network native)]]] @
     (if ra_verbose args then
        [Text (CHR 0x0A # ''Note: '' @ backend_label Wgpu @ '' = cross-vendor ALU ranking; '' @
           backend_label resolved @ '' = '' @ native_peak_desc resolved @ ''. n='' @ show_nat (ra_n args) @
           '', '' @ show_nat (ra_iters args) @ '' iters.'')]
      else [])"

section \<open>The command\<close>

text \<open>
  The command ends with an error, with a JSON document (the reports that go into it), with what
  it prints, or by the panic.
\<close>

datatype outcome =
    Failed_With anyhow
  | Json_Single suite_report
  | Json_Pair suite_report suite_report
  | Printed "printed list"
  | Panicked

definition suite_config_of :: "run_args \<Rightarrow> suite_config" where
  "suite_config_of args =
     \<lparr>sc_n = ra_n args, sc_iters = ra_iters args, sc_warmup = ra_warmup args,
      sc_bandwidth_elems = ra_bandwidth_m args * 1000000, sc_include_fp16 = \<not> ra_skip_fp16 args,
      sc_include_network = True\<rparr>"

definition ellipsis :: string where
  "ellipsis = [CHR 0xE2, CHR 0x80, CHR 0xA6]"

definition spin :: "'w bench_ops \<Rightarrow> string \<Rightarrow> string \<Rightarrow> 'w \<Rightarrow> 'w" where
  "spin ops label phase = bo_message ops (label @ '': '' @ phase @ ellipsis)"

text \<open>The portable suite of comparison mode.\<close>

definition run_portable ::
  "build \<Rightarrow> 'w bench_ops \<Rightarrow> run_args \<Rightarrow> 'w \<Rightarrow> (anyhow + suite_report) \<times> 'w" where
  "run_portable bd ops args w =
     (case make_backend bd ops Wgpu (ra_verbose args) w of
        (Inl e, w1) \<Rightarrow> (Inl e, w1)
      | (Inr (be, _), w1) \<Rightarrow>
          (case run_suite ops be ((suite_config_of args)\<lparr>sc_include_network := False\<rparr>)
                  (spin ops ''benchmarking (portable wgpu)'') w1 of
             (r, w2) \<Rightarrow> (with_context ''running portable comparison suite'' r, w2)))"

definition run_main ::
  "build \<Rightarrow> 'w bench_ops \<Rightarrow> backend_choice \<Rightarrow> 'w backend \<Rightarrow> suite_report option \<Rightarrow> run_args \<Rightarrow> 'w \<Rightarrow> outcome \<times> 'w" where
  "run_main bd ops resolved be portable args w =
     (let label = (if portable \<noteq> None then ''benchmarking (native)'' else ''benchmarking'')
      in case run_suite ops be (suite_config_of args) (spin ops label) w of
           (Inl e, w1) \<Rightarrow> (Failed_With (''running benchmark suite'' # e), w1)
         | (Inr r, w1) \<Rightarrow>
             (if ra_json args then
                (case portable of Some p \<Rightarrow> Json_Pair r p | None \<Rightarrow> Json_Single r)
              else
                (case portable of
                   Some p \<Rightarrow> Printed (print_comparison r resolved p args)
                 | None \<Rightarrow>
                     (case print_single (bo_f64 ops) r resolved args of
                        None \<Rightarrow> Panicked
                      | Some out \<Rightarrow> Printed out)), w1))"

definition run_cmd :: "build \<Rightarrow> 'w bench_ops \<Rightarrow> run_args \<Rightarrow> 'w \<Rightarrow> outcome \<times> 'w" where
  "run_cmd bd ops args w =
     (case make_backend bd ops (ra_backend args) (ra_verbose args) w of
        (Inl e, w1) \<Rightarrow> (Failed_With (''initializing backend'' # e), w1)
      | (Inr (be, resolved), w1) \<Rightarrow>
          (let w2 = bo_message ops (''benchmarking'' @ ellipsis) w1
           in if ra_backend args = Auto \<and> resolved \<noteq> Wgpu then
                (case run_portable bd ops args w2 of
                   (Inl e, w3) \<Rightarrow> (Failed_With e, w3)
                 | (Inr p, w3) \<Rightarrow> run_main bd ops resolved be (Some p) args w3)
              else run_main bd ops resolved be None args w2))"

section \<open>The other commands\<close>

record net_args =
  na_down_mb :: nat
  na_up_mb :: nat
  na_latency_samples :: nat
  na_json :: bool

definition net_cmd :: "'w bench_ops \<Rightarrow> (network_result \<Rightarrow> string) \<Rightarrow> net_args \<Rightarrow> 'w \<Rightarrow> (anyhow + printed list) \<times> 'w" where
  "net_cmd ops json args w =
     (case probe_network (bo_f64 ops) (bo_client ops)
            \<lparr>nc_down_bytes = na_down_mb args * 1000000, nc_up_bytes = na_up_mb args * 1000000,
             nc_latency_samples = na_latency_samples args\<rparr> w of
        (Inl e, w1) \<Rightarrow> (Inl (''network probe'' # e), w1)
      | (Inr r, w1) \<Rightarrow>
          (Inr (if na_json args then [Text (json r)]
                else [Rows [''Metric'', ''Value'']
                        [[''Download'', fmt_fixed 1 (nr_down_mbps r) @ '' Mbps''],
                         [''Upload'', fmt_fixed 1 (nr_up_mbps r) @ '' Mbps''],
                         [''Latency'', fmt_fixed 1 (nr_latency_ms r) @ '' ms'']],
                      Text (CHR 0x0A # ''Peer: speed.cloudflare.com'')]), w1))"

definition list_cmd :: "(device_info list \<Rightarrow> string) \<Rightarrow> bool \<Rightarrow> device_info list \<Rightarrow> printed list" where
  "list_cmd json_text json devices =
     (if json then [Text (json_text devices)]
      else if devices = [] then [Text ''No GPU adapters found.'']
      else [Rows [''Device'', ''Backend'', ''Type'']
              (map (\<lambda>d. [di_name d, di_backend d, di_device_type d]) devices)])"

end
