(* ===== verification/Gpu_Kernels.thy ===== *)
theory Gpu_Kernels
  imports Prelude
begin

text \<open>
  The GPU kernels embedded in \<^verbatim>\<open>crates/gpu-bench\<close> and in the native worker of the
  host agent: the tiled WGSL matrix product, the grid-stride WGSL triad, and the Metal
  \<^verbatim>\<open>simdgroup_matrix\<close> product. A buffer is a function from its index. The arithmetic of
  the device is a parameter (\<open>add\<close>, \<open>mul\<close>, \<open>zero\<close>), so that what is
  proved holds for rounded arithmetic too; index arithmetic is \<^verbatim>\<open>u32\<close>, with the
  wrap-around written out. The threads of a workgroup run in any order between two barriers:
  the order is a parameter.
\<close>

section \<open>Unsigned 32-bit arithmetic\<close>

definition u32 :: "nat \<Rightarrow> nat" where
  "u32 x = x mod 2 ^ 32"

lemma u32_id [simp]: "x < 2 ^ 32 \<Longrightarrow> u32 x = x"
  by (simp add: u32_def)

definition div_ceil :: "nat \<Rightarrow> nat \<Rightarrow> nat" where
  "div_ceil x d = (if x mod d = 0 then x div d else x div d + 1)"

section \<open>The tiled matrix product\<close>

definition TILE :: nat where
  "TILE = 16"

text \<open>
  The state of a workgroup: the two shared tiles and the accumulator of every thread. A thread
  is its local id (x, y); \<open>'h\<close> is the element type of the inputs (\<open>f32\<close> or
  \<open>f16\<close>), \<open>'a\<close> that of the accumulator.
\<close>

record ('h, 'a) group_state =
  gs_tile_a :: "nat \<Rightarrow> 'h"
  gs_tile_b :: "nat \<Rightarrow> 'h"
  gs_acc :: "nat \<times> nat \<Rightarrow> 'a"

definition elem :: "nat \<Rightarrow> nat \<Rightarrow> nat \<Rightarrow> nat" where
  "elem n row col = u32 (row * n + col)"

definition global_row :: "nat \<times> nat \<Rightarrow> nat \<times> nat \<Rightarrow> nat" where
  "global_row wg lid = snd wg * TILE + snd lid"

definition global_col :: "nat \<times> nat \<Rightarrow> nat \<times> nat \<Rightarrow> nat" where
  "global_col wg lid = fst wg * TILE + fst lid"

text \<open>What one thread stores before the first barrier of iteration \<open>t\<close>.\<close>

definition load_thread ::
  "'h \<Rightarrow> nat \<Rightarrow> (nat \<Rightarrow> 'h) \<Rightarrow> (nat \<Rightarrow> 'h) \<Rightarrow> nat \<times> nat \<Rightarrow> nat \<Rightarrow> nat \<times> nat \<Rightarrow>
   ('h, 'a) group_state \<Rightarrow> ('h, 'a) group_state" where
  "load_thread zero n a b wg t lid s =
     (let row = global_row wg lid; col = global_col wg lid;
          a_col = t * TILE + fst lid; b_row = t * TILE + snd lid; slot = snd lid * TILE + fst lid
      in s\<lparr>gs_tile_a := (gs_tile_a s)(slot := if row < n \<and> a_col < n then a (elem n row a_col) else zero),
           gs_tile_b := (gs_tile_b s)(slot := if b_row < n \<and> col < n then b (elem n b_row col) else zero)\<rparr>)"

text \<open>What one thread adds between the two barriers.\<close>

definition accumulate ::
  "('a \<Rightarrow> 'a \<Rightarrow> 'a) \<Rightarrow> ('h \<Rightarrow> 'h \<Rightarrow> 'a) \<Rightarrow> nat \<times> nat \<Rightarrow> ('h, 'a) group_state \<Rightarrow> ('h, 'a) group_state" where
  "accumulate add mul lid s =
     s\<lparr>gs_acc := (gs_acc s)(lid := foldl (\<lambda>acc i. add acc
         (mul (gs_tile_a s (snd lid * TILE + i)) (gs_tile_b s (i * TILE + fst lid))))
       (gs_acc s lid) [0..<TILE])\<rparr>"

text \<open>\<open>ths t\<close> and \<open>ths' t\<close> are the orders of the threads in the two halves of iteration \<open>t\<close>.\<close>

definition tile_step ::
  "('a \<Rightarrow> 'a \<Rightarrow> 'a) \<Rightarrow> ('h \<Rightarrow> 'h \<Rightarrow> 'a) \<Rightarrow> 'h \<Rightarrow> nat \<Rightarrow> (nat \<Rightarrow> 'h) \<Rightarrow> (nat \<Rightarrow> 'h) \<Rightarrow> nat \<times> nat \<Rightarrow>
   (nat \<times> nat) list \<Rightarrow> (nat \<times> nat) list \<Rightarrow> nat \<Rightarrow> ('h, 'a) group_state \<Rightarrow> ('h, 'a) group_state" where
  "tile_step add mul zero n a b wg ths ths' t s =
     fold (accumulate add mul) ths' (fold (load_thread zero n a b wg t) ths s)"

definition num_tiles :: "nat \<Rightarrow> nat" where
  "num_tiles n = u32 (n + TILE - 1) div TILE"

definition gemm_group ::
  "('a \<Rightarrow> 'a \<Rightarrow> 'a) \<Rightarrow> ('h \<Rightarrow> 'h \<Rightarrow> 'a) \<Rightarrow> 'h \<Rightarrow> nat \<Rightarrow> (nat \<Rightarrow> 'h) \<Rightarrow> (nat \<Rightarrow> 'h) \<Rightarrow> nat \<times> nat \<Rightarrow>
   (nat \<Rightarrow> (nat \<times> nat) list) \<Rightarrow> (nat \<Rightarrow> (nat \<times> nat) list) \<Rightarrow> ('h, 'a) group_state \<Rightarrow> ('h, 'a) group_state" where
  "gemm_group add mul zero n a b wg ths ths' s =
     fold (\<lambda>t. tile_step add mul zero n a b wg (ths t) (ths' t) t) [0..<num_tiles n] s"

definition store_thread :: "nat \<Rightarrow> nat \<times> nat \<Rightarrow> ('h, 'a) group_state \<Rightarrow> nat \<times> nat \<Rightarrow> (nat \<Rightarrow> 'a) \<Rightarrow> nat \<Rightarrow> 'a" where
  "store_thread n wg s lid c =
     (let row = global_row wg lid; col = global_col wg lid
      in if row < n \<and> col < n then c(elem n row col := gs_acc s lid) else c)"

text \<open>
  One workgroup from the start: its tiles are undefined (\<open>junk\<close>), the accumulators are
  zero; at the end every thread stores its element.
\<close>

definition workgroup ::
  "('a \<Rightarrow> 'a \<Rightarrow> 'a) \<Rightarrow> ('h \<Rightarrow> 'h \<Rightarrow> 'a) \<Rightarrow> 'h \<Rightarrow> 'a \<Rightarrow> nat \<Rightarrow> (nat \<Rightarrow> 'h) \<Rightarrow> (nat \<Rightarrow> 'h) \<Rightarrow>
   (nat \<Rightarrow> (nat \<times> nat) list) \<Rightarrow> (nat \<Rightarrow> (nat \<times> nat) list) \<Rightarrow> (nat \<times> nat) list \<Rightarrow> (nat \<Rightarrow> 'h) \<Rightarrow>
   nat \<times> nat \<Rightarrow> (nat \<Rightarrow> 'a) \<Rightarrow> nat \<Rightarrow> 'a" where
  "workgroup add mul zero zero_acc n a b ths ths' order junk wg c =
     fold (store_thread n wg (gemm_group add mul zero n a b wg ths ths'
         \<lparr>gs_tile_a = junk, gs_tile_b = junk, gs_acc = (\<lambda>_. zero_acc)\<rparr>)) order c"

text \<open>The dispatch of \<open>div_ceil n TILE\<close> by as many workgroups, in any order.\<close>

definition gemm_groups :: "nat \<Rightarrow> nat" where
  "gemm_groups n = div_ceil n TILE"

definition gemm_dispatch ::
  "('a \<Rightarrow> 'a \<Rightarrow> 'a) \<Rightarrow> ('h \<Rightarrow> 'h \<Rightarrow> 'a) \<Rightarrow> 'h \<Rightarrow> 'a \<Rightarrow> nat \<Rightarrow> (nat \<Rightarrow> 'h) \<Rightarrow> (nat \<Rightarrow> 'h) \<Rightarrow>
   (nat \<Rightarrow> (nat \<times> nat) list) \<Rightarrow> (nat \<Rightarrow> (nat \<times> nat) list) \<Rightarrow> (nat \<times> nat) list \<Rightarrow> (nat \<Rightarrow> 'h) \<Rightarrow>
   (nat \<times> nat) list \<Rightarrow> (nat \<Rightarrow> 'a) \<Rightarrow> nat \<Rightarrow> 'a" where
  "gemm_dispatch add mul zero zero_acc n a b ths ths' order junk wgs c =
     fold (workgroup add mul zero zero_acc n a b ths ths' order junk) wgs c"

section \<open>The grid-stride triad\<close>

text \<open>
  One thread: \<open>None\<close> is a loop that does not end, which the wrap-around of
  \<^verbatim>\<open>i + stride\<close> can cause.
\<close>

partial_function (option) triad_thread ::
  "(nat \<Rightarrow> 'a) \<Rightarrow> nat \<Rightarrow> nat \<Rightarrow> nat \<Rightarrow> (nat \<Rightarrow> 'a) \<Rightarrow> (nat \<Rightarrow> 'a) option" where
  "triad_thread f n stride i c =
     (if i < n then triad_thread f n stride (u32 (i + stride)) (c(i := f i)) else Some c)"

definition triad_value :: "('a \<Rightarrow> 'a \<Rightarrow> 'a) \<Rightarrow> ('a \<Rightarrow> 'a \<Rightarrow> 'a) \<Rightarrow> 'a \<Rightarrow> (nat \<Rightarrow> 'a) \<Rightarrow> (nat \<Rightarrow> 'a) \<Rightarrow> nat \<Rightarrow> 'a" where
  "triad_value add mul two a b i = add (a i) (mul two (b i))"

text \<open>The number of workgroups the host dispatches for \<open>elements\<close>, truncated to 32 bits.\<close>

definition triad_groups :: "nat \<Rightarrow> nat" where
  "triad_groups elements = min (div_ceil (u32 elements) 256) 65535"

fun triad_threads ::
  "(nat \<Rightarrow> 'a) \<Rightarrow> nat \<Rightarrow> nat \<Rightarrow> nat list \<Rightarrow> (nat \<Rightarrow> 'a) \<Rightarrow> (nat \<Rightarrow> 'a) option" where
  "triad_threads f n stride [] c = Some c"
| "triad_threads f n stride (g # gs) c =
     (case triad_thread f n stride g c of None \<Rightarrow> None | Some c' \<Rightarrow> triad_threads f n stride gs c')"

text \<open>The whole dispatch, with the global ids of its threads in any order.\<close>

definition triad_dispatch ::
  "('a \<Rightarrow> 'a \<Rightarrow> 'a) \<Rightarrow> ('a \<Rightarrow> 'a \<Rightarrow> 'a) \<Rightarrow> 'a \<Rightarrow> (nat \<Rightarrow> 'a) \<Rightarrow> (nat \<Rightarrow> 'a) \<Rightarrow> nat \<Rightarrow> nat list \<Rightarrow> (nat \<Rightarrow> 'a) \<Rightarrow>
   (nat \<Rightarrow> 'a) option" where
  "triad_dispatch add mul two a b n gids c =
     triad_threads (triad_value add mul two a b) n (u32 (triad_groups n * 256)) gids c"

section \<open>The simdgroup product\<close>

text \<open>
  \<^verbatim>\<open>simdgroup_load\<close> of an 8 by 8 tile at an offset with the matrix's row length, the
  multiply-accumulate of tiles, and \<^verbatim>\<open>simdgroup_store\<close>, as the Metal specification
  defines them, in exact arithmetic.
\<close>

definition simd_load :: "(nat \<Rightarrow> 'a) \<Rightarrow> nat \<Rightarrow> nat \<Rightarrow> nat \<times> nat \<Rightarrow> 'a" where
  "simd_load buf off n = (\<lambda>(i, j). buf (off + i * n + j))"

definition simd_mac ::
  "(nat \<times> nat \<Rightarrow> 'a::comm_semiring_0) \<Rightarrow> (nat \<times> nat \<Rightarrow> 'a) \<Rightarrow> (nat \<times> nat \<Rightarrow> 'a) \<Rightarrow> nat \<times> nat \<Rightarrow> 'a" where
  "simd_mac a b acc = (\<lambda>(i, j). acc (i, j) + sum_list (map (\<lambda>l. a (i, l) * b (l, j)) [0..<8]))"

definition simd_store :: "(nat \<times> nat \<Rightarrow> 'a) \<Rightarrow> nat \<Rightarrow> nat \<Rightarrow> (nat \<Rightarrow> 'a) \<Rightarrow> nat \<Rightarrow> 'a" where
  "simd_store tile off n c = fold (\<lambda>(i, j) c. c(off + i * n + j := tile (i, j))) (List.product [0..<8] [0..<8]) c"

text \<open>
  The loop \<^verbatim>\<open>for (k = 0; k < N; k += 8)\<close>; for a 32-bit multiple \<open>n\<close> of 8,
  which both hosts require, \<open>k + 8 \<le> n\<close> and the sum does not wrap.
\<close>

function simd_loop ::
  "(nat \<Rightarrow> 'a::comm_semiring_0) \<Rightarrow> (nat \<Rightarrow> 'a) \<Rightarrow> nat \<Rightarrow> nat \<Rightarrow> nat \<Rightarrow> nat \<Rightarrow> (nat \<times> nat \<Rightarrow> 'a) \<Rightarrow> nat \<times> nat \<Rightarrow> 'a" where
  "simd_loop A B n row col k acc =
     (if k < n then simd_loop A B n row col (k + 8)
        (simd_mac (simd_load A (u32 (row * n + k)) n) (simd_load B (u32 (k * n + col)) n) acc)
      else acc)"
  by pat_completeness auto
termination by (relation "measure (\<lambda>(A, B, n, row, col, k, acc). n - k)") auto

declare simd_loop.simps [simp del]

definition simd_group ::
  "(nat \<Rightarrow> 'a::comm_semiring_0) \<Rightarrow> (nat \<Rightarrow> 'a) \<Rightarrow> nat \<Rightarrow> nat \<times> nat \<Rightarrow> (nat \<Rightarrow> 'a) \<Rightarrow> nat \<Rightarrow> 'a" where
  "simd_group A B n tgid c =
     (let row = snd tgid * 8; col = fst tgid * 8
      in simd_store (simd_loop A B n row col 0 (\<lambda>_. 0)) (u32 (row * n + col)) n c)"

text \<open>\<open>n / 8\<close> by \<open>n / 8\<close> threadgroups, in any order.\<close>

definition simd_dispatch ::
  "(nat \<Rightarrow> 'a::comm_semiring_0) \<Rightarrow> (nat \<Rightarrow> 'a) \<Rightarrow> nat \<Rightarrow> (nat \<times> nat) list \<Rightarrow> (nat \<Rightarrow> 'a) \<Rightarrow> nat \<Rightarrow> 'a" where
  "simd_dispatch A B n tgids c = fold (simd_group A B n) tgids c"

end
