(* ===== verification/Gpu_Kernels_Spec.thy ===== *)
theory Gpu_Kernels_Spec
  imports Gpu_Kernels
begin

text \<open>
  The kernels compute what the benchmark times: the tiled product is the plain product, element
  by element and in the same order of additions, whatever the order of threads and workgroups;
  the triad touches every element and ends; the simdgroup product is the product.
\<close>

section \<open>Writes of many threads\<close>

lemma fold_writes_other: "i \<notin> slot ` set xs \<Longrightarrow> fold (\<lambda>x f. f(slot x := v x)) xs f i = f i"
  by (induction xs arbitrary: f) auto

lemma fold_writes:
  assumes "inj_on slot (set xs)" "x \<in> set xs"
  shows "fold (\<lambda>x f. f(slot x := v x)) xs f (slot x) = v x"
  using assms
proof (induction xs arbitrary: f)
  case (Cons y ys)
  show ?case
  proof (cases "x \<in> set ys")
    case True
    with Cons show ?thesis by (simp add: inj_on_def)
  next
    case False
    with Cons.prems have "slot x \<notin> slot ` set ys" "x = y" by (auto simp: inj_on_def)
    then show ?thesis by (simp add: fold_writes_other [of "slot y"] del: fun_upd_apply) (simp add: fun_upd_apply)
  qed
qed simp

lemma fold_writes_at:
  "inj_on slot (set xs) \<Longrightarrow> x \<in> set xs \<Longrightarrow> i = slot x \<Longrightarrow> v x = r \<Longrightarrow>
    fold (\<lambda>x f. f(slot x := v x)) xs f i = r"
  using fold_writes [of slot xs x v f] by simp

lemma fold_writes_if:
  "fold (\<lambda>x f. if p x then f(slot x := v x) else f) xs f = fold (\<lambda>x f. f(slot x := v x)) (filter p xs) f"
  by (induction xs arbitrary: f) auto

lemma fold_product: "fold (\<lambda>x. fold (\<lambda>y. h (x, y)) ys) xs f = fold h (List.product xs ys) f"
  by (induction xs arbitrary: f) (simp_all add: fold_map comp_def)

section \<open>The tiled matrix product\<close>

definition schedule :: "(nat \<times> nat) list \<Rightarrow> bool" where
  "schedule xs \<longleftrightarrow> distinct xs \<and> set xs = {..<TILE} \<times> {..<TILE}"

text \<open>The reference: one element of the product, the products added in order.\<close>

definition gemm_elem ::
  "('a \<Rightarrow> 'a \<Rightarrow> 'a) \<Rightarrow> ('h \<Rightarrow> 'h \<Rightarrow> 'a) \<Rightarrow> 'a \<Rightarrow> nat \<Rightarrow> (nat \<Rightarrow> 'h) \<Rightarrow> (nat \<Rightarrow> 'h) \<Rightarrow> nat \<Rightarrow> nat \<Rightarrow> 'a" where
  "gemm_elem add mul zero_acc n a b row col =
     foldl (\<lambda>acc k. add acc (mul (a (row * n + k)) (b (k * n + col)))) zero_acc [0..<n]"

lemma slot_inj: "inj_on (\<lambda>lid. snd lid * TILE + fst lid) ({..<TILE} \<times> {..<TILE})"
proof (rule inj_onI, clarsimp)
  fix x y x' y' assume "x < TILE" "x' < TILE" "y * TILE + x = y' * TILE + x'"
  then have "(y * TILE + x) div TILE = (y' * TILE + x') div TILE" "(y * TILE + x) mod TILE = (y' * TILE + x') mod TILE"
    by simp_all
  with \<open>x < TILE\<close> \<open>x' < TILE\<close> show "x = x' \<and> y = y'" by simp
qed

lemma load_fold:
  "gs_tile_a (fold (load_thread zero n a b wg t) xs s) =
     fold (\<lambda>lid f. f(snd lid * TILE + fst lid := if global_row wg lid < n \<and> t * TILE + fst lid < n
       then a (elem n (global_row wg lid) (t * TILE + fst lid)) else zero)) xs (gs_tile_a s)"
  "gs_tile_b (fold (load_thread zero n a b wg t) xs s) =
     fold (\<lambda>lid f. f(snd lid * TILE + fst lid := if t * TILE + snd lid < n \<and> global_col wg lid < n
       then b (elem n (t * TILE + snd lid) (global_col wg lid)) else zero)) xs (gs_tile_b s)"
  "gs_acc (fold (load_thread zero n a b wg t) xs s) = gs_acc s"
  by (induction xs arbitrary: s) (simp_all add: load_thread_def Let_def)

lemma loaded_a:
  assumes "schedule xs" "x < TILE" "y < TILE"
  shows "gs_tile_a (fold (load_thread zero n a b wg t) xs s) (y * TILE + x) =
    (if snd wg * TILE + y < n \<and> t * TILE + x < n then a (elem n (snd wg * TILE + y) (t * TILE + x)) else zero)"
proof -
  have "inj_on (\<lambda>lid. snd lid * TILE + fst lid) (set xs)" "(x, y) \<in> set xs"
    using slot_inj assms by (auto simp: schedule_def)
  then show ?thesis
    unfolding load_fold by (rule fold_writes_at) (simp_all add: global_row_def)
qed

lemma loaded_b:
  assumes "schedule xs" "x < TILE" "y < TILE"
  shows "gs_tile_b (fold (load_thread zero n a b wg t) xs s) (y * TILE + x) =
    (if t * TILE + y < n \<and> fst wg * TILE + x < n then b (elem n (t * TILE + y) (fst wg * TILE + x)) else zero)"
proof -
  have "inj_on (\<lambda>lid. snd lid * TILE + fst lid) (set xs)" "(x, y) \<in> set xs"
    using slot_inj assms by (auto simp: schedule_def)
  then show ?thesis
    unfolding load_fold by (rule fold_writes_at) (simp_all add: global_col_def)
qed

lemma accumulate_fold:
  "gs_tile_a (fold (accumulate add mul) xs s) = gs_tile_a s \<and>
   gs_tile_b (fold (accumulate add mul) xs s) = gs_tile_b s \<and>
   (distinct xs \<longrightarrow> gs_acc (fold (accumulate add mul) xs s) lid =
     (if lid \<in> set xs then foldl (\<lambda>acc i. add acc
         (mul (gs_tile_a s (snd lid * TILE + i)) (gs_tile_b s (i * TILE + fst lid)))) (gs_acc s lid) [0..<TILE]
      else gs_acc s lid))"
  by (induction xs arbitrary: s) (auto simp: accumulate_def)

text \<open>The padded operands of the thread \<open>lid\<close>: what the tiles hold for the index \<open>k\<close> of the sum.\<close>

definition pad_a :: "'h \<Rightarrow> nat \<Rightarrow> (nat \<Rightarrow> 'h) \<Rightarrow> nat \<Rightarrow> nat \<Rightarrow> 'h" where
  "pad_a zero n a row k = (if row < n \<and> k < n then a (elem n row k) else zero)"

definition pad_b :: "'h \<Rightarrow> nat \<Rightarrow> (nat \<Rightarrow> 'h) \<Rightarrow> nat \<Rightarrow> nat \<Rightarrow> 'h" where
  "pad_b zero n b col k = (if k < n \<and> col < n then b (elem n k col) else zero)"

lemma tile_step_acc:
  assumes "schedule ths" "schedule ths'" "lid \<in> {..<TILE} \<times> {..<TILE}"
  shows "gs_acc (tile_step add mul zero n a b wg ths ths' t s) lid =
    foldl (\<lambda>acc k. add acc (mul (pad_a zero n a (global_row wg lid) k) (pad_b zero n b (global_col wg lid) k)))
      (gs_acc s lid) (map (\<lambda>i. t * TILE + i) [0..<TILE])"
proof -
  obtain x y where lid: "lid = (x, y)" "x < TILE" "y < TILE" using assms(3) by auto
  let ?s = "fold (load_thread zero n a b wg t) ths s"
  have "gs_acc (tile_step add mul zero n a b wg ths ths' t s) lid =
      foldl (\<lambda>acc i. add acc (mul (gs_tile_a ?s (y * TILE + i)) (gs_tile_b ?s (i * TILE + x)))) (gs_acc ?s lid) [0..<TILE]"
    using accumulate_fold [of add mul ths' ?s lid] assms(2,3)
    by (simp add: tile_step_def schedule_def lid)
  also have "\<dots> = foldl (\<lambda>acc i. add acc (mul (pad_a zero n a (global_row wg lid) (t * TILE + i))
      (pad_b zero n b (global_col wg lid) (t * TILE + i)))) (gs_acc s lid) [0..<TILE]"
    by (intro foldl_cong) (auto simp: loaded_a [OF assms(1)] loaded_b [OF assms(1)] lid pad_a_def pad_b_def
        global_row_def global_col_def load_fold(3))
  finally show ?thesis by (simp add: foldl_map)
qed

lemma gemm_group_acc:
  assumes "\<And>t. schedule (ths t)" "\<And>t. schedule (ths' t)" "lid \<in> {..<TILE} \<times> {..<TILE}"
  shows "gs_acc (fold (\<lambda>t. tile_step add mul zero n a b wg (ths t) (ths' t) t) [0..<T] s) lid =
    foldl (\<lambda>acc k. add acc (mul (pad_a zero n a (global_row wg lid) k) (pad_b zero n b (global_col wg lid) k)))
      (gs_acc s lid) [0..<T * TILE]"
proof (induction T)
  case (Suc T)
  have "[0..<Suc T * TILE] = [0..<T * TILE] @ map (\<lambda>i. T * TILE + i) [0..<TILE]"
    using upt_add_eq_append [of 0 "T * TILE" TILE] map_add_upt [of "T * TILE" TILE]
    by (simp add: add.commute)
  then show ?case by (simp add: Suc tile_step_acc [OF assms])
qed simp

text \<open>
  What is asked of the device's arithmetic: adding a product of zeros changes nothing on the
  values \<open>S\<close> an accumulator can have (in IEEE arithmetic, all but the negative zero).
\<close>

definition zero_neutral :: "('a \<Rightarrow> 'a \<Rightarrow> 'a) \<Rightarrow> ('h \<Rightarrow> 'h \<Rightarrow> 'a) \<Rightarrow> 'h \<Rightarrow> 'a \<Rightarrow> 'a set \<Rightarrow> bool" where
  "zero_neutral add mul zero zero_acc S \<longleftrightarrow> zero_acc \<in> S \<and>
     (\<forall>x\<in>S. (\<forall>y z. add x (mul y z) \<in> S) \<and> add x (mul zero zero) = x)"

lemma foldl_in: "(\<And>x k. x \<in> S \<Longrightarrow> h x k \<in> S) \<Longrightarrow> x \<in> S \<Longrightarrow> foldl h x ks \<in> S"
  by (induction ks arbitrary: x) auto

lemma foldl_idle: "(\<And>k. k \<in> set ks \<Longrightarrow> h x k = x) \<Longrightarrow> foldl h x ks = x"
  by (induction ks) auto

lemma mult_add_bound:
  assumes "row < n" "col < (n::nat)"
  shows "row * n + col < n * n"
proof -
  have "row * n + col < Suc row * n" using assms(2) by simp
  also have "\<dots> \<le> n * n" using assms(1) by (intro mult_le_mono1) simp
  finally show ?thesis .
qed

lemma elem_id:
  assumes "row < n" "col < n" "n * n \<le> 2 ^ 32"
  shows "elem n row col = row * n + col" "row * n + col < n * n"
proof -
  show "row * n + col < n * n" using assms(1,2) by (rule mult_add_bound)
  with assms(3) show "elem n row col = row * n + col" by (simp add: elem_def)
qed

lemma padded_sum:
  assumes "zero_neutral add mul zero zero_acc S" "row < n" "col < n" "n \<le> m" "n * n \<le> 2 ^ 32"
  shows "foldl (\<lambda>acc k. add acc (mul (pad_a zero n a row k) (pad_b zero n b col k))) zero_acc [0..<m] =
    gemm_elem add mul zero_acc n a b row col"
proof -
  let ?h = "\<lambda>acc k. add acc (mul (pad_a zero n a row k) (pad_b zero n b col k))"
  have split: "[0..<m] = [0..<n] @ [n..<m]"
    using upt_add_eq_append [of 0 n "m - n"] assms(4) by simp
  have idle: "foldl ?h (foldl ?h zero_acc [0..<n]) [n..<m] = foldl ?h zero_acc [0..<n]"
  proof (rule foldl_idle)
    fix k assume "k \<in> set [n..<m]"
    moreover have "foldl ?h zero_acc [0..<n] \<in> S"
      by (rule foldl_in) (use assms(1) in \<open>auto simp: zero_neutral_def\<close>)
    ultimately show "?h (foldl ?h zero_acc [0..<n]) k = foldl ?h zero_acc [0..<n]"
      using assms(1) by (simp add: zero_neutral_def pad_a_def pad_b_def)
  qed
  have "foldl ?h zero_acc [0..<n] = gemm_elem add mul zero_acc n a b row col"
    unfolding gemm_elem_def
    by (rule foldl_cong) (use assms(2,3,5) in \<open>auto simp: pad_a_def pad_b_def elem_id\<close>)
  with idle show ?thesis unfolding split foldl_append by simp
qed

text \<open>The tiles of a matrix of at most \<open>2 ^ 32\<close> elements cover it.\<close>

lemma num_tiles_cover:
  assumes "n * n \<le> 2 ^ 32"
  shows "n \<le> num_tiles n * TILE"
proof -
  have "n \<le> 2 ^ 16"
  proof (rule ccontr)
    assume "\<not> n \<le> 2 ^ 16"
    then have "(2 ^ 16 + 1) * (2 ^ 16 + 1) \<le> n * n" by (intro mult_le_mono) auto
    with assms show False by simp
  qed
  then show ?thesis by (simp add: num_tiles_def u32_def TILE_def)
qed

lemma gemm_thread_result:
  assumes "\<And>t. schedule (ths t)" "\<And>t. schedule (ths' t)" "lid \<in> {..<TILE} \<times> {..<TILE}"
    and "zero_neutral add mul zero zero_acc S" "n * n \<le> 2 ^ 32"
    and "global_row wg lid < n" "global_col wg lid < n"
  shows "gs_acc (gemm_group add mul zero n a b wg ths ths'
      \<lparr>gs_tile_a = junk, gs_tile_b = junk, gs_acc = (\<lambda>_. zero_acc)\<rparr>) lid =
    gemm_elem add mul zero_acc n a b (global_row wg lid) (global_col wg lid)"
  unfolding gemm_group_def gemm_group_acc [OF assms(1-3)]
  using padded_sum [OF assms(4,6,7) num_tiles_cover [OF assms(5)] assms(5)] by simp

text \<open>Every element has one thread, the thread one element.\<close>

definition owner :: "nat \<Rightarrow> nat \<Rightarrow> (nat \<times> nat) \<times> (nat \<times> nat)" where
  "owner row col = ((col div TILE, row div TILE), (col mod TILE, row mod TILE))"

lemma owner_global [simp]:
  "global_row (fst (owner row col)) (snd (owner row col)) = row"
  "global_col (fst (owner row col)) (snd (owner row col)) = col"
  by (simp_all add: owner_def global_row_def global_col_def)

lemma owner_unique:
  "lid \<in> {..<TILE} \<times> {..<TILE} \<Longrightarrow> owner (global_row wg lid) (global_col wg lid) = (wg, lid)"
  by (cases wg; cases lid) (auto simp: owner_def global_row_def global_col_def)

text \<open>All workgroups, in the dispatch's grid.\<close>

definition grid :: "nat \<Rightarrow> (nat \<times> nat) list \<Rightarrow> bool" where
  "grid n wgs \<longleftrightarrow> distinct wgs \<and> set wgs = {..<gemm_groups n} \<times> {..<gemm_groups n}"

definition in_matrix :: "nat \<Rightarrow> (nat \<times> nat) \<times> (nat \<times> nat) \<Rightarrow> bool" where
  "in_matrix n w \<longleftrightarrow> global_row (fst w) (snd w) < n \<and> global_col (fst w) (snd w) < n"

definition elem_of :: "nat \<Rightarrow> (nat \<times> nat) \<times> (nat \<times> nat) \<Rightarrow> nat" where
  "elem_of n w = elem n (global_row (fst w) (snd w)) (global_col (fst w) (snd w))"

definition result_of ::
  "('a \<Rightarrow> 'a \<Rightarrow> 'a) \<Rightarrow> ('h \<Rightarrow> 'h \<Rightarrow> 'a) \<Rightarrow> 'h \<Rightarrow> 'a \<Rightarrow> nat \<Rightarrow> (nat \<Rightarrow> 'h) \<Rightarrow> (nat \<Rightarrow> 'h) \<Rightarrow>
   (nat \<Rightarrow> (nat \<times> nat) list) \<Rightarrow> (nat \<Rightarrow> (nat \<times> nat) list) \<Rightarrow> (nat \<Rightarrow> 'h) \<Rightarrow> (nat \<times> nat) \<times> (nat \<times> nat) \<Rightarrow> 'a" where
  "result_of add mul zero zero_acc n a b ths ths' junk w =
     gs_acc (gemm_group add mul zero n a b (fst w) ths ths'
       \<lparr>gs_tile_a = junk, gs_tile_b = junk, gs_acc = (\<lambda>_. zero_acc)\<rparr>) (snd w)"

lemma dispatch_writes:
  "gemm_dispatch add mul zero zero_acc n a b ths ths' order junk wgs c =
     fold (\<lambda>w c. c(elem_of n w := result_of add mul zero zero_acc n a b ths ths' junk w))
       (filter (in_matrix n) (List.product wgs order)) c"
proof -
  have "store_thread n wg (gemm_group add mul zero n a b wg ths ths'
        \<lparr>gs_tile_a = junk, gs_tile_b = junk, gs_acc = (\<lambda>_. zero_acc)\<rparr>) =
      (\<lambda>lid c. if in_matrix n (wg, lid) then c(elem_of n (wg, lid) :=
        result_of add mul zero zero_acc n a b ths ths' junk (wg, lid)) else c)" for wg
    by (intro ext) (simp add: store_thread_def Let_def elem_of_def in_matrix_def result_of_def)
  then have "workgroup add mul zero zero_acc n a b ths ths' order junk =
      (\<lambda>wg. fold (\<lambda>lid c. if in_matrix n (wg, lid) then c(elem_of n (wg, lid) :=
        result_of add mul zero zero_acc n a b ths ths' junk (wg, lid)) else c) order)"
    by (intro ext) (simp add: workgroup_def)
  then show ?thesis
    by (simp add: gemm_dispatch_def fold_writes_if [symmetric] fold_product [symmetric])
qed

lemma elem_inj:
  assumes "(c::nat) < n" "c' < n" "r * n + c = r' * n + c'"
  shows "r = r'" "c = c'"
proof -
  have "(r * n + c) div n = r" "(r' * n + c') div n = r'" using assms(1,2) by simp_all
  with assms(3) show "r = r'" by metis
  with assms(3) show "c = c'" by simp
qed

lemma in_order: "w \<in> set (filter p (List.product wgs order)) \<Longrightarrow> snd w \<in> set order"
  by auto

lemma elem_of_inj:
  assumes "schedule order" "n * n \<le> 2 ^ 32"
  shows "inj_on (elem_of n) (set (filter (in_matrix n) (List.product wgs order)))"
proof (rule inj_onI)
  fix v w assume vw: "v \<in> set (filter (in_matrix n) (List.product wgs order))"
    "w \<in> set (filter (in_matrix n) (List.product wgs order))" "elem_of n v = elem_of n w"
  let ?r = "\<lambda>w. global_row (fst w) (snd w)" and ?c = "\<lambda>w. global_col (fst w) (snd w)"
  have bounds: "?r v < n" "?c v < n" "?r w < n" "?c w < n" using vw by (auto simp: in_matrix_def)
  have eq: "?r v * n + ?c v = ?r w * n + ?c w"
    using vw(3) unfolding elem_of_def
    by (simp only: elem_id(1) [OF bounds(1,2) assms(2)] elem_id(1) [OF bounds(3,4) assms(2)])
  note same = elem_inj [OF bounds(2) bounds(4) eq]
  have "snd v \<in> {..<TILE} \<times> {..<TILE}" "snd w \<in> {..<TILE} \<times> {..<TILE}"
    using in_order [OF vw(1)] in_order [OF vw(2)] assms(1) unfolding schedule_def by blast+
  then have "(fst v, snd v) = (fst w, snd w)"
    using owner_unique [of "snd v" "fst v", symmetric] owner_unique [of "snd w" "fst w"] unfolding same by simp
  then show "v = w" by simp
qed

lemma owner_runs:
  assumes "schedule order" "grid n wgs" "row < n" "col < n"
  shows "owner row col \<in> set (filter (in_matrix n) (List.product wgs order))"
proof -
  have "x div TILE < gemm_groups n" if "x < n" for x
  proof (cases "n mod TILE = 0")
    case True
    then have "n = n div TILE * TILE" by (metis mod_0_imp_dvd dvd_div_mult_self)
    with that show ?thesis using True by (metis div_ceil_def gemm_groups_def less_mult_imp_div_less)
  next
    case False
    have "x div TILE \<le> n div TILE" using that by (intro div_le_mono) simp
    with False show ?thesis by (simp add: gemm_groups_def div_ceil_def)
  qed
  then show ?thesis
    using assms by (auto simp: schedule_def grid_def in_matrix_def owner_def global_row_def global_col_def TILE_def)
qed

lemma gemm_dispatch_elem:
  assumes "\<And>t. schedule (ths t)" "\<And>t. schedule (ths' t)" "schedule order" "grid n wgs"
    and "zero_neutral add mul zero zero_acc S" "n * n \<le> 2 ^ 32" "row < n" "col < n"
  shows "gemm_dispatch add mul zero zero_acc n a b ths ths' order junk wgs c (row * n + col) =
    gemm_elem add mul zero_acc n a b row col"
proof -
  let ?w = "owner row col"
  have slot: "elem_of n ?w = row * n + col" using elem_id(1) [OF assms(7,8,6)] by (simp add: elem_of_def)
  have "snd ?w \<in> {..<TILE} \<times> {..<TILE}" by (simp add: owner_def TILE_def)
  then have "result_of add mul zero zero_acc n a b ths ths' junk ?w = gemm_elem add mul zero_acc n a b row col"
    unfolding result_of_def
    by (subst gemm_thread_result [OF assms(1,2) _ assms(5,6)]) (use assms(7,8) in simp_all)
  with slot show ?thesis
    unfolding dispatch_writes
    by (intro fold_writes_at [OF elem_of_inj [OF assms(3,6)] owner_runs [OF assms(3,4,7,8)]]) simp_all
qed

lemma gemm_dispatch_frame:
  assumes "n * n \<le> 2 ^ 32" "i \<ge> n * n"
  shows "gemm_dispatch add mul zero zero_acc n a b ths ths' order junk wgs c i = c i"
proof -
  have "i \<notin> elem_of n ` set (filter (in_matrix n) (List.product wgs order))"
    using elem_id [OF _ _ assms(1)] assms(2) by (auto simp: elem_of_def in_matrix_def not_less [symmetric])
  then show ?thesis unfolding dispatch_writes by (rule fold_writes_other)
qed

text \<open>
  C33: the tiled matrix product computes the matrix product, element by element and with the
  additions in the same order, for every order of the threads between two barriers, for every
  order of the workgroups and whatever the tiles held, and writes nothing outside the matrix.
\<close>

theorem gemm_kernel_is_matmul:
  assumes "\<And>t. schedule (ths t)" "\<And>t. schedule (ths' t)" "schedule order" "grid n wgs"
    and "zero_neutral add mul zero zero_acc S" "n * n \<le> 2 ^ 32"
  shows "let c' = gemm_dispatch add mul zero zero_acc n a b ths ths' order junk wgs c
    in (\<forall>row<n. \<forall>col<n. c' (row * n + col) = gemm_elem add mul zero_acc n a b row col) \<and>
      (\<forall>i\<ge>n * n. c' i = c i)"
  unfolding Let_def by (blast intro: gemm_dispatch_elem assms gemm_dispatch_frame)

lemma schedule_product: "schedule (List.product [0..<TILE] [0..<TILE])"
  by (simp add: schedule_def distinct_product atLeast0LessThan)

lemma grid_product: "grid n (List.product [0..<gemm_groups n] [0..<gemm_groups n])"
  by (simp add: grid_def distinct_product atLeast0LessThan)

theorem gemm_kernel_is_matmul_witness:
  "let th = List.product [0..<TILE] [0..<TILE];
       c' = gemm_dispatch (+) (*) 0 (0::int) 17 (\<lambda>i. int i) (\<lambda>i. 2) (\<lambda>t. rev th) (\<lambda>t. th) th (\<lambda>_. 99)
         (rev (List.product [0..<gemm_groups 17] [0..<gemm_groups 17])) (\<lambda>_. 7)
   in c' (1 * 17 + 16) = 850 \<and> c' 289 = 7"
proof -
  let ?th = "List.product [0..<TILE] [0..<TILE]"
  have rev: "schedule (rev ?th)" "grid 17 (rev (List.product [0..<gemm_groups 17] [0..<gemm_groups 17]))"
    using schedule_product grid_product [of 17] unfolding schedule_def grid_def by simp_all
  have zero: "zero_neutral (+) (*) 0 (0::int) UNIV" by (simp add: zero_neutral_def)
  have elem: "gemm_elem (+) (*) (0::int) 17 (\<lambda>i. int i) (\<lambda>i. 2) 1 16 = 850"
    by (simp add: gemm_elem_def upt_rec)
  note res = gemm_kernel_is_matmul [OF rev(1) schedule_product schedule_product rev(2) zero,
      of "\<lambda>i. int i" "\<lambda>i. 2" "\<lambda>_. 99" "\<lambda>_. 7", unfolded Let_def]
  from conjunct1 [OF res, rule_format, of 1 16] conjunct2 [OF res, rule_format, of 289]
  show ?thesis unfolding Let_def by (simp only: elem) simp
qed

section \<open>The grid-stride triad\<close>

definition visits :: "nat \<Rightarrow> nat \<Rightarrow> nat \<Rightarrow> bool" where
  "visits stride g j \<longleftrightarrow> g \<le> j \<and> (j - g) mod stride = 0"

lemma visits_step: "g < j \<Longrightarrow> 0 < stride \<Longrightarrow> visits stride (g + stride) j \<longleftrightarrow> visits stride g j"
proof -
  assume "g < j" "0 < stride"
  show ?thesis
  proof (cases "g + stride \<le> j")
    case True
    then have "j - g = (j - (g + stride)) + stride" by simp
    then have "(j - g) mod stride = (j - (g + stride)) mod stride" by (metis mod_add_self2)
    with True show ?thesis by (simp add: visits_def)
  next
    case False
    with \<open>g < j\<close> show ?thesis by (simp add: visits_def)
  qed
qed

lemma triad_thread_result:
  assumes "0 < stride" "n + stride \<le> 2 ^ 32"
  shows "triad_thread f n stride g c = Some (\<lambda>j. if j < n \<and> visits stride g j then f j else c j)"
proof (induction "n - g" arbitrary: g c rule: less_induct)
  case less
  show ?case
  proof (cases "g < n")
    case True
    then have next_i: "u32 (g + stride) = g + stride" using assms by (intro u32_id) simp
    have "triad_thread f n stride g c = triad_thread f n stride (g + stride) (c(g := f g))"
      using True by (simp add: triad_thread.simps [of f n stride g] next_i)
    also have "\<dots> = Some (\<lambda>j. if j < n \<and> visits stride (g + stride) j then f j else (c(g := f g)) j)"
      using True assms(1) by (intro less) simp
    also have "\<dots> = Some (\<lambda>j. if j < n \<and> visits stride g j then f j else c j)"
    proof (intro arg_cong [where f = Some] ext)
      fix j show "(if j < n \<and> visits stride (g + stride) j then f j else (c(g := f g)) j) =
          (if j < n \<and> visits stride g j then f j else c j)"
        using visits_step [of g j stride] assms(1) True
        by (cases g j rule: linorder_cases) (auto simp: visits_def)
    qed
    finally show ?thesis .
  next
    case False
    then show ?thesis by (auto simp: triad_thread.simps [of f n stride g] visits_def fun_eq_iff)
  qed
qed

lemma triad_threads_result:
  assumes "0 < stride" "n + stride \<le> 2 ^ 32"
  shows "triad_threads f n stride gs c = Some (\<lambda>j. if j < n \<and> (\<exists>g\<in>set gs. visits stride g j) then f j else c j)"
  by (induction gs arbitrary: c) (auto simp: triad_thread_result [OF assms] fun_eq_iff)

lemma triad_covers:
  assumes "n + 65535 * 256 \<le> 2 ^ 32" "set gids = {..<triad_groups n * 256}"
  shows "triad_groups n \<le> 65535 \<and>
    (\<exists>c'. triad_dispatch add mul two a b n gids c = Some c' \<and>
      (\<forall>i<n. c' i = triad_value add mul two a b i) \<and> (\<forall>i\<ge>n. c' i = c i))"
proof (cases "n = 0")
  case True
  then have "gids = []" using assms(2) by (simp add: triad_groups_def div_ceil_def u32_def)
  with True show ?thesis by (simp add: triad_dispatch_def triad_groups_def)
next
  case False
  have groups: "triad_groups n \<le> 65535" "0 < triad_groups n"
    using False assms(1) by (auto simp: triad_groups_def div_ceil_def u32_def dest: mod_eq_self_iff_div_eq_0 [THEN iffD2])
  let ?s = "triad_groups n * 256"
  have s: "u32 ?s = ?s" using groups by (intro u32_id) simp
  have fits: "0 < ?s" "n + ?s \<le> 2 ^ 32" using groups assms(1) by auto
  have "\<exists>g\<in>set gids. visits ?s g i" if "i < n" for i
  proof
    show "i mod ?s \<in> set gids" using assms(2) fits(1) by simp
    show "visits ?s (i mod ?s) i"
      unfolding visits_def by (metis minus_mod_eq_mult_div mod_less_eq_dividend mod_mult_self1_is_0)
  qed
  then show ?thesis using groups(1) by (auto simp: triad_dispatch_def s triad_threads_result [OF fits])
qed

text \<open>
  C34: the triad ends and computes every element, for every order of its threads, as long as the
  last stride does not pass the end of the 32-bit indices: no thread's loop runs on, every index
  below the length holds the triad and no other index is written, although the number of
  workgroups is capped at the dispatch limit.
\<close>

theorem triad_ends_and_covers:
  assumes "n + 65535 * 256 \<le> 2 ^ 32" "set gids = {..<triad_groups n * 256}"
  shows "triad_groups n \<le> 65535 \<and>
    (\<exists>c'. triad_dispatch add mul two a b n gids c = Some c' \<and>
      (\<forall>i<n. c' i = triad_value add mul two a b i) \<and> (\<forall>i\<ge>n. c' i = c i))"
  by (rule triad_covers) (rule assms)+

theorem triad_ends_and_covers_witness:
  "\<exists>c'. triad_dispatch (+) (*) (2::int) int (\<lambda>_. 1) 300 (rev [0..<triad_groups 300 * 256]) (\<lambda>_. 0) = Some c' \<and>
     c' 299 = 301 \<and> c' 300 = 0"
  using triad_ends_and_covers [of 300 "rev [0..<triad_groups 300 * 256]" "(+)" "(*)" "2::int" int "\<lambda>_. 1" "\<lambda>_. 0"]
  by (auto simp: triad_value_def atLeast0LessThan)

text \<open>
  The host counts the workgroups from the length cut to 32 bits: for a length of exactly
  \<open>2 ^ 32\<close> it dispatches none.
\<close>

lemma triad_groups_truncates: "triad_groups (2 ^ 32) = 0"
  by (simp add: triad_groups_def u32_def div_ceil_def)

section \<open>The simdgroup product\<close>

lemma simd_loop_sum:
  assumes "8 dvd n" "8 dvd k" "k \<le> n" "row < n" "col < n" "n * n \<le> 2 ^ 32"
  shows "simd_loop A B n row col k acc (i, j) =
    acc (i, j) + sum_list (map (\<lambda>l. A ((row + i) * n + l) * B (l * n + (col + j))) [k..<n])"
  using assms
proof (induction A B n row col k acc rule: simd_loop.induct)
  case (1 A B n row col k acc)
  show ?case
  proof (cases "k < n")
    case True
    then have offs: "u32 (row * n + k) = row * n + k" "u32 (k * n + col) = k * n + col"
      using "1.prems" mult_add_bound [of row n k] mult_add_bound [of k n col] by simp_all
    from True have "8 \<le> n - k" using "1.prems" by (intro dvd_imp_le) auto
    then have "k + 8 \<le> n" using True by simp
    then have "[k..<n] = map (\<lambda>l. k + l) [0..<8] @ [k + 8..<n]"
      using upt_add_eq_append [of k "k + 8" "n - (k + 8)"] map_add_upt [of k 8] by (simp add: add.commute)
    moreover have "simd_loop A B n row col k acc (i, j) =
        simd_mac (simd_load A (row * n + k) n) (simd_load B (k * n + col) n) acc (i, j) +
        sum_list (map (\<lambda>l. A ((row + i) * n + l) * B (l * n + (col + j))) [k + 8..<n])"
      using "1.IH" [OF True] "1.prems" True \<open>k + 8 \<le> n\<close> offs by (simp add: simd_loop.simps [of A B n row col k])
    ultimately show ?thesis
      unfolding simd_mac_def simd_load_def
      by (simp only: map_append sum_list_append map_map comp_def prod.case) (simp add: algebra_simps)
  next
    case False
    then show ?thesis by (simp add: simd_loop.simps [of A B n row col k])
  qed
qed

text \<open>The element a lane position of a threadgroup stores, and its value.\<close>

definition simd_elem :: "nat \<Rightarrow> (nat \<times> nat) \<times> (nat \<times> nat) \<Rightarrow> nat" where
  "simd_elem n w = (snd (fst w) * 8 + fst (snd w)) * n + (fst (fst w) * 8 + snd (snd w))"

definition matmul :: "(nat \<Rightarrow> 'a::comm_semiring_0) \<Rightarrow> (nat \<Rightarrow> 'a) \<Rightarrow> nat \<Rightarrow> nat \<Rightarrow> nat \<Rightarrow> 'a" where
  "matmul A B n row col = sum_list (map (\<lambda>l. A (row * n + l) * B (l * n + col)) [0..<n])"

definition simd_grid :: "nat \<Rightarrow> (nat \<times> nat) list \<Rightarrow> bool" where
  "simd_grid n tgids \<longleftrightarrow> distinct tgids \<and> set tgids = {..<n div 8} \<times> {..<n div 8}"

lemma tile_coord:
  assumes "8 dvd (n::nat)" "g < n div 8" "i < 8"
  shows "g * 8 + i < n"
proof -
  have "n = n div 8 * 8" using assms(1) by simp
  moreover have "Suc g * 8 \<le> n div 8 * 8" using assms(2) by (intro mult_le_mono1) simp
  ultimately show ?thesis using assms(3) by simp
qed

lemma simd_dispatch_writes:
  assumes "8 dvd n" "set tgids = {..<n div 8} \<times> {..<n div 8}" "n * n \<le> 2 ^ 32"
  shows "simd_dispatch A B n tgids c = fold (\<lambda>w c. c(simd_elem n w :=
      matmul A B n (snd (fst w) * 8 + fst (snd w)) (fst (fst w) * 8 + snd (snd w))))
    (List.product tgids (List.product [0..<8] [0..<8])) c"
proof -
  have "simd_group A B n tgid = fold (\<lambda>ij c. c(simd_elem n (tgid, ij) :=
      matmul A B n (snd tgid * 8 + fst ij) (fst tgid * 8 + snd ij))) (List.product [0..<8] [0..<8])"
    if "tgid \<in> set tgids" for tgid
  proof -
    have group: "fst tgid < n div 8" "snd tgid < n div 8"
      using that unfolding assms(2) by (simp_all add: mem_Times_iff)
    have b: "snd tgid * 8 < n" "fst tgid * 8 < n"
      using tile_coord [OF assms(1) group(2), of 0] tile_coord [OF assms(1) group(1), of 0] by simp_all
    have off: "u32 (snd tgid * 8 * n + fst tgid * 8) = snd tgid * 8 * n + fst tgid * 8"
      using mult_add_bound [OF b] assms(3) by (intro u32_id) (rule less_le_trans)
    note loop = simd_loop_sum [OF assms(1) _ _ b assms(3)]
    show ?thesis
      unfolding simd_group_def simd_store_def Let_def simd_elem_def matmul_def off
      by (intro ext arg_cong [where f = "\<lambda>h. fold h _ _ _"]) (auto simp: loop algebra_simps)
  qed
  then have "fold (simd_group A B n) tgids c = fold (\<lambda>tgid. fold (\<lambda>ij c. c(simd_elem n (tgid, ij) :=
      matmul A B n (snd tgid * 8 + fst ij) (fst tgid * 8 + snd ij))) (List.product [0..<8] [0..<8])) tgids c"
    by (intro fold_cong) simp_all
  then show ?thesis by (simp add: simd_dispatch_def fold_product [symmetric])
qed

lemma simd_elem_inj:
  assumes "8 dvd n" "set tgids = {..<n div 8} \<times> {..<n div 8}"
  shows "inj_on (simd_elem n) (set (List.product tgids (List.product [0..<8] [0..<8])))"
proof (rule inj_onI)
  fix v w assume v: "v \<in> set (List.product tgids (List.product [0..<8] [0..<8]))"
    and w: "w \<in> set (List.product tgids (List.product [0..<8] [0..<8]))"
    and eq: "simd_elem n v = simd_elem n w"
  obtain gx gy i j where vs: "v = ((gx, gy), (i, j))" by (metis prod.collapse)
  obtain gx' gy' i' j' where ws: "w = ((gx', gy'), (i', j'))" by (metis prod.collapse)
  have b: "gx < n div 8" "gy < n div 8" "i < 8" "j < 8" using v assms(2) by (auto simp: vs)
  have b': "gx' < n div 8" "gy' < n div 8" "i' < 8" "j' < 8" using w assms(2) by (auto simp: ws)
  have "(gy * 8 + i) * n + (gx * 8 + j) = (gy' * 8 + i') * n + (gx' * 8 + j')"
    using eq by (simp add: simd_elem_def vs ws)
  from elem_inj [OF tile_coord [OF assms(1) b(1,4)] tile_coord [OF assms(1) b'(1,4)] this]
  have "gy * 8 + i = gy' * 8 + i'" "gx * 8 + j = gx' * 8 + j'" .
  with elem_inj b b' show "v = w" unfolding vs ws by blast
qed

lemma simd_dispatch_elem:
  assumes "8 dvd n" "n * n \<le> 2 ^ 32" "simd_grid n tgids" "row < n" "col < n"
  shows "simd_dispatch A B n tgids c (row * n + col) = matmul A B n row col"
proof -
  let ?w = "((col div 8, row div 8), (row mod 8, col mod 8))"
  have grid: "set tgids = {..<n div 8} \<times> {..<n div 8}" using assms(3) by (simp add: simd_grid_def)
  have "x div 8 < n div 8" if "x < n" for x
    using that assms(1) by (metis dvd_div_mult_self less_mult_imp_div_less)
  then have "?w \<in> set (List.product tgids (List.product [0..<8] [0..<8]))"
    using assms(4,5) grid by simp
  moreover have "inj_on (simd_elem n) (set (List.product tgids (List.product [0..<8] [0..<8])))"
    using assms(1) grid by (rule simd_elem_inj)
  ultimately show ?thesis
    unfolding simd_dispatch_writes [OF assms(1) grid assms(2)]
    by (intro fold_writes_at [of "simd_elem n" _ ?w]) (simp_all add: simd_elem_def)
qed

lemma simd_dispatch_frame:
  assumes "8 dvd n" "n * n \<le> 2 ^ 32" "simd_grid n tgids" "i \<ge> n * n"
  shows "simd_dispatch A B n tgids c i = c i"
proof -
  have grid: "set tgids = {..<n div 8} \<times> {..<n div 8}" using assms(3) by (simp add: simd_grid_def)
  have "i \<noteq> simd_elem n w" if w: "w \<in> set (List.product tgids (List.product [0..<8] [0..<8]))" for w
  proof -
    obtain gx gy k l where ws: "w = ((gx, gy), (k, l))" by (metis prod.collapse)
    have b: "gx < n div 8" "gy < n div 8" "k < 8" "l < 8"
      using w grid by (auto simp: ws)
    from assms(4) show ?thesis
      using mult_add_bound [OF tile_coord [OF assms(1) b(2,3)] tile_coord [OF assms(1) b(1,4)]]
      by (simp add: simd_elem_def ws)
  qed
  then show ?thesis
    unfolding simd_dispatch_writes [OF assms(1) grid assms(2)] by (intro fold_writes_other) blast
qed

text \<open>
  C35: the simdgroup kernel computes the matrix product for every size that is a multiple of 8, in
  any order of the threadgroups, and writes nothing outside the matrix.
\<close>

theorem simdgroup_kernel_is_matmul:
  fixes A B :: "nat \<Rightarrow> 'a::comm_semiring_0"
  assumes "8 dvd n" "n * n \<le> 2 ^ 32" "simd_grid n tgids"
  shows "(\<forall>row<n. \<forall>col<n. simd_dispatch A B n tgids c (row * n + col) = matmul A B n row col) \<and>
    (\<forall>i\<ge>n * n. simd_dispatch A B n tgids c i = c i)"
  using simd_dispatch_elem [OF assms] simd_dispatch_frame [OF assms] by blast

lemma simd_grid_product: "simd_grid n (List.product [0..<n div 8] [0..<n div 8])"
  by (simp add: simd_grid_def distinct_product atLeast0LessThan)

theorem simdgroup_kernel_is_matmul_witness:
  "simd_dispatch (\<lambda>i. int i) (\<lambda>_. 2) 16 (List.product [0..<2] [0..<2]) (\<lambda>_. 7) (3 * 16 + 5) = 1776"
proof -
  have grid: "simd_grid 16 (List.product [0..<2] [0..<2])" using simd_grid_product [of 16] by simp
  have "matmul (\<lambda>i. int i) (\<lambda>_. 2) 16 3 5 = 1776" by (simp add: matmul_def upt_rec)
  then show ?thesis
    using conjunct1 [OF simdgroup_kernel_is_matmul [OF _ _ grid, of int "\<lambda>_. 2" "\<lambda>_. 7"], rule_format, of 3 5]
    by (simp only: ) simp
qed

end
