(* ===== verification/Gpu_Bench_Spec.thy ===== *)
theory Gpu_Bench_Spec
  imports Gpu_Bench_Cli Gpu_Kernels_Spec
begin

text \<open>
  What the benchmark promises: products of ones have the value the backends compare with, the
  suite fails only with its fp32 product, \<^verbatim>\<open>auto\<close> ends at a concrete backend, and
  the network is probed once however many backends are measured.
\<close>

section \<open>Products of ones\<close>

lemma gemm_elem_ones: "gemm_elem (+) (*) 0 n (\<lambda>_. 1::real) (\<lambda>_. 1) row col = real n"
proof -
  have "foldl (\<lambda>acc k. acc + (1::real) * 1) x [0..<n] = x + real n" for x by (induction n) simp_all
  then show ?thesis by (simp add: gemm_elem_def)
qed

lemma matmul_ones: "matmul (\<lambda>_. 1::real) (\<lambda>_. 1) n row col = real n"
  by (simp add: matmul_def sum_list_triv)

lemma time_dispatches_first:
  assumes "\<And>c. run c 0 = (x::real)" "0 < k"
  shows "time_dispatches run k c 0 = x"
  using assms by (cases k) (simp_all add: time_dispatches_def)

section \<open>The suite\<close>

lemma best_effort_cases:
  "best_effort ops what r = (case fst r of Inr x \<Rightarrow> (Some x, snd r)
     | Inl e \<Rightarrow> (None, bo_eprintln ops (''note: '' @ what @ '' skipped ('' @ error_head e @ '')'') (snd r)))"
  by (cases r) (simp add: best_effort_def split: sum.split)

text \<open>
  the suite fails exactly when its fp32 product fails, with that error and after nothing else
  has run; every other measurement can only be missing from the report.
\<close>

theorem suite_fails_only_with_fp32:
  "case be_gemm be (sc_n cfg) F32 (sc_warmup cfg) (sc_iters cfg) (on_phase ''fp32 GEMM'' w) of
     (Inl e, w1) \<Rightarrow> run_suite ops be cfg on_phase w = (Inl e, w1)
   | (Inr g, w1) \<Rightarrow> \<exists>r w2. run_suite ops be cfg on_phase w = (Inr r, w2) \<and>
       rr_device r = be_device_info be \<and> rr_gemm_fp32 r = Some g"
  by (simp add: run_suite_def Let_def case_prod_beta split: prod.split sum.split)

section \<open>The choice of the backend\<close>

lemma concrete_snd [simp]: "snd (concrete c r) = snd r"
  by (auto simp: concrete_def split: prod.split sum.split)

lemma concrete_fst: "fst (concrete c r) = Inr (b, c') \<Longrightarrow> fst r = Inr b"
  by (auto simp: concrete_def split: prod.splits sum.splits)

lemma concrete_choice: "fst (concrete c r) = Inr (b, c') \<Longrightarrow> c' = c"
  by (auto simp: concrete_def split: prod.splits sum.splits)

lemma auto_choice: "fst (auto_native ops verbose c found name r) = Inr (b, c') \<Longrightarrow> c' = c \<or> c' = Wgpu"
  by (auto simp: auto_native_def auto_wgpu_def dest: concrete_choice split: prod.splits sum.splits)

lemma make_backend_choice:
  "fst (make_backend bd ops choice verbose w) = Inr (b, c) \<Longrightarrow> c \<noteq> Auto \<and> (choice = Auto \<or> c = choice)"
  by (cases choice) (auto simp: make_auto_backend_def auto_wgpu_def dest: concrete_choice auto_choice split: if_splits)

lemma print_single_some: "resolved \<noteq> Auto \<Longrightarrow> print_single F r resolved args \<noteq> None"
  by (cases resolved) (simp_all add: print_single_def Let_def)

text \<open>
  \<^verbatim>\<open>make_backend\<close> never gives back \<open>Auto\<close>: it realizes the choice it was
  given, and \<open>Auto\<close> as a concrete backend; so the \<^verbatim>\<open>unreachable!\<close> of
  \<^verbatim>\<open>backend_note\<close> is not reached and \<^verbatim>\<open>run\<close> never panics there,
  for every build, every machine and all arguments.
\<close>

theorem run_reaches_no_auto_label:
  "fst (run_cmd bd ops args w) \<noteq> Panicked \<and>
   (case fst (make_backend bd ops choice verbose w) of
      Inl e \<Rightarrow> True
    | Inr (b, c) \<Rightarrow> c \<noteq> Auto \<and> (choice = Auto \<or> c = choice))"
proof
  have main: "fst (run_main bd ops resolved be portable args w) \<noteq> Panicked" if "resolved \<noteq> Auto" for resolved be portable w
  proof -
    obtain r w1 where suite: "run_suite ops be (suite_config_of args)
        (spin ops (if portable \<noteq> None then ''benchmarking (native)'' else ''benchmarking'')) w = (r, w1)"
      by fastforce
    show ?thesis unfolding run_main_def Let_def suite
      by (simp add: print_single_some [OF that] split: sum.split option.split)
  qed
  show "fst (run_cmd bd ops args w) \<noteq> Panicked"
  proof (cases "make_backend bd ops (ra_backend args) (ra_verbose args) w")
    case (Pair r w1)
    show ?thesis
    proof (cases r)
      case (Inr bc)
      obtain be c where "bc = (be, c)" by (cases bc)
      with Pair Inr make_backend_choice [of bd ops "ra_backend args" "ra_verbose args" w be c] main [of c]
      show ?thesis by (auto simp: run_cmd_def Let_def split: prod.split sum.split)
    qed (simp add: run_cmd_def Pair)
  qed
  show "case fst (make_backend bd ops choice verbose w) of Inl e \<Rightarrow> True
      | Inr (b, c) \<Rightarrow> c \<noteq> Auto \<and> (choice = Auto \<or> c = choice)"
    using make_backend_choice by (fastforce split: sum.split prod.split)
qed

section \<open>Requests to the network\<close>

text \<open>
  A count of the HTTP requests in the world: a request adds at most one, the drivers and the
  terminal none.
\<close>

definition quiet :: "('w \<Rightarrow> nat) \<Rightarrow> 'w backend \<Rightarrow> bool" where
  "quiet cnt be \<longleftrightarrow>
     (\<forall>n p wu it w. cnt (snd (be_gemm be n p wu it w)) = cnt w) \<and>
     (\<forall>n wu it w. cnt (snd (be_bandwidth be n wu it w)) = cnt w)"

definition quiet_new :: "('w \<Rightarrow> nat) \<Rightarrow> ('w \<Rightarrow> (anyhow + 'w backend) \<times> 'w) \<Rightarrow> bool" where
  "quiet_new cnt new \<longleftrightarrow> (\<forall>w. cnt (snd (new w)) = cnt w \<and> (\<forall>b. fst (new w) = Inr b \<longrightarrow> quiet cnt b))"

definition counts_requests :: "('w \<Rightarrow> nat) \<Rightarrow> 'w bench_ops \<Rightarrow> bool" where
  "counts_requests cnt ops \<longleftrightarrow>
     (\<forall>m w. cnt (bo_eprintln ops m w) = cnt w) \<and> (\<forall>m w. cnt (bo_message ops m w) = cnt w) \<and>
     quiet_new cnt (bo_wgpu ops) \<and> quiet_new cnt (bo_metal ops) \<and> quiet_new cnt (bo_cuda ops) \<and>
     (\<forall>u w. cnt (snd (hc_get (bo_client ops) u w)) \<le> cnt w + 1) \<and>
     (\<forall>u k w. cnt (snd (hc_post (bo_client ops) u k w)) \<le> cnt w + 1)"

definition requests_per_probe :: "net_config \<Rightarrow> nat" where
  "requests_per_probe cfg = max (nc_latency_samples cfg) 1 + 2"

lemma latency_requests:
  assumes "\<And>u w. cnt (snd (hc_get C u w)) \<le> cnt w + (1::nat)"
  shows "cnt (snd (latency_loop F C k best w)) \<le> cnt w + k"
proof (induction k arbitrary: best w)
  case (Suc k)
  obtain r w1 where get: "hc_get C (DOWN_URL @ ''?bytes=0'') w = (r, w1)" by (cases "hc_get C (DOWN_URL @ ''?bytes=0'') w")
  have one: "cnt w1 \<le> cnt w + 1" using assms [of "DOWN_URL @ ''?bytes=0''" w] get by simp
  have "cnt (snd (latency_loop F C k b w1)) \<le> cnt w + Suc k" for b
    using Suc.IH [of b w1] one by linarith
  with one have "cnt w1 \<le> cnt w + Suc k" "cnt (snd (latency_loop F C k b w1)) \<le> cnt w + Suc k" for b
    by simp_all
  then show ?case by (simp add: get Let_def split: sum.split)
qed simp

lemma download_requests:
  "cnt (snd (hc_get C (DOWN_URL @ ''?bytes='' @ show_nat bytes) w)) \<le> cnt w + (1::nat) \<Longrightarrow>
    cnt (snd (measure_download F C bytes w)) \<le> cnt w + 1"
  by (auto simp: measure_download_def split: prod.split sum.split)

lemma upload_requests:
  "cnt (snd (hc_post C UP_URL bytes w)) \<le> cnt w + (1::nat) \<Longrightarrow>
    cnt (snd (measure_upload F C bytes w)) \<le> cnt w + 1"
  by (auto simp: measure_upload_def split: prod.split sum.split)

lemma probe_requests:
  assumes "counts_requests cnt ops"
  shows "cnt (snd (probe_network F (bo_client ops) cfg w)) \<le> cnt w + requests_per_probe cfg"
proof -
  let ?C = "bo_client ops" and ?k = "max (nc_latency_samples cfg) 1"
  have get: "cnt (snd (hc_get ?C u w)) \<le> cnt w + 1" and post: "cnt (snd (hc_post ?C u k w)) \<le> cnt w + 1" for u k w
    using assms by (simp_all add: counts_requests_def)
  obtain r1 w1 where l: "measure_latency F ?C (nc_latency_samples cfg) w = (r1, w1)"
    by (cases "measure_latency F ?C (nc_latency_samples cfg) w")
  obtain r2 w2 where d: "measure_download F ?C (nc_down_bytes cfg) w1 = (r2, w2)"
    by (cases "measure_download F ?C (nc_down_bytes cfg) w1")
  obtain r3 w3 where u: "measure_upload F ?C (nc_up_bytes cfg) w2 = (r3, w3)"
    by (cases "measure_upload F ?C (nc_up_bytes cfg) w2")
  have "cnt w1 \<le> cnt w + ?k"
    using latency_requests [of cnt ?C F ?k None w, OF get] l by (simp add: measure_latency_def)
  moreover have "cnt w2 \<le> cnt w1 + 1" using download_requests [of cnt ?C, OF get, of F "nc_down_bytes cfg" w1] d by simp
  moreover have "cnt w3 \<le> cnt w2 + 1" using upload_requests [of cnt ?C, OF post, of F "nc_up_bytes cfg" w2] u by simp
  ultimately have "cnt w1 \<le> cnt w + requests_per_probe cfg" "cnt w2 \<le> cnt w + requests_per_probe cfg"
    "cnt w3 \<le> cnt w + requests_per_probe cfg"
    unfolding requests_per_probe_def by linarith+
  then show ?thesis by (simp add: probe_network_def l d u split: sum.split)
qed

lemma best_effort_requests:
  "counts_requests cnt ops \<Longrightarrow> cnt (snd (best_effort ops what r)) = cnt (snd r)"
  by (simp add: best_effort_cases counts_requests_def split: sum.split)

text \<open>What the suite asks of its caller's \<open>on_phase\<close>.\<close>

lemma suite_requests:
  assumes ops: "counts_requests cnt ops" and be: "quiet cnt be" and phase: "\<And>m w. cnt (on_phase m w) = cnt w"
  shows "cnt (snd (run_suite ops be cfg on_phase w)) \<le>
    cnt w + (if sc_include_network cfg then requests_per_probe net_config_default else 0)"
proof -
  note quiet = be [unfolded quiet_def, THEN conjunct1, rule_format] be [unfolded quiet_def, THEN conjunct2, rule_format]
    best_effort_requests [OF ops] phase
  have probe: "cnt (snd (probe_network (bo_f64 ops) (bo_client ops) net_config_default v)) \<le>
      cnt w + requests_per_probe net_config_default" if "cnt v = cnt w" for v
    using probe_requests [OF ops, of "bo_f64 ops" net_config_default v] that by simp
  show ?thesis
    by (simp add: run_suite_def Let_def case_prod_beta quiet probe split: sum.split)
qed

lemma make_backend_quiet:
  assumes "counts_requests cnt ops"
  shows "cnt (snd (make_backend bd ops choice verbose w)) = cnt w"
    and "fst (make_backend bd ops choice verbose w) = Inr (b, c) \<Longrightarrow> quiet cnt b"
proof -
  have new: "cnt (snd (new w)) = cnt w" "fst (new w) = Inr b \<Longrightarrow> quiet cnt b"
    if "new \<in> {bo_wgpu ops, bo_metal ops, bo_cuda ops}" for new w b
    using that assms by (auto simp: counts_requests_def quiet_new_def)
  have eprint: "cnt (bo_eprintln ops m w) = cnt w" for m w using assms by (simp add: counts_requests_def)
  have auto_w: "cnt (snd (auto_wgpu ops v w)) = cnt w" "fst (auto_wgpu ops v w) = Inr (b, c) \<Longrightarrow> quiet cnt b" for v w b c
    unfolding auto_wgpu_def concrete_snd by (simp_all add: new eprint) (auto dest!: concrete_fst intro: new(2))
  have auto_n: "cnt (snd (auto_native ops v k f n r)) = cnt (snd r)"
    "fst (auto_native ops v k f n r) = Inr (b, c) \<Longrightarrow> (\<And>b. fst r = Inr b \<Longrightarrow> quiet cnt b) \<Longrightarrow> quiet cnt b"
    for v k f n r b c
    by (cases "fst r"; cases r; simp add: auto_native_def auto_w eprint; fail)
      (cases "fst r"; cases r; auto simp: auto_native_def dest: auto_w(2))
  show "cnt (snd (make_backend bd ops choice verbose w)) = cnt w"
    by (cases choice) (simp_all add: make_auto_backend_def auto_n auto_w concrete_snd new)
  show "quiet cnt b" if made: "fst (make_backend bd ops choice verbose w) = Inr (b, c)"
  proof (cases choice)
    case Auto
    note m = made [unfolded Auto make_backend.simps make_auto_backend_def]
    consider "bd_cuda bd" | "\<not> bd_cuda bd" "bd_macos bd" | "\<not> bd_cuda bd" "\<not> bd_macos bd" by blast
    then show ?thesis
    proof cases
      case 1
      from m [unfolded if_P [OF 1]] show ?thesis by (rule auto_n(2)) (rule new(2), simp_all)
    next
      case 2
      from m [unfolded if_not_P [OF 2(1)] if_P [OF 2(2)]] show ?thesis
        by (rule auto_n(2)) (rule new(2), simp_all)
    next
      case 3
      from m [unfolded if_not_P [OF 3(1)] if_not_P [OF 3(2)]] show ?thesis by (rule auto_w(2))
    qed
  qed (use made in \<open>auto dest!: concrete_fst intro: new(2) split: if_splits\<close>)
qed

lemma spin_quiet: "counts_requests cnt ops \<Longrightarrow> cnt (spin ops label phase w) = cnt w"
  by (simp add: spin_def counts_requests_def)

lemma run_main_requests:
  assumes "counts_requests cnt ops" "quiet cnt be"
  shows "cnt (snd (run_main bd ops resolved be portable args w)) \<le> cnt w + requests_per_probe net_config_default"
proof -
  let ?label = "if portable \<noteq> None then ''benchmarking (native)'' else ''benchmarking''"
  obtain r w1 where suite: "run_suite ops be (suite_config_of args) (spin ops ?label) w = (r, w1)" by fastforce
  have "cnt w1 \<le> cnt w + requests_per_probe net_config_default"
    using suite_requests [OF assms, of "spin ops ?label" "suite_config_of args" w] suite
    by (simp add: spin_quiet [OF assms(1)] suite_config_of_def)
  then show ?thesis unfolding run_main_def Let_def suite by (simp split: sum.split)
qed

text \<open>The portable suite makes none.\<close>

lemma run_portable_requests:
  assumes "counts_requests cnt ops"
  shows "cnt (snd (run_portable bd ops args w)) \<le> cnt w"
proof -
  obtain r w1 where new: "make_backend bd ops Wgpu (ra_verbose args) w = (r, w1)" by fastforce
  have w1: "cnt w1 = cnt w" using make_backend_quiet(1) [OF assms, of bd Wgpu "ra_verbose args" w] unfolding new by simp
  show ?thesis
  proof (cases r)
    case (Inr bc)
    obtain be c where bc: "bc = (be, c)" by (cases bc)
    have "quiet cnt be" using make_backend_quiet(2) [OF assms, of bd Wgpu "ra_verbose args" w be c] unfolding new Inr bc by simp
    note suite = suite_requests [OF assms this, of "spin ops ''benchmarking (portable wgpu)''"
        "(suite_config_of args)\<lparr>sc_include_network := False\<rparr>" w1, OF spin_quiet [OF assms]]
    from suite show ?thesis unfolding run_portable_def new Inr bc using w1 by (simp add: case_prod_beta)
  qed (simp add: run_portable_def new w1 del: make_backend.simps)
qed

text \<open>
  one \<^verbatim>\<open>run\<close> makes at most the requests of one default network probe (five latency
  samples, a download, an upload), also when \<^verbatim>\<open>auto\<close> measures the portable
  backend beside a native one, and whatever fails.
\<close>

theorem network_probed_once:
  assumes "counts_requests cnt ops"
  shows "cnt (snd (run_cmd bd ops args w)) \<le> cnt w + 7"
proof -
  have seven: "requests_per_probe net_config_default = 7"
    by (simp add: requests_per_probe_def net_config_default_def)
  obtain r w1 where new: "make_backend bd ops (ra_backend args) (ra_verbose args) w = (r, w1)" by fastforce
  have w1: "cnt w1 = cnt w" using make_backend_quiet(1) [OF assms, of bd "ra_backend args" "ra_verbose args" w] new by simp
  show ?thesis
  proof (cases r)
    case (Inr bc)
    obtain be c where bc: "bc = (be, c)" by (cases bc)
    have be: "quiet cnt be"
      using make_backend_quiet(2) [OF assms, of bd "ra_backend args" "ra_verbose args" w be c] new Inr bc by simp
    define w2 where "w2 = bo_message ops (''benchmarking'' @ ellipsis) w1"
    have w2: "cnt w2 = cnt w" using assms w1 by (simp add: w2_def counts_requests_def)
    obtain p w3 where port: "run_portable bd ops args w2 = (p, w3)" by fastforce
    have w3: "cnt w3 \<le> cnt w" using run_portable_requests [OF assms, of bd args w2] port w2 by simp
    have main: "cnt (snd (run_main bd ops c be q args v)) \<le> cnt w + 7" if "cnt v \<le> cnt w" for q v
      using run_main_requests [OF assms be, of bd c q args v] that seven by simp
    have run: "run_cmd bd ops args w = (if ra_backend args = Auto \<and> c \<noteq> Wgpu then
        (case run_portable bd ops args w2 of
           (Inl e, w3) \<Rightarrow> (Failed_With e, w3)
         | (Inr p, w3) \<Rightarrow> run_main bd ops c be (Some p) args w3)
        else run_main bd ops c be None args w2)"
      by (simp add: run_cmd_def new Inr bc w2_def Let_def)
    show ?thesis
      using w2 w3 unfolding run port by (simp add: main split: sum.split)
  qed (simp add: run_cmd_def new w1)
qed

theorem network_probed_once_witness:
  "let be = \<lparr>be_device_info = \<lparr>di_name = ''M3'', di_backend = ''Metal'', di_device_type = ''IntegratedGpu''\<rparr>,
         be_gemm = (\<lambda>n p wu it w. (Inr \<lparr>gr_device = ''M3'', gr_backend = ''Metal'', gr_precision = p, gr_n = n,
           gr_iterations = it, gr_seconds = 1, gr_tflops = 1, gr_verified = True\<rparr>, w)),
         be_bandwidth = (\<lambda>n wu it w. (Inl [''no bandwidth''], w))\<rparr>;
       ops = \<lparr>bo_wgpu = (\<lambda>w. (Inr be, w)), bo_metal = (\<lambda>w. (Inr be, w)), bo_cuda = (\<lambda>w. (Inl [''no CUDA''], w)),
         bo_eprintln = (\<lambda>m w. w), bo_message = (\<lambda>m w. w),
         bo_client = \<lparr>hc_get = (\<lambda>u w. (Inr \<lparr>hr_body = Inr [100, 0], hr_secs = 1, hr_body_secs = 1\<rparr>, w + 1)),
           hc_post = (\<lambda>u k w. (Inr 1, w + 1))\<rparr>,
         bo_f64 = \<lparr>f_round = (\<lambda>x. x), f_powi = (^)\<rparr>\<rparr>
   in snd (run_cmd \<lparr>bd_macos = True, bd_cuda = False\<rparr> ops
        \<lparr>ra_n = 2048, ra_iters = 50, ra_warmup = 10, ra_bandwidth_m = 32, ra_backend = Auto, ra_skip_fp16 = False,
         ra_json = True, ra_verbose = False\<rparr> (0::nat)) \<le> 7"
  unfolding Let_def
  by (rule network_probed_once [where cnt = "\<lambda>n. n" and w = 0, unfolded add_0])
    (simp add: counts_requests_def quiet_new_def quiet_def)

end
