(* ===== verification/Metal_Device.thy ===== *)
theory Metal_Device
  imports Gpu_Bench
begin

text \<open>
  What the two programs that run Metal kernels ask of \<^verbatim>\<open>objc2-metal\<close>: the record
  of a device's answers, and the set-up that \<^verbatim>\<open>mac_worker.rs\<close> and
  \<^verbatim>\<open>metal_backend.rs\<close> do with it before they dispatch anything. Metal itself is the
  parameter; an answer is whether the object could be made, or the text of the error.
\<close>

text \<open>
  The device, its queue, the library compiled from the source, the function of a name, the
  pipeline of a function; the \<open>k\<close>-th buffer of so many bytes; the \<open>k\<close>-th command buffer
  and its encoder.
\<close>

record metal_device =
  md_present :: bool
  md_name :: string
  md_queue :: bool
  md_library :: "string + unit"
  md_function :: "string \<Rightarrow> bool"
  md_pipeline :: "string \<Rightarrow> string + unit"
  md_buffer :: "nat \<Rightarrow> nat \<Rightarrow> bool"
  md_command_buffer :: "nat \<Rightarrow> bool"
  md_encoder :: "nat \<Rightarrow> bool"

text \<open>\<^verbatim>\<open>Option::context\<close>.\<close>

definition require :: "string \<Rightarrow> bool \<Rightarrow> anyhow + unit" where
  "require m ok = (if ok then Inr () else Inl [m])"

definition prefixed :: "string \<Rightarrow> string + unit \<Rightarrow> anyhow + unit" where
  "prefixed m r = (case r of Inl e \<Rightarrow> Inl [m @ e] | Inr _ \<Rightarrow> Inr ())"

text \<open>The first failure of a sequence of steps.\<close>

fun first_error :: "(anyhow + unit) list \<Rightarrow> anyhow + unit" where
  "first_error [] = Inr ()"
| "first_error (r # rs) = (case r of Inl e \<Rightarrow> Inl e | Inr _ \<Rightarrow> first_error rs)"

lemma first_error_Inr_iff: "first_error rs = Inr () \<longleftrightarrow> (\<forall>r\<in>set rs. r = Inr ())"
  by (induction rs) (auto split: sum.splits)

lemma require_Inr_iff [simp]: "require m ok = Inr () \<longleftrightarrow> ok"
  by (simp add: require_def)

lemma prefixed_Inr_iff [simp]: "prefixed m r = Inr () \<longleftrightarrow> r = Inr ()"
  by (auto simp: prefixed_def split: sum.splits)

text \<open>Exact arithmetic, and a device on which everything works.\<close>

definition demo_f64 :: f64_ops where
  "demo_f64 = \<lparr>f_round = (\<lambda>x. x), f_powi = (^)\<rparr>"

definition working_metal :: metal_device where
  "working_metal = \<lparr>md_present = True, md_name = ''Apple M3'', md_queue = True, md_library = Inr (),
     md_function = (\<lambda>_. True), md_pipeline = (\<lambda>_. Inr ()), md_buffer = (\<lambda>k b. True),
     md_command_buffer = (\<lambda>_. True), md_encoder = (\<lambda>_. True)\<rparr>"

end
