(* ===== verification/Gpu_Drivers.thy ===== *)
theory Gpu_Drivers
  imports Metal_Device Gpu_Kernels
begin

text \<open>
  The three backends of \<^verbatim>\<open>crates/gpu-bench\<close> down to the calls of their drivers:
  opening the device, building buffers and pipelines, recording and submitting dispatches,
  reading a result back. \<^verbatim>\<open>wgpu\<close>, \<^verbatim>\<open>objc2-metal\<close> and
  \<^verbatim>\<open>cudarc\<close> are records of their calls over a state \<open>'w\<close>; handles are
  numbers. A result of \<open>None\<close> is a panic. \<open>Gpu_Drivers_Spec\<close> says what the
  measurements are worth when the drivers do what they document.
\<close>

section \<open>Sequencing\<close>

definition io_bind ::
  "('w \<Rightarrow> (anyhow + 'a) \<times> 'w) \<Rightarrow> ('a \<Rightarrow> 'w \<Rightarrow> (anyhow + 'b) \<times> 'w) \<Rightarrow> 'w \<Rightarrow> (anyhow + 'b) \<times> 'w" where
  "io_bind m f w = (case m w of (Inl e, w') \<Rightarrow> (Inl e, w') | (Inr x, w') \<Rightarrow> f x w')"

text \<open>\<open>?\<close> on a driver's error, and on one that is given a context.\<close>

definition driver_call :: "('w \<Rightarrow> (string + 'a) \<times> 'w) \<Rightarrow> 'w \<Rightarrow> (anyhow + 'a) \<times> 'w" where
  "driver_call m w = (case m w of (Inl e, w') \<Rightarrow> (Inl [e], w') | (Inr x, w') \<Rightarrow> (Inr x, w'))"

definition context_call :: "string \<Rightarrow> ('w \<Rightarrow> (string + 'a) \<times> 'w) \<Rightarrow> 'w \<Rightarrow> (anyhow + 'a) \<times> 'w" where
  "context_call c m w = (case m w of (Inl e, w') \<Rightarrow> (Inl [c, e], w') | (Inr x, w') \<Rightarrow> (Inr x, w'))"

fun io_repeat :: "nat \<Rightarrow> ('w \<Rightarrow> (anyhow + unit) \<times> 'w) \<Rightarrow> 'w \<Rightarrow> (anyhow + unit) \<times> 'w" where
  "io_repeat 0 m w = (Inr (), w)"
| "io_repeat (Suc k) m w = io_bind m (\<lambda>_. io_repeat k m) w"

section \<open>cuda_backend.rs\<close>

datatype cublas_operation = CUBLAS_OP_N | CUBLAS_OP_T | CUBLAS_OP_C

record gemm_config =
  gc_transa :: cublas_operation
  gc_transb :: cublas_operation
  gc_m :: int
  gc_n :: int
  gc_k :: int
  gc_alpha :: real
  gc_lda :: int
  gc_ldb :: int
  gc_beta :: real
  gc_ldc :: int

definition cuda_config :: "int \<Rightarrow> real \<Rightarrow> real \<Rightarrow> gemm_config" where
  "cuda_config n alpha beta =
     \<lparr>gc_transa = CUBLAS_OP_N, gc_transb = CUBLAS_OP_N, gc_m = n, gc_n = n, gc_k = n, gc_alpha = alpha,
      gc_lda = n, gc_ldb = n, gc_beta = beta, gc_ldc = n\<rparr>"

record 'w cuda_driver =
  cu_device :: "nat \<Rightarrow> 'w \<Rightarrow> (string + nat) \<times> 'w"
  cu_blas :: "'w \<Rightarrow> (string + unit) \<times> 'w"
  cu_htod_copy :: "precision \<Rightarrow> real list \<Rightarrow> 'w \<Rightarrow> (string + nat) \<times> 'w"
  cu_alloc_zeros :: "precision \<Rightarrow> nat \<Rightarrow> 'w \<Rightarrow> (string + nat) \<times> 'w"
  cu_gemm :: "precision \<Rightarrow> gemm_config \<Rightarrow> nat \<Rightarrow> nat \<Rightarrow> nat \<Rightarrow> 'w \<Rightarrow> (string + unit) \<times> 'w"
  cu_synchronize :: "'w \<Rightarrow> (string + unit) \<times> 'w"
  cu_dtoh_copy :: "nat \<Rightarrow> 'w \<Rightarrow> (string + real list) \<times> 'w"
  cu_now :: "'w \<Rightarrow> real \<times> 'w"

text \<open>The name of the backend; \<open>cu_device\<close> gives the ordinal of the device it opened.\<close>

definition cuda_new :: "'w cuda_driver \<Rightarrow> 'w \<Rightarrow> (anyhow + string) \<times> 'w" where
  "cuda_new D =
     io_bind (context_call ''opening CUDA device 0'' (cu_device D 0)) (\<lambda>ordinal.
     io_bind (context_call ''creating a cuBLAS handle'' (cu_blas D)) (\<lambda>_ w.
       (Inr (''NVIDIA GPU (cuda:'' @ show_nat ordinal @ '')''), w)))"

text \<open>
  The body that \<^verbatim>\<open>gemm_f32\<close> and \<^verbatim>\<open>gemm_f16\<close> share but for the
  element type: seconds and the verdict on \<open>host[0]\<close>.
\<close>

definition cuda_timed ::
  "'w cuda_driver \<Rightarrow> precision \<Rightarrow> nat \<Rightarrow> nat \<Rightarrow> nat \<Rightarrow> 'w \<Rightarrow> (anyhow + real \<times> bool) \<times> 'w" where
  "cuda_timed D p n warmup iters =
     (let len = n * n; cfg = cuda_config (as_i32 (int n)) 1 0
      in io_bind (driver_call (cu_htod_copy D p (replicate len 1))) (\<lambda>a.
         io_bind (driver_call (cu_htod_copy D p (replicate len 1))) (\<lambda>b.
         io_bind (driver_call (cu_alloc_zeros D p len)) (\<lambda>c.
         io_bind (io_repeat warmup (driver_call (cu_gemm D p cfg a b c))) (\<lambda>_.
         io_bind (driver_call (cu_synchronize D)) (\<lambda>_ w0.
           (case cu_now D w0 of
              (start, w1) \<Rightarrow>
                io_bind (io_repeat iters (driver_call (cu_gemm D p cfg a b c))) (\<lambda>_.
                io_bind (driver_call (cu_synchronize D)) (\<lambda>_ w2.
                  (case cu_now D w2 of
                     (stop, w3) \<Rightarrow>
                       io_bind (driver_call (cu_dtoh_copy D c)) (\<lambda>host w4.
                         (Inr (stop - start, native_verified n (host ! 0)), w4)) w3))) w1)))))))"

definition cuda_gemm_f32 :: "'w cuda_driver \<Rightarrow> nat \<Rightarrow> nat \<Rightarrow> nat \<Rightarrow> 'w \<Rightarrow> (anyhow + real \<times> bool) \<times> 'w" where
  "cuda_gemm_f32 D = cuda_timed D F32"

definition cuda_gemm_f16 :: "'w cuda_driver \<Rightarrow> nat \<Rightarrow> nat \<Rightarrow> nat \<Rightarrow> 'w \<Rightarrow> (anyhow + real \<times> bool) \<times> 'w" where
  "cuda_gemm_f16 D = cuda_timed D F16"

definition cuda_gemm ::
  "'w cuda_driver \<Rightarrow> f64_ops \<Rightarrow> string \<Rightarrow> nat \<Rightarrow> precision \<Rightarrow> nat \<Rightarrow> nat \<Rightarrow> 'w \<Rightarrow> (anyhow + gemm_result) \<times> 'w" where
  "cuda_gemm D F name n p warmup iterations w =
     (if n = 0 then (Inl [''n must be > 0''], w)
      else
        io_bind (case p of F32 \<Rightarrow> cuda_gemm_f32 D n warmup iterations | F16 \<Rightarrow> cuda_gemm_f16 D n warmup iterations)
          (\<lambda>(seconds, verified) w'.
             (Inr \<lparr>gr_device = name, gr_backend = ''cuBLAS'', gr_precision = p, gr_n = n,
                   gr_iterations = iterations, gr_seconds = seconds,
                   gr_tflops = gemm_tflops F n iterations seconds, gr_verified = verified\<rparr>, w')) w)"

definition cuda_bandwidth :: "nat \<Rightarrow> nat \<Rightarrow> nat \<Rightarrow> 'w \<Rightarrow> (anyhow + bandwidth_result) \<times> 'w" where
  "cuda_bandwidth elements warmup iterations w =
     (Inl [''cuBLAS backend measures GEMM only; use the portable backend for bandwidth''], w)"

definition cuda_backend :: "'w cuda_driver \<Rightarrow> f64_ops \<Rightarrow> string \<Rightarrow> 'w backend" where
  "cuda_backend D F name =
     \<lparr>be_device_info = \<lparr>di_name = name, di_backend = ''cuBLAS'', di_device_type = ''DiscreteGpu''\<rparr>,
      be_gemm = cuda_gemm D F name, be_bandwidth = cuda_bandwidth\<rparr>"

section \<open>metal_backend.rs\<close>

text \<open>
  One dispatch of the library's kernel of a precision, on inputs of ones; \<open>tgids n\<close> is the order
  the threadgroups run in.
\<close>

definition metal_run :: "(nat \<Rightarrow> (nat \<times> nat) list) \<Rightarrow> precision \<Rightarrow> nat \<Rightarrow> buffer \<Rightarrow> buffer" where
  "metal_run tgids p n = simd_dispatch (\<lambda>_. 1) (\<lambda>_. 1) n (tgids n)"

definition metal_new :: "metal_device \<Rightarrow> anyhow + string" where
  "metal_new M =
     (case first_error
             [require ''no Metal device found'' (md_present M),
              require ''creating a Metal command queue'' (md_queue M),
              prefixed ''compiling MSL kernel: '' (md_library M)] of
        Inl e \<Rightarrow> Inl e
      | Inr _ \<Rightarrow> Inr (md_name M))"

definition metal_pipeline :: "metal_device \<Rightarrow> string \<Rightarrow> anyhow + unit" where
  "metal_pipeline M func =
     first_error
       [require (''kernel '' @ func @ '' not found in library'') (md_function M func),
        prefixed (''building pipeline '' @ func @ '': '') (md_pipeline M func)]"

text \<open>
  \<open>count\<close> dispatches of a kernel, one command buffer, the \<open>k\<close>-th of the call; \<open>None\<close> is the
  panic of its \<^verbatim>\<open>expect\<close>s.
\<close>

definition metal_run_gemm :: "metal_device \<Rightarrow> nat \<Rightarrow> (buffer \<Rightarrow> buffer) \<Rightarrow> nat \<Rightarrow> buffer \<Rightarrow> buffer option" where
  "metal_run_gemm M k run count c =
     (if md_command_buffer M k \<and> md_encoder M k then Some (time_dispatches run count c) else None)"

fun kernel_name :: "precision \<Rightarrow> string" where
  "kernel_name F32 = ''gemm_f32''"
| "kernel_name F16 = ''gemm_f16''"

text \<open>The \<open>k\<close>-th shared buffer of the call, or the panic of its \<^verbatim>\<open>expect\<close>.\<close>

definition metal_shared_buffer :: "metal_device \<Rightarrow> nat \<Rightarrow> nat \<Rightarrow> unit option" where
  "metal_shared_buffer M k bytes = (if md_buffer M k bytes then Some () else None)"

text \<open>
  \<open>junk\<close> is what the output buffer holds at first, \<open>seconds\<close> the wall clock of the timed run.
\<close>

definition metal_backend_gemm ::
  "metal_device \<Rightarrow> f64_ops \<Rightarrow> (nat \<Rightarrow> (nat \<times> nat) list) \<Rightarrow> buffer \<Rightarrow> real \<Rightarrow>
   nat \<Rightarrow> precision \<Rightarrow> nat \<Rightarrow> nat \<Rightarrow> (anyhow + gemm_result) option" where
  "metal_backend_gemm M F tgids junk seconds n p warmup iterations =
     (if \<not> (8 \<le> n \<and> n mod 8 = 0) then
        Some (Inl [''the Metal backend needs n to be a positive multiple of 8 (got '' @ show_nat n @ '')''])
      else
        (let len = n * n
         in case metal_pipeline M (kernel_name p) of
              Inl e \<Rightarrow> Some (Inl e)
            | Inr _ \<Rightarrow>
                (case metal_shared_buffer M 0 (len * precision_size p) of
                   None \<Rightarrow> None
                 | Some _ \<Rightarrow>
                (case metal_shared_buffer M 1 (len * precision_size p) of
                   None \<Rightarrow> None
                 | Some _ \<Rightarrow>
                  (case require ''allocating the output buffer'' (md_buffer M 2 (len * 4)) of
                     Inl e \<Rightarrow> Some (Inl e)
                   | Inr _ \<Rightarrow>
                       (case (if 0 < warmup then metal_run_gemm M 0 (metal_run tgids p n) warmup junk
                              else Some junk) of
                          None \<Rightarrow> None
                        | Some c1 \<Rightarrow>
                            (case metal_run_gemm M (if 0 < warmup then 1 else 0) (metal_run tgids p n)
                                    iterations c1 of
                               None \<Rightarrow> None
                             | Some c2 \<Rightarrow>
                                 Some (Inr \<lparr>gr_device = md_name M, gr_backend = ''Metal'', gr_precision = p, gr_n = n,
                                   gr_iterations = iterations, gr_seconds = seconds,
                                   gr_tflops = gemm_tflops F n iterations seconds,
                                   gr_verified = native_verified n (c2 0)\<rparr>))))))))"

text \<open>The blit copies: a copy moves the source into the destination.\<close>

definition metal_run_copy :: "metal_device \<Rightarrow> nat \<Rightarrow> nat \<Rightarrow> buffer \<times> buffer \<Rightarrow> (buffer \<times> buffer) option" where
  "metal_run_copy M k count sd =
     (if md_command_buffer M k \<and> md_encoder M k then Some (((\<lambda>(src, dst). (src, src)) ^^ count) sd) else None)"

definition metal_backend_bandwidth ::
  "metal_device \<Rightarrow> f64_ops \<Rightarrow> buffer \<times> buffer \<Rightarrow> real \<Rightarrow> nat \<Rightarrow> nat \<Rightarrow> nat \<Rightarrow> (anyhow + bandwidth_result) option" where
  "metal_backend_bandwidth M F junk seconds elements warmup iterations =
     (let bytes = elements * 4
      in case first_error
                [require ''allocating the source buffer'' (md_buffer M 0 bytes),
                 require ''allocating the destination buffer'' (md_buffer M 1 bytes)] of
           Inl e \<Rightarrow> Some (Inl e)
         | Inr _ \<Rightarrow>
             (case (if 0 < warmup then metal_run_copy M 0 warmup junk else Some junk) of
                None \<Rightarrow> None
              | Some sd1 \<Rightarrow>
                  (case metal_run_copy M (if 0 < warmup then 1 else 0) iterations sd1 of
                     None \<Rightarrow> None
                   | Some sd2 \<Rightarrow>
                       Some (Inr \<lparr>br_device = md_name M, br_backend = ''Metal'', br_bytes_per_iter = bytes * 2,
                         br_iterations = iterations, br_seconds = seconds,
                         br_gb_per_s = gb_per_s F (bytes * 2) iterations seconds\<rparr>))))"

definition metal_device_info :: "string \<Rightarrow> device_info" where
  "metal_device_info name = \<lparr>di_name = name, di_backend = ''Metal'', di_device_type = ''IntegratedGpu''\<rparr>"

section \<open>wgpu_backend.rs\<close>

text \<open>What a buffer is made with, what it may be used for, and the three shader sources.\<close>

datatype gpu_data = FloatData "real list" | HalfData "real list" | DimsData nat

datatype buffer_usage = STORAGE | UNIFORM | COPY_SRC | COPY_DST | MAP_READ

datatype wgsl = GEMM_F32_WGSL | GEMM_F16_WGSL | TRIAD_WGSL

datatype gpu_command = Dispatch nat nat "nat \<times> nat \<times> nat" | CopyBuffer nat nat nat

record wgpu_adapter =
  ad_name :: string
  ad_backend :: string
  ad_device_type :: string
  ad_shader_f16 :: bool

text \<open>
  \<open>wd_submit\<close> takes the commands of one encoder; \<open>wd_map\<close> reads the first float of a mapped
  buffer; the backend and device type of an adapter are their debug text.
\<close>

record 'w wgpu_driver =
  wd_request_adapter :: "'w \<Rightarrow> (string + wgpu_adapter) \<times> 'w"
  wd_enumerate :: "'w \<Rightarrow> wgpu_adapter list \<times> 'w"
  wd_request_device :: "wgpu_adapter \<Rightarrow> bool \<Rightarrow> 'w \<Rightarrow> (string + unit) \<times> 'w"
  wd_buffer_init :: "gpu_data \<Rightarrow> buffer_usage list \<Rightarrow> 'w \<Rightarrow> nat \<times> 'w"
  wd_buffer :: "nat \<Rightarrow> buffer_usage list \<Rightarrow> 'w \<Rightarrow> nat \<times> 'w"
  wd_pipeline :: "wgsl \<Rightarrow> string \<Rightarrow> 'w \<Rightarrow> nat \<times> 'w"
  wd_bind_group :: "nat \<Rightarrow> (nat \<times> nat) list \<Rightarrow> 'w \<Rightarrow> nat \<times> 'w"
  wd_submit :: "gpu_command list \<Rightarrow> 'w \<Rightarrow> 'w"
  wd_wait :: "'w \<Rightarrow> 'w"
  wd_map :: "nat \<Rightarrow> 'w \<Rightarrow> (string + real) \<times> 'w"
  wd_now :: "'w \<Rightarrow> real \<times> 'w"

record wgpu_backend =
  wb_info :: device_info
  wb_f16_supported :: bool

definition adapter_to_info :: "wgpu_adapter \<Rightarrow> device_info" where
  "adapter_to_info ad = \<lparr>di_name = ad_name ad, di_backend = ad_backend ad, di_device_type = ad_device_type ad\<rparr>"

definition wgpu_new :: "'w wgpu_driver \<Rightarrow> 'w \<Rightarrow> (anyhow + wgpu_backend) \<times> 'w" where
  "wgpu_new D =
     io_bind (context_call ''no GPU adapter found'' (wd_request_adapter D)) (\<lambda>ad.
     io_bind (context_call ''failed to open GPU device'' (wd_request_device D ad (ad_shader_f16 ad))) (\<lambda>_ w.
       (Inr \<lparr>wb_info = adapter_to_info ad, wb_f16_supported = ad_shader_f16 ad\<rparr>, w)))"

definition wgpu_list :: "'w wgpu_driver \<Rightarrow> 'w \<Rightarrow> device_info list \<times> 'w" where
  "wgpu_list D w = (case wd_enumerate D w of (ads, w') \<Rightarrow> (map adapter_to_info ads, w'))"

definition storage_usage :: "buffer_usage list" where
  "storage_usage = [STORAGE, COPY_SRC, COPY_DST]"

definition storage_buffer :: "'w wgpu_driver \<Rightarrow> real list \<Rightarrow> 'w \<Rightarrow> nat \<times> 'w" where
  "storage_buffer D xs = wd_buffer_init D (FloatData xs) storage_usage"

definition storage_buffer_f16 :: "'w wgpu_driver \<Rightarrow> real list \<Rightarrow> 'w \<Rightarrow> nat \<times> 'w" where
  "storage_buffer_f16 D xs = wd_buffer_init D (HalfData xs) storage_usage"

definition wgpu_time ::
  "'w wgpu_driver \<Rightarrow> nat \<Rightarrow> nat \<Rightarrow> nat \<times> nat \<times> nat \<Rightarrow> nat \<Rightarrow> 'w \<Rightarrow> real \<times> 'w" where
  "wgpu_time D pipeline bind_group groups iterations w =
     (case wd_now D w of
        (start, w1) \<Rightarrow>
          (case wd_now D (wd_wait D (wd_submit D (replicate iterations (Dispatch pipeline bind_group groups)) w1)) of
             (stop, w2) \<Rightarrow> (stop - start, w2)))"

definition wgpu_warm_up ::
  "'w wgpu_driver \<Rightarrow> nat \<Rightarrow> nat \<Rightarrow> nat \<times> nat \<times> nat \<Rightarrow> nat \<Rightarrow> 'w \<Rightarrow> 'w" where
  "wgpu_warm_up D pipeline bind_group groups warmup w =
     (if 0 < warmup then snd (wgpu_time D pipeline bind_group groups warmup w) else w)"

definition wgpu_read_first :: "'w wgpu_driver \<Rightarrow> nat \<Rightarrow> 'w \<Rightarrow> (anyhow + real) \<times> 'w" where
  "wgpu_read_first D buf w =
     (case wd_buffer D 4 [MAP_READ, COPY_DST] w of
        (staging, w1) \<Rightarrow>
          (case wd_map D staging (wd_wait D (wd_submit D [CopyBuffer buf staging 4] w1)) of
             (Inl e, w2) \<Rightarrow> (Inl [''failed to map readback buffer: '' @ e], w2)
           | (Inr x, w2) \<Rightarrow> (Inr x, w2)))"

definition wgpu_inputs :: "'w wgpu_driver \<Rightarrow> precision \<Rightarrow> nat \<Rightarrow> 'w \<Rightarrow> (nat \<times> nat) \<times> 'w" where
  "wgpu_inputs D p elems w =
     (let mk = (case p of F32 \<Rightarrow> storage_buffer D (replicate elems 1) | F16 \<Rightarrow> storage_buffer_f16 D (replicate elems 1));
          (a, w1) = mk w; (b, w2) = mk w1
      in ((a, b), w2))"

fun gemm_shader :: "precision \<Rightarrow> wgsl" where
  "gemm_shader F32 = GEMM_F32_WGSL"
| "gemm_shader F16 = GEMM_F16_WGSL"

definition wgpu_backend_gemm ::
  "'w wgpu_driver \<Rightarrow> f64_ops \<Rightarrow> wgpu_backend \<Rightarrow> nat \<Rightarrow> precision \<Rightarrow> nat \<Rightarrow> nat \<Rightarrow> 'w \<Rightarrow> (anyhow + gemm_result) \<times> 'w" where
  "wgpu_backend_gemm D F B n p warmup iterations w =
     (if n = 0 then (Inl [''n must be > 0''], w)
      else if p = F16 \<and> \<not> wb_f16_supported B then
        (Inl [''this device does not support SHADER_F16, so fp16 GEMM is unavailable''], w)
      else
        (let elems = n * n;
             ((a, b), w1) = wgpu_inputs D p elems w;
             (c, w2) = wd_buffer D (elems * 4) [STORAGE, COPY_SRC] w1;
             (dims, w3) = wd_buffer_init D (DimsData n) [UNIFORM] w2;
             (pipeline, w4) = wd_pipeline D (gemm_shader p) ''main'' w3;
             (bind_group, w5) = wd_bind_group D pipeline [(0, dims), (1, a), (2, b), (3, c)] w4;
             groups = (gemm_groups n, gemm_groups n, 1);
             w6 = wgpu_warm_up D pipeline bind_group groups warmup w5
         in io_bind (wgpu_read_first D c) (\<lambda>first w7.
              (case wgpu_time D pipeline bind_group groups iterations w7 of
                 (seconds, w8) \<Rightarrow>
                   (Inr \<lparr>gr_device = di_name (wb_info B), gr_backend = di_backend (wb_info B), gr_precision = p,
                         gr_n = n, gr_iterations = iterations, gr_seconds = seconds,
                         gr_tflops = gemm_tflops F n iterations seconds,
                         gr_verified = \<bar>first - real n\<bar> < 1 / 2\<rparr>, w8))) w6))"

definition wgpu_backend_bandwidth ::
  "'w wgpu_driver \<Rightarrow> f64_ops \<Rightarrow> wgpu_backend \<Rightarrow> nat \<Rightarrow> nat \<Rightarrow> nat \<Rightarrow> 'w \<Rightarrow> (anyhow + bandwidth_result) \<times> 'w" where
  "wgpu_backend_bandwidth D F B elements warmup iterations w =
     (if elements = 0 then (Inl [''elements must be > 0''], w)
      else
        (let (a, w1) = storage_buffer D (replicate elements 1) w;
             (b, w2) = storage_buffer D (replicate elements 2) w1;
             (c, w3) = wd_buffer D (elements * 4) [STORAGE, COPY_SRC] w2;
             (pipeline, w4) = wd_pipeline D TRIAD_WGSL ''main'' w3;
             (bind_group, w5) = wd_bind_group D pipeline [(0, a), (1, b), (2, c)] w4;
             groups = (triad_groups elements, 1, 1);
             w6 = wgpu_warm_up D pipeline bind_group groups warmup w5;
             (seconds, w7) = wgpu_time D pipeline bind_group groups iterations w6;
             bytes_per_iter = elements * 3 * 4
         in (Inr \<lparr>br_device = di_name (wb_info B), br_backend = di_backend (wb_info B),
                  br_bytes_per_iter = bytes_per_iter, br_iterations = iterations, br_seconds = seconds,
                  br_gb_per_s = gb_per_s F bytes_per_iter iterations seconds\<rparr>, w7)))"

text \<open>The portable backend behind the trait.\<close>

definition wgpu_trait :: "'w wgpu_driver \<Rightarrow> f64_ops \<Rightarrow> wgpu_backend \<Rightarrow> 'w backend" where
  "wgpu_trait D F B = \<lparr>be_device_info = wb_info B, be_gemm = wgpu_backend_gemm D F B,
     be_bandwidth = wgpu_backend_bandwidth D F B\<rparr>"

end
