(* ===== verification/Gpu_Drivers_Spec.thy ===== *)
theory Gpu_Drivers_Spec
  imports Gpu_Drivers Gpu_Bench_Spec
begin

text \<open>
  What the measurements of the backends are worth when their drivers do what they document. The
  documented behaviour is stated over a view of the driver's state: the contents of the device's
  buffers, and for \<^verbatim>\<open>wgpu\<close> its pipelines and bind groups; a submitted dispatch runs
  the kernel of \<open>Gpu_Kernels\<close> on the buffers of its bind group.
\<close>

section \<open>Sequencing\<close>

lemma io_bind_InrE:
  assumes "io_bind m f w = (Inr y, w')"
  obtains x w1 where "m w = (Inr x, w1)" "f x w1 = (Inr y, w')"
  using assms by (auto simp: io_bind_def split: prod.splits sum.splits)

lemma driver_call_InrD: "driver_call m w = (Inr x, w') \<Longrightarrow> m w = (Inr x, w')"
  by (auto simp: driver_call_def split: prod.splits sum.splits)

section \<open>cuBLAS\<close>

text \<open>
  The column-major product \<open>C = alpha * A * B + beta * C\<close> of a configuration without
  transposition, every element rounded to the element type.
\<close>

definition blas_product ::
  "(precision \<Rightarrow> real \<Rightarrow> real) \<Rightarrow> precision \<Rightarrow> gemm_config \<Rightarrow> real list \<Rightarrow> real list \<Rightarrow> real list \<Rightarrow> real list" where
  "blas_product rnd p cfg A B C =
     map (\<lambda>i. let row = i mod nat (gc_ldc cfg); col = i div nat (gc_ldc cfg)
          in rnd p (gc_alpha cfg * (\<Sum>l<nat (gc_k cfg). A ! (row + l * nat (gc_lda cfg)) * B ! (l + col * nat (gc_ldb cfg)))
                    + gc_beta cfg * C ! i))
       [0..<length C]"

type_synonym 'w device_view = "'w \<Rightarrow> nat \<rightharpoonup> real list"

definition allocates :: "'w device_view \<Rightarrow> ('w \<Rightarrow> (string + nat) \<times> 'w) \<Rightarrow> real list \<Rightarrow> bool" where
  "allocates view m xs \<longleftrightarrow>
     (\<forall>w i w'. m w = (Inr i, w') \<longrightarrow> view w i = None \<and> view w' = (view w)(i \<mapsto> xs))"

definition cuda_laws :: "'w cuda_driver \<Rightarrow> (precision \<Rightarrow> real \<Rightarrow> real) \<Rightarrow> 'w device_view \<Rightarrow> bool" where
  "cuda_laws D rnd view \<longleftrightarrow>
     (\<forall>p xs. allocates view (cu_htod_copy D p xs) xs) \<and>
     (\<forall>p k. allocates view (cu_alloc_zeros D p k) (replicate k 0)) \<and>
     (\<forall>p cfg a b c A B C w w'. cu_gemm D p cfg a b c w = (Inr (), w') \<longrightarrow>
        gc_transa cfg = CUBLAS_OP_N \<longrightarrow> gc_transb cfg = CUBLAS_OP_N \<longrightarrow>
        view w a = Some A \<longrightarrow> view w b = Some B \<longrightarrow> view w c = Some C \<longrightarrow>
        view w' = (view w)(c \<mapsto> blas_product rnd p cfg A B C)) \<and>
     (\<forall>w u w'. cu_synchronize D w = (Inr u, w') \<longrightarrow> view w' = view w) \<and>
     (\<forall>w t w'. cu_now D w = (t, w') \<longrightarrow> view w' = view w) \<and>
     (\<forall>c w xs w'. cu_dtoh_copy D c w = (Inr xs, w') \<longrightarrow> view w c = Some xs)"

lemma allocatesD:
  "allocates view m xs \<Longrightarrow> m w = (Inr i, w') \<Longrightarrow> view w i = None \<and> view w' = (view w)(i \<mapsto> xs)"
  by (simp add: allocates_def)

lemma cuda_lawsD:
  assumes "cuda_laws D rnd view"
  shows "cu_htod_copy D p xs w = (Inr i, w') \<Longrightarrow> view w i = None \<and> view w' = (view w)(i \<mapsto> xs)"
    and "cu_alloc_zeros D p k w = (Inr i, w') \<Longrightarrow> view w i = None \<and> view w' = (view w)(i \<mapsto> replicate k 0)"
    and "cu_synchronize D w = (Inr u, w') \<Longrightarrow> view w' = view w"
    and "cu_now D w = (t, w') \<Longrightarrow> view w' = view w"
    and "cu_dtoh_copy D c w = (Inr ys, w') \<Longrightarrow> view w c = Some ys"
proof -
  note law = assms [unfolded cuda_laws_def]
  show "view w i = None \<and> view w' = (view w)(i \<mapsto> xs)" if "cu_htod_copy D p xs w = (Inr i, w')"
    using law that by (intro allocatesD [where m = "cu_htod_copy D p xs"]) simp_all
  show "view w i = None \<and> view w' = (view w)(i \<mapsto> replicate k 0)" if "cu_alloc_zeros D p k w = (Inr i, w')"
    using law that by (intro allocatesD [where m = "cu_alloc_zeros D p k"]) simp_all
  show "view w' = view w" if "cu_synchronize D w = (Inr u, w')" using law that by simp
  show "view w' = view w" if "cu_now D w = (t, w')" using law that by simp
  show "view w c = Some ys" if "cu_dtoh_copy D c w = (Inr ys, w')" using law that by simp
qed

lemma square_index: "row < n \<Longrightarrow> l < n \<Longrightarrow> row + l * n < n * (n::nat)"
proof -
  assume "row < n" "l < n"
  then have "row + l * n < n + l * n" by simp
  also have "\<dots> = Suc l * n" by simp
  also have "\<dots> \<le> n * n" using \<open>l < n\<close> by (intro mult_le_mono1) simp
  finally show ?thesis .
qed

lemma blas_product_ones:
  assumes "0 < n" "length C = n * n"
  shows "blas_product rnd p (cuda_config (int n) 1 0) (replicate (n * n) 1) (replicate (n * n) 1) C =
    replicate (n * n) (rnd p (real n))"
proof (rule nth_equalityI)
  fix i assume "i < length (blas_product rnd p (cuda_config (int n) 1 0) (replicate (n * n) 1) (replicate (n * n) 1) C)"
  then have i: "i < n * n" using assms(2) by (simp add: blas_product_def)
  have row: "i mod n < n" "i div n < n" using assms(1) i by (simp_all add: less_mult_imp_div_less)
  have "replicate (n * n) (1::real) ! (i mod n + l * n) * replicate (n * n) 1 ! (l + (i div n) * n) = 1" if "l < n" for l
    using square_index [OF row(1) that] square_index [OF that row(2)] by simp
  then have "(\<Sum>l<n. replicate (n * n) (1::real) ! (i mod n + l * n) * replicate (n * n) 1 ! (l + (i div n) * n)) = real n"
    by simp
  then show "blas_product rnd p (cuda_config (int n) 1 0) (replicate (n * n) 1) (replicate (n * n) 1) C ! i =
      replicate (n * n) (rnd p (real n)) ! i"
    using i assms(2) by (simp add: blas_product_def cuda_config_def Let_def)
qed (simp add: blas_product_def assms(2))

text \<open>Both inputs of ones in place, and the output of the right size.\<close>

definition gemm_ready :: "(nat \<rightharpoonup> real list) \<Rightarrow> nat \<Rightarrow> nat \<Rightarrow> nat \<Rightarrow> nat \<Rightarrow> bool" where
  "gemm_ready v n a b c \<longleftrightarrow> v a = Some (replicate (n * n) 1) \<and> v b = Some (replicate (n * n) 1) \<and>
     a \<noteq> c \<and> b \<noteq> c \<and> (\<exists>C. v c = Some C \<and> length C = n * n)"

lemma repeated_gemm:
  assumes "cuda_laws D rnd view" "0 < n"
    and "io_repeat k (driver_call (cu_gemm D p (cuda_config (int n) 1 0) a b c)) w = (Inr (), w')" "gemm_ready (view w) n a b c"
  shows "gemm_ready (view w') n a b c \<and> view w' c = (if k = 0 then view w c else Some (replicate (n * n) (rnd p (real n))))"
  using assms(3,4)
proof (induction k arbitrary: w)
  case (Suc k)
  obtain w1 where one: "cu_gemm D p (cuda_config (int n) 1 0) a b c w = (Inr (), w1)"
    and rest: "io_repeat k (driver_call (cu_gemm D p (cuda_config (int n) 1 0) a b c)) w1 = (Inr (), w')"
    using Suc.prems(1) by (auto elim!: io_bind_InrE dest!: driver_call_InrD)
  obtain C where C: "view w a = Some (replicate (n * n) 1)" "view w b = Some (replicate (n * n) 1)" "view w c = Some C"
    "length C = n * n" "a \<noteq> c" "b \<noteq> c"
    using Suc.prems(2) by (auto simp: gemm_ready_def)
  have "gc_transa (cuda_config (int n) 1 0) = CUBLAS_OP_N" "gc_transb (cuda_config (int n) 1 0) = CUBLAS_OP_N"
    by (simp_all add: cuda_config_def)
  with assms(1) one C have "view w1 = (view w)(c \<mapsto> replicate (n * n) (rnd p (real n)))"
    unfolding cuda_laws_def blas_product_ones [OF assms(2) C(4), of rnd p, symmetric] by blast
  then show ?case using Suc.IH [OF rest] C by (auto simp: gemm_ready_def split: if_splits)
qed simp

lemma cuda_timed_InrE:
  assumes "cuda_timed D p n warmup iters w = (Inr (s, v), w')" "int n < 2 ^ 31"
  obtains a w1 b w2 c w3 w4 w5 t w6 w7 w8 t' w9 host where
    "cu_htod_copy D p (replicate (n * n) 1) w = (Inr a, w1)" "cu_htod_copy D p (replicate (n * n) 1) w1 = (Inr b, w2)"
    "cu_alloc_zeros D p (n * n) w2 = (Inr c, w3)"
    "io_repeat warmup (driver_call (cu_gemm D p (cuda_config (int n) 1 0) a b c)) w3 = (Inr (), w4)"
    "cu_synchronize D w4 = (Inr (), w5)" "cu_now D w5 = (t, w6)"
    "io_repeat iters (driver_call (cu_gemm D p (cuda_config (int n) 1 0) a b c)) w6 = (Inr (), w7)"
    "cu_synchronize D w7 = (Inr (), w8)" "cu_now D w8 = (t', w9)" "cu_dtoh_copy D c w9 = (Inr host, w')"
    "v = native_verified n (host ! 0)"
proof -
  have "as_i32 (int n) = int n" using assms(2) by (intro as_i32_id) (simp add: in_i32_def)
  with assms(1) show ?thesis
    unfolding cuda_timed_def Let_def
    by (auto elim!: io_bind_InrE dest!: driver_call_InrD split: prod.splits) (rule that, assumption+, simp)+
qed

text \<open>What rounding does to the sizes the verdict is about: at most half a unit of \<open>f16\<close>, relative.\<close>

definition rounds_to_nearest :: "(precision \<Rightarrow> real \<Rightarrow> real) \<Rightarrow> bool" where
  "rounds_to_nearest rnd \<longleftrightarrow> (\<forall>p n. n \<le> 65504 \<longrightarrow> \<bar>rnd p (real n) - real n\<bar> \<le> real n / 2048)"

lemma native_verified_rounded:
  "rounds_to_nearest rnd \<Longrightarrow> 0 < n \<Longrightarrow> n \<le> 65504 \<Longrightarrow> native_verified n (rnd p (real n))"
proof -
  assume "rounds_to_nearest rnd" "0 < n" "n \<le> 65504"
  then have "\<bar>rnd p (real n) - real n\<bar> \<le> real n / 2048" "real n / 2048 < real n * (1 / 1000)"
    by (auto simp: rounds_to_nearest_def)
  then have "\<bar>rnd p (real n) - real n\<bar> < real n * (1 / 1000)" by linarith
  then show ?thesis by (simp add: native_verified_def less_max_iff_disj)
qed

lemma native_verified_exact: "native_verified n (real n)"
  by (simp add: native_verified_def less_max_iff_disj)

lemma native_verified_zero: "0 < n \<Longrightarrow> \<not> native_verified n 0"
  by (auto simp: native_verified_def)

lemma cuda_timed_verdict:
  assumes "cuda_laws D rnd view" "rounds_to_nearest rnd" "0 < n" "n \<le> 65504"
    and "cuda_timed D p n warmup iters w = (Inr (s, v), w')"
  shows "v \<longleftrightarrow> 0 < warmup + iters"
proof -
  let ?cfg = "cuda_config (int n) 1 0"
  have small: "int n < 2 ^ 31" using assms(4) by simp
  obtain a w1 b w2 c w3 w4 w5 t w6 w7 w8 t' w9 host where run:
    "cu_htod_copy D p (replicate (n * n) 1) w = (Inr a, w1)" "cu_htod_copy D p (replicate (n * n) 1) w1 = (Inr b, w2)"
    "cu_alloc_zeros D p (n * n) w2 = (Inr c, w3)"
    "io_repeat warmup (driver_call (cu_gemm D p ?cfg a b c)) w3 = (Inr (), w4)"
    "cu_synchronize D w4 = (Inr (), w5)" "cu_now D w5 = (t, w6)"
    "io_repeat iters (driver_call (cu_gemm D p ?cfg a b c)) w6 = (Inr (), w7)"
    "cu_synchronize D w7 = (Inr (), w8)" "cu_now D w8 = (t', w9)" "cu_dtoh_copy D c w9 = (Inr host, w')"
    "v = native_verified n (host ! 0)"
    by (rule cuda_timed_InrE [OF assms(5) small]) (rule that)
  note laws = cuda_lawsD [OF assms(1)]
  have "view w1 = (view w)(a \<mapsto> replicate (n * n) 1)" "view w1 b = None"
    "view w2 = (view w1)(b \<mapsto> replicate (n * n) 1)" "view w2 c = None" "view w3 = (view w2)(c \<mapsto> replicate (n * n) 0)"
    using laws(1) [OF run(1)] laws(1) [OF run(2)] laws(2) [OF run(3)] by simp_all
  then have "gemm_ready (view w3) n a b c" "view w3 c = Some (replicate (n * n) 0)"
    by (auto simp: gemm_ready_def split: if_splits)
  from repeated_gemm [OF assms(1,3) run(4) this(1)] this(2)
  have w4: "gemm_ready (view w4) n a b c"
    "view w4 c = Some (replicate (n * n) (if warmup = 0 then 0 else rnd p (real n)))" by (auto split: if_splits)
  have "view w6 = view w4" using laws(3) [OF run(5)] laws(4) [OF run(6)] by simp
  with repeated_gemm [OF assms(1,3) run(7)] w4
  have w7: "view w7 c = Some (replicate (n * n) (if warmup + iters = 0 then 0 else rnd p (real n)))"
    by (auto split: if_splits)
  have "view w9 = view w7" using laws(3) [OF run(8)] laws(4) [OF run(9)] by simp
  with laws(5) [OF run(10)] w7 have "host = replicate (n * n) (if warmup + iters = 0 then 0 else rnd p (real n))"
    by simp
  then have "host ! 0 = (if warmup + iters = 0 then 0 else rnd p (real n))" using assms(3) by simp
  then show ?thesis
    using run(11) native_verified_zero [OF assms(3)] native_verified_rounded [OF assms(2,3,4)] by simp
qed

lemma cuda_gemm_InrE:
  assumes "cuda_gemm D F name n p warmup iterations w = (Inr r, w')"
  obtains s v where "0 < n" "cuda_timed D p n warmup iterations w = (Inr (s, v), w')" "gr_seconds r = s"
    "gr_verified r = v" "gr_tflops r = gemm_tflops F n iterations s"
  using assms by (auto simp: cuda_gemm_def cuda_gemm_f32_def cuda_gemm_f16_def elim!: io_bind_InrE
      split: if_splits precision.splits)

text \<open>
  C39: on a CUDA device that does what cuBLAS documents, the verdict of the cuBLAS backend is that
  of the work done: a product that completes is verified exactly when it was dispatched at all,
  in either precision and for every size up to the largest finite half.
\<close>

theorem cublas_verifies_iff_dispatched:
  assumes "cuda_laws D rnd view" "rounds_to_nearest rnd" "n \<le> 65504"
    and "cuda_gemm D F name n p warmup iterations w = (Inr r, w')"
  shows "gr_verified r \<longleftrightarrow> 0 < warmup + iterations"
  using assms(4) by (rule cuda_gemm_InrE) (use cuda_timed_verdict [OF assms(1,2) _ assms(3)] in auto)

text \<open>A CUDA device whose memory is the list of its buffers, with exact arithmetic.\<close>

definition demo_cuda :: "real list list cuda_driver" where
  "demo_cuda = \<lparr>cu_device = (\<lambda>k w. (Inr k, w)), cu_blas = (\<lambda>w. (Inr (), w)),
     cu_htod_copy = (\<lambda>p xs w. (Inr (length w), w @ [xs])),
     cu_alloc_zeros = (\<lambda>p k w. (Inr (length w), w @ [replicate k 0])),
     cu_gemm = (\<lambda>p cfg a b c w. (Inr (), w[c := blas_product (\<lambda>p x. x) p cfg (w ! a) (w ! b) (w ! c)])),
     cu_synchronize = (\<lambda>w. (Inr (), w)),
     cu_dtoh_copy = (\<lambda>c w. (if c < length w then Inr (w ! c) else Inl ''invalid pointer'', w)),
     cu_now = (\<lambda>w. (0, w))\<rparr>"

definition list_view :: "'a list \<Rightarrow> nat \<rightharpoonup> 'a" where
  "list_view xs i = (if i < length xs then Some (xs ! i) else None)"

lemma list_view_append: "list_view xs (length xs) = None" "list_view (xs @ [x]) = (list_view xs)(length xs \<mapsto> x)"
  by (auto simp: list_view_def fun_eq_iff nth_append)

lemma list_view_update: "list_view xs c = Some y \<Longrightarrow> list_view (xs[c := x]) = (list_view xs)(c \<mapsto> x)"
  by (auto simp: list_view_def fun_eq_iff nth_list_update split: if_splits)

lemma demo_cuda_laws: "cuda_laws demo_cuda (\<lambda>p x. x) list_view"
  unfolding cuda_laws_def allocates_def demo_cuda_def
  by (intro conjI allI impI)
    (auto simp: list_view_append list_view_update, simp_all add: list_view_def split: if_splits)

theorem cublas_verifies_iff_dispatched_witness:
  "\<exists>r. fst (cuda_gemm demo_cuda demo_f64 ''NVIDIA GPU (cuda:0)'' 2 F16 0 1 []) = Inr r \<and> gr_verified r"
proof -
  let ?go = "cuda_gemm demo_cuda demo_f64 ''NVIDIA GPU (cuda:0)'' 2 F16 0 1 []"
  have "\<exists>r. fst ?go = Inr r"
    by (simp add: cuda_gemm_def cuda_gemm_f16_def cuda_timed_def Let_def io_bind_def driver_call_def demo_cuda_def)
  then obtain r w' where go: "?go = (Inr r, w')" by (metis prod.collapse)
  have "rounds_to_nearest (\<lambda>p x. x)" by (simp add: rounds_to_nearest_def)
  from cublas_verifies_iff_dispatched [OF demo_cuda_laws this _ go] go show ?thesis by simp
qed

section \<open>Metal\<close>

text \<open>When the Metal backend refuses, panics, or gives a result.\<close>

lemma metal_backend_gemm_cases:
  "case metal_backend_gemm M F tgids junk seconds n p warmup iterations of
     None \<Rightarrow> 8 \<le> n \<and> n mod 8 = 0 \<and> (\<exists>k b. \<not> md_buffer M k b \<or> \<not> md_command_buffer M k \<or> \<not> md_encoder M k)
   | Some (Inl e) \<Rightarrow> \<not> (8 \<le> n \<and> n mod 8 = 0) \<or> metal_pipeline M (kernel_name p) = Inl e \<or> \<not> md_buffer M 2 (n * n * 4)
   | Some (Inr r) \<Rightarrow> 8 \<le> n \<and> n mod 8 = 0 \<and> gr_n r = n \<and> gr_precision r = p \<and> gr_iterations r = iterations"
  by (auto simp: metal_backend_gemm_def metal_shared_buffer_def metal_run_gemm_def Let_def require_def split: option.splits sum.splits)

text \<open>
  the verdict of the Metal backend is that of the work done: with any dispatch, warm-up or
  timed, the product it reads back is the analytic one whatever the new buffer held and in
  whatever order the threadgroups ran; with none it judges what the buffer happened to hold.
\<close>

theorem metal_verifies_what_it_dispatched:
  assumes "simd_grid n (tgids n)" "n * n \<le> 2 ^ 32"
    and "metal_backend_gemm M F tgids junk seconds n p warmup iterations = Some (Inr r)"
  shows "gr_verified r \<longleftrightarrow> 0 < warmup + iterations \<or> native_verified n (junk 0)"
proof -
  let ?run = "time_dispatches (metal_run tgids p n)"
  have "8 dvd n" "0 < n" and verdict: "gr_verified r = native_verified n (?run iterations (if 0 < warmup then ?run warmup junk else junk) 0)"
    using assms(3) by (auto simp: metal_backend_gemm_def metal_shared_buffer_def metal_run_gemm_def Let_def require_def split: if_splits sum.splits)
  have one: "metal_run tgids p n c 0 = real n" for c
    using simd_dispatch_elem [OF \<open>8 dvd n\<close> assms(2,1) \<open>0 < n\<close> \<open>0 < n\<close>, of "\<lambda>_. 1" "\<lambda>_. 1" c]
    by (simp add: metal_run_def matmul_ones)
  have "?run k c 0 = (if k = 0 then c 0 else real n)" for k c
    using time_dispatches_first [of "metal_run tgids p n", OF one] by (simp add: time_dispatches_def)
  with verdict show ?thesis by (simp add: native_verified_exact)
qed

theorem metal_verifies_what_it_dispatched_witness:
  "\<exists>r. metal_backend_gemm working_metal demo_f64 (\<lambda>n. List.product [0..<n div 8] [0..<n div 8]) (\<lambda>_. 99) 2 2048 F16 0 50 =
     Some (Inr r) \<and> gr_verified r"
proof -
  let ?go = "metal_backend_gemm working_metal demo_f64 (\<lambda>n. List.product [0..<n div 8] [0..<n div 8]) (\<lambda>_. 99) 2 2048 F16 0 50"
  have "\<exists>r. ?go = Some (Inr r)"
    by (simp add: metal_backend_gemm_def metal_shared_buffer_def working_metal_def metal_pipeline_def require_def prefixed_def metal_run_gemm_def Let_def)
  then obtain r where "?go = Some (Inr r)" by blast
  with metal_verifies_what_it_dispatched [OF simd_grid_product _ this] show ?thesis by simp
qed

section \<open>wgpu\<close>

text \<open>
  What a WebGPU device holds: the floats of its buffers, the shader of each pipeline and the
  entries of each bind group. \<open>orders\<close> are the orders its threads and workgroups run in, which
  WebGPU leaves open, and what workgroup memory holds at first.
\<close>

record gpu_view =
  gv_buffers :: "nat \<rightharpoonup> real list"
  gv_pipelines :: "nat \<rightharpoonup> wgsl"
  gv_groups :: "nat \<rightharpoonup> (nat \<times> nat) list"

record gpu_orders =
  or_load :: "nat \<Rightarrow> (nat \<times> nat) list"
  or_add :: "nat \<Rightarrow> (nat \<times> nat) list"
  or_store :: "(nat \<times> nat) list"
  or_junk :: "nat \<Rightarrow> real"
  or_groups :: "nat \<Rightarrow> (nat \<times> nat) list"
  or_threads :: "nat \<Rightarrow> nat list"

definition float_at :: "real list \<Rightarrow> nat \<Rightarrow> real" where
  "float_at xs i = (if i < length xs then xs ! i else 0)"

definition bound :: "gpu_view \<Rightarrow> (nat \<times> nat) list \<Rightarrow> nat \<Rightarrow> (nat \<times> real list) option" where
  "bound v es slot = Option.bind (map_of es slot) (\<lambda>i. map_option (Pair i) (gv_buffers v i))"

definition set_buffer :: "nat \<Rightarrow> real list \<Rightarrow> gpu_view \<Rightarrow> gpu_view" where
  "set_buffer i xs v = v\<lparr>gv_buffers := (gv_buffers v)(i \<mapsto> xs)\<rparr>"

text \<open>One dispatch of the tiled product over \<open>g\<close> by \<open>g\<close> workgroups, and one of the triad over \<open>g\<close>.\<close>

definition exec_gemm :: "gpu_orders \<Rightarrow> gpu_view \<Rightarrow> (nat \<times> nat) list \<Rightarrow> nat \<Rightarrow> gpu_view option" where
  "exec_gemm Q v es g =
     (case (bound v es 0, bound v es 1, bound v es 2, bound v es 3) of
        (Some (_, dims), Some (_, a), Some (_, b), Some (i, c)) \<Rightarrow>
          Some (set_buffer i (map (gemm_dispatch (+) (*) 0 0 (nat \<lfloor>float_at dims 0\<rfloor>) (float_at a) (float_at b) (or_load Q) (or_add Q)
                 (or_store Q) (or_junk Q) (or_groups Q g) (float_at c)) [0..<length c]) v)
      | _ \<Rightarrow> None)"

definition exec_triad :: "gpu_orders \<Rightarrow> gpu_view \<Rightarrow> (nat \<times> nat) list \<Rightarrow> nat \<Rightarrow> gpu_view option" where
  "exec_triad Q v es g =
     (case (bound v es 0, bound v es 1, bound v es 2) of
        (Some (_, a), Some (_, b), Some (i, c)) \<Rightarrow>
          map_option (\<lambda>c'. set_buffer i (map c' [0..<length c]) v)
            (triad_threads (triad_value (+) (*) 2 (float_at a) (float_at b)) (length c) (u32 (g * 256)) (or_threads Q (g * 256)) (float_at c))
      | _ \<Rightarrow> None)"

fun exec_command :: "gpu_orders \<Rightarrow> gpu_command \<Rightarrow> gpu_view \<Rightarrow> gpu_view option" where
  "exec_command Q (Dispatch p bg (gx, gy, gz)) v =
     (case (gv_pipelines v p, gv_groups v bg) of
        (Some sh, Some es) \<Rightarrow>
          (case sh of
             TRIAD_WGSL \<Rightarrow> if gy = 1 \<and> gz = 1 then exec_triad Q v es gx else None
           | _ \<Rightarrow> if gx = gy \<and> gz = 1 then exec_gemm Q v es gx else None)
      | _ \<Rightarrow> None)"
| "exec_command Q (CopyBuffer src dst bytes) v =
     (case (gv_buffers v src, gv_buffers v dst) of
        (Some xs, Some ys) \<Rightarrow> Some (set_buffer dst (take (bytes div 4) xs @ drop (bytes div 4) ys) v)
      | _ \<Rightarrow> None)"

fun exec_commands :: "gpu_orders \<Rightarrow> gpu_command list \<Rightarrow> gpu_view \<Rightarrow> gpu_view option" where
  "exec_commands Q [] v = Some v"
| "exec_commands Q (c # cs) v = Option.bind (exec_command Q c v) (exec_commands Q cs)"

fun data_floats :: "gpu_data \<Rightarrow> real list" where
  "data_floats (FloatData xs) = xs"
| "data_floats (HalfData xs) = xs"
| "data_floats (DimsData n) = [real n, 0, 0, 0]"

text \<open>
  What is relied on of \<^verbatim>\<open>wgpu\<close>: a new object is new and holds what it is made with
  (zeros where nothing is given), the commands of a submission have run once the device was waited
  for, and mapping reads what is there.
\<close>

definition wgpu_laws :: "'w wgpu_driver \<Rightarrow> gpu_orders \<Rightarrow> ('w \<Rightarrow> gpu_view) \<Rightarrow> bool" where
  "wgpu_laws D Q view \<longleftrightarrow>
     (\<forall>dt us w i w'. wd_buffer_init D dt us w = (i, w') \<longrightarrow>
        gv_buffers (view w) i = None \<and> view w' = set_buffer i (data_floats dt) (view w)) \<and>
     (\<forall>k us w i w'. wd_buffer D k us w = (i, w') \<longrightarrow>
        gv_buffers (view w) i = None \<and> view w' = set_buffer i (replicate (k div 4) 0) (view w)) \<and>
     (\<forall>sh w i w'. wd_pipeline D sh ''main'' w = (i, w') \<longrightarrow>
        view w' = (view w)\<lparr>gv_pipelines := (gv_pipelines (view w))(i \<mapsto> sh)\<rparr>) \<and>
     (\<forall>p es w i w'. wd_bind_group D p es w = (i, w') \<longrightarrow>
        view w' = (view w)\<lparr>gv_groups := (gv_groups (view w))(i \<mapsto> es)\<rparr>) \<and>
     (\<forall>cs w v. exec_commands Q cs (view w) = Some v \<longrightarrow> view (wd_wait D (wd_submit D cs w)) = v) \<and>
     (\<forall>i w x w'. wd_map D i w = (Inr x, w') \<longrightarrow> view w' = view w \<and> (\<exists>xs. gv_buffers (view w) i = Some (x # xs))) \<and>
     (\<forall>w t w'. wd_now D w = (t, w') \<longrightarrow> view w' = view w)"

lemma wgpu_lawsD:
  assumes "wgpu_laws D Q view"
  shows "wd_buffer_init D dt us w = (i, w') \<Longrightarrow> gv_buffers (view w) i = None \<and> view w' = set_buffer i (data_floats dt) (view w)"
    and "wd_buffer D k us w = (i, w') \<Longrightarrow> gv_buffers (view w) i = None \<and> view w' = set_buffer i (replicate (k div 4) 0) (view w)"
    and "wd_pipeline D sh ''main'' w = (i, w') \<Longrightarrow> view w' = (view w)\<lparr>gv_pipelines := (gv_pipelines (view w))(i \<mapsto> sh)\<rparr>"
    and "wd_bind_group D p es w = (i, w') \<Longrightarrow> view w' = (view w)\<lparr>gv_groups := (gv_groups (view w))(i \<mapsto> es)\<rparr>"
    and "exec_commands Q cs (view w) = Some v \<Longrightarrow> view (wd_wait D (wd_submit D cs w)) = v"
    and "wd_map D i w = (Inr x, w') \<Longrightarrow> view w' = view w \<and> (\<exists>xs. gv_buffers (view w) i = Some (x # xs))"
    and "wd_now D w = (t, w') \<Longrightarrow> view w' = view w"
  using assms unfolding wgpu_laws_def by (simp_all only:)

definition orders_ok :: "gpu_orders \<Rightarrow> bool" where
  "orders_ok Q \<longleftrightarrow> (\<forall>t. schedule (or_load Q t)) \<and> (\<forall>t. schedule (or_add Q t)) \<and> schedule (or_store Q) \<and>
     (\<forall>g. distinct (or_groups Q g) \<and> set (or_groups Q g) = {..<g} \<times> {..<g}) \<and> (\<forall>k. set (or_threads Q k) = {..<k})"

lemma gemm_elem_local:
  assumes "\<And>i. i < n * n \<Longrightarrow> a i = (1::real)" "\<And>i. i < n * n \<Longrightarrow> b i = 1" "row < n" "col < n"
  shows "gemm_elem (+) (*) 0 n a b row col = real n"
proof -
  have "a (row * n + k) * b (k * n + col) = 1" if "k < n" for k
    using square_index [OF that assms(3)] square_index [OF assms(4) that] assms(1,2) by (simp add: add.commute)
  then have "foldl (\<lambda>acc k. acc + a (row * n + k) * b (k * n + col)) x [0..<m] = x + real m" if "m \<le> n" for x m
    using that by (induction m) simp_all
  then show ?thesis by (simp add: gemm_elem_def)
qed

lemma map_const: "(\<And>i. i < k \<Longrightarrow> f i = x) \<Longrightarrow> map f [0..<k] = replicate k x"
  by (intro nth_equalityI) simp_all

lemma exec_gemm_ones:
  assumes "orders_ok Q" "0 < n" "n * n \<le> 2 ^ 32"
  shows "map (gemm_dispatch (+) (*) 0 0 n (float_at (replicate (n * n) 1)) (float_at (replicate (n * n) 1)) (or_load Q)
      (or_add Q) (or_store Q) (or_junk Q) (or_groups Q (gemm_groups n)) c) [0..<n * n] = replicate (n * n) (real n)"
proof (rule map_const)
  fix i assume i: "i < n * n"
  then have row: "i div n < n" "i mod n < n" using assms(2) by (simp_all add: less_mult_imp_div_less)
  have "schedule (or_load Q t)" "schedule (or_add Q t)" "schedule (or_store Q)" "grid n (or_groups Q (gemm_groups n))" for t
    using assms(1) by (simp_all add: orders_ok_def grid_def)
  moreover have "zero_neutral (+) (*) 0 (0::real) UNIV" by (simp add: zero_neutral_def)
  ultimately have "gemm_dispatch (+) (*) 0 0 n (float_at (replicate (n * n) 1)) (float_at (replicate (n * n) 1)) (or_load Q)
      (or_add Q) (or_store Q) (or_junk Q) (or_groups Q (gemm_groups n)) c (i div n * n + i mod n) =
    gemm_elem (+) (*) 0 n (float_at (replicate (n * n) 1)) (float_at (replicate (n * n) 1)) (i div n) (i mod n)"
    using assms(3) row by (intro gemm_dispatch_elem)
  then show "gemm_dispatch (+) (*) 0 0 n (float_at (replicate (n * n) 1)) (float_at (replicate (n * n) 1)) (or_load Q)
      (or_add Q) (or_store Q) (or_junk Q) (or_groups Q (gemm_groups n)) c i = real n"
    using row by (simp add: gemm_elem_local float_at_def)
qed

text \<open>The pipeline and the bind group of a product of ones are in place.\<close>

definition gemm_bound :: "gpu_view \<Rightarrow> precision \<Rightarrow> nat \<Rightarrow> nat \<Rightarrow> nat \<Rightarrow> nat \<Rightarrow> bool" where
  "gemm_bound v p n pl bg c \<longleftrightarrow>
     (\<exists>dims a b xs. gv_pipelines v pl = Some (gemm_shader p) \<and>
        gv_groups v bg = Some [(0, dims), (1, a), (2, b), (3, c)] \<and>
        gv_buffers v dims = Some [real n, 0, 0, 0] \<and> gv_buffers v a = Some (replicate (n * n) 1) \<and>
        gv_buffers v b = Some (replicate (n * n) 1) \<and> gv_buffers v c = Some xs \<and> length xs = n * n \<and>
        dims \<noteq> c \<and> a \<noteq> c \<and> b \<noteq> c)"

lemma set_buffer_set_buffer: "set_buffer i xs (set_buffer i ys v) = set_buffer i xs v"
  by (simp add: set_buffer_def)

lemma gemm_bound_set: "gemm_bound v p n pl bg c \<Longrightarrow> length xs = n * n \<Longrightarrow>
    gemm_bound (set_buffer c xs v) p n pl bg c"
  unfolding gemm_bound_def set_buffer_def by fastforce

lemma gemm_dispatch_step:
  assumes "orders_ok Q" "0 < n" "n * n \<le> 2 ^ 32" "gemm_bound v p n pl bg c"
  shows "exec_command Q (Dispatch pl bg (gemm_groups n, gemm_groups n, 1)) v =
    Some (set_buffer c (replicate (n * n) (real n)) v)"
proof -
  obtain dims a b xs where v: "gv_pipelines v pl = Some (gemm_shader p)"
    "gv_groups v bg = Some [(0, dims), (1, a), (2, b), (3, c)]" "gv_buffers v dims = Some [real n, 0, 0, 0]"
    "gv_buffers v a = Some (replicate (n * n) 1)" "gv_buffers v b = Some (replicate (n * n) 1)"
    "gv_buffers v c = Some xs" "length xs = n * n"
    using assms(4) by (auto simp: gemm_bound_def)
  have dims: "nat \<lfloor>float_at [real n, 0, 0, 0] 0\<rfloor> = n" by (simp add: float_at_def)
  have "exec_gemm Q v [(0, dims), (1, a), (2, b), (3, c)] (gemm_groups n) = Some (set_buffer c (replicate (n * n) (real n)) v)"
    unfolding exec_gemm_def bound_def by (simp add: v dims exec_gemm_ones [OF assms(1-3)])
  then show ?thesis by (cases p) (simp_all add: v)
qed

lemma gemm_dispatches:
  assumes "orders_ok Q" "0 < n" "n * n \<le> 2 ^ 32" "gemm_bound v p n pl bg c"
  shows "exec_commands Q (replicate k (Dispatch pl bg (gemm_groups n, gemm_groups n, 1))) v =
    Some (if k = 0 then v else set_buffer c (replicate (n * n) (real n)) v)"
  using assms(4)
proof (induction k arbitrary: v)
  case (Suc k)
  have "gemm_bound (set_buffer c (replicate (n * n) (real n)) v) p n pl bg c"
    using gemm_bound_set [OF Suc.prems] by simp
  from Suc.IH [OF this] gemm_dispatch_step [OF assms(1-3) Suc.prems] show ?case
    by (simp add: set_buffer_set_buffer del: exec_command.simps)
qed simp

lemma wgpu_time_view:
  assumes "wgpu_laws D Q view" "wgpu_time D pl bg groups k w = (t, w')"
    and "exec_commands Q (replicate k (Dispatch pl bg groups)) (view w) = Some v"
  shows "view w' = v"
proof -
  obtain start w1 where w1: "wd_now D w = (start, w1)" by (cases "wd_now D w")
  let ?w2 = "wd_wait D (wd_submit D (replicate k (Dispatch pl bg groups)) w1)"
  obtain stop where "wd_now D ?w2 = (stop, w')" using assms(2) w1 by (auto simp: wgpu_time_def split: prod.splits)
  then show ?thesis
    using wgpu_lawsD(7) [OF assms(1)] wgpu_lawsD(5) [OF assms(1), of _ w1] w1 assms(3) by metis
qed

lemma wgpu_warm_up_view:
  assumes "wgpu_laws D Q view"
    and "exec_commands Q (replicate k (Dispatch pl bg groups)) (view w) = Some v"
  shows "view (wgpu_warm_up D pl bg groups k w) = v"
proof (cases "0 < k")
  case True
  then show ?thesis using wgpu_time_view [OF assms(1) prod.collapse [symmetric] assms(2)] by (simp add: wgpu_warm_up_def)
qed (use assms(2) in \<open>simp add: wgpu_warm_up_def\<close>)

text \<open>Mapping a buffer that holds something can fail on a device; here is a device on which it does not.\<close>

definition maps_succeed :: "'w wgpu_driver \<Rightarrow> ('w \<Rightarrow> gpu_view) \<Rightarrow> bool" where
  "maps_succeed D view \<longleftrightarrow> (\<forall>i w x xs. gv_buffers (view w) i = Some (x # xs) \<longrightarrow> (\<exists>w'. wd_map D i w = (Inr x, w')))"

lemma wgpu_read_first_view:
  assumes "wgpu_laws D Q view" "maps_succeed D view" "gv_buffers (view w) buf = Some (y # ys)"
  shows "\<exists>w'. wgpu_read_first D buf w = (Inr y, w')"
proof -
  obtain i w1 where new: "wd_buffer D 4 [MAP_READ, COPY_DST] w = (i, w1)" by (cases "wd_buffer D 4 [MAP_READ, COPY_DST] w")
  let ?w2 = "wd_wait D (wd_submit D [CopyBuffer buf i 4] w1)"
  have free: "gv_buffers (view w) i = None" and w1: "view w1 = set_buffer i [0] (view w)"
    using wgpu_lawsD(2) [OF assms(1) new] by simp_all
  have "exec_commands Q [CopyBuffer buf i 4] (view w1) = Some (set_buffer i [y] (view w))"
    using free assms(3) by (auto simp: w1 set_buffer_def)
  then have "view ?w2 = set_buffer i [y] (view w)" by (rule wgpu_lawsD(5) [OF assms(1)])
  then have "gv_buffers (view ?w2) i = Some [y]" by (simp add: set_buffer_def)
  then obtain w' where "wd_map D i ?w2 = (Inr y, w')" using assms(2) unfolding maps_succeed_def by blast
  with new show ?thesis by (simp add: wgpu_read_first_def)
qed

lemma wgpu_inputs_view:
  assumes "wgpu_laws D Q view" "wgpu_inputs D p k w = ((a, b), w')"
  shows "gv_buffers (view w) a = None" "gv_buffers (view w) b = None" "a \<noteq> b"
    "view w' = set_buffer b (replicate k 1) (set_buffer a (replicate k 1) (view w))"
proof -
  let ?dt = "case p of F32 \<Rightarrow> FloatData (replicate k 1) | F16 \<Rightarrow> HalfData (replicate k 1)"
  obtain w1 where mk: "wd_buffer_init D ?dt storage_usage w = (a, w1)" "wd_buffer_init D ?dt storage_usage w1 = (b, w')"
    using assms(2)
    by (cases p) (simp_all add: wgpu_inputs_def storage_buffer_def storage_buffer_f16_def Let_def split: prod.splits)
  moreover have "data_floats ?dt = replicate k 1" by (cases p) simp_all
  ultimately
  show "gv_buffers (view w) a = None" "gv_buffers (view w) b = None" "a \<noteq> b"
    "view w' = set_buffer b (replicate k 1) (set_buffer a (replicate k 1) (view w))"
    using wgpu_lawsD(1) [OF assms(1) mk(1)] wgpu_lawsD(1) [OF assms(1) mk(2)]
    by (auto simp: set_buffer_def split: if_splits)
qed

lemma wgpu_gemm_result:
  assumes "wgpu_laws D Q view" "maps_succeed D view" "orders_ok Q" "n * n \<le> 2 ^ 32" "0 < n"
    and "p = F16 \<Longrightarrow> wb_f16_supported B"
  shows "\<exists>r w'. wgpu_backend_gemm D F B n p warmup iterations w = (Inr r, w') \<and> gr_n r = n \<and>
    gr_iterations r = iterations \<and> gr_tflops r = gemm_tflops F n iterations (gr_seconds r) \<and> (gr_verified r \<longleftrightarrow> 0 < warmup)"
proof -
  obtain a b w1 where i1: "wgpu_inputs D p (n * n) w = ((a, b), w1)" by (metis surj_pair)
  obtain c w2 where i2: "wd_buffer D (n * n * 4) [STORAGE, COPY_SRC] w1 = (c, w2)" by (metis surj_pair)
  obtain dims w3 where i3: "wd_buffer_init D (DimsData n) [UNIFORM] w2 = (dims, w3)" by (metis surj_pair)
  obtain pl w4 where i4: "wd_pipeline D (gemm_shader p) ''main'' w3 = (pl, w4)" by (metis surj_pair)
  obtain bg w5 where i5: "wd_bind_group D pl [(0, dims), (1, a), (2, b), (3, c)] w4 = (bg, w5)" by (metis surj_pair)
  let ?g = "(gemm_groups n, gemm_groups n, 1)" and ?zeros = "replicate (n * n) (0::real)"
  let ?w6 = "wgpu_warm_up D pl bg ?g warmup w5" and ?y = "if warmup = 0 then 0 else real n"
  note laws = wgpu_lawsD [OF assms(1)]
  have w5: "gemm_bound (view w5) p n pl bg c" "gv_buffers (view w5) c = Some ?zeros"
    using wgpu_inputs_view [OF assms(1) i1] laws(2) [OF i2] laws(1) [OF i3] laws(3) [OF i4] laws(4) [OF i5]
    by (auto simp: gemm_bound_def set_buffer_def split: if_splits)
  have "gv_buffers (view ?w6) c = Some (replicate (n * n) ?y)"
    using wgpu_warm_up_view [OF assms(1) gemm_dispatches [OF assms(3,5,4) w5(1)]] w5(2) by (simp add: set_buffer_def)
  moreover obtain k where "n * n = Suc k" using assms(5) by (cases "n * n") auto
  ultimately have "gv_buffers (view ?w6) c = Some (?y # replicate k ?y)" by simp
  from wgpu_read_first_view [OF assms(1,2) this] obtain w7 where i6: "wgpu_read_first D c ?w6 = (Inr ?y, w7)" by blast
  obtain seconds w8 where i7: "wgpu_time D pl bg ?g iterations w7 = (seconds, w8)" by (metis surj_pair)
  have "\<bar>?y - real n\<bar> < 1 / 2 \<longleftrightarrow> 0 < warmup" using assms(5) by auto
  moreover have "\<not> (p = F16 \<and> \<not> wb_f16_supported B)" "n \<noteq> 0" using assms(5,6) by auto
  ultimately show ?thesis
    unfolding wgpu_backend_gemm_def by (simp add: i1 i2 i3 i4 i5 i6 i7 Let_def io_bind_def del: One_nat_def)
qed

section \<open>The bandwidth of the portable backend\<close>

definition triad_bound :: "gpu_view \<Rightarrow> nat \<Rightarrow> nat \<Rightarrow> nat \<Rightarrow> nat \<Rightarrow> bool" where
  "triad_bound v n pl bg c \<longleftrightarrow>
     (\<exists>a b xs. gv_pipelines v pl = Some TRIAD_WGSL \<and> gv_groups v bg = Some [(0, a), (1, b), (2, c)] \<and>
        gv_buffers v a = Some (replicate n 1) \<and> gv_buffers v b = Some (replicate n 2) \<and>
        gv_buffers v c = Some xs \<and> length xs = n \<and> a \<noteq> c \<and> b \<noteq> c)"

lemma triad_bound_set: "triad_bound v n pl bg c \<Longrightarrow> length xs = n \<Longrightarrow> triad_bound (set_buffer c xs v) n pl bg c"
  unfolding triad_bound_def set_buffer_def by fastforce

lemma triad_dispatch_step:
  assumes "orders_ok Q" "n + 65535 * 256 \<le> 2 ^ 32" "triad_bound v n pl bg c"
  shows "exec_command Q (Dispatch pl bg (triad_groups n, 1, 1)) v = Some (set_buffer c (replicate n 5) v)"
proof -
  obtain a b xs where v: "gv_pipelines v pl = Some TRIAD_WGSL" "gv_groups v bg = Some [(0, a), (1, b), (2, c)]"
    "gv_buffers v a = Some (replicate n 1)" "gv_buffers v b = Some (replicate n 2)" "gv_buffers v c = Some xs" "length xs = n"
    using assms(3) by (auto simp: triad_bound_def)
  have "set (or_threads Q (triad_groups n * 256)) = {..<triad_groups n * 256}" using assms(1) by (simp add: orders_ok_def)
  from triad_covers [OF assms(2) this, of "(+)" "(*)" 2 "float_at (replicate n 1)" "float_at (replicate n 2)" "float_at xs"]
  obtain c' where c': "triad_threads (triad_value (+) (*) 2 (float_at (replicate n 1)) (float_at (replicate n 2))) n
      (u32 (triad_groups n * 256)) (or_threads Q (triad_groups n * 256)) (float_at xs) = Some c'"
    "\<forall>i<n. c' i = triad_value (+) (*) 2 (float_at (replicate n 1)) (float_at (replicate n 2)) i"
    unfolding triad_dispatch_def by blast
  have "map c' [0..<n] = replicate n 5" using c'(2) by (intro map_const) (simp add: triad_value_def float_at_def)
  with c'(1) show ?thesis by (simp add: v exec_triad_def bound_def)
qed

lemma triad_dispatches:
  assumes "orders_ok Q" "n + 65535 * 256 \<le> 2 ^ 32" "triad_bound v n pl bg c"
  shows "exec_commands Q (replicate k (Dispatch pl bg (triad_groups n, 1, 1))) v =
    Some (if k = 0 then v else set_buffer c (replicate n 5) v)"
  using assms(3)
proof (induction k arbitrary: v)
  case (Suc k)
  have "triad_bound (set_buffer c (replicate n 5) v) n pl bg c" using triad_bound_set [OF Suc.prems] by simp
  from Suc.IH [OF this] triad_dispatch_step [OF assms(1,2) Suc.prems] show ?case
    by (simp add: set_buffer_set_buffer del: exec_command.simps)
qed simp

lemma wgpu_bandwidth_result:
  assumes "wgpu_laws D Q view" "orders_ok Q" "0 < elements" "elements + 65535 * 256 \<le> 2 ^ 32" "0 < warmup + iterations"
  shows "\<exists>r w' c. wgpu_backend_bandwidth D F B elements warmup iterations w = (Inr r, w') \<and>
    gv_buffers (view w') c = Some (replicate elements 5) \<and> br_bytes_per_iter r = 3 * (4 * elements) \<and>
    br_gb_per_s r = gb_per_s F (br_bytes_per_iter r) iterations (br_seconds r)"
proof -
  obtain a w1 where i1: "storage_buffer D (replicate elements 1) w = (a, w1)" by (metis surj_pair)
  obtain b w2 where i2: "storage_buffer D (replicate elements 2) w1 = (b, w2)" by (metis surj_pair)
  obtain c w3 where i3: "wd_buffer D (elements * 4) [STORAGE, COPY_SRC] w2 = (c, w3)" by (metis surj_pair)
  obtain pl w4 where i4: "wd_pipeline D TRIAD_WGSL ''main'' w3 = (pl, w4)" by (metis surj_pair)
  obtain bg w5 where i5: "wd_bind_group D pl [(0, a), (1, b), (2, c)] w4 = (bg, w5)" by (metis surj_pair)
  let ?g = "(triad_groups elements, 1, 1)" and ?fives = "replicate elements (5::real)"
  let ?w6 = "wgpu_warm_up D pl bg ?g warmup w5"
  obtain seconds w7 where i6: "wgpu_time D pl bg ?g iterations ?w6 = (seconds, w7)" by (metis surj_pair)
  note laws = wgpu_lawsD [OF assms(1)]
  have w5: "triad_bound (view w5) elements pl bg c"
    using laws(1) [OF i1 [unfolded storage_buffer_def]] laws(1) [OF i2 [unfolded storage_buffer_def]] laws(2) [OF i3]
      laws(3) [OF i4] laws(4) [OF i5]
    by (auto simp: triad_bound_def set_buffer_def split: if_splits)
  have w6: "view ?w6 = (if warmup = 0 then view w5 else set_buffer c ?fives (view w5))"
    by (rule wgpu_warm_up_view [OF assms(1) triad_dispatches [OF assms(2,4) w5]])
  then have "triad_bound (view ?w6) elements pl bg c" using w5 triad_bound_set [OF w5] by simp
  from wgpu_time_view [OF assms(1) i6 triad_dispatches [OF assms(2,4) this]] w6 assms(5)
  have "gv_buffers (view w7) c = Some ?fives" by (auto simp: set_buffer_def split: if_splits)
  then show ?thesis
    unfolding wgpu_backend_bandwidth_def using assms(3) by (auto simp: i1 i2 i3 i4 i5 i6 Let_def simp del: One_nat_def)
qed

section \<open>What the portable measurements are worth\<close>

text \<open>
  C37: on a WebGPU device that does what it documents, the portable backend measures every size
  whose product fits the index arithmetic, and trusts its throughput exactly when it warmed up:
  with a warm-up, whatever the order of the device's threads and workgroups, what it reads back
  is the product its kernels compute, in either precision; without one it reads the zeros of the
  new buffer.
\<close>

theorem portable_verifies_iff_warmed_up:
  assumes "wgpu_laws D Q view" "maps_succeed D view" "orders_ok Q" "n * n \<le> 2 ^ 32" "0 < n"
    and "p = F16 \<Longrightarrow> wb_f16_supported B"
  shows "\<exists>r w'. wgpu_backend_gemm D F B n p warmup iterations w = (Inr r, w') \<and> gr_n r = n \<and>
    gr_iterations r = iterations \<and> gr_tflops r = gemm_tflops F n iterations (gr_seconds r) \<and> (gr_verified r \<longleftrightarrow> 0 < warmup)"
  by (rule wgpu_gemm_result) (use assms in auto)

text \<open>
  C38: what the portable bandwidth counts has been moved: for every length short of the wrap of
  the 32-bit indices, when anything was dispatched, the output buffer ends up holding
  \<open>a + 2 b\<close> at every index, and the bytes counted are two reads and a write of each element.
\<close>

theorem portable_bandwidth_moves_every_element:
  assumes "wgpu_laws D Q view" "orders_ok Q" "0 < elements" "elements + 65535 * 256 \<le> 2 ^ 32" "0 < warmup + iterations"
  shows "\<exists>r w' c. wgpu_backend_bandwidth D F B elements warmup iterations w = (Inr r, w') \<and>
    gv_buffers (view w') c = Some (replicate elements 5) \<and> br_bytes_per_iter r = 3 * (4 * elements) \<and>
    br_gb_per_s r = gb_per_s F (br_bytes_per_iter r) iterations (br_seconds r)"
  by (rule wgpu_bandwidth_result) (rule assms)+

lemma wgpu_gemm_f16_refused:
  "\<not> wb_f16_supported B \<Longrightarrow> \<exists>e. wgpu_backend_gemm D F B n F16 warmup iterations w = (Inl e, w)"
  by (simp add: wgpu_backend_gemm_def)

lemma run_suite_completes:
  assumes "be_gemm be (sc_n cfg) F32 (sc_warmup cfg) (sc_iters cfg) (on_phase ''fp32 GEMM'' w) = (Inr g32, w1)"
    and "(if sc_include_fp16 cfg then best_effort ops ''fp16 GEMM''
      (be_gemm be (sc_n cfg) F16 (sc_warmup cfg) (sc_iters cfg) (on_phase ''fp16 GEMM'' w1)) else (None, w1)) = (g16, w2)"
    and "be_bandwidth be (sc_bandwidth_elems cfg) (sc_warmup cfg) (sc_iters cfg) (on_phase ''memory bandwidth'' w2) = (Inr b, w3)"
  shows "\<exists>r w'. run_suite ops be cfg on_phase w = (Inr r, w') \<and> rr_gemm_fp32 r = Some g32 \<and>
    rr_gemm_fp16 r = g16 \<and> rr_bandwidth r = Some b"
proof -
  have bw: "best_effort ops ''bandwidth'' (Inr b, w3) = (Some b, w3)" by (simp add: best_effort_def)
  show ?thesis
    using assms(2) by (cases "sc_include_fp16 cfg") (simp_all add: run_suite_def assms(1,3) bw split: prod.split)
qed

text \<open>
  C36: the default benchmark on the portable backend, from the suite down to the device's threads:
  on a device that keeps its documented laws the suite completes with an fp32 product that is
  verified, an fp16 product that is verified where the device has half floats and missing where
  it has not, and a bandwidth that counts two reads and a write of each element, whatever the
  network does and for every setting that warms up and fits the index arithmetic.
\<close>

theorem portable_suite_is_verified:
  assumes "wgpu_laws D Q view" "maps_succeed D view" "orders_ok Q"
    and "0 < sc_n cfg" "sc_n cfg * sc_n cfg \<le> 2 ^ 32" "0 < sc_warmup cfg"
    and "0 < sc_bandwidth_elems cfg" "sc_bandwidth_elems cfg + 65535 * 256 \<le> 2 ^ 32"
  shows "\<exists>r w'. run_suite ops (wgpu_trait D F B) cfg on_phase w = (Inr r, w') \<and>
    (\<exists>g. rr_gemm_fp32 r = Some g \<and> gr_n g = sc_n cfg \<and> gr_verified g) \<and>
    (case rr_gemm_fp16 r of
       None \<Rightarrow> \<not> (sc_include_fp16 cfg \<and> wb_f16_supported B)
     | Some g \<Rightarrow> sc_include_fp16 cfg \<and> wb_f16_supported B \<and> gr_verified g) \<and>
    (\<exists>b. rr_bandwidth r = Some b \<and> br_bytes_per_iter b = 3 * (4 * sc_bandwidth_elems cfg))"
proof -
  let ?gemm = "wgpu_backend_gemm D F B (sc_n cfg)"
  obtain g32 w1 where g32: "?gemm F32 (sc_warmup cfg) (sc_iters cfg) (on_phase ''fp32 GEMM'' w) = (Inr g32, w1)"
      "gr_n g32 = sc_n cfg" "gr_verified g32"
    using wgpu_gemm_result [OF assms(1-3,5,4), where p = F32 and warmup = "sc_warmup cfg"] assms(6) by blast
  define step16 where "step16 = (if sc_include_fp16 cfg then best_effort ops ''fp16 GEMM''
      (?gemm F16 (sc_warmup cfg) (sc_iters cfg) (on_phase ''fp16 GEMM'' w1)) else (None, w1))"
  obtain g16 w2 where s16: "step16 = (g16, w2)" by (cases step16)
  have g16: "case g16 of None \<Rightarrow> \<not> (sc_include_fp16 cfg \<and> wb_f16_supported B)
      | Some g \<Rightarrow> sc_include_fp16 cfg \<and> wb_f16_supported B \<and> gr_verified g"
  proof (cases "sc_include_fp16 cfg \<and> wb_f16_supported B")
    case True
    then obtain g w2' where "?gemm F16 (sc_warmup cfg) (sc_iters cfg) (on_phase ''fp16 GEMM'' w1) = (Inr g, w2')" "gr_verified g"
      using wgpu_gemm_result [OF assms(1-3,5,4), where p = F16 and B = B and warmup = "sc_warmup cfg"] assms(6) by blast
    with True s16 show ?thesis by (auto simp: step16_def best_effort_def)
  next
    case False
    then have "g16 = None"
      using s16 wgpu_gemm_f16_refused [of B D F "sc_n cfg" "sc_warmup cfg" "sc_iters cfg" "on_phase ''fp16 GEMM'' w1"]
      by (auto simp: step16_def best_effort_def split: if_splits)
    with False show ?thesis by simp
  qed
  obtain b w3 where bw: "wgpu_backend_bandwidth D F B (sc_bandwidth_elems cfg) (sc_warmup cfg) (sc_iters cfg)
      (on_phase ''memory bandwidth'' w2) = (Inr b, w3)" "br_bytes_per_iter b = 3 * (4 * sc_bandwidth_elems cfg)"
    using wgpu_bandwidth_result [OF assms(1,3,7,8), where warmup = "sc_warmup cfg"] assms(6) by (meson add_pos_nonneg zero_le)
  have "\<exists>r w'. run_suite ops (wgpu_trait D F B) cfg on_phase w = (Inr r, w') \<and> rr_gemm_fp32 r = Some g32 \<and>
      rr_gemm_fp16 r = g16 \<and> rr_bandwidth r = Some b"
    by (rule run_suite_completes [of _ _ _ _ g32 w1 _ g16 w2 b w3])
      (use g32(1) s16 bw(1) in \<open>simp_all only: wgpu_trait_def step16_def backend.simps\<close>)
  with g32 g16 bw show ?thesis by metis
qed

section \<open>A device that keeps the laws\<close>

text \<open>Its memory is the lists of its buffers, pipelines and bind groups; a submission runs at once.\<close>

type_synonym demo_gpu = "real list list \<times> wgsl list \<times> (nat \<times> nat) list list"

fun demo_view :: "demo_gpu \<Rightarrow> gpu_view" where
  "demo_view (bs, ps, gs) = \<lparr>gv_buffers = list_view bs, gv_pipelines = list_view ps, gv_groups = list_view gs\<rparr>"

definition demo_orders :: gpu_orders where
  "demo_orders = \<lparr>or_load = (\<lambda>t. rev (List.product [0..<TILE] [0..<TILE])), or_add = (\<lambda>t. List.product [0..<TILE] [0..<TILE]),
     or_store = List.product [0..<TILE] [0..<TILE], or_junk = (\<lambda>_. 99),
     or_groups = (\<lambda>g. rev (List.product [0..<g] [0..<g])), or_threads = (\<lambda>k. rev [0..<k])\<rparr>"

fun demo_submit :: "gpu_command list \<Rightarrow> demo_gpu \<Rightarrow> demo_gpu" where
  "demo_submit cs (bs, ps, gs) =
     (case exec_commands demo_orders cs (demo_view (bs, ps, gs)) of
        None \<Rightarrow> (bs, ps, gs)
      | Some v \<Rightarrow> (map (\<lambda>i. the (gv_buffers v i)) [0..<length bs], ps, gs))"

definition demo_wgpu :: "demo_gpu wgpu_driver" where
  "demo_wgpu = \<lparr>wd_request_adapter = (\<lambda>w. (Inl ''no adapter'', w)), wd_enumerate = (\<lambda>w. ([], w)),
     wd_request_device = (\<lambda>ad f w. (Inr (), w)),
     wd_buffer_init = (\<lambda>dt us (bs, ps, gs). (length bs, bs @ [data_floats dt], ps, gs)),
     wd_buffer = (\<lambda>k us (bs, ps, gs). (length bs, bs @ [replicate (k div 4) 0], ps, gs)),
     wd_pipeline = (\<lambda>sh entry (bs, ps, gs). (length ps, bs, ps @ [sh], gs)),
     wd_bind_group = (\<lambda>p es (bs, ps, gs). (length gs, bs, ps, gs @ [es])),
     wd_submit = demo_submit, wd_wait = (\<lambda>w. w),
     wd_map = (\<lambda>i (bs, ps, gs). (case list_view bs i of Some (x # xs) \<Rightarrow> Inr x | _ \<Rightarrow> Inl ''not mapped'', bs, ps, gs)),
     wd_now = (\<lambda>w. (0, w))\<rparr>"

text \<open>A command writes only buffers that exist.\<close>

definition same_objects :: "gpu_view \<Rightarrow> gpu_view \<Rightarrow> bool" where
  "same_objects v v' \<longleftrightarrow> dom (gv_buffers v') = dom (gv_buffers v) \<and> gv_pipelines v' = gv_pipelines v \<and> gv_groups v' = gv_groups v"

lemma set_buffer_same: "gv_buffers v i \<noteq> None \<Longrightarrow> same_objects v (set_buffer i xs v)"
  by (auto simp: same_objects_def set_buffer_def)

lemma bound_SomeD: "bound v es k = Some (i, xs) \<Longrightarrow> gv_buffers v i \<noteq> None"
  by (auto simp: bound_def bind_eq_Some_conv)

lemma exec_same: "exec_command Q c v = Some v' \<Longrightarrow> same_objects v v'"
  by (cases "(Q, c, v)" rule: exec_command.cases)
    (auto simp: exec_gemm_def exec_triad_def split: option.splits wgsl.splits if_splits prod.splits
      intro!: set_buffer_same dest!: bound_SomeD)

lemma execs_same: "exec_commands Q cs v = Some v' \<Longrightarrow> same_objects v v'"
proof (induction cs arbitrary: v)
  case (Cons c cs)
  then obtain v1 where "exec_command Q c v = Some v1" "exec_commands Q cs v1 = Some v'"
    by (auto simp: bind_eq_Some_conv)
  with Cons.IH [OF this(2)] exec_same [OF this(1)] show ?case by (simp add: same_objects_def)
qed (simp add: same_objects_def)

lemma list_view_rebuild: "dom m = {..<k} \<Longrightarrow> list_view (map (\<lambda>i. the (m i)) [0..<k]) = m"
proof
  fix i assume "dom m = {..<k}"
  then have "m i \<noteq> None \<longleftrightarrow> i < k" by (metis domIff lessThan_iff)
  then show "list_view (map (\<lambda>i. the (m i)) [0..<k]) i = m i" by (cases "m i") (simp_all add: list_view_def)
qed

lemma demo_submit_view:
  assumes "exec_commands demo_orders cs (demo_view w) = Some v"
  shows "demo_view (demo_submit cs w) = v"
proof -
  obtain bs ps gs where w: "w = (bs, ps, gs)" by (rule prod_cases3)
  have "dom (list_view bs) = {..<length bs}" by (auto simp: list_view_def dom_def)
  then have "dom (gv_buffers v) = {..<length bs}" "gv_pipelines v = list_view ps" "gv_groups v = list_view gs"
    using execs_same [OF assms] by (simp_all add: same_objects_def w)
  then show ?thesis using assms by (simp add: w list_view_rebuild)
qed

lemma demo_view_append:
  "demo_view (bs @ [xs], ps, gs) = set_buffer (length bs) xs (demo_view (bs, ps, gs))"
  "demo_view (bs, ps @ [sh], gs) = (demo_view (bs, ps, gs))\<lparr>gv_pipelines := (list_view ps)(length ps \<mapsto> sh)\<rparr>"
  "demo_view (bs, ps, gs @ [es]) = (demo_view (bs, ps, gs))\<lparr>gv_groups := (list_view gs)(length gs \<mapsto> es)\<rparr>"
  by (simp_all add: list_view_append set_buffer_def)

lemma demo_wgpu_laws: "wgpu_laws demo_wgpu demo_orders demo_view" "maps_succeed demo_wgpu demo_view"
proof -
  have 1: "gv_buffers (demo_view w) i = None \<and> demo_view w' = set_buffer i (data_floats dt) (demo_view w)"
    if "wd_buffer_init demo_wgpu dt us w = (i, w')" for dt us w i w'
    using that by (cases w) (auto simp: demo_wgpu_def demo_view_append list_view_append simp del: demo_view.simps, simp add: list_view_append)
  have 2: "gv_buffers (demo_view w) i = None \<and> demo_view w' = set_buffer i (replicate (k div 4) 0) (demo_view w)"
    if "wd_buffer demo_wgpu k us w = (i, w')" for k us w i w'
    using that by (cases w) (auto simp: demo_wgpu_def demo_view_append list_view_append simp del: demo_view.simps, simp add: list_view_append)
  have 3: "demo_view w' = (demo_view w)\<lparr>gv_pipelines := (gv_pipelines (demo_view w))(i \<mapsto> sh)\<rparr>"
    if "wd_pipeline demo_wgpu sh ''main'' w = (i, w')" for sh w i w'
    using that by (cases w) (auto simp: demo_wgpu_def list_view_append)
  have 4: "demo_view w' = (demo_view w)\<lparr>gv_groups := (gv_groups (demo_view w))(i \<mapsto> es)\<rparr>"
    if "wd_bind_group demo_wgpu p es w = (i, w')" for p es w i w'
    using that by (cases w) (auto simp: demo_wgpu_def list_view_append)
  have 5: "demo_view (wd_wait demo_wgpu (wd_submit demo_wgpu cs w)) = v"
    if "exec_commands demo_orders cs (demo_view w) = Some v" for cs w v
    using demo_submit_view [OF that] by (simp add: demo_wgpu_def)
  have 6: "demo_view w' = demo_view w \<and> (\<exists>xs. gv_buffers (demo_view w) i = Some (x # xs))"
    if "wd_map demo_wgpu i w = (Inr x, w')" for i w x w'
    using that by (cases w) (auto simp: demo_wgpu_def split: option.splits list.splits)
  have 7: "demo_view w' = demo_view w" if "wd_now demo_wgpu w = (t, w')" for w t w'
    using that by (simp add: demo_wgpu_def)
  show "wgpu_laws demo_wgpu demo_orders demo_view"
    unfolding wgpu_laws_def by (intro conjI allI impI) (fact 1 [THEN conjunct1] 1 [THEN conjunct2] 2 [THEN conjunct1]
      2 [THEN conjunct2] 3 4 5 6 [THEN conjunct1] 6 [THEN conjunct2] 7)+
  show "maps_succeed demo_wgpu demo_view"
    unfolding maps_succeed_def
  proof (intro allI impI)
    fix i w x xs assume "gv_buffers (demo_view w) i = Some (x # xs)"
    then show "\<exists>w'. wd_map demo_wgpu i w = (Inr x, w')" by (cases w) (simp add: demo_wgpu_def)
  qed
qed

lemma demo_orders_ok: "orders_ok demo_orders"
proof -
  have "schedule (rev (List.product [0..<TILE] [0..<TILE]))" using schedule_product by (simp add: schedule_def)
  moreover have "distinct (rev (List.product [0..<g] [0..<g]))" "set (rev (List.product [0..<g] [0..<g])) = {..<g} \<times> {..<g}"
    for g :: nat by (simp_all add: distinct_product atLeast0LessThan)
  ultimately show ?thesis using schedule_product by (simp add: orders_ok_def demo_orders_def atLeast0LessThan)
qed

definition demo_backend :: wgpu_backend where
  "demo_backend = \<lparr>wb_info = \<lparr>di_name = ''M3'', di_backend = ''Metal'', di_device_type = ''IntegratedGpu''\<rparr>,
     wb_f16_supported = False\<rparr>"

theorem portable_verifies_iff_warmed_up_witness:
  "\<exists>r w'. wgpu_backend_gemm demo_wgpu demo_f64 demo_backend 2048 F32 0 50 ([], [], []) = (Inr r, w') \<and> \<not> gr_verified r"
  using portable_verifies_iff_warmed_up [OF demo_wgpu_laws demo_orders_ok, of 2048 F32 demo_backend demo_f64 0 50 "([], [], [])"]
  by auto

theorem portable_bandwidth_moves_every_element_witness:
  "\<exists>r w' c. wgpu_backend_bandwidth demo_wgpu demo_f64 demo_backend 32000000 10 50 ([], [], []) = (Inr r, w') \<and>
     gv_buffers (demo_view w') c = Some (replicate 32000000 5) \<and> br_bytes_per_iter r = 3 * (4 * 32000000) \<and>
     br_gb_per_s r = gb_per_s demo_f64 (br_bytes_per_iter r) 50 (br_seconds r)"
  by (rule portable_bandwidth_moves_every_element [OF demo_wgpu_laws(1) demo_orders_ok]) simp_all

definition demo_ops :: "demo_gpu bench_ops" where
  "demo_ops = \<lparr>bo_wgpu = (\<lambda>w. (Inr (wgpu_trait demo_wgpu demo_f64 demo_backend), w)), bo_metal = (\<lambda>w. (Inl [''no Metal''], w)),
     bo_cuda = (\<lambda>w. (Inl [''no CUDA''], w)), bo_eprintln = (\<lambda>m w. w), bo_message = (\<lambda>m w. w),
     bo_client = \<lparr>hc_get = (\<lambda>u w. (Inl ''offline'', w)), hc_post = (\<lambda>u k w. (Inl ''offline'', w))\<rparr>, bo_f64 = demo_f64\<rparr>"

theorem portable_suite_is_verified_witness:
  "\<exists>r w'. run_suite demo_ops (wgpu_trait demo_wgpu demo_f64 demo_backend) suite_config_default (\<lambda>m w. w) ([], [], []) = (Inr r, w') \<and>
     (\<exists>g. rr_gemm_fp32 r = Some g \<and> gr_verified g) \<and> rr_gemm_fp16 r = None"
proof -
  have cfg: "0 < sc_n suite_config_default" "sc_n suite_config_default * sc_n suite_config_default \<le> 2 ^ 32"
    "0 < sc_warmup suite_config_default" "0 < sc_bandwidth_elems suite_config_default"
    "sc_bandwidth_elems suite_config_default + 65535 * 256 \<le> 2 ^ 32"
    by (simp_all add: suite_config_default_def)
  have "\<not> wb_f16_supported demo_backend" by (simp add: demo_backend_def)
  with portable_suite_is_verified [OF demo_wgpu_laws demo_orders_ok cfg, of demo_ops demo_f64 demo_backend "\<lambda>m w. w" "([], [], [])"]
  show ?thesis by (auto split: option.splits)
qed

end
