(* ===== verification/Mac_Worker.thy ===== *)
theory Mac_Worker
  imports Host_Spec Gpu_Bench
begin

text \<open>
  \<^verbatim>\<open>crates/host-agent/src/mac_worker.rs\<close>, the process a Metal rental runs, and the
  part of \<^verbatim>\<open>main\<close> that reads its command line: the arguments, the check of the
  size, the throughput it measures batch by batch, and the HTTP answer it gives to any request.
  Its kernel is the simdgroup product of \<open>Gpu_Kernels\<close>. The theorem joins the two ends of
  the command line: what the runtime spawns is what the worker runs.
\<close>

section \<open>The command line\<close>

text \<open>\<^verbatim>\<open>str::parse::<u16>\<close>.\<close>

definition parse_u16 :: "string \<Rightarrow> int option" where
  "parse_u16 s = (case parse_u32 s of None \<Rightarrow> None | Some v \<Rightarrow> if v < 2 ^ 16 then Some v else None)"

definition arg_at :: "string list \<Rightarrow> nat \<Rightarrow> string option" where
  "arg_at a i = (if i < length a then Some (a ! i) else None)"

definition arg_or :: "(string \<Rightarrow> int option) \<Rightarrow> int \<Rightarrow> string option \<Rightarrow> int" where
  "arg_or parse d s = (case Option.bind s parse of None \<Rightarrow> d | Some v \<Rightarrow> v)"

text \<open>The size and the port when the process is started as a worker.\<close>

definition worker_args :: "string list \<Rightarrow> (int \<times> int) option" where
  "worker_args a =
     (if arg_at a 1 = Some ''__mac-worker'' then
        Some (arg_or parse_u32 2048 (arg_at a 2), arg_or parse_u16 40000 (arg_at a 3))
      else None)"

section \<open>The worker\<close>

definition mac_worker_check :: "int \<Rightarrow> anyhow + unit" where
  "mac_worker_check n =
     (if 8 \<le> n \<and> n mod 8 = 0 then Inr ()
      else Inl [''n must be a multiple of 8 (got '' @ show_int n @ '')''])"

definition BATCH :: nat where
  "BATCH = 20"

text \<open>
  The shared statistics, dispatches and TFLOP/s, after one more batch of the loop;
  \<open>elapsed\<close> is the time since the start.
\<close>

type_synonym stats = "nat \<times> real"

definition gemm_batch :: "f64_ops \<Rightarrow> int \<Rightarrow> real \<Rightarrow> stats \<Rightarrow> stats" where
  "gemm_batch F n elapsed st =
     (let iters = (fst st + BATCH) mod 2 ^ 64
      in (iters, gemm_tflops F (nat n) iters elapsed))"

fun gemm_batches :: "f64_ops \<Rightarrow> int \<Rightarrow> real list \<Rightarrow> stats \<Rightarrow> stats" where
  "gemm_batches F n [] st = st"
| "gemm_batches F n (t # ts) st = gemm_batches F n ts (gemm_batch F n t st)"

section \<open>The status endpoint\<close>

definition crlf :: string where
  "crlf = [CHR 0x0D, CHR 0x0A]"

definition json_key :: "string \<Rightarrow> string" where
  "json_key k = quote_sign @ k @ quote_sign @ '':''"

definition status_body :: "int \<Rightarrow> stats \<Rightarrow> string" where
  "status_body n st =
     ''{'' @ json_key ''task'' @ quote_sign @ ''gemm-fp16'' @ quote_sign @ '','' @
     json_key ''n'' @ show_int n @ '','' @ json_key ''iters'' @ show_nat (fst st) @ '','' @
     json_key ''tflops'' @ fmt_fixed 3 (snd st) @ ''}''"

definition status_response :: "int \<Rightarrow> stats \<Rightarrow> string" where
  "status_response n st =
     (let body = status_body n st
      in ''HTTP/1.1 200 OK'' @ crlf @ ''content-type: application/json'' @ crlf @
         ''content-length: '' @ show_nat (length body) @ crlf @ ''connection: close'' @ crlf @ crlf @ body)"

section \<open>From the runtime to the worker\<close>

lemma parse_u32_show_int:
  assumes "0 \<le> n" "n < 2 ^ 32"
  shows "parse_u32 (show_int n) = Some n"
proof -
  obtain c rest where c: "show_nat (nat n) = c # rest" "is_digit c" by (rule show_nat_head)
  then have "c \<noteq> CHR ''+''" by (auto simp: is_digit_def)
  then show ?thesis
    using assms c parse_nat_show_nat [of "nat n"] by (simp add: parse_u32_def show_int_def)
qed

lemma parse_u16_show_int: "0 \<le> n \<Longrightarrow> n < 2 ^ 16 \<Longrightarrow> parse_u16 (show_int n) = Some n"
  by (simp add: parse_u16_def parse_u32_show_int)

lemma parse_task_size: "parse_task dbg img = Inr (Gemm n) \<Longrightarrow> 256 \<le> n \<and> n \<le> 16384 \<and> n mod 8 = 0"
  by (auto simp: parse_task_def Let_def split: option.splits if_splits prod.splits)

lemma worker_args_spawned:
  assumes "0 \<le> n" "n < 2 ^ 32" "0 \<le> port" "port < 2 ^ 16"
  shows "worker_args [exe, ''__mac-worker'', show_int n, show_int port] = Some (n, port)"
  using assms by (simp add: worker_args_def arg_at_def arg_or_def parse_u32_show_int parse_u16_show_int)

text \<open>A port beyond 16 bits, which the agent's flags allow, becomes the default in the worker.\<close>

lemma worker_port_falls_back:
  "worker_args [exe, ''__mac-worker'', show_int 2048, show_int 70000] = Some (2048, 40000)"
  by (simp add: worker_args_def arg_at_def arg_or_def parse_u32_show_int parse_u16_def)

text \<open>
  C31: a Metal rental that starts has spawned a worker which reads back from its command line
  the size the tenant's image names and the port the report names, and accepts that size, as
  long as the host's port range lies within 16 bits.
\<close>

theorem metal_worker_gets_its_task:
  assumes "metal_start_rental P dbg rt spec = (Inr st, rt')" "0 \<le> mt_port_start rt" "mt_port_end rt < 2 ^ 16"
  shows "\<exists>args child os n. os_spawn P (mt_os rt) (mt_exe rt) args = (Inr child, os) \<and>
    worker_args (mt_exe rt # args) = Some (n, sd_ssh_port st) \<and>
    parse_task dbg (sp_image spec) = Inr (Gemm n) \<and> mac_worker_check n = Inr ()"
proof -
  obtain n port child os where run: "parse_task dbg (sp_image spec) = Inr (Gemm n)"
    "pick_free_port (mt_port_start rt) (mt_port_end rt) (metal_used_ports rt) = Some port"
    "os_spawn P (mt_os rt) (mt_exe rt) [''__mac-worker'', show_int n, show_int port] = (Inr child, os)"
    "sd_ssh_port st = port"
    using assms(1) by (auto simp: metal_start_rental_def split: sum.splits metal_task.splits option.splits prod.splits)
  have "worker_args (mt_exe rt # [''__mac-worker'', show_int n, show_int port]) = Some (n, port)"
    using parse_task_size [OF run(1)] pick_free_port_SomeD [OF run(2)] assms(2,3) by (intro worker_args_spawned) auto
  moreover have "mac_worker_check n = Inr ()"
    using parse_task_size [OF run(1)] by (simp add: mac_worker_check_def)
  ultimately show ?thesis using run by blast
qed

theorem metal_worker_gets_its_task_witness:
  "\<exists>args child os n. os_spawn \<lparr>os_spawn = (\<lambda>os exe args. (Inr 7, args)), os_exited = (\<lambda>os c. False), os_kill = (\<lambda>os c. os)\<rparr>
      [] ''/vgpu-agent'' args = (Inr child, os) \<and>
    worker_args (''/vgpu-agent'' # args) = Some (n, 40000) \<and>
    parse_task (\<lambda>s. s) ''metal:gemm'' = Inr (Gemm n) \<and> mac_worker_check n = Inr ()"
proof -
  let ?P = "\<lparr>os_spawn = (\<lambda>os exe args. (Inr 7, args)), os_exited = (\<lambda>os c. False), os_kill = (\<lambda>os c. os)\<rparr>"
  let ?rt = "metal_connect ''/vgpu-agent'' 40000 40000 []"
  let ?spec = "\<lparr>sp_rental_id = 3, sp_image = ''metal:gemm'', sp_ssh_pubkey = ''''\<rparr>"
  have "parse_task (\<lambda>s. s) ''metal:gemm'' = Inr (Gemm 2048)"
    by (simp add: parse_task_def Let_def strip_prefix_def starts_with_def split_once_def)
  moreover have "pick_free_port 40000 40000 {} = Some 40000" by (simp add: pick_free_port_def)
  ultimately have "metal_start_rental ?P (\<lambda>s. s) ?rt ?spec = (Inr \<lparr>sd_container_id = ''metal-job-'' @ show_int 3,
      sd_ssh_port = 40000, sd_kind = HttpStatus\<rparr>, snd (metal_start_rental ?P (\<lambda>s. s) ?rt ?spec))"
    by (simp add: metal_start_rental_def metal_connect_def metal_used_ports_def)
  from metal_worker_gets_its_task [OF this] show ?thesis by (simp add: metal_connect_def)
qed

end
