(* ===== verification/Mac_Process.thy ===== *)
theory Mac_Process
  imports Mac_Worker Metal_Device Gpu_Bench_Spec
begin

text \<open>
  The process of \<^verbatim>\<open>mac_worker.rs\<close> as it runs: the thread of the matrix products and the
  thread of the status endpoint, which share the statistics behind a mutex, as a step relation
  over both. \<open>gemm_setup\<close> is what the first thread does before its loop; every iteration
  of the loop is one command buffer of \<open>BATCH\<close> dispatches of the kernel of
  \<open>Gpu_Kernels\<close>. Metal, the sockets and the clock are free in the steps; a pass takes
  time, so what \<^verbatim>\<open>elapsed\<close> gives is positive. The theorem says
  what an answer of the endpoint is worth.
\<close>

section \<open>Before the loop\<close>

text \<open>
  The worker's kernel, the same text as the benchmark's \<^verbatim>\<open>gemm_f16\<close>, on its inputs of
  ones; \<open>tgids n\<close> is the order its \<open>n / 8\<close> by \<open>n / 8\<close> threadgroups run in.
\<close>

definition mac_kernel :: "(nat \<Rightarrow> (nat \<times> nat) list) \<Rightarrow> nat \<Rightarrow> buffer \<Rightarrow> buffer" where
  "mac_kernel tgids n = simd_dispatch (\<lambda>_. 1) (\<lambda>_. 1) n (tgids n)"

definition gemm_setup :: "metal_device \<Rightarrow> nat \<Rightarrow> anyhow + unit" where
  "gemm_setup M n =
     (let len = n * n
      in first_error
           [require ''no Metal device'' (md_present M),
            require ''creating a command queue'' (md_queue M),
            prefixed ''compiling MSL: '' (md_library M),
            require ''kernel gemm_f16 not found'' (md_function M ''gemm_f16''),
            prefixed ''building pipeline: '' (md_pipeline M ''gemm_f16''),
            require ''allocating A'' (md_buffer M 0 (len * 2)),
            require ''allocating B'' (md_buffer M 1 (len * 2)),
            require ''allocating C'' (md_buffer M 2 (len * 4))])"

section \<open>The two threads\<close>

text \<open>
  The first thread: setting up, in its loop with the number of command buffers so far, the count
  of dispatches and the output buffer, or ended with an error. The second: about to bind,
  waiting for a connection, reading from one, or ended with the error of the bind, which ends the
  process.
\<close>

datatype gemm_thread = GemmSetUp | GemmLoop nat nat buffer | GemmEnded anyhow

datatype status_thread = StatusBinding | StatusAccepting | StatusReading | StatusEnded anyhow

record worker =
  wk_stats :: stats
  wk_gemm :: gemm_thread
  wk_status :: status_thread
  wk_sent :: "string list"
  wk_stderr :: "string list"
  wk_stdout :: "string list"

definition worker_init :: worker where
  "worker_init = \<lparr>wk_stats = (0, 0), wk_gemm = GemmSetUp, wk_status = StatusBinding, wk_sent = [],
     wk_stderr = [], wk_stdout = []\<rparr>"

definition worker_run :: "int \<Rightarrow> anyhow + worker" where
  "worker_run n = (case mac_worker_check n of Inl e \<Rightarrow> Inl e | Inr _ \<Rightarrow> Inr worker_init)"

definition gemm_ends :: "anyhow \<Rightarrow> worker \<Rightarrow> worker" where
  "gemm_ends e w = w\<lparr>wk_gemm := GemmEnded e,
     wk_stderr := wk_stderr w @ [''[mac-worker] GEMM loop failed: '' @ error_chain e]\<rparr>"

definition command_error :: "metal_device \<Rightarrow> nat \<Rightarrow> anyhow + unit" where
  "command_error M k =
     first_error [require ''command buffer'' (md_command_buffer M k), require ''compute encoder'' (md_encoder M k)]"

text \<open>One pass of the loop; \<open>elapsed\<close> is the time since its start.\<close>

definition gemm_pass ::
  "f64_ops \<Rightarrow> (nat \<Rightarrow> buffer \<Rightarrow> buffer) \<Rightarrow> int \<Rightarrow> real \<Rightarrow> nat \<Rightarrow> nat \<Rightarrow> buffer \<Rightarrow> worker \<Rightarrow> worker" where
  "gemm_pass F run n elapsed k iters c w =
     (let st = gemm_batch F n elapsed (iters, 0)
      in w\<lparr>wk_gemm := GemmLoop (Suc k) (fst st) (time_dispatches (run (nat n)) BATCH c), wk_stats := st\<rparr>)"

definition serving_line :: "int \<Rightarrow> int \<Rightarrow> string" where
  "serving_line port n =
     ''[mac-worker] serving status on :'' @ show_int port @ '' (task=gemm-fp16 n='' @ show_int n @ '')''"

text \<open>\<open>junk\<close> is what the new output buffer holds.\<close>

inductive worker_step ::
  "f64_ops \<Rightarrow> metal_device \<Rightarrow> (nat \<Rightarrow> buffer \<Rightarrow> buffer) \<Rightarrow> int \<Rightarrow> int \<Rightarrow> worker \<Rightarrow> worker \<Rightarrow> bool"
  for F M run n port where
  set_up: "wk_gemm w = GemmSetUp \<Longrightarrow> gemm_setup M (nat n) = Inr () \<Longrightarrow>
    worker_step F M run n port w (w\<lparr>wk_gemm := GemmLoop 0 0 junk\<rparr>)"
| no_set_up: "wk_gemm w = GemmSetUp \<Longrightarrow> gemm_setup M (nat n) = Inl e \<Longrightarrow>
    worker_step F M run n port w (gemm_ends e w)"
| pass: "wk_gemm w = GemmLoop k iters c \<Longrightarrow> command_error M k = Inr () \<Longrightarrow> 0 < elapsed \<Longrightarrow>
    worker_step F M run n port w (gemm_pass F run n elapsed k iters c w)"
| no_pass: "wk_gemm w = GemmLoop k iters c \<Longrightarrow> command_error M k = Inl e \<Longrightarrow>
    worker_step F M run n port w (gemm_ends e w)"
| bound: "wk_status w = StatusBinding \<Longrightarrow>
    worker_step F M run n port w (w\<lparr>wk_status := StatusAccepting, wk_stdout := wk_stdout w @ [serving_line port n]\<rparr>)"
| not_bound: "wk_status w = StatusBinding \<Longrightarrow>
    worker_step F M run n port w (w\<lparr>wk_status := StatusEnded [''binding status port '' @ show_int port, e], wk_gemm := GemmEnded []\<rparr>)"
| accepted: "wk_status w = StatusAccepting \<Longrightarrow>
    worker_step F M run n port w (w\<lparr>wk_status := StatusReading\<rparr>)"
| answered: "wk_status w = StatusReading \<Longrightarrow>
    worker_step F M run n port w (w\<lparr>wk_status := StatusAccepting, wk_sent := wk_sent w @ [status_response n (wk_stats w)]\<rparr>)"
| not_answered: "wk_status w = StatusReading \<Longrightarrow>
    worker_step F M run n port w (w\<lparr>wk_status := StatusAccepting\<rparr>)"

inductive_cases worker_stepE: "worker_step F M run n port w w'"

section \<open>What an answer is worth\<close>

text \<open>The statistics after \<open>k\<close> passes, the last of them at \<open>elapsed\<close>.\<close>

definition stats_after :: "f64_ops \<Rightarrow> int \<Rightarrow> nat \<times> real \<Rightarrow> stats" where
  "stats_after F n kt =
     (let iters = (BATCH * fst kt) mod 2 ^ 64
      in if fst kt = 0 then (0, 0) else (iters, gemm_tflops F (nat n) iters (snd kt)))"

lemma gemm_batch_after:
  "gemm_batch F n elapsed ((BATCH * k) mod 2 ^ 64, x) = stats_after F n (Suc k, elapsed)"
  by (simp add: gemm_batch_def stats_after_def Let_def mod_add_right_eq add.commute [of _ BATCH])

lemma fst_stats_after: "fst (stats_after F n (k, t)) = (BATCH * k) mod 2 ^ 64"
  by (simp add: stats_after_def Let_def)

definition product_of_ones :: "nat \<Rightarrow> buffer \<Rightarrow> bool" where
  "product_of_ones n c \<longleftrightarrow> (\<forall>row<n. \<forall>col<n. c (row * n + col) = real n)"

text \<open>
  \<open>h\<close> is the pass behind the current statistics: its number and time. The answers sent so far
  are the statistics of some passes up to it, in order.
\<close>

definition worker_ok :: "f64_ops \<Rightarrow> int \<Rightarrow> worker \<Rightarrow> nat \<times> real \<Rightarrow> (nat \<times> real) list \<Rightarrow> bool" where
  "worker_ok F n w h hs \<longleftrightarrow>
     wk_stats w = stats_after F n h \<and> wk_sent w = map (\<lambda>kt. status_response n (stats_after F n kt)) hs \<and>
     sorted (map fst (hs @ [h])) \<and> (fst h = 0 \<or> 0 < snd h) \<and> (\<forall>kt\<in>set hs. fst kt = 0 \<or> 0 < snd kt) \<and>
     (case wk_gemm w of
        GemmSetUp \<Rightarrow> fst h = 0
      | GemmLoop k iters c \<Rightarrow> fst h = k \<and> iters = (BATCH * k) mod 2 ^ 64 \<and> (0 < k \<longrightarrow> product_of_ones (nat n) c)
      | GemmEnded e \<Rightarrow> True)"

definition worker_inv :: "f64_ops \<Rightarrow> int \<Rightarrow> worker \<Rightarrow> bool" where
  "worker_inv F n w \<longleftrightarrow> (\<exists>h hs. worker_ok F n w h hs)"

lemma worker_inv_init: "worker_inv F n worker_init"
proof -
  have "worker_ok F n worker_init (0, 0) []" by (simp add: worker_ok_def worker_init_def stats_after_def)
  then show ?thesis unfolding worker_inv_def by blast
qed

text \<open>A kernel is right when it leaves the product whatever the output buffer held.\<close>

definition right_kernel :: "(nat \<Rightarrow> buffer \<Rightarrow> buffer) \<Rightarrow> int \<Rightarrow> bool" where
  "right_kernel run n \<longleftrightarrow> (\<forall>c. product_of_ones (nat n) (run (nat n) c))"

lemma batch_product: "right_kernel run n \<Longrightarrow> product_of_ones (nat n) (time_dispatches (run (nat n)) BATCH c)"
  by (simp add: right_kernel_def time_dispatches_def BATCH_def numeral_eq_Suc)

lemma simd_kernel_right:
  assumes "mac_worker_check n = Inr ()" "simd_grid (nat n) (tgids (nat n))" "nat n * nat n \<le> 2 ^ 32"
  shows "right_kernel (mac_kernel tgids) n"
proof -
  have "8 \<le> n \<and> n mod 8 = 0" using assms(1) by (auto simp: mac_worker_check_def split: if_splits)
  then have "8 dvd nat n" using nat_mod_distrib [of n 8] by (simp add: dvd_eq_mod_eq_0)
  from simd_dispatch_elem [OF this assms(3,2), of _ _ "\<lambda>_. 1::real" "\<lambda>_. 1"] show ?thesis
    unfolding right_kernel_def product_of_ones_def mac_kernel_def by (simp only: matmul_ones) blast
qed

lemma worker_inv_kept:
  assumes "worker_inv F n w" "wk_stats w' = wk_stats w" "wk_sent w' = wk_sent w"
    and "wk_gemm w' = wk_gemm w \<or> (\<exists>e. wk_gemm w' = GemmEnded e)"
  shows "worker_inv F n w'"
proof -
  obtain h hs where "worker_ok F n w h hs" using assms(1) by (auto simp: worker_inv_def)
  with assms(2-4) have "worker_ok F n w' h hs" unfolding worker_ok_def by fastforce
  then show ?thesis unfolding worker_inv_def by blast
qed

lemma worker_step_inv:
  assumes "worker_step F M run n port w w'" "right_kernel run n" "worker_inv F n w"
  shows "worker_inv F n w'"
proof -
  obtain h hs where ok: "worker_ok F n w h hs" using assms(3) by (auto simp: worker_inv_def)
  from assms(1) show ?thesis
  proof cases
    case (pass k iters c elapsed)
    have "worker_ok F n w' (Suc k, elapsed) hs"
      using ok pass batch_product [OF assms(2)]
      by (auto simp: worker_ok_def gemm_pass_def gemm_batch_after fst_stats_after Let_def
          sorted_append simp del: power_numeral)
    then show ?thesis unfolding worker_inv_def by blast
  next
    case answered
    then have "worker_ok F n w' h (hs @ [h])" using ok by (auto simp: worker_ok_def sorted_append)
    then show ?thesis unfolding worker_inv_def by blast
  next
    case (set_up junk)
    then have "worker_ok F n w' h hs" using ok by (auto simp: worker_ok_def)
    then show ?thesis unfolding worker_inv_def by blast
  qed (use worker_inv_kept [OF assms(3)] in \<open>simp_all add: gemm_ends_def\<close>)
qed

interpretation mac_process: transition_system "\<lambda>w. worker_run n = Inr w" "worker_step F M run n port"
  "\<lambda>w. right_kernel run n \<longrightarrow> worker_inv F n w" for F M run n port
proof
  show "right_kernel run n \<longrightarrow> worker_inv F n w" if "worker_run n = Inr w" for w
    using that worker_inv_init by (auto simp: worker_run_def split: sum.splits)
  show "right_kernel run n \<longrightarrow> worker_inv F n w'"
    if "right_kernel run n \<longrightarrow> worker_inv F n w" "worker_step F M run n port w w'" for w w'
    using that worker_step_inv by blast
qed

text \<open>
  C32: what the status endpoint of a Metal rental answers, however its two threads interleave:
  every answer is well-formed and reports a whole number of passes of \<open>BATCH\<close> products, with the
  throughput of exactly those over the time they took, never a mix of two passes; the counts
  only grow from answer to answer; and when any are reported, the kernel has left the product
  in the output buffer.
\<close>

theorem status_answers_are_measured:
  assumes "worker_run n = Inr w0" "(worker_step F M (mac_kernel tgids) n port)\<^sup>*\<^sup>* w0 w"
    and "simd_grid (nat n) (tgids (nat n))" "nat n * nat n \<le> 2 ^ 32"
  shows "\<exists>hs. wk_sent w = map (\<lambda>kt. status_response n (stats_after F n kt)) hs \<and> sorted (map fst hs) \<and>
    (\<forall>(k, t)\<in>set hs. k = 0 \<or> 0 < t) \<and>
    (\<forall>k iters c. wk_gemm w = GemmLoop k iters c \<longrightarrow>
       (\<forall>(j, t)\<in>set hs. j \<le> k) \<and> (0 < k \<longrightarrow> product_of_ones (nat n) c))"
proof -
  have "mac_worker_check n = Inr ()" using assms(1) by (auto simp: worker_run_def split: sum.splits)
  then have "right_kernel (mac_kernel tgids) n" by (rule simd_kernel_right) (rule assms)+
  with mac_process.reachable_inv [OF assms(1,2)] have "worker_inv F n w" by blast
  then obtain h hs where "worker_ok F n w h hs" by (auto simp: worker_inv_def)
  then show ?thesis by (intro exI [of _ hs]) (auto simp: worker_ok_def sorted_append split: gemm_thread.splits)
qed

text \<open>The worker of size 16 that is asked once before and once after its first pass, at half a second.\<close>

definition demo_tgids :: "nat \<Rightarrow> (nat \<times> nat) list" where
  "demo_tgids n = List.product [0..<n div 8] [0..<n div 8]"

definition demo_answered :: worker where
  "demo_answered = worker_init\<lparr>wk_stats := (20, gemm_tflops demo_f64 16 20 (1 / 2)), wk_gemm :=
     GemmLoop 1 20 (time_dispatches (mac_kernel demo_tgids 16) BATCH (\<lambda>_. 0)),
     wk_status := StatusReading, wk_sent := [status_response 16 (0, 0)], wk_stdout := [serving_line 40000 16]\<rparr>"

lemma demo_answered_run: "(worker_step demo_f64 working_metal (mac_kernel demo_tgids) 16 40000)\<^sup>*\<^sup>* worker_init demo_answered"
proof -
  let ?step = "worker_step demo_f64 working_metal (mac_kernel demo_tgids) 16 40000"
  let ?w1 = "worker_init\<lparr>wk_gemm := GemmLoop 0 0 (\<lambda>_. 0)\<rparr>"
  let ?w2 = "?w1\<lparr>wk_status := StatusAccepting, wk_stdout := [serving_line 40000 16]\<rparr>"
  let ?w3 = "?w2\<lparr>wk_status := StatusReading\<rparr>"
  let ?w4 = "?w3\<lparr>wk_status := StatusAccepting, wk_sent := [status_response 16 (0, 0)]\<rparr>"
  let ?w5 = "?w4\<lparr>wk_status := StatusReading\<rparr>"
  have "gemm_setup working_metal (nat 16) = Inr ()"
    by (simp add: gemm_setup_def working_metal_def require_def prefixed_def)
  then have "?step worker_init ?w1" by (intro worker_step.set_up) (simp_all add: worker_init_def)
  moreover have "?step ?w1 ?w2" using worker_step.bound [of ?w1] by (simp add: worker_init_def)
  moreover have "?step ?w2 ?w3" using worker_step.accepted [of ?w2] by (simp add: worker_init_def)
  moreover have "?step ?w3 ?w4" using worker_step.answered [of ?w3] by (simp add: worker_init_def)
  moreover have "?step ?w4 ?w5" using worker_step.accepted [of ?w4] by (simp add: worker_init_def)
  moreover have "?step ?w5 demo_answered"
    using worker_step.pass [of ?w5 0 0 "\<lambda>_. 0" working_metal "1 / 2" demo_f64 "mac_kernel demo_tgids" 16 40000]
    by (simp add: command_error_def working_metal_def require_def gemm_pass_def gemm_batch_def BATCH_def Let_def
        demo_answered_def worker_init_def)
  ultimately show ?thesis by (meson converse_rtranclp_into_rtranclp rtranclp.rtrancl_refl)
qed

theorem status_answers_are_measured_witness:
  "\<exists>kt. status_response 16 (0, 0) = status_response 16 (stats_after demo_f64 16 kt) \<and> (fst kt = 0 \<or> 0 < snd kt) \<and>
     fst kt \<le> 1 \<and> product_of_ones 16 (time_dispatches (mac_kernel demo_tgids 16) BATCH (\<lambda>_. 0))"
proof -
  have "worker_run 16 = Inr worker_init" by (simp add: worker_run_def mac_worker_check_def)
  moreover have "simd_grid (nat 16) (demo_tgids (nat 16))" unfolding demo_tgids_def by (rule simd_grid_product)
  moreover have "nat 16 * nat 16 \<le> (2::nat) ^ 32" by simp
  ultimately show ?thesis
    using status_answers_are_measured [OF _ demo_answered_run]
    by (fastforce simp: demo_answered_def worker_init_def)
qed

section \<open>A worker that does not work\<close>

text \<open>
  When the first thread ends, by a Metal that is missing or fails later, the process goes on
  answering: the statistics stay what they were, and the rental it stands for stays running.
\<close>

lemma dead_worker_keeps_answering:
  assumes "wk_gemm w = GemmEnded e" "wk_status w = StatusReading"
  shows "worker_step F M run n port w (w\<lparr>wk_status := StatusAccepting, wk_sent := wk_sent w @ [status_response n (wk_stats w)]\<rparr>)"
    and "worker_step F M run n port w w' \<Longrightarrow> wk_gemm w' = GemmEnded e \<and> wk_stats w' = wk_stats w"
  using assms by (auto intro: worker_step.answered elim!: worker_stepE)

lemma no_metal_no_work:
  assumes "worker_run n = Inr w0" "(worker_step F M run n port)\<^sup>*\<^sup>* w0 w" "gemm_setup M (nat n) = Inl e"
  shows "wk_stats w = (0, 0) \<and> set (wk_sent w) \<subseteq> {status_response n (0, 0)}"
proof -
  have "w0 = worker_init" using assms(1) by (auto simp: worker_run_def split: sum.splits)
  with assms(2) have "wk_stats w = (0, 0) \<and> set (wk_sent w) \<subseteq> {status_response n (0, 0)} \<and>
      (\<forall>k iters c. wk_gemm w \<noteq> GemmLoop k iters c)"
  proof (induction rule: rtranclp_induct)
    case (step y z)
    from step.hyps(2) step.IH [OF step.prems] assms(3) show ?case by cases (auto simp: gemm_ends_def)
  qed (simp add: worker_init_def)
  then show ?thesis by blast
qed

end
