(* ===== verification/Server_Spec.thy ===== *)
theory Server_Spec
  imports Control_Plane Tenant_Spec
begin

text \<open>
  Two properties of the router as a whole: what an error response means, and when a machine has
  one rental at a time.
\<close>

section \<open>Error responses\<close>

definition response_error :: "response \<Rightarrow> api_error option" where
  "response_error resp =
     (case resp of
        HealthOk h \<Rightarrow> None
      | OffersOk os \<Rightarrow> None
      | AccountCreated r \<Rightarrow> (case r of Inl e \<Rightarrow> Some e | Inr x \<Rightarrow> None)
      | AccountIs r \<Rightarrow> (case r of Inl e \<Rightarrow> Some e | Inr x \<Rightarrow> None)
      | DepositIs r \<Rightarrow> (case r of Inl e \<Rightarrow> Some e | Inr x \<Rightarrow> None)
      | RentalCreated r \<Rightarrow> (case r of Inl e \<Rightarrow> Some e | Inr x \<Rightarrow> None)
      | RentalIs r \<Rightarrow> (case r of Inl e \<Rightarrow> Some e | Inr x \<Rightarrow> None)
      | RentalDeleted r \<Rightarrow> (case r of Inl e \<Rightarrow> Some e | Inr x \<Rightarrow> None)
      | Registered r \<Rightarrow> (case r of Inl e \<Rightarrow> Some e | Inr x \<Rightarrow> None)
      | Commands r \<Rightarrow> (case r of Inl e \<Rightarrow> Some e | Inr x \<Rightarrow> None)
      | Reported r \<Rightarrow> (case r of Inl e \<Rightarrow> Some e | Inr x \<Rightarrow> None)
      | Rated r \<Rightarrow> (case r of Inl e \<Rightarrow> Some e | Inr x \<Rightarrow> None)
      | PaidOut r \<Rightarrow> (case r of Inl e \<Rightarrow> Some e | Inr x \<Rightarrow> None))"

definition error_statuses :: "nat set" where
  "error_statuses = {400, 401, 402, 404, 409, 500, 502}"

lemma db_error_status: "err_status (of_db_error e) \<in> error_statuses"
  by (simp add: error_defs error_statuses_def)

lemma authenticate_status: "authenticate d auth = Inl e \<Longrightarrow> err_status e = 401"
  by (auto simp: authenticate_def error_defs split: option.splits)

lemma in_transaction_error: "in_transaction body d = (Inl e, d') \<Longrightarrow> body d = Inl e"
  by (auto simp: in_transaction_def split: sum.splits prod.splits)

lemma create_account_error: "create_account ident now d = (Inl e, d') \<Longrightarrow> d' = d \<and> err_status e \<in> error_statuses"
  by (auto simp: create_account_def db_error_status split: sum.splits)

lemma get_account_error: "get_account k d = Inl e \<Longrightarrow> err_status e \<in> error_statuses"
  by (auto simp: get_account_def error_defs error_statuses_def Let_def split: option.splits sum.splits)

lemma deposit_error: "deposit B k x now lns d = (Inl e, lns', d') \<Longrightarrow> d' = d \<and> err_status e \<in> error_statuses"
  by (auto simp: deposit_def error_defs error_statuses_def split: if_splits prod.splits sum.splits)

lemma create_rental_error:
  assumes "create_rental req now d = (Inl e, d')"
  shows "d' = d \<and> err_status e \<in> error_statuses"
proof
  show "d' = d" using create_rental_handler.err_unchanged [OF assms] .
  have "create_rental_body req now d = Inl e" using assms unfolding create_rental_def by (rule in_transaction_error)
  then show "err_status e \<in> error_statuses"
    by (auto simp: create_rental_body_def place_rental_def rental_ssh_pubkey_def error_defs error_statuses_def
        split: option.splits sum.splits if_splits prod.splits)
qed

lemma get_rental_error: "get_rental k d = Inl e \<Longrightarrow> err_status e \<in> error_statuses"
  by (auto simp: get_rental_def error_defs error_statuses_def split: option.splits)

lemma delete_rental_error:
  assumes "delete_rental k now d = (Inl e, d')"
  shows "d' = d \<and> err_status e \<in> error_statuses"
proof (cases "delete_rental_read k d")
  case (Inl e1)
  with assms show ?thesis
    by (auto simp: delete_rental_def delete_rental_read_def error_defs error_statuses_def split: option.splits if_splits)
next
  case (Inr x)
  then obtain r where "delete_rental_commit r now d = (Inl e, d')"
    using assms by (auto simp: delete_rental_def split: sum.splits)
  moreover from this have "\<exists>d''. in_transaction (delete_rental_body r now) d = (Inl e, d'')"
    by (auto simp: delete_rental_commit_def split: sum.splits prod.splits)
  ultimately show ?thesis
    using delete_rental_handler.err_unchanged
    by (auto simp: delete_rental_body_def Let_def db_error_status dest!: in_transaction_error split: sum.splits)
qed

lemma register_error: "register token req now d = (Inl e, d') \<Longrightarrow> d' = d \<and> err_status e \<in> error_statuses"
  by (auto simp: register_def db_error_status error_defs error_statuses_def split: option.splits sum.splits prod.splits)

lemma decode_error: "decode_commands cs = Inl e \<Longrightarrow> err_status e \<in> error_statuses"
  by (induction cs) (auto simp: error_defs error_statuses_def split: option.splits sum.splits)

lemma heartbeat_error:
  assumes "heartbeat auth online now d = (Inl e, d')"
  shows "d' = d \<and> err_status e \<in> error_statuses"
  using heartbeat_handler.err_unchanged [OF assms] assms
  by (auto simp: heartbeat_def heartbeat_body_def Let_def error_statuses_def
      dest!: in_transaction_error decode_error authenticate_status split: sum.splits)

lemma report_error:
  assumes "report auth req now d = (Inl e, d')"
  shows "d' = d \<and> err_status e \<in> error_statuses"
  using report_handler.err_unchanged [OF assms] assms
  by (auto simp: report_def report_read_def report_commit_def report_body_def Let_def error_statuses_def error_defs
      dest!: in_transaction_error authenticate_status split: sum.splits option.splits if_splits)

lemma rate_error: "rate auth x d = (Inl e, d') \<Longrightarrow> d' = d \<and> err_status e \<in> error_statuses"
  by (auto simp: rate_def error_defs error_statuses_def dest: authenticate_status split: sum.splits if_splits)

lemma payout_error:
  assumes "payout B auth bolt11 now lns d = (Inl e, lns', d')"
  shows "d' = d \<and> err_status e \<in> error_statuses"
  using assms
  by (auto simp: payout_def payout_read_def payout_pay_def payout_commit_eq error_defs error_statuses_def
      dest: authenticate_status split: sum.splits if_splits prod.splits)

lemma error_keeps_state:
  assumes "handle ev req st = (resp, st')" "response_error resp = Some e"
  shows "st_db st' = st_db st \<and> err_status e \<in> error_statuses"
proof (cases req)
  case PostAccounts
  with assms show ?thesis
    by (auto simp: response_error_def put_db_def next_mix_def split: sum.splits)
      (metis create_account_error prod.collapse)+
next
  case (GetAccount k)
  with assms show ?thesis by (auto simp: response_error_def get_account_error split: sum.splits)
next
  case (GetRental k)
  with assms show ?thesis by (auto simp: response_error_def get_rental_error split: sum.splits)
next
  case (PostDeposit k x)
  with assms show ?thesis
    by (auto simp: response_error_def put_ln_db_def split: sum.splits)
      (metis deposit_error prod.collapse)+
next
  case (PostRentals r)
  with assms show ?thesis
    by (auto simp: response_error_def put_db_def split: sum.splits)
      (metis create_rental_error prod.collapse)+
next
  case (DeleteRental k)
  with assms show ?thesis
    by (auto simp: response_error_def put_db_def split: sum.splits)
      (metis delete_rental_error prod.collapse)+
next
  case (PostRegister r)
  with assms show ?thesis
    by (auto simp: response_error_def handle_register_def put_db_def next_mix_def split: sum.splits if_splits)
      (metis register_error prod.collapse)+
next
  case (PostHeartbeat auth online)
  with assms show ?thesis
    by (auto simp: response_error_def put_db_def split: sum.splits)
      (metis heartbeat_error prod.collapse)+
next
  case (PostReport auth r)
  with assms show ?thesis
    by (auto simp: response_error_def put_db_def split: sum.splits)
      (metis report_error prod.collapse)+
next
  case (PostRate auth x)
  with assms show ?thesis
    by (auto simp: response_error_def put_db_def split: sum.splits)
      (metis rate_error prod.collapse)+
next
  case (PostPayout auth b)
  with assms show ?thesis
    by (auto simp: response_error_def put_ln_db_def split: sum.splits)
      (metis payout_error prod.collapse)+
qed (use assms in \<open>auto simp: response_error_def\<close>)

text \<open>
  C8: whatever the request, an error response comes with a status of the error type
  (400, 401, 402, 404, 409, 500 or 502) and the database is exactly as it was before.
\<close>

theorem failed_request_changes_nothing:
  assumes "handle ev req st = (resp, st')" "response_error resp = Some e"
  shows "st_db st' = st_db st \<and> err_status e \<in> {400, 401, 402, 404, 409, 500, 502}"
  using error_keeps_state [OF assms] by (simp add: error_statuses_def)

definition idle_server :: "mock app_state" where
  "idle_server = server_init mock_backend (mock_new 0 0) (Manual 100) ''mock''"

theorem failed_request_changes_nothing_witness:
  "st_db (snd (handle \<lparr>ev_now = 100, ev_nanos = 0, ev_fl = (\<lambda>x. x), ev_scan = (\<lambda>ms. ms)\<rparr> (DeleteRental 7) idle_server)) =
     db_empty"
proof -
  let ?ev = "\<lparr>ev_now = 100, ev_nanos = 0, ev_fl = (\<lambda>x. x), ev_scan = (\<lambda>ms. ms)\<rparr>"
  have db: "st_db idle_server = db_empty" by (simp add: idle_server_def server_init_def)
  have "delete_rental 7 100 db_empty = (Inl (not_found ''unknown rental''), db_empty)"
    by (simp add: delete_rental_def delete_rental_read_def find_rental_def db_empty_def)
  then have run: "handle ?ev (DeleteRental 7) idle_server =
      (RentalDeleted (Inl (not_found ''unknown rental'')), snd (handle ?ev (DeleteRental 7) idle_server))"
    by (simp add: put_db_def db)
  from failed_request_changes_nothing [OF run, of "not_found ''unknown rental''"] show ?thesis
    by (simp add: response_error_def db)
qed

section \<open>One rental at a time\<close>

definition occupants :: "db \<Rightarrow> int \<Rightarrow> rental_row list" where
  "occupants d k = filter (\<lambda>r. r_machine_id r = k \<and> occupies_machine (r_status r)) (db_rentals d)"

definition exclusive :: "db \<Rightarrow> bool" where
  "exclusive d \<longleftrightarrow> (\<forall>k. length (occupants d k) \<le> 1)"

text \<open>A rental that was over occupies its machine again.\<close>

definition revives :: "db \<Rightarrow> db \<Rightarrow> bool" where
  "revives d d' \<longleftrightarrow> (\<exists>i<length (db_rentals d). i < length (db_rentals d') \<and>
     is_terminal (r_status (db_rentals d ! i)) \<and> occupies_machine (r_status (db_rentals d' ! i)))"

lemma occupants_count:
  "length (occupants d k) =
     card {i. i < length (db_rentals d) \<and> r_machine_id (db_rentals d ! i) = k \<and> occupies_machine (r_status (db_rentals d ! i))}"
  by (simp add: occupants_def length_filter_conv_card)

lemma kept_rows_exclusive:
  assumes "history d d'" "length (db_rentals d') = length (db_rentals d)" "\<not> revives d d'" "exclusive d"
  shows "exclusive d'"
  unfolding exclusive_def
proof
  fix k
  obtain zs where zs: "map rental_terms (db_rentals d') = map rental_terms (db_rentals d) @ zs"
    using assms(1) unfolding history_def by (auto elim: prefixE)
  have "length (map rental_terms (db_rentals d')) = length (map rental_terms (db_rentals d) @ zs)" by (simp only: zs)
  with assms(2) have "zs = []" by simp
  with zs have terms: "map rental_terms (db_rentals d') = map rental_terms (db_rentals d)" by simp
  have "length (occupants d' k) \<le> length (occupants d k)"
    unfolding occupants_count
  proof (rule card_mono)
    show "{i. i < length (db_rentals d') \<and> r_machine_id (db_rentals d' ! i) = k \<and> occupies_machine (r_status (db_rentals d' ! i))}
      \<subseteq> {i. i < length (db_rentals d) \<and> r_machine_id (db_rentals d ! i) = k \<and> occupies_machine (r_status (db_rentals d ! i))}"
    proof safe
      fix i assume i: "i < length (db_rentals d')" "occupies_machine (r_status (db_rentals d' ! i))"
      then have "rental_terms (db_rentals d' ! i) = rental_terms (db_rentals d ! i)"
        using terms assms(2) by (metis nth_map)
      then show "r_machine_id (db_rentals d ! i) = r_machine_id (db_rentals d' ! i)" by (simp add: rental_terms_def)
      show "occupies_machine (r_status (db_rentals d ! i))"
        using i assms(2,3) unfolding revives_def occupies_iff_not_terminal by auto
    qed (simp add: assms(2))
  qed simp
  then show "length (occupants d' k) \<le> 1" using assms(4) unfolding exclusive_def by (meson order_trans)
qed

lemma create_rental_row:
  assumes "create_rental req now d = (Inr resp, d')"
  shows "\<exists>r. db_rentals d' = db_rentals d @ [r] \<and> r_machine_id r = cr_machine_id req \<and>
    occupants d (cr_machine_id req) = []"
  using assms
proof (rule create_rental_InrE)
  fix machine key k d1
  assume "\<not> machine_occupied d (cr_machine_id req)"
    and ins: "insert_rental (new_rental_row req key (m_rate_sats_per_min machine) now) d = Inr (k, d1)"
    and cmd: "insert_command (cr_machine_id req) (command_to_json (StartRental k (cr_image req) key)) now d1 = Inr d'"
  then have "occupants d (cr_machine_id req) = []" by (auto simp: occupants_def occupied_iff filter_empty_conv)
  moreover have "db_rentals d' = db_rentals d @ [(new_rental_row req key (m_rate_sats_per_min machine) now)\<lparr>r_id := k\<rparr>]"
    using ins cmd by (auto simp: insert_rental_def insert_command_def Let_def split: if_splits)
  ultimately show ?thesis by (simp add: new_rental_row_def)
qed

lemma create_rental_keeps_exclusive:
  assumes "exclusive d"
  shows "exclusive (snd (create_rental req now d))"
proof -
  obtain res d' where run: "create_rental req now d = (res, d')" by fastforce
  show ?thesis
  proof (cases res)
    case (Inl e)
    then show ?thesis using run create_rental_handler.err_unchanged assms by fastforce
  next
    case (Inr resp)
    with run have "create_rental req now d = (Inr resp, d')" by simp
    from create_rental_row [OF this] obtain r where r: "db_rentals d' = db_rentals d @ [r]"
      "r_machine_id r = cr_machine_id req" "occupants d (cr_machine_id req) = []" by blast
    have "length (occupants d' k) \<le> 1" for k
      using assms r by (cases "k = cr_machine_id req") (simp_all add: exclusive_def occupants_def)
    then show ?thesis using run by (simp add: exclusive_def)
  qed
qed

text \<open>Every other transition keeps the number of rentals.\<close>

lemma length_rentals [frame_simps]:
  "length (db_rentals (update_rentals p f d)) = length (db_rentals d)"
  "db_rentals (update_machines q g d) = db_rentals d"
  "db_rentals (update_invoices r h d) = db_rentals d"
  "db_rentals (db_record ts k x a m rr n d) = db_rentals d"
  "db_rentals (record_charge ts ac mc rt amt d) = db_rentals d"
  by (simp_all add: update_rentals_def update_machines_def update_invoices_def db_record_def record_charge_def)

lemma db_rentals_result:
  "add_balance k x d = Inr d' \<Longrightarrow> db_rentals d' = db_rentals d"
  "insert_account a d = Inr d' \<Longrightarrow> db_rentals d' = db_rentals d"
  "insert_machine m d = Inr (j, d') \<Longrightarrow> db_rentals d' = db_rentals d"
  "insert_invoice i d = Inr d' \<Longrightarrow> db_rentals d' = db_rentals d"
  "insert_command c p t d = Inr d' \<Longrightarrow> db_rentals d' = db_rentals d"
  by (auto simp: add_balance_def insert_account_def insert_machine_def insert_invoice_def
      insert_command_def Let_def split: if_splits)

lemma report_body_rows:
  "report_body machine rental req now d = Inr (u, d') \<Longrightarrow> length (db_rentals d') = length (db_rentals d)"
  by (auto simp: report_body_def settle_rental_def charge_rental_def Let_def frame_simps db_rentals_result
      split: if_splits sum.splits option.splits)

lemma handler_rows:
  "length (db_rentals (snd (create_account ident now d))) = length (db_rentals d)"
  "length (db_rentals (snd (deposit_db B k x now lns d))) = length (db_rentals d)"
  "length (db_rentals (snd (delete_rental j now d))) = length (db_rentals d)"
  "length (db_rentals (snd (register token rq now d))) = length (db_rentals d)"
  "length (db_rentals (snd (heartbeat auth online now d))) = length (db_rentals d)"
  "length (db_rentals (snd (report auth rp now d))) = length (db_rentals d)"
  "length (db_rentals (snd (rate auth x d))) = length (db_rentals d)"
  "length (db_rentals (snd (payout_db B auth b now lns d))) = length (db_rentals d)"
proof -
  show "length (db_rentals (snd (create_account ident now d))) = length (db_rentals d)"
    by (auto simp: create_account_def db_rentals_result split: sum.splits)
  obtain res lns' d' where dep: "deposit B k x now lns d = (res, lns', d')"
    by (cases "deposit B k x now lns d") auto
  then have db: "snd (deposit_db B k x now lns d) = d'" by (simp add: deposit_db_def)
  show "length (db_rentals (snd (deposit_db B k x now lns d))) = length (db_rentals d)"
    unfolding db using dep by (cases rule: deposit_cases) (simp_all add: db_rentals_result)
  have commit: "length (db_rentals (snd (delete_rental_commit r now d))) = length (db_rentals d)" for r
    by (auto simp: delete_rental_commit_def in_transaction_def delete_rental_body_def Let_def frame_simps
        dest!: db_rentals_result(5) split: sum.splits prod.splits)
  show "length (db_rentals (snd (delete_rental j now d))) = length (db_rentals d)"
    by (auto simp: delete_rental_def commit split: sum.splits)
  show "length (db_rentals (snd (register token rq now d))) = length (db_rentals d)"
    by (cases rule: register_cases [of rq d token now]) (simp_all add: frame_simps db_rentals_result)
  have beat: "length (db_rentals (snd (in_transaction (heartbeat_body m online now) d))) = length (db_rentals d)" for m
    by (rule in_transaction_inv) (auto simp: heartbeat_body_def Let_def frame_simps split: sum.splits)
  show "length (db_rentals (snd (heartbeat auth online now d))) = length (db_rentals d)"
    by (auto simp: heartbeat_def beat split: sum.splits)
  have commit_rp: "length (db_rentals (snd (report_commit m r rp now d))) = length (db_rentals d)" for m r
    unfolding report_commit_def by (rule in_transaction_inv) (auto dest: report_body_rows)
  show "length (db_rentals (snd (report auth rp now d))) = length (db_rentals d)"
    by (auto simp: report_def commit_rp split: sum.splits)
  show "length (db_rentals (snd (rate auth x d))) = length (db_rentals d)"
    by (auto simp: rate_def frame_simps split: sum.splits)
  show "length (db_rentals (snd (payout_db B auth b now lns d))) = length (db_rentals d)"
    by (cases rule: payout_db_cases [of B auth b now lns d]) (simp_all add: payout_commit_eq frame_simps)
qed

lemma tick_rows: "length (db_rentals (snd (tick B cfg tk lns d))) = length (db_rentals d)"
proof -
  have settle: "db_rentals (snd (settle_invoice iv now d)) = db_rentals d" for iv now d
    by (cases rule: settle_invoice_cases [of iv now d]) (simp_all add: frame_simps db_rentals_result(1))
  have poll: "db_rentals (snd (poll_loop B clk lns ivs d)) = db_rentals d" for clk ivs d
  proof (induction ivs arbitrary: d)
    case (Cons iv ivs)
    then show ?case using settle [of iv "clk (length ivs)" d] by (auto split: sum.splits prod.splits)
  qed simp
  have enforce: "length (db_rentals (snd (enforce_budgets cfg clk d))) = length (db_rentals d)" for clk d
    unfolding enforce_budgets_def
    by (rule enforce_loop_invariant [of "\<lambda>d'. length (db_rentals d') = length (db_rentals d)"])
      (auto simp: frame_simps dest!: db_rentals_result(5) elim!: evict_InrE)
  have offline: "db_rentals (mark_offline cfg now d) = db_rentals d" for now d
    by (simp add: mark_offline_def Let_def frame_simps)
  obtain res d1 where p: "poll_invoices B (tk_poll tk) lns d = (res, d1)" by fastforce
  with poll [of "tk_poll tk" "filter (\<lambda>i. \<not> i_settled i) (db_invoices d)" d] have "db_rentals d1 = db_rentals d"
    by (simp add: poll_invoices_def)
  then show ?thesis by (simp add: tick_def p enforce offline split: sum.splits)
qed

lemma handle_rows_or_rent:
  "length (db_rentals (st_db (snd (handle ev req st)))) = length (db_rentals (st_db st)) \<or>
   (\<exists>r. st_db (snd (handle ev req st)) = snd (create_rental r (ev_now ev) (st_db st)))"
proof (cases req)
  case (PostDeposit k x)
  then show ?thesis using handler_rows(2) [of "st_ln st" k x "ev_now ev" "st_ln_state st" "st_db st"]
    by (simp add: put_ln_db_def deposit_db_def split: prod.splits)
next
  case (PostPayout auth b)
  then show ?thesis using handler_rows(8) [of "st_ln st" auth b "ev_now ev" "st_ln_state st" "st_db st"]
    by (simp add: put_ln_db_def payout_db_def split: prod.splits)
next
  case (PostRentals r)
  then show ?thesis by (intro disjI2 exI [of _ r]) (simp add: put_db_def)
qed (simp_all add: put_db_def next_mix_def handle_register_def handler_rows)

lemma step_keeps_exclusive:
  assumes "cp_step st st'" "exclusive (st_db st)" "\<not> revives (st_db st) (st_db st')"
  shows "exclusive (st_db st')"
proof -
  note hist = cp_step_history [OF assms(1)]
  from assms(1) have "length (db_rentals (st_db st')) = length (db_rentals (st_db st)) \<or>
      (\<exists>r now. st_db st' = snd (create_rental r now (st_db st)))"
  proof cases
    case (request t ev req resp)
    then show ?thesis using handle_rows_or_rent [of ev req st] by (metis snd_conv)
  next
    case (ticker tk res d')
    then show ?thesis using tick_rows [of "st_ln st" "st_billing st" tk "st_ln_state st" "st_db st"] by simp
  qed simp_all
  then show ?thesis
    using kept_rows_exclusive [OF hist _ assms(3,2)] create_rental_keeps_exclusive [OF assms(2)] by metis
qed

text \<open>
  C9: along every run whose steps bring no rental that was over back to an occupying status, at
  most one rental occupies each machine, if that held at the start: nothing but a
  revived rental puts two on one machine.
\<close>

theorem one_occupant_unless_revived:
  assumes "(\<lambda>s s'. cp_step s s' \<and> \<not> revives (st_db s) (st_db s'))\<^sup>*\<^sup>* st0 st" "exclusive (st_db st0)"
  shows "length (filter (\<lambda>r. r_machine_id r = k \<and> occupies_machine (r_status r)) (db_rentals (st_db st))) \<le> 1"
proof -
  from assms have "exclusive (st_db st)"
    by (induction rule: rtranclp_induct) (auto intro: step_keeps_exclusive)
  then show ?thesis by (simp add: exclusive_def occupants_def)
qed

definition rentable_server :: "mock app_state" where
  "rentable_server = (server_init mock_backend (mock_new 0 0) (Manual 200) ''mock'')\<lparr>st_db := demo_db\<rparr>"

theorem one_occupant_unless_revived_witness:
  "length (filter (\<lambda>r. r_machine_id r = 1 \<and> occupies_machine (r_status r))
     (db_rentals (snd (create_rental demo_rent_request 200 demo_db)))) \<le> 1"
proof -
  let ?ev = "\<lparr>ev_now = 200, ev_nanos = 0, ev_fl = (\<lambda>x. x), ev_scan = (\<lambda>ms. ms)\<rparr>"
  let ?st = "snd (handle ?ev (PostRentals demo_rent_request) rentable_server)"
  have db: "st_db rentable_server = demo_db" "st_db ?st = snd (create_rental demo_rent_request 200 demo_db)"
    by (simp_all add: rentable_server_def put_db_def)
  have "clock_now 0 (st_clock rentable_server) = Some (ev_now ?ev)"
    by (simp add: rentable_server_def server_init_def clock_now_def)
  then have "cp_step rentable_server ?st" by (rule cp_step.request) (rule surjective_pairing)
  moreover have start: "exclusive (st_db rentable_server)" and "\<not> revives (st_db rentable_server) (st_db ?st)"
    by (simp_all add: db(1) exclusive_def occupants_def revives_def)
  ultimately have "(\<lambda>s s'. cp_step s s' \<and> \<not> revives (st_db s) (st_db s'))\<^sup>*\<^sup>* rentable_server ?st" by blast
  from one_occupant_unless_revived [OF this start, of 1] show ?thesis by (simp only: db(2))
qed

end
