(* ===== verification/Server_Start.thy ===== *)
theory Server_Start
  imports Samples
begin

text \<open>
  How the server comes up: \<^verbatim>\<open>db::connect\<close> and the \<^verbatim>\<open>main\<close> of
  \<^verbatim>\<open>crates/control-plane\<close>, from the flags and the environment to the state the
  router serves. What sqlx does with the options, what the database file holds and whether the
  address can be bound are parameters. Starting on an empty database gives the initial state of
  \<open>Control_Plane\<close>; starting again on the database of a run is its \<open>restart\<close> step.
\<close>

section \<open>db::connect\<close>

record sqlite_options =
  so_filename :: string
  so_create_if_missing :: bool
  so_foreign_keys :: bool
  so_busy_timeout :: nat

record pool_options =
  po_max_connections :: int
  po_min_connections :: int

text \<open>
  sqlx: the file a URL names, the pool it opens with the content \<open>'raw\<close> of the database,
  and the tables once the migrations have run; each with the text of its error.
\<close>

record 'raw sqlx_ops =
  sx_from_str :: "string \<Rightarrow> string + string"
  sx_connect_with :: "pool_options \<Rightarrow> sqlite_options \<Rightarrow> string + 'raw"
  sx_migrate :: "'raw \<Rightarrow> string + db"

definition connect_options :: "string \<Rightarrow> sqlite_options" where
  "connect_options file =
     \<lparr>so_filename = file, so_create_if_missing = True, so_foreign_keys = True,
      so_busy_timeout = from_secs 5\<rparr>"

definition db_connect :: "'raw sqlx_ops \<Rightarrow> string \<Rightarrow> int \<Rightarrow> string + db" where
  "db_connect X url max_connections =
     (case sx_from_str X url of
        Inl e \<Rightarrow> Inl e
      | Inr file \<Rightarrow>
          (case sx_connect_with X \<lparr>po_max_connections = max_connections, po_min_connections = 1\<rparr>
                  (connect_options file) of
             Inl e \<Rightarrow> Inl e
           | Inr raw \<Rightarrow> sx_migrate X raw))"

section \<open>Flags\<close>

record server_args =
  sa_bind :: string
  sa_database_url :: string
  sa_ln_backend :: string
  sa_mock_settle_secs :: nat

text \<open>
  Where clap takes a value from: the flag, else the environment variable, else the default.
  \<open>None\<close> is the usage error of a value that does not parse.
\<close>

definition arg_value :: "(string \<Rightarrow> string option) \<Rightarrow> (string \<Rightarrow> string option) \<Rightarrow> string \<Rightarrow> string \<Rightarrow> string \<Rightarrow> string" where
  "arg_value flags env flag var d =
     (case flags flag of
        Some v \<Rightarrow> v
      | None \<Rightarrow> (case env var of Some v \<Rightarrow> v | None \<Rightarrow> d))"

definition parse_u64 :: "string \<Rightarrow> nat option" where
  "parse_u64 s =
     (let ds = (case s of c # rest \<Rightarrow> if c = CHR ''+'' then rest else s | [] \<Rightarrow> [])
      in case parse_nat ds of
           None \<Rightarrow> None
         | Some v \<Rightarrow> if v < 2 ^ 64 then Some v else None)"

definition server_args_of :: "(string \<Rightarrow> string option) \<Rightarrow> (string \<Rightarrow> string option) \<Rightarrow> server_args option" where
  "server_args_of flags env =
     map_option (\<lambda>secs.
       \<lparr>sa_bind = arg_value flags env ''bind'' ''CP_BIND'' ''127.0.0.1:8080'',
        sa_database_url = arg_value flags env ''database-url'' ''DATABASE_URL'' ''sqlite:control-plane.db'',
        sa_ln_backend = arg_value flags env ''ln-backend'' ''LN_BACKEND'' ''mock'',
        sa_mock_settle_secs = secs\<rparr>)
       (parse_u64 (arg_value flags env ''mock-settle-secs'' ''MOCK_SETTLE_SECS'' ''2''))"

section \<open>The Lightning backend behind the trait object\<close>

text \<open>\<^verbatim>\<open>Arc<dyn LightningBackend>\<close>: the value and the methods of its type.\<close>

datatype ln_object = MockObject mock | LndObject

fun ln_create :: "ln_object \<Rightarrow> sats \<Rightarrow> string \<Rightarrow> (string + invoice) \<times> ln_object" where
  "ln_create (MockObject b) s memo = map_prod (\<lambda>r. r) MockObject (create_invoice mock_backend b s memo)"
| "ln_create LndObject s memo = map_prod (\<lambda>r. r) (\<lambda>_. LndObject) (create_invoice lnd_backend () s memo)"

fun ln_settled :: "ln_object \<Rightarrow> string \<Rightarrow> string + bool" where
  "ln_settled (MockObject b) h = is_settled mock_backend b h"
| "ln_settled LndObject h = is_settled lnd_backend () h"

fun ln_pay :: "ln_object \<Rightarrow> string \<Rightarrow> (string + unit) \<times> ln_object" where
  "ln_pay (MockObject b) i = map_prod (\<lambda>r. r) MockObject (pay_invoice mock_backend b i)"
| "ln_pay LndObject i = map_prod (\<lambda>r. r) (\<lambda>_. LndObject) (pay_invoice lnd_backend () i)"

definition dyn_backend :: "ln_object lightning_backend" where
  "dyn_backend = \<lparr>create_invoice = ln_create, is_settled = ln_settled, pay_invoice = ln_pay\<rparr>"

text \<open>\<open>t\<close> is what \<^verbatim>\<open>Instant::now()\<close> reads.\<close>

definition choose_backend :: "string \<Rightarrow> nat \<Rightarrow> nat \<Rightarrow> string + ln_object \<times> string" where
  "choose_backend name settle_secs t =
     (if name = ''mock'' then Inr (MockObject (mock_new (from_secs settle_secs) t), ''mock'')
      else if name = ''lnd'' then
        (case lnd_new of Inl e \<Rightarrow> Inl e | Inr _ \<Rightarrow> Inr (LndObject, ''lnd''))
      else Inl (''unknown LN_BACKEND: '' @ name))"

section \<open>main\<close>

text \<open>
  The state the process serves, or the error it ends with. The ticker is spawned before the
  address is bound; its ticks are the step \<open>ticker\<close> of \<open>cp_step\<close>.
\<close>

definition server_main ::
  "'raw sqlx_ops \<Rightarrow> (string \<Rightarrow> string + unit) \<Rightarrow> nat \<Rightarrow> server_args \<Rightarrow> anyhow + ln_object app_state" where
  "server_main X bind t args =
     (case db_connect X (sa_database_url args) 5 of
        Inl e \<Rightarrow> Inl [''opening database'', e]
      | Inr d \<Rightarrow>
     (case choose_backend (sa_ln_backend args) (sa_mock_settle_secs args) t of
        Inl e \<Rightarrow> Inl [e]
      | Inr (b, name) \<Rightarrow>
     (case bind (sa_bind args) of
        Inl e \<Rightarrow> Inl [''binding '' @ sa_bind args, e]
      | Inr _ \<Rightarrow>
          Inr \<lparr>st_db = d, st_ln = dyn_backend, st_ln_state = b, st_billing = billing_default,
               st_clock = System, st_ln_backend_name = name, st_mix_counter = 0\<rparr>)))"

lemma server_main_InrE:
  assumes "server_main X bind t args = Inr st"
  obtains d where "db_connect X (sa_database_url args) 5 = Inr d" "sa_ln_backend args = ''mock''"
    "st = \<lparr>st_db = d, st_ln = dyn_backend,
       st_ln_state = MockObject (mock_new (from_secs (sa_mock_settle_secs args)) t), st_billing = billing_default,
       st_clock = System, st_ln_backend_name = ''mock'', st_mix_counter = 0\<rparr>"
  using assms by (auto simp: server_main_def choose_backend_def lnd_new_def split: sum.splits if_splits)

text \<open>Only the mock comes up: \<^verbatim>\<open>lnd\<close> is reserved, any other name is refused.\<close>

lemma server_main_backend:
  "server_main X bind t args = Inr st \<Longrightarrow> sa_ln_backend args = ''mock'' \<and> st_ln_backend_name st = ''mock''"
  by (auto elim: server_main_InrE)

lemma server_args_defaults:
  "server_args_of (\<lambda>_. None) (\<lambda>_. None) =
     Some \<lparr>sa_bind = ''127.0.0.1:8080'', sa_database_url = ''sqlite:control-plane.db'', sa_ln_backend = ''mock'',
           sa_mock_settle_secs = 2\<rparr>"
  by (simp add: server_args_of_def arg_value_def parse_u64_def parse_nat_def is_digit_def digits_val_def digit_val_def)

text \<open>A first start is the initial state.\<close>

lemma server_main_first:
  assumes "server_main X bind t args = Inr st" "db_connect X (sa_database_url args) 5 = Inr db_empty"
  shows "st = server_init dyn_backend (st_ln_state st) System ''mock''"
  using assms by (auto simp: server_init_def elim!: server_main_InrE)

text \<open>A start on the database a run of the server left behind is the step \<open>restart\<close>.\<close>

definition served_by_main :: "ln_object app_state \<Rightarrow> bool" where
  "served_by_main st \<longleftrightarrow> st_ln st = dyn_backend \<and> st_billing st = billing_default \<and> st_clock st = System \<and>
     st_ln_backend_name st = ''mock''"

lemma server_main_restart:
  assumes "server_main X bind t args = Inr st'" "db_connect X (sa_database_url args) 5 = Inr (st_db st)"
    and "served_by_main st"
  shows "cp_step st st'"
proof -
  have "st' = st\<lparr>st_ln_state := st_ln_state st', st_mix_counter := 0\<rparr>"
    using assms by (auto simp: served_by_main_def elim!: server_main_InrE)
  then show ?thesis by (metis cp_step.restart)
qed

lemma served_by_main_step:
  assumes "cp_step st st'" "served_by_main st"
  shows "served_by_main st'"
  using assms
proof cases
  case (request t ev req resp)
  then have "served_by_main st \<Longrightarrow> served_by_main (snd (handle ev req st))"
    by (cases req) (auto simp: served_by_main_def put_db_def put_ln_db_def next_mix_def handle_register_def split: prod.splits if_splits)
  with assms(2) request show ?thesis by simp
qed (auto simp: served_by_main_def clock_advance_def)

section \<open>What a restart does to open invoices\<close>

text \<open>The mock numbers its invoices from 1 in every process, and knows only its own.\<close>

lemma fresh_mock_settled: "ln_settled (MockObject (mock_new delay t)) h = Inr False"
  by (simp add: mock_backend_def mock_is_settled_def mock_new_def)

definition mock_issued_first :: "nat \<Rightarrow> nat \<Rightarrow> mock" where
  "mock_issued_first delay t = (mock_new delay t)\<lparr>mk_counter := 2, mk_settle_at := [mock_hash 1 \<mapsto> t + delay]\<rparr>"

lemma fresh_mock_create:
  "ln_create (MockObject (mock_new delay t)) s memo =
     (Inr \<lparr>inv_bolt11 = ''lnbcmock'' @ show_int (sats_get s) @ ''n'' @ show_nat 1, inv_payment_hash = mock_hash 1\<rparr>,
      MockObject (mock_issued_first delay t))"
  by (simp add: mock_backend_def mock_create_invoice_def mock_issued_first_def mock_new_def Let_def)

lemma mock_issued_first_settled:
  "t + delay \<le> t' \<Longrightarrow> ln_settled (MockObject ((mock_issued_first delay t)\<lparr>mk_now := t'\<rparr>)) (mock_hash 1) = Inr True"
  by (simp add: mock_backend_def mock_is_settled_def mock_issued_first_def)

lemma poll_single:
  assumes "filter (\<lambda>i. \<not> i_settled i) (db_invoices d) = [iv]" "is_settled B lns (i_payment_hash iv) = Inr True"
  shows "poll_invoices B clk lns d = settle_invoice iv (clk 0) d"
  using assms by (simp add: poll_invoices_def split: prod.splits sum.splits)

text \<open>
  C23: after the server is started again on a database with an open invoice of its first process,
  the invoice is unknown to the mock; the first deposit of any account is refused with a unique
  violation (status 500) and leaves the database alone; and from the settlement delay on the
  mock reports the old invoice paid, so the next poll credits its account.
\<close>

theorem restart_reuses_invoice_hashes:
  assumes "server_main X bind t args = Inr st"
    and "filter (\<lambda>i. \<not> i_settled i) (db_invoices (st_db st)) = [iv]" "i_payment_hash iv = mock_hash 1"
    and "find_account (st_db st) k \<noteq> None" "1 \<le> x"
  shows "is_settled (st_ln st) (st_ln_state st) (i_payment_hash iv) = Inr False \<and>
    (\<exists>b. handle ev (PostDeposit k x) st =
           (DepositIs (Inl (of_db_error UniqueViolation)), st\<lparr>st_ln_state := MockObject b\<rparr>) \<and>
         (\<forall>t'\<ge>t + from_secs (sa_mock_settle_secs args).
            poll_invoices (st_ln st) clk (MockObject (b\<lparr>mk_now := t'\<rparr>)) (st_db st) = settle_invoice iv (clk 0) (st_db st)))"
proof -
  let ?delay = "from_secs (sa_mock_settle_secs args)"
  have st: "st_ln st = dyn_backend" "st_ln_state st = MockObject (mock_new ?delay t)"
    using assms(1) by (auto elim: server_main_InrE)
  have "iv \<in> set (db_invoices (st_db st))" using arg_cong [OF assms(2), of set] by auto
  then have dup: "mock_hash 1 \<in> i_payment_hash ` set (db_invoices (st_db st))" using assms(3) by (metis imageI)
  obtain a where "find_account (st_db st) k = Some a" using assms(4) by blast
  then have refused: "handle ev (PostDeposit k x) st =
      (DepositIs (Inl (of_db_error UniqueViolation)), st\<lparr>st_ln_state := MockObject (mock_issued_first ?delay t)\<rparr>)"
    using assms(5) dup by (simp add: st dyn_backend_def deposit_def fresh_mock_create insert_invoice_def put_ln_db_def
        del: ln_create.simps)
  have credited: "poll_invoices (st_ln st) clk (MockObject ((mock_issued_first ?delay t)\<lparr>mk_now := t'\<rparr>)) (st_db st) =
      settle_invoice iv (clk 0) (st_db st)" if "t + ?delay \<le> t'" for t'
    using mock_issued_first_settled [OF that] assms(3)
    by (intro poll_single [OF assms(2)]) (simp add: st dyn_backend_def del: ln_settled.simps)
  have "is_settled (st_ln st) (st_ln_state st) (i_payment_hash iv) = Inr False"
    by (simp add: st dyn_backend_def fresh_mock_settled del: ln_settled.simps)
  with refused credited show ?thesis by blast
qed

definition open_invoice :: invoice_row where
  "open_invoice = demo_open_invoice\<lparr>i_payment_hash := mock_hash 1\<rparr>"

definition left_open :: db where
  "left_open = demo_db\<lparr>db_invoices := [open_invoice]\<rparr>"

definition demo_sqlx :: "unit sqlx_ops" where
  "demo_sqlx = \<lparr>sx_from_str = Inr, sx_connect_with = (\<lambda>po so. Inr ()), sx_migrate = (\<lambda>_. Inr left_open)\<rparr>"

definition demo_server_args :: server_args where
  "demo_server_args = \<lparr>sa_bind = ''127.0.0.1:8080'', sa_database_url = ''sqlite:control-plane.db'',
     sa_ln_backend = ''mock'', sa_mock_settle_secs = 2\<rparr>"

definition demo_restarted :: "ln_object app_state" where
  "demo_restarted = \<lparr>st_db = left_open, st_ln = dyn_backend, st_ln_state = MockObject (mock_new (from_secs 2) 7),
     st_billing = billing_default, st_clock = System, st_ln_backend_name = ''mock'', st_mix_counter = 0\<rparr>"

theorem restart_reuses_invoice_hashes_witness:
  "fst (handle demo_outside (PostDeposit ''acct_1'' 20) demo_restarted) = DepositIs (Inl (of_db_error UniqueViolation))"
proof -
  have "server_main demo_sqlx (\<lambda>_. Inr ()) 7 demo_server_args = Inr demo_restarted"
    by (simp add: server_main_def db_connect_def demo_sqlx_def choose_backend_def demo_server_args_def demo_restarted_def)
  moreover have "filter (\<lambda>i. \<not> i_settled i) (db_invoices (st_db demo_restarted)) = [open_invoice]"
    by (simp add: demo_restarted_def left_open_def open_invoice_def demo_open_invoice_def)
  moreover have "find_account (st_db demo_restarted) ''acct_1'' \<noteq> None"
    by (simp add: demo_restarted_def left_open_def find_account_def demo_db_def)
  moreover have "i_payment_hash open_invoice = mock_hash 1" by (simp add: open_invoice_def)
  ultimately obtain b where "handle demo_outside (PostDeposit ''acct_1'' 20) demo_restarted =
      (DepositIs (Inl (of_db_error UniqueViolation)), demo_restarted\<lparr>st_ln_state := MockObject b\<rparr>)"
    using restart_reuses_invoice_hashes [of demo_sqlx "\<lambda>_. Inr ()" 7 demo_server_args demo_restarted open_invoice
        "''acct_1''" 20 demo_outside "\<lambda>_. 0"] by fastforce
  then show ?thesis by (simp del: handle.simps)
qed

end
