(* ===== verification/Agent_Start.thy ===== *)
theory Agent_Start
  imports Mac_Worker Host_Agent_Spec
begin

text \<open>
  How the agent comes up: the inventory of each platform and the connection to its workload
  runtime (\<^verbatim>\<open>benchmark.rs\<close>, \<^verbatim>\<open>runtime.rs\<close>), and
  \<^verbatim>\<open>main\<close> from the command line to the heartbeat loop. The target OS of the
  build is a value here; the answers of \<^verbatim>\<open>system_profiler\<close>, of the Docker daemon and
  of the operating system are parameters.
\<close>

datatype platform = Linux | MacOS | OtherOs

section \<open>The inventory on macOS\<close>

text \<open>The output of a command that could be run.\<close>

record process_output =
  pr_success :: bool
  pr_stdout :: string

definition mac_serial ::
  "(string \<Rightarrow> string + json) \<Rightarrow> (string list \<Rightarrow> string + process_output) \<Rightarrow> string option" where
  "mac_serial parse system_profiler =
     (case system_profiler [''SPHardwareDataType'', ''-json''] of
        Inl e \<Rightarrow> None
      | Inr out \<Rightarrow>
          (case parse (pr_stdout out) of
             Inl e \<Rightarrow> None
           | Inr v \<Rightarrow> json_str (json_index (json_at (json_index v ''SPHardwareDataType'') 0) ''serial_number'')))"

definition first_gpu :: "json \<Rightarrow> json option" where
  "first_gpu v = (case json_index v ''SPDisplaysDataType'' of JArr (gpu # _) \<Rightarrow> Some gpu | _ \<Rightarrow> None)"

definition inventory_apple ::
  "(string \<Rightarrow> string + json) \<Rightarrow> (string list \<Rightarrow> string + process_output) \<Rightarrow> int \<Rightarrow> string + gpu_info list" where
  "inventory_apple parse system_profiler total_memory =
     (case system_profiler [''SPDisplaysDataType'', ''-json''] of
        Inl e \<Rightarrow> Inl (''running system_profiler: '' @ e)
      | Inr out \<Rightarrow>
          if \<not> pr_success out then Inl ''system_profiler SPDisplaysDataType failed''
          else
            (case parse (pr_stdout out) of
               Inl e \<Rightarrow> Inl e
             | Inr v \<Rightarrow>
                 (case first_gpu v of
                    None \<Rightarrow> Inl ''no GPU reported by system_profiler''
                  | Some gpu \<Rightarrow>
                      Inr (inventory_macos (json_str (json_index gpu ''_name'')) (json_str (json_index gpu ''sppci_cores''))
                             (mac_serial parse system_profiler) total_memory))))"

definition inventory_other :: "string + gpu_info list" where
  "inventory_other = Inl ''GPU inventory is available only on Linux (NVML) and macOS hosts''"

text \<open>An Apple host that reports a GPU always has exactly one, with a non-empty identity.\<close>

lemma inventory_apple_single:
  assumes "inventory_apple parse prof mem = Inr gs"
  shows "\<exists>g. gs = [g] \<and> starts_with ''apple-gpu-'' (g_uuid g) \<and> g_vram_mb g = mem div (1024 * 1024)"
  using assms
  by (auto simp: inventory_apple_def inventory_macos_def apple_unified_memory_mb_def Let_def starts_with_def split: sum.splits if_splits option.splits)

text \<open>\<^verbatim>\<open>probe\<close> over the inventory that is compiled in: NVML's, \<open>system_profiler\<close>'s, or none.\<close>

record inventory_source =
  is_nvml_init :: "string + unit"
  is_device_count :: "string + nat"
  is_device :: "nat \<Rightarrow> string + nvml_device"
  is_json_parse :: "string \<Rightarrow> string + json"
  is_system_profiler :: "string list \<Rightarrow> string + process_output"
  is_total_memory :: int

definition platform_inventory :: "platform \<Rightarrow> inventory_source \<Rightarrow> string + gpu_info list" where
  "platform_inventory pf src =
     (case pf of
        Linux \<Rightarrow> inventory_linux (is_nvml_init src) (is_device_count src) (is_device src)
      | MacOS \<Rightarrow> inventory_apple (is_json_parse src) (is_system_profiler src) (is_total_memory src)
      | OtherOs \<Rightarrow> inventory_other)"

definition platform_probe ::
  "(string \<Rightarrow> nat list) \<Rightarrow> (real \<Rightarrow> real) \<Rightarrow> platform \<Rightarrow> inventory_source \<Rightarrow> string + inventory" where
  "platform_probe sha256 fl pf src = probe sha256 fl (platform_inventory pf src)"

section \<open>Connecting the runtime\<close>

text \<open>What a host gives the connection: the Docker client and its ping, the agent's own path, the system.\<close>

record ('dk, 'os) host_env =
  he_platform :: platform
  he_docker_defaults :: "string + 'dk"
  he_docker_ping :: "'dk \<Rightarrow> string + unit"
  he_current_exe :: "string + string"
  he_os :: "'os"

definition docker_connect :: "('dk, 'os) host_env \<Rightarrow> int \<Rightarrow> int \<Rightarrow> anyhow + 'dk docker_runtime" where
  "docker_connect E port_start port_end =
     (case he_docker_defaults E of
        Inl e \<Rightarrow> Inl [''connecting to the Docker daemon'', e]
      | Inr dk \<Rightarrow>
          (case he_docker_ping E dk of
             Inl e \<Rightarrow> Inl [''Docker daemon did not respond to ping '' @ [CHR 0xE2, CHR 0x80, CHR 0x94] @
                         '' is it running?'', e]
           | Inr _ \<Rightarrow> Inr \<lparr>dr_docker = dk, dr_port_start = port_start, dr_port_end = port_end\<rparr>))"

definition metal_runtime_connect :: "('dk, 'os) host_env \<Rightarrow> int \<Rightarrow> int \<Rightarrow> anyhow + 'os metal_runtime" where
  "metal_runtime_connect E port_start port_end =
     (case he_current_exe E of
        Inl e \<Rightarrow> Inl [''resolving the vgpu-agent path'', e]
      | Inr exe \<Rightarrow> Inr (metal_connect exe port_start port_end (he_os E)))"

text \<open>\<^verbatim>\<open>Box<dyn HostRuntime>\<close>: the value and the methods of its type.\<close>

datatype ('dk, 'os) runtime_object = DockerObject "'dk docker_runtime" | MetalObject "'os metal_runtime"

definition runtime_connect :: "('dk, 'os) host_env \<Rightarrow> int \<Rightarrow> int \<Rightarrow> anyhow + ('dk, 'os) runtime_object" where
  "runtime_connect E port_start port_end =
     (case connect_check port_start port_end of
        Inl e \<Rightarrow> Inl e
      | Inr _ \<Rightarrow>
          (case he_platform E of
             Linux \<Rightarrow> map_sum (\<lambda>e. e) DockerObject (docker_connect E port_start port_end)
           | MacOS \<Rightarrow> map_sum (\<lambda>e. e) MetalObject (metal_runtime_connect E port_start port_end)
           | OtherOs \<Rightarrow> Inl [''no host runtime is available for this platform'']))"

fun object_running ::
  "'dk docker_ops \<Rightarrow> 'os os_ops \<Rightarrow> ('dk, 'os) runtime_object \<Rightarrow> (anyhow + running_rental list) \<times> ('dk, 'os) runtime_object" where
  "object_running D P (DockerObject rt) = (docker_running_rentals D rt, DockerObject rt)"
| "object_running D P (MetalObject rt) = map_prod (\<lambda>r. r) MetalObject (metal_running_rentals P rt)"

fun object_available :: "'dk docker_ops \<Rightarrow> 'os os_ops \<Rightarrow> ('dk, 'os) runtime_object \<Rightarrow> anyhow + int list" where
  "object_available D P (DockerObject rt) = docker_available D rt"
| "object_available D P (MetalObject rt) = metal_available rt"

text \<open>\<^verbatim>\<open>map(|r| r.len()).unwrap_or(0)\<close>.\<close>

definition count_or_zero :: "anyhow + 'a list \<Rightarrow> nat" where
  "count_or_zero r = (case r of Inl e \<Rightarrow> 0 | Inr xs \<Rightarrow> length xs)"

section \<open>main\<close>

text \<open>
  What a start of the binary ends in: the Metal worker, an error, the panic of
  \<^verbatim>\<open>tokio::time::interval\<close> on a zero period, or the heartbeat loop with its identity and
  runtime, the rentals running and the ports free.
\<close>

datatype ('dk, 'os) agent_start =
    StartsWorker int int
  | StartFails anyhow
  | StartPanics
  | EntersLoop agent_state "('dk, 'os) runtime_object" nat nat

definition enter_loop ::
  "'dk docker_ops \<Rightarrow> 'os os_ops \<Rightarrow> nat \<Rightarrow> agent_state \<Rightarrow> ('dk, 'os) runtime_object \<Rightarrow> ('dk, 'os) agent_start" where
  "enter_loop D P heartbeat_secs s rt =
     (case object_running D P rt of
        (running, rt1) \<Rightarrow>
          if heartbeat_secs = 0 then StartPanics
          else EntersLoop s rt1 (count_or_zero running) (count_or_zero (object_available D P rt1)))"

definition agent_main ::
  "'dk docker_ops \<Rightarrow> 'os os_ops \<Rightarrow> ('dk, 'os) host_env \<Rightarrow> 'fs file_ops \<Rightarrow>
   (register_request \<Rightarrow> 'srv \<Rightarrow> (anyhow + register_response) \<times> 'srv) \<Rightarrow> string list \<Rightarrow> agent_args \<Rightarrow> string \<Rightarrow>
   string + inventory \<Rightarrow> host_specs \<Rightarrow> 'fs \<Rightarrow> 'srv \<Rightarrow> ('dk, 'os) agent_start \<times> 'fs \<times> 'srv" where
  "agent_main D P E F send argv args new_id probed specs fs srv =
     (case (if he_platform E = MacOS then worker_args argv else None) of
        Some (n, port) \<Rightarrow> (StartsWorker n port, fs, srv)
      | None \<Rightarrow>
          (case agent_startup F send args new_id probed specs fs srv of
             (Inl e, fs1, srv1) \<Rightarrow> (StartFails e, fs1, srv1)
           | (Inr s, fs1, srv1) \<Rightarrow>
               (case runtime_connect E (ag_port_start args) (ag_port_end args) of
                  Inl e \<Rightarrow> (StartFails (''connecting to the host runtime'' # e), fs1, srv1)
                | Inr rt \<Rightarrow> (enter_loop D P (ag_heartbeat_secs args) s rt, fs1, srv1))))"

text \<open>When the loop is entered at all.\<close>

lemma agent_main_enters_loop_iff:
  assumes "agent_startup F send args new_id probed specs fs srv = (Inr s, fs1, srv1)"
    and "he_platform E = MacOS \<Longrightarrow> worker_args argv = None"
  shows "(\<exists>rt n k. fst (agent_main D P E F send argv args new_id probed specs fs srv) = EntersLoop s rt n k) \<longleftrightarrow>
    (\<exists>rt. runtime_connect E (ag_port_start args) (ag_port_end args) = Inr rt) \<and> 0 < ag_heartbeat_secs args"
  using assms by (auto simp: agent_main_def enter_loop_def split: sum.splits prod.splits)

lemma runtime_connect_ports:
  "runtime_connect E lo hi = Inr rt \<Longrightarrow> lo \<le> hi \<and> he_platform E \<noteq> OtherOs"
  by (auto simp: runtime_connect_def connect_check_def split: if_splits platform.splits)

text \<open>On a fresh Metal host nothing runs and every port of the range is free.\<close>

lemma metal_start_counts:
  assumes "runtime_connect E lo hi = Inr (MetalObject rt)"
  shows "enter_loop D P (Suc secs) s (MetalObject rt) = EntersLoop s (MetalObject rt) 0 (length [lo..hi])"
  using assms
  by (auto simp: runtime_connect_def metal_runtime_connect_def enter_loop_def metal_connect_def metal_host_runtime_def
      metal_running_rentals_def metal_available_def count_or_zero_def free_ports_def metal_used_ports_def docker_connect_def
      split: sum.splits platform.splits)

text \<open>A host without a GPU, or on a platform without an inventory, never reaches the server.\<close>

lemma no_inventory_no_registration:
  assumes "platform_probe sha256 fl (he_platform E) src = Inl e" "he_platform E = MacOS \<Longrightarrow> worker_args argv = None"
  shows "\<exists>err fs1. agent_main D P E F send argv args new_id (platform_probe sha256 fl (he_platform E) src) specs fs srv =
    (StartFails err, fs1, srv)"
  using assms by (auto simp: agent_main_def agent_startup_def split: sum.split prod.split)

lemma other_os_no_inventory: "\<exists>e. platform_probe sha256 fl OtherOs src = Inl e"
  by (simp add: platform_probe_def platform_inventory_def inventory_other_def probe_def)

section \<open>A host that cannot run anything is offered\<close>

lemma register_online:
  assumes "register token req now d = (Inr resp, d')"
  shows "\<exists>m\<in>set (db_machines d'). m_id m = rs_machine_id resp \<and> m_host_id m = rq_host_id req \<and> m_online m \<and>
    m_last_heartbeat m = now \<and> m_port_start m = rq_port_start req \<and> m_port_end m = rq_port_end req"
proof (cases rule: register_cases [where req = req and token = token and now = now and d = d])
  case (known m)
  then have "m \<in> set (db_machines d)" "m_host_id m = rq_host_id req" using sql_find_SomeD by fast+
  with known assms show ?thesis
    by (intro bexI [of _ "apply_registration req now m"])
      (auto simp: apply_registration_def update_machines_def sql_update_def)
next
  case (new k d'')
  then have "(new_machine_row req token now)\<lparr>m_id := k\<rparr> \<in> set (db_machines d')"
    using assms by (auto simp: insert_machine_def Let_def split: if_splits)
  then show ?thesis using new assms by (intro bexI) (auto simp: new_machine_row_def)
qed (use assms in simp)

lemma send_register_InrD: "send_register token now req d = (Inr resp, d') \<Longrightarrow> register token req now d = (Inr resp, d')"
  by (auto simp: send_register_def split: prod.splits sum.splits)

text \<open>The only error with the context of the runtime is the runtime's.\<close>

lemma agent_startup_errors:
  "agent_startup F send args new_id probed specs fs srv = (Inl (c # e), fs1, srv1) \<Longrightarrow>
    c \<noteq> ''connecting to the host runtime''"
  by (auto simp: agent_startup_def check_args_def load_or_init_state_def save_state_def Let_def
      split: sum.splits prod.splits if_splits option.splits)

text \<open>
  C16: an agent whose start ends after the registration, because its runtime cannot be reached,
  its port range is empty, its platform has no runtime or its heartbeat period is zero, leaves
  its machine at the server online and just heard of, with the ports of its flags.
\<close>

theorem failed_start_leaves_machine_online:
  assumes "agent_main D P E F (send_register token now) argv args new_id probed specs fs d = (out, fs', d')"
    and "out = StartPanics \<or> out = StartFails (''connecting to the host runtime'' # e)"
  shows "\<exists>m\<in>set (db_machines d'). m_online m \<and> m_last_heartbeat m = now \<and>
    m_port_start m = ag_port_start args \<and> m_port_end m = ag_port_end args"
proof -
  obtain s fs1 where start: "agent_startup F (send_register token now) args new_id probed specs fs d = (Inr s, fs1, d')"
    using assms by (auto simp: agent_main_def dest: agent_startup_errors split: option.splits sum.splits prod.splits)
  obtain s0 iv resp where "send_register token now (register_req args s0 iv specs) d = (Inr resp, d')"
    by (rule agent_startup_InrE [OF start])
  from register_online [OF send_register_InrD [OF this]] show ?thesis by (auto simp: register_req_def)
qed

definition demo_host :: "(unit, unit) host_env" where
  "demo_host = \<lparr>he_platform = MacOS, he_docker_defaults = Inr (), he_docker_ping = Inr, he_current_exe = Inr ''/vgpu-agent'',
     he_os = ()\<rparr>"

text \<open>With the ends of the port range swapped the machine is registered all the same.\<close>

definition demo_swapped :: agent_args where
  "demo_swapped = demo_args\<lparr>ag_port_start := 40099, ag_port_end := 40000\<rparr>"

lemma demo_swapped_start:
  "fst (agent_main D P demo_host demo_files (send_register ''agt_1'' 100) [''vgpu-agent''] demo_swapped ''host-9''
      (Inr demo_inventory) demo_specs Map.empty db_empty) =
   StartFails (''connecting to the host runtime'' #
      [''port_start ('' @ show_int 40099 @ '') must be <= port_end ('' @ show_int 40000 @ '')''])"
  by (simp add: agent_main_def worker_args_def arg_at_def agent_startup_def check_args_def demo_args_def demo_swapped_def
      load_or_init_state_def save_state_def demo_files_def send_register_def register_def db_empty_def insert_machine_def
      next_id_def Let_def runtime_connect_def connect_check_def)

theorem failed_start_leaves_machine_online_witness:
  "\<forall>D P. \<exists>m\<in>set (db_machines (snd (snd (agent_main D P demo_host demo_files (send_register ''agt_1'' 100) [''vgpu-agent'']
     demo_swapped ''host-9'' (Inr demo_inventory) demo_specs Map.empty db_empty)))).
     m_online m \<and> m_last_heartbeat m = 100 \<and> m_port_start m = 40099 \<and> m_port_end m = 40000"
proof (intro allI)
  fix D :: "unit docker_ops" and P :: "unit os_ops"
  let ?r = "agent_main D P demo_host demo_files (send_register ''agt_1'' 100) [''vgpu-agent''] demo_swapped ''host-9''
     (Inr demo_inventory) demo_specs Map.empty db_empty"
  have "?r = (fst ?r, fst (snd ?r), snd (snd ?r))" by simp
  from failed_start_leaves_machine_online [OF this disjI2 [OF demo_swapped_start]]
  show "\<exists>m\<in>set (db_machines (snd (snd ?r))). m_online m \<and> m_last_heartbeat m = 100 \<and>
      m_port_start m = 40099 \<and> m_port_end m = 40000"
    by (simp add: demo_swapped_def)
qed

end
