(* ===== verification/Host_Tasks.thy ===== *)
theory Host_Tasks
  imports Agent_Authority
begin

text \<open>
  The agent's tasks interleaved. \<^verbatim>\<open>main\<close> spawns one task per command, and a task can
  be suspended at every \<^verbatim>\<open>await\<close> and run in parallel with the others between two uses of
  a lock. Here each backend's \<open>start_rental\<close> and \<open>stop_rental\<close> is cut there into
  phases; \<open>host_step\<close> advances any task by one phase, and sends the reports of finished
  tasks in any order. Run to its end without interruption a task is \<open>dispatch\<close> (the locale
  \<open>phased_runtime\<close>), so the steps of \<open>agent_step\<close> are among the runs of
  \<open>host_step\<close>.
\<close>

section \<open>Phases of a task\<close>

fun run_phases :: "('rt \<Rightarrow> 'ph \<Rightarrow> ('ph + report_request) \<times> 'rt) \<Rightarrow> nat \<Rightarrow> 'rt \<Rightarrow> 'ph \<Rightarrow> ('ph + report_request) \<times> 'rt" where
  "run_phases adv 0 rt ph = (Inl ph, rt)"
| "run_phases adv (Suc n) rt ph =
     (case adv rt ph of
        (Inl ph', rt') \<Rightarrow> run_phases adv n rt' ph'
      | (Inr rep, rt') \<Rightarrow> (Inr rep, rt'))"

text \<open>
  The Metal backend: the ports in use are read under the lock, the worker is spawned, the job is
  entered under the lock; a stop takes the job out under the lock and then kills and awaits it.
\<close>

datatype metal_phase =
    MetalPick rental_spec
  | MetalSpawn rental_spec int int
  | MetalInsert rental_spec int nat
  | MetalRemove int
  | MetalKill int nat

fun metal_begin :: "command \<Rightarrow> metal_phase" where
  "metal_begin (StartRental k img key) = MetalPick \<lparr>sp_rental_id = k, sp_image = img, sp_ssh_pubkey = key\<rparr>"
| "metal_begin (StopRental k) = MetalRemove k"

fun metal_advance :: "'os os_ops \<Rightarrow> (string \<Rightarrow> string) \<Rightarrow> 'os metal_runtime \<Rightarrow> metal_phase \<Rightarrow>
    (metal_phase + report_request) \<times> 'os metal_runtime" where
  "metal_advance P dbg rt (MetalPick spec) =
     (case parse_task dbg (sp_image spec) of
        Inl e \<Rightarrow> (Inr (report_started (sp_rental_id spec) (Inl e)), rt)
      | Inr (Gemm n) \<Rightarrow>
          (case pick_free_port (mt_port_start rt) (mt_port_end rt) (metal_used_ports rt) of
             None \<Rightarrow> (Inr (report_started (sp_rental_id spec) (Inl [''no free port in '' @
               show_int (mt_port_start rt) @ ''..='' @ show_int (mt_port_end rt)])), rt)
           | Some port \<Rightarrow> (Inl (MetalSpawn spec n port), rt)))"
| "metal_advance P dbg rt (MetalSpawn spec n port) =
     (case os_spawn P (mt_os rt) (mt_exe rt) [''__mac-worker'', show_int n, show_int port] of
        (Inl e, os) \<Rightarrow>
          (Inr (report_started (sp_rental_id spec) (Inl [''spawning the native Metal worker'', e])), rt\<lparr>mt_os := os\<rparr>)
      | (Inr child, os) \<Rightarrow> (Inl (MetalInsert spec port child), rt\<lparr>mt_os := os\<rparr>))"
| "metal_advance P dbg rt (MetalInsert spec port child) =
     (Inr (report_started (sp_rental_id spec) (Inr \<lparr>sd_container_id = ''metal-job-'' @ show_int (sp_rental_id spec),
        sd_ssh_port = port, sd_kind = HttpStatus\<rparr>)),
      rt\<lparr>mt_jobs := AList.update (sp_rental_id spec) \<lparr>jb_child = child, jb_port = port\<rparr> (mt_jobs rt)\<rparr>)"
| "metal_advance P dbg rt (MetalRemove k) =
     (case map_of (mt_jobs rt) k of
        None \<Rightarrow> (Inr (report_stopped k (Inr ())), rt)
      | Some jb \<Rightarrow> (Inl (MetalKill k (jb_child jb)), rt\<lparr>mt_jobs := AList.delete k (mt_jobs rt)\<rparr>))"
| "metal_advance P dbg rt (MetalKill k child) =
     (Inr (report_stopped k (Inr ())), rt\<lparr>mt_os := os_kill P (mt_os rt) child\<rparr>)"

text \<open>The Docker backend: every call of the daemon is awaited; the pull is one phase.\<close>

datatype docker_phase =
    DockerPull rental_spec
  | DockerPick rental_spec
  | DockerClear rental_spec int
  | DockerCreate rental_spec int
  | DockerStart rental_spec int string
  | DockerStop int
  | DockerRemove int

fun docker_begin :: "command \<Rightarrow> docker_phase" where
  "docker_begin (StartRental k img key) = DockerPull \<lparr>sp_rental_id = k, sp_image = img, sp_ssh_pubkey = key\<rparr>"
| "docker_begin (StopRental k) = DockerStop k"

definition start_failed :: "rental_spec \<Rightarrow> anyhow \<Rightarrow> 'rt \<Rightarrow> ('ph + report_request) \<times> 'rt" where
  "start_failed spec e rt = (Inr (report_started (sp_rental_id spec) (Inl e)), rt)"

fun docker_advance :: "'dk docker_ops \<Rightarrow> 'dk docker_runtime \<Rightarrow> docker_phase \<Rightarrow>
    (docker_phase + report_request) \<times> 'dk docker_runtime" where
  "docker_advance D rt (DockerPull spec) =
     (case docker_pull_image D rt (sp_image spec) of
        (Inl e, rt') \<Rightarrow> start_failed spec ((''pulling image '' @ sp_image spec) # e) rt'
      | (Inr _, rt') \<Rightarrow> (Inl (DockerPick spec), rt'))"
| "docker_advance D rt (DockerPick spec) =
     (case docker_used_ports D rt of
        Inl e \<Rightarrow> start_failed spec e rt
      | Inr used \<Rightarrow>
          (case pick_free_port (dr_port_start rt) (dr_port_end rt) used of
             None \<Rightarrow> start_failed spec [''no free SSH port in '' @ show_int (dr_port_start rt) @ ''..='' @
                       show_int (dr_port_end rt)] rt
           | Some port \<Rightarrow> (Inl (DockerClear spec port), rt)))"
| "docker_advance D rt (DockerClear spec port) =
     (case docker_force_remove D rt (container_name (sp_rental_id spec)) of
        (Inl e, rt') \<Rightarrow> start_failed spec e rt'
      | (Inr _, rt') \<Rightarrow> (Inl (DockerCreate spec port), rt'))"
| "docker_advance D rt (DockerCreate spec port) =
     (case dk_create_container D (dr_docker rt) (container_name (sp_rental_id spec)) (rental_config spec port) of
        (Inl e, dk) \<Rightarrow> start_failed spec [''creating container'', dk_display D e] (rt\<lparr>dr_docker := dk\<rparr>)
      | (Inr cid, dk) \<Rightarrow> (Inl (DockerStart spec port cid), rt\<lparr>dr_docker := dk\<rparr>))"
| "docker_advance D rt (DockerStart spec port cid) =
     (case dk_start_container D (dr_docker rt) (container_name (sp_rental_id spec)) of
        (Inl e, dk) \<Rightarrow> start_failed spec [''starting container'', dk_display D e] (rt\<lparr>dr_docker := dk\<rparr>)
      | (Inr _, dk) \<Rightarrow>
          (Inr (report_started (sp_rental_id spec)
             (Inr \<lparr>sd_container_id = cid, sd_ssh_port = port, sd_kind = Ssh\<rparr>)), rt\<lparr>dr_docker := dk\<rparr>))"
| "docker_advance D rt (DockerStop k) =
     (case dk_stop_container D (dr_docker rt) (container_name k) of
        (Inr _, dk) \<Rightarrow> (Inl (DockerRemove k), rt\<lparr>dr_docker := dk\<rparr>)
      | (Inl e, dk) \<Rightarrow>
          if is_not_found e \<or> is_not_modified e then (Inl (DockerRemove k), rt\<lparr>dr_docker := dk\<rparr>)
          else (Inr (report_stopped k (Inl [''stopping container'', dk_display D e])), rt\<lparr>dr_docker := dk\<rparr>))"
| "docker_advance D rt (DockerRemove k) =
     (case docker_force_remove D rt (container_name k) of
        (r, rt') \<Rightarrow> (Inr (report_stopped k r), rt'))"

section \<open>The host\<close>

text \<open>
  The server, the runtime, the tasks in whatever phase they are, and the reports of finished
  tasks that are on their way.
\<close>

record ('ln, 'rt, 'ph) host_world =
  hw_server :: "'ln app_state"
  hw_runtime :: 'rt
  hw_tasks :: "'ph list"
  hw_reports :: "report_request list"

inductive host_step ::
  "(command \<Rightarrow> 'ph) \<Rightarrow> ('rt \<Rightarrow> 'ph \<Rightarrow> ('ph + report_request) \<times> 'rt) \<Rightarrow> string \<Rightarrow>
   ('ln, 'rt, 'ph) host_world \<Rightarrow> ('ln, 'rt, 'ph) host_world \<Rightarrow> bool" for beg adv token where
  beat: "clock_now t (st_clock (hw_server w)) = Some (ev_now ev) \<Longrightarrow>
    handle ev (PostHeartbeat (bearer token) True) (hw_server w) = (Commands res, st') \<Longrightarrow>
    host_step beg adv token w
      (w\<lparr>hw_server := st', hw_tasks := hw_tasks w @ map beg (case res of Inl e \<Rightarrow> [] | Inr cmds \<Rightarrow> cmds)\<rparr>)"
| advance: "hw_tasks w = xs @ ph # ys \<Longrightarrow> adv (hw_runtime w) ph = (Inl ph', rt') \<Longrightarrow>
    host_step beg adv token w (w\<lparr>hw_runtime := rt', hw_tasks := xs @ ph' # ys\<rparr>)"
| finish: "hw_tasks w = xs @ ph # ys \<Longrightarrow> adv (hw_runtime w) ph = (Inr rep, rt') \<Longrightarrow>
    host_step beg adv token w (w\<lparr>hw_runtime := rt', hw_tasks := xs @ ys, hw_reports := rep # hw_reports w\<rparr>)"
| report: "clock_now t (st_clock (hw_server w)) = Some (ev_now ev) \<Longrightarrow>
    hw_reports w = xs @ rep # ys \<Longrightarrow>
    handle ev (PostReport (bearer token) rep) (hw_server w) = (Reported r, st') \<Longrightarrow>
    host_step beg adv token w (w\<lparr>hw_server := st', hw_reports := xs @ ys\<rparr>)"
| report_lost: "hw_reports w = xs @ rep # ys \<Longrightarrow> host_step beg adv token w (w\<lparr>hw_reports := xs @ ys\<rparr>)"
| shutdown: "clock_now t (st_clock (hw_server w)) = Some (ev_now ev) \<Longrightarrow>
    handle ev (PostHeartbeat (bearer token) False) (hw_server w) = (resp, st') \<Longrightarrow>
    host_step beg adv token w (w\<lparr>hw_server := st', hw_tasks := [], hw_reports := []\<rparr>)"
| elsewhere: "cp_step (hw_server w) st' \<Longrightarrow> host_step beg adv token w (w\<lparr>hw_server := st'\<rparr>)"

lemma host_step_server: "host_step beg adv token w w' \<Longrightarrow> cp_step\<^sup>*\<^sup>* (hw_server w) (hw_server w')"
proof (induction rule: host_step.induct)
  case (elsewhere w st')
  then show ?case by simp
qed (simp_all del: handle.simps, (rule r_into_rtranclp, rule cp_step.request, assumption, assumption)+)

text \<open>The world of \<open>agent_step\<close>, where every task is at its beginning.\<close>

definition phased :: "(command \<Rightarrow> 'ph) \<Rightarrow> ('ln, 'rt) world \<Rightarrow> ('ln, 'rt, 'ph) host_world" where
  "phased beg w = \<lparr>hw_server = w_server w, hw_runtime = w_runtime w, hw_tasks = map beg (w_tasks w), hw_reports = []\<rparr>"

section \<open>The contract of the phases\<close>

text \<open>
  \<open>cmd_of\<close> is the command a phase works on, \<open>depth\<close> how many phases a task has at
  most. Uninterrupted, the phases are \<open>dispatch\<close>.
\<close>

locale phased_runtime =
  fixes R :: "'rt host_runtime"
    and beg :: "command \<Rightarrow> 'ph"
    and adv :: "'rt \<Rightarrow> 'ph \<Rightarrow> ('ph + report_request) \<times> 'rt"
    and cmd_of :: "'ph \<Rightarrow> command"
    and depth :: nat
  assumes phases_are_dispatch: "run_phases adv depth rt (beg cmd) = (case dispatch R cmd rt of (rep, rt') \<Rightarrow> (Inr rep, rt'))"
    and begin_cmd: "cmd_of (beg cmd) = cmd"
    and advance_cmd: "adv rt ph = (Inl ph', rt') \<Longrightarrow> cmd_of ph' = cmd_of ph"
    and report_id: "adv rt ph = (Inr rep, rt') \<Longrightarrow> rp_rental_id rep = cmd_rental_id (cmd_of ph)"

begin

text \<open>A task that is not interrupted goes through its phases in as many steps.\<close>

lemma run_task:
  "run_phases adv n rt ph = (Inr rep, rt') \<Longrightarrow> hw_tasks w = xs @ ph # ys \<Longrightarrow> hw_runtime w = rt \<Longrightarrow>
    (host_step beg adv token)\<^sup>*\<^sup>* w (w\<lparr>hw_runtime := rt', hw_tasks := xs @ ys, hw_reports := rep # hw_reports w\<rparr>)"
proof (induction n arbitrary: rt ph w)
  case (Suc n)
  obtain res rt1 where adv: "adv rt ph = (res, rt1)" by fastforce
  show ?case
  proof (cases res)
    case (Inl ph1)
    let ?w = "w\<lparr>hw_runtime := rt1, hw_tasks := xs @ ph1 # ys\<rparr>"
    have "host_step beg adv token w ?w" using Suc.prems adv Inl by (intro host_step.advance) simp_all
    moreover have "(host_step beg adv token)\<^sup>*\<^sup>* ?w
        (?w\<lparr>hw_runtime := rt', hw_tasks := xs @ ys, hw_reports := rep # hw_reports ?w\<rparr>)"
      using Suc.prems adv Inl by (intro Suc.IH) simp_all
    ultimately show ?thesis by (auto intro: converse_rtranclp_into_rtranclp)
  next
    case (Inr rep1)
    with Suc.prems adv have "rep1 = rep" "rt1 = rt'" by simp_all
    with Suc.prems adv Inr show ?thesis by (intro r_into_rtranclp host_step.finish) simp_all
  qed
qed simp

lemma dispatch_task:
  assumes "w_tasks w = xs @ cmd # ys" "dispatch R cmd (w_runtime w) = (rep, rt')"
  shows "(host_step beg adv token)\<^sup>*\<^sup>* (phased beg w)
    \<lparr>hw_server = w_server w, hw_runtime = rt', hw_tasks = map beg (xs @ ys), hw_reports = [rep]\<rparr>"
proof -
  have "run_phases adv depth (w_runtime w) (beg cmd) = (Inr rep, rt')"
    using phases_are_dispatch [of "w_runtime w" cmd] assms(2) by simp
  from run_task [OF this, of "phased beg w" "map beg xs" "map beg ys" token] assms(1)
  show ?thesis by (simp add: phased_def)
qed

text \<open>Every step of the agent whose tasks are atomic is a run of the host.\<close>

lemma atomic_step:
  "agent_step R token w w' \<Longrightarrow> (host_step beg adv token)\<^sup>*\<^sup>* (phased beg w) (phased beg w')"
proof (induction rule: agent_step.induct)
  case (beat t w ev cmds st')
  then have "host_step beg adv token (phased beg w) ((phased beg w)\<lparr>hw_server := st',
      hw_tasks := hw_tasks (phased beg w) @ map beg (case (Inr cmds :: api_error + command list) of Inl e \<Rightarrow> [] | Inr cmds \<Rightarrow> cmds)\<rparr>)"
    by (intro host_step.beat) (simp_all add: phased_def del: handle.simps)
  then show ?case by (auto simp: phased_def)
next
  case (beat_failed t w ev e st')
  then have "host_step beg adv token (phased beg w) ((phased beg w)\<lparr>hw_server := st',
      hw_tasks := hw_tasks (phased beg w) @ map beg (case (Inl e :: api_error + command list) of Inl e \<Rightarrow> [] | Inr cmds \<Rightarrow> cmds)\<rparr>)"
    by (intro host_step.beat) (simp_all add: phased_def del: handle.simps)
  then show ?case by (auto simp: phased_def)
next
  case (task t w ev xs cmd ys rep rt' r st')
  let ?w = "\<lparr>hw_server = w_server w, hw_runtime = rt', hw_tasks = map beg (xs @ ys), hw_reports = [rep]\<rparr>"
  have "host_step beg adv token ?w (?w\<lparr>hw_server := st', hw_reports := [] @ []\<rparr>)"
    using task by (intro host_step.report) (simp_all del: handle.simps)
  with dispatch_task [OF task(2,3), of token] show ?case
    by (simp add: phased_def rtranclp.rtrancl_into_rtrancl)
next
  case (report_lost w xs cmd ys rep rt')
  let ?w = "\<lparr>hw_server = w_server w, hw_runtime = rt', hw_tasks = map beg (xs @ ys), hw_reports = [rep]\<rparr>"
  have "host_step beg adv token ?w (?w\<lparr>hw_reports := [] @ []\<rparr>)" by (intro host_step.report_lost) simp
  with dispatch_task [OF report_lost(1,2), of token] show ?case
    by (simp add: phased_def rtranclp.rtrancl_into_rtrancl)
next
  case (shutdown t w ev resp st')
  then have "host_step beg adv token (phased beg w) ((phased beg w)\<lparr>hw_server := st', hw_tasks := [], hw_reports := []\<rparr>)"
    by (intro host_step.shutdown) (simp_all add: phased_def del: handle.simps)
  then show ?case by (simp add: phased_def)
next
  case (elsewhere w st')
  then have "host_step beg adv token (phased beg w) ((phased beg w)\<lparr>hw_server := st'\<rparr>)"
    by (intro host_step.elsewhere) (simp add: phased_def)
  then show ?case by (simp add: phased_def)
qed

lemma atomic_run:
  "(agent_step R token)\<^sup>*\<^sup>* w w' \<Longrightarrow> (host_step beg adv token)\<^sup>*\<^sup>* (phased beg w) (phased beg w')"
  by (induction rule: rtranclp_induct) (auto intro: rtranclp_trans atomic_step)

text \<open>Whatever the interleaving, a task is about a rental of its machine, and so is its report.\<close>

definition phases_ordered :: "string \<Rightarrow> ('ln, 'rt, 'ph) host_world \<Rightarrow> bool" where
  "phases_ordered token w \<longleftrightarrow> queue_authentic (st_db (hw_server w)) \<and>
     (\<forall>ph\<in>set (hw_tasks w). ordered_by (st_db (hw_server w)) token (cmd_of ph)) \<and>
     (\<forall>rep\<in>set (hw_reports w). \<exists>cmd. ordered_by (st_db (hw_server w)) token cmd \<and> rp_rental_id rep = cmd_rental_id cmd)"

lemma host_step_tasks:
  assumes "host_step beg adv token w w'" "phases_ordered token w"
  shows "(\<forall>ph\<in>set (hw_tasks w'). ordered_by (st_db (hw_server w)) token (cmd_of ph)) \<and>
    (\<forall>rep\<in>set (hw_reports w'). \<exists>cmd. ordered_by (st_db (hw_server w)) token cmd \<and> rp_rental_id rep = cmd_rental_id cmd)"
  using assms
proof (induction rule: host_step.induct)
  case (beat t w ev res st')
  obtain d' where "heartbeat (bearer token) True (ev_now ev) (st_db (hw_server w)) = (res, d')"
    using beat(2) by (cases "heartbeat (bearer token) True (ev_now ev) (st_db (hw_server w))") (auto simp: put_db_def)
  then have "\<forall>cmd\<in>set (case res of Inl e \<Rightarrow> [] | Inr cmds \<Rightarrow> cmds). ordered_by (st_db (hw_server w)) token cmd"
    using heartbeat_ordered beat(3) unfolding phases_ordered_def by (fastforce split: sum.splits)
  with beat(3) show ?case by (auto simp: phases_ordered_def begin_cmd)
next
  case (advance w xs ph ys ph' rt')
  then show ?case using advance_cmd by (auto simp: phases_ordered_def)
next
  case (finish w xs ph ys rep rt')
  then show ?case using report_id by (auto simp: phases_ordered_def)
qed (auto simp: phases_ordered_def)

lemma host_step_ordered:
  assumes "host_step beg adv token w w'" "phases_ordered token w"
  shows "phases_ordered token w'"
proof -
  note run = host_step_server [OF assms(1)]
  have "queue_authentic (st_db (hw_server w'))"
    using command_queue.run_inv [OF run] assms(2) by (simp add: phases_ordered_def)
  moreover have "ordered_by (st_db (hw_server w')) token cmd" if "ordered_by (st_db (hw_server w)) token cmd" for cmd
    using that ordered_mono [OF run_history [OF run]] by blast
  ultimately show ?thesis using host_step_tasks [OF assms] unfolding phases_ordered_def by meson
qed

lemma reachable_ordered:
  assumes "hw_server w0 = server_init B lns clk name" "hw_tasks w0 = []" "hw_reports w0 = []"
    and "(host_step beg adv token)\<^sup>*\<^sup>* w0 w"
  shows "phases_ordered token w"
  using assms(4)
proof (induction rule: rtranclp_induct)
  case base
  then show ?case
    using assms(1-3) by (simp add: phases_ordered_def server_init_def queue_authentic_def db_empty_def)
qed (rule host_step_ordered)

end

lemma metal_start_phases:
  "run_phases (metal_advance P dbg) 3 rt (MetalPick spec) =
     (case metal_start_rental P dbg rt spec of (r, rt') \<Rightarrow> (Inr (report_started (sp_rental_id spec) r), rt'))"
proof (cases "parse_task dbg (sp_image spec)")
  case (Inr t)
  obtain n where t: "t = Gemm n" by (cases t)
  show ?thesis
  proof (cases "pick_free_port (mt_port_start rt) (mt_port_end rt) (metal_used_ports rt)")
    case (Some port)
    obtain res os where "os_spawn P (mt_os rt) (mt_exe rt) [''__mac-worker'', show_int n, show_int port] = (res, os)"
      by fastforce
    with Inr t Some show ?thesis
      by (cases res) (simp_all add: numeral_3_eq_3 metal_start_rental_def)
  qed (simp add: Inr t numeral_3_eq_3 metal_start_rental_def)
qed (simp add: numeral_3_eq_3 metal_start_rental_def)

lemma metal_phases:
  "run_phases (metal_advance P dbg) 3 rt (metal_begin cmd) =
     (case dispatch (metal_host_runtime P dbg) cmd rt of (rep, rt') \<Rightarrow> (Inr rep, rt'))"
proof (cases cmd)
  case (StartRental k img key)
  then show ?thesis by (simp add: metal_start_phases metal_host_runtime_def split: prod.splits)
next
  case (StopRental k)
  then show ?thesis
    by (cases "map_of (mt_jobs rt) k") (simp_all add: numeral_3_eq_3 metal_host_runtime_def metal_stop_rental_def)
qed

text \<open>The Docker start from its last phase to its first.\<close>

lemma docker_launch_phases:
  "run_phases (docker_advance D) (Suc (Suc (Suc 0))) rt (DockerClear spec port) =
     (case docker_launch D rt spec port of (r, rt') \<Rightarrow> (Inr (report_started (sp_rental_id spec) r), rt'))"
proof -
  obtain r1 rt1 where c: "docker_force_remove D rt (container_name (sp_rental_id spec)) = (r1, rt1)" by fastforce
  obtain r2 dk2 where k: "dk_create_container D (dr_docker rt1) (container_name (sp_rental_id spec)) (rental_config spec port) = (r2, dk2)"
    by fastforce
  obtain r3 dk3 where s: "dk_start_container D dk2 (container_name (sp_rental_id spec)) = (r3, dk3)" by fastforce
  show ?thesis
    by (cases r1; cases r2; cases r3)
      (simp_all add: docker_launch_def Let_def c k s start_failed_def)
qed

lemma docker_start_phases:
  "run_phases (docker_advance D) 5 rt (DockerPull spec) =
     (case docker_start_rental D rt spec of (r, rt') \<Rightarrow> (Inr (report_started (sp_rental_id spec) r), rt'))"
proof -
  obtain r1 rt1 where p: "docker_pull_image D rt (sp_image spec) = (r1, rt1)" by fastforce
  show ?thesis
  proof (cases r1)
    case (Inr u)
    show ?thesis
    proof (cases "docker_used_ports D rt1")
      case used: (Inr used)
      then show ?thesis
        using docker_launch_phases [of D rt1 spec]
        by (cases "pick_free_port (dr_port_start rt1) (dr_port_end rt1) used")
          (simp_all add: eval_nat_numeral p Inr docker_start_rental_def start_failed_def)
    qed (simp add: eval_nat_numeral p Inr docker_start_rental_def start_failed_def)
  qed (simp add: eval_nat_numeral p docker_start_rental_def start_failed_def)
qed

lemma docker_phases:
  "run_phases (docker_advance D) 5 rt (docker_begin cmd) =
     (case dispatch (docker_host_runtime D) cmd rt of (rep, rt') \<Rightarrow> (Inr rep, rt'))"
proof (cases cmd)
  case (StartRental k img key)
  then show ?thesis by (simp add: docker_start_phases docker_host_runtime_def split: prod.splits)
next
  case (StopRental k)
  obtain r dk where s: "dk_stop_container D (dr_docker rt) (container_name k) = (r, dk)" by fastforce
  with StopRental show ?thesis
    by (cases r) (simp_all add: eval_nat_numeral docker_host_runtime_def docker_stop_rental_def Let_def split: prod.splits)
qed

definition spec_cmd :: "rental_spec \<Rightarrow> command" where
  "spec_cmd spec = StartRental (sp_rental_id spec) (sp_image spec) (sp_ssh_pubkey spec)"

fun metal_cmd :: "metal_phase \<Rightarrow> command" where
  "metal_cmd (MetalPick spec) = spec_cmd spec"
| "metal_cmd (MetalSpawn spec n port) = spec_cmd spec"
| "metal_cmd (MetalInsert spec port child) = spec_cmd spec"
| "metal_cmd (MetalRemove k) = StopRental k"
| "metal_cmd (MetalKill k child) = StopRental k"

fun docker_cmd :: "docker_phase \<Rightarrow> command" where
  "docker_cmd (DockerPull spec) = spec_cmd spec"
| "docker_cmd (DockerPick spec) = spec_cmd spec"
| "docker_cmd (DockerClear spec port) = spec_cmd spec"
| "docker_cmd (DockerCreate spec port) = spec_cmd spec"
| "docker_cmd (DockerStart spec port cid) = spec_cmd spec"
| "docker_cmd (DockerStop k) = StopRental k"
| "docker_cmd (DockerRemove k) = StopRental k"

lemma report_ids [simp]: "rp_rental_id (report_started k r) = k" "rp_rental_id (report_stopped k u) = k"
  by (simp_all add: report_started_def report_stopped_def split: sum.splits)

interpretation metal_tasks: phased_runtime "metal_host_runtime P dbg" metal_begin "metal_advance P dbg" metal_cmd 3
  for P dbg
proof
  fix rt rt' ph ph' cmd rep
  show "metal_cmd (metal_begin cmd) = cmd" by (cases cmd) (simp_all add: spec_cmd_def)
  show "metal_advance P dbg rt ph = (Inl ph', rt') \<Longrightarrow> metal_cmd ph' = metal_cmd ph"
    by (cases ph) (auto split: sum.splits prod.splits option.splits metal_task.splits)
  show "metal_advance P dbg rt ph = (Inr rep, rt') \<Longrightarrow> rp_rental_id rep = cmd_rental_id (metal_cmd ph)"
    by (cases ph) (auto simp: spec_cmd_def split: sum.splits prod.splits option.splits metal_task.splits)
qed (rule metal_phases)

interpretation docker_tasks: phased_runtime "docker_host_runtime D" docker_begin "docker_advance D" docker_cmd 5
  for D
proof
  fix rt rt' ph ph' cmd rep
  show "docker_cmd (docker_begin cmd) = cmd" by (cases cmd) (simp_all add: spec_cmd_def)
  show "docker_advance D rt ph = (Inl ph', rt') \<Longrightarrow> docker_cmd ph' = docker_cmd ph"
    by (cases ph) (auto simp: start_failed_def split: sum.splits prod.splits option.splits if_splits)
  show "docker_advance D rt ph = (Inr rep, rt') \<Longrightarrow> rp_rental_id rep = cmd_rental_id (docker_cmd ph)"
    by (cases ph) (auto simp: spec_cmd_def start_failed_def split: sum.splits prod.splits option.splits if_splits)
qed (rule docker_phases)

end
