(* ===== verification/Acceptance.thy ===== *)
theory Acceptance
  imports Control_Plane "HOL-Library.Code_Target_Numeral"
begin

text \<open>
  \<^verbatim>\<open>control-plane/tests/lifecycle.rs\<close>: the repository's acceptance test, run on
  the model. Each test is a predicate, the conjunction of what it asserts, over the same
  requests in the same order, the manual clock and the mock Lightning backend that settles
  at once; the theorems say that the model passes. The random ids depend on the nanoseconds
  the server's clock shows, a parameter.
\<close>

section \<open>The harness\<close>

text \<open>One request, at the time the manual clock shows.\<close>

definition call_at :: "64 word \<Rightarrow> request \<Rightarrow> 'ln app_state \<Rightarrow> response \<times> 'ln app_state" where
  "call_at nanos req st =
     handle \<lparr>ev_now = (case st_clock st of Manual t \<Rightarrow> t | System \<Rightarrow> 0), ev_nanos = nanos,
              ev_fl = (\<lambda>x. x), ev_scan = (\<lambda>ms. ms)\<rparr> req st"

definition tick_at :: "'ln app_state \<Rightarrow> bool \<times> 'ln app_state" where
  "tick_at st =
     (let now = (case st_clock st of Manual t \<Rightarrow> t | System \<Rightarrow> 0);
          (res, d) = tick (st_ln st) (st_billing st)
            \<lparr>tk_poll = (\<lambda>_. now), tk_offline = now, tk_enforce = (\<lambda>_. now)\<rparr> (st_ln_state st) (st_db st)
      in (is_ok res, st\<lparr>st_db := d\<rparr>))"

definition advance_clock :: "int \<Rightarrow> 'ln app_state \<Rightarrow> 'ln app_state" where
  "advance_clock secs st = st\<lparr>st_clock := clock_advance secs (st_clock st)\<rparr>"

definition test_state :: "mock app_state" where
  "test_state = (server_init mock_backend (mock_new 0 0) (clock_manual 1000000) ''mock'')
     \<lparr>st_billing := \<lparr>bc_tick = from_secs 1, bc_heartbeat_timeout = from_secs 90\<rparr>\<rparr>"

definition register_body :: "int \<Rightarrow> register_request" where
  "register_body rt = \<lparr>rq_host_id = ''host-1'', rq_gpu_name = ''NVIDIA GeForce RTX 4090'', rq_gpu_count = 1,
     rq_vram_mb = 24564, rq_cpu_name = ''AMD Ryzen 9'', rq_cpu_cores = 16, rq_ram_mb = 64000,
     rq_disk_gb = 1000, rq_disk_type = Nvme, rq_public_ip = ''203.0.113.5'', rq_port_start = 40000,
     rq_port_end = 40099, rq_inet_down_mbps = None, rq_inet_up_mbps = None, rq_country = None,
     rq_dlperf = 42, rq_rate_sats_per_min = rt, rq_hw_fingerprint = ''fp-abc''\<rparr>"


text \<open>What the tests read of a response; a field of an error response is absent.\<close>

definition machine_of :: "response \<Rightarrow> (int \<times> string) option" where
  "machine_of r = (case r of Registered (Inr x) \<Rightarrow> Some (rs_machine_id x, rs_agent_token x) | _ \<Rightarrow> None)"

definition offers_of :: "response \<Rightarrow> (int \<times> int) list option" where
  "offers_of r = (case r of OffersOk os \<Rightarrow> Some (map (\<lambda>x. (o_machine_id x, o_rate_sats_per_hour x)) os) | _ \<Rightarrow> None)"

definition account_of :: "response \<Rightarrow> string option" where
  "account_of r = (case r of AccountCreated (Inr k) \<Rightarrow> Some k | _ \<Rightarrow> None)"

definition deposit_of :: "response \<Rightarrow> int option" where
  "deposit_of r = (case r of DepositIs (Inr x) \<Rightarrow> Some (dp_sats x) | _ \<Rightarrow> None)"

definition balance_of :: "response \<Rightarrow> int option" where
  "balance_of r = (case r of AccountIs (Inr x) \<Rightarrow> Some (ar_balance_sats x) | _ \<Rightarrow> None)"

definition created_of :: "response \<Rightarrow> (int \<times> rental_status \<times> int) option" where
  "created_of r = (case r of
     RentalCreated (Inr x) \<Rightarrow> Some (cs_rental_id x, cs_status x, cs_rate_sats_per_min x) | _ \<Rightarrow> None)"

definition status_of :: "response \<Rightarrow> rental_status option" where
  "status_of r = (case r of RentalIs (Inr x) \<Rightarrow> Some (rn_status x) | _ \<Rightarrow> None)"

definition charges_of :: "response \<Rightarrow> (int \<times> int) option" where
  "charges_of r = (case r of RentalIs (Inr x) \<Rightarrow> Some (rn_sats_charged x, rn_minutes_billed x) | _ \<Rightarrow> None)"

definition ssh_of :: "response \<Rightarrow> string option" where
  "ssh_of r = (case r of RentalIs (Inr x) \<Rightarrow> rn_ssh_command x | _ \<Rightarrow> None)"

definition deleted_of :: "response \<Rightarrow> (int \<times> string) option" where
  "deleted_of r = (case r of RentalDeleted (Inr x) \<Rightarrow> Some x | _ \<Rightarrow> None)"

definition paid_of :: "response \<Rightarrow> int option" where
  "paid_of r = (case r of PaidOut (Inr x) \<Rightarrow> Some x | _ \<Rightarrow> None)"

definition accepted :: "response \<Rightarrow> bool" where
  "accepted r = (case r of Reported (Inr _) \<Rightarrow> True | _ \<Rightarrow> False)"

definition commands_of :: "response \<Rightarrow> command list option" where
  "commands_of r = (case r of Commands (Inr cs) \<Rightarrow> Some cs | _ \<Rightarrow> None)"

definition is_start :: "int \<Rightarrow> command \<Rightarrow> bool" where
  "is_start k c = (case c of StartRental i _ _ \<Rightarrow> i = k | StopRental _ \<Rightarrow> False)"

definition all_offers :: offers_query where
  "all_offers = \<lparr>oq_gpu_name = None, oq_min_vram_mb = None, oq_min_gpu_count = None,
     oq_max_rate_sats_per_min = None, oq_sort = None, oq_limit = None\<rparr>"

definition running_report :: "int \<Rightarrow> string \<Rightarrow> report_request" where
  "running_report k cid = \<lparr>rp_rental_id = k, rp_status = Running, rp_kind = None, rp_ssh_port = Some 40000,
     rp_container_id = Some cid, rp_error = None\<rparr>"

definition stopped_report :: "int \<Rightarrow> report_request" where
  "stopped_report k = \<lparr>rp_rental_id = k, rp_status = Stopped, rp_kind = None, rp_ssh_port = None,
     rp_container_id = None, rp_error = None\<rparr>"

definition cuda_request :: "int \<Rightarrow> string \<Rightarrow> string \<Rightarrow> create_rental_request" where
  "cuda_request k account key = \<lparr>cr_machine_id = k, cr_account_id = account,
     cr_image = ''nvidia/cuda:12.4.1-runtime-ubuntu22.04'', cr_ssh_pubkey = Some key\<rparr>"

text \<open>What a test remembers of the responses so far.\<close>

record test_ctx =
  tx_machine :: int
  tx_token :: string
  tx_account :: string
  tx_rental :: int

definition test_ctx_empty :: test_ctx where
  "test_ctx_empty = \<lparr>tx_machine = 0, tx_token = [], tx_account = [], tx_rental = 0\<rparr>"

definition test_bearer :: "test_ctx \<Rightarrow> string option" where
  "test_bearer cx = Some (''Bearer '' @ tx_token cx)"

definition learn :: "test_ctx \<Rightarrow> response \<Rightarrow> test_ctx" where
  "learn cx r =
     (case r of
        Registered (Inr x) \<Rightarrow> cx\<lparr>tx_machine := rs_machine_id x, tx_token := rs_agent_token x\<rparr>
      | AccountCreated (Inr k) \<Rightarrow> cx\<lparr>tx_account := k\<rparr>
      | RentalCreated (Inr x) \<Rightarrow> cx\<lparr>tx_rental := cs_rental_id x\<rparr>
      | _ \<Rightarrow> cx)"

text \<open>
  The steps of a test: a request and what is asserted of its response, a tick of the billing
  loop that must succeed, time passing, an assertion on the database.
\<close>

datatype test_step =
    Call "test_ctx \<Rightarrow> request" "test_ctx \<Rightarrow> response \<Rightarrow> bool"
  | Tick
  | Advance int
  | Assert "test_ctx \<Rightarrow> db \<Rightarrow> bool"

fun judge_call :: "(test_ctx \<Rightarrow> response \<Rightarrow> bool) \<Rightarrow> bool \<Rightarrow> test_ctx \<Rightarrow> response \<times> mock app_state \<Rightarrow>
    bool \<times> test_ctx \<times> mock app_state" where
  "judge_call p ok cx (r, st) = (ok \<and> p (learn cx r) r, learn cx r, st)"

fun judge_tick :: "bool \<Rightarrow> test_ctx \<Rightarrow> bool \<times> mock app_state \<Rightarrow> bool \<times> test_ctx \<times> mock app_state" where
  "judge_tick ok cx (ticked, st) = (ok \<and> ticked, cx, st)"

fun test_exec :: "64 word \<Rightarrow> bool \<times> test_ctx \<times> mock app_state \<Rightarrow> test_step \<Rightarrow> bool \<times> test_ctx \<times> mock app_state" where
  "test_exec nanos (ok, cx, st) (Call f p) = judge_call p ok cx (call_at nanos (f cx) st)"
| "test_exec nanos (ok, cx, st) Tick = judge_tick ok cx (tick_at st)"
| "test_exec nanos (ok, cx, st) (Advance secs) = (ok, cx, advance_clock secs st)"
| "test_exec nanos (ok, cx, st) (Assert p) = (ok \<and> p cx (st_db st), cx, st)"

definition passes :: "64 word \<Rightarrow> test_step list \<Rightarrow> bool" where
  "passes nanos steps = fst (foldl (test_exec nanos) (True, test_ctx_empty, test_state) steps)"

section \<open>The tests\<close>

text \<open>
  \<^verbatim>\<open>full_lifecycle\<close>, with the numbers of its comments; nothing is asserted of some
  responses.
\<close>

definition anything :: "test_ctx \<Rightarrow> response \<Rightarrow> bool" where
  "anything cx r = True"

definition full_lifecycle :: "test_step list" where
  "full_lifecycle =
     [\<comment> \<open>1. Host registers.\<close>
      Call (\<lambda>cx. PostRegister (register_body 10)) (\<lambda>cx r. machine_of r = Some (tx_machine cx, tx_token cx)),
      \<comment> \<open>2. Offer index lists it.\<close>
      Call (\<lambda>cx. GetOffers all_offers) (\<lambda>cx r. offers_of r = Some [(tx_machine cx, 10 * 60)]),
      \<comment> \<open>3. Account created, deposit invoice issued and settled by the ticker.\<close>
      Call (\<lambda>cx. PostAccounts) (\<lambda>cx r. account_of r = Some (tx_account cx)),
      Call (\<lambda>cx. PostDeposit (tx_account cx) 30) (\<lambda>cx r. deposit_of r = Some 30),
      Tick,
      Call (\<lambda>cx. GetAccount (tx_account cx)) (\<lambda>cx r. balance_of r = Some 30),
      \<comment> \<open>4. Rental created, nothing charged up front.\<close>
      Call (\<lambda>cx. PostRentals (cuda_request (tx_machine cx) (tx_account cx) ''ssh-ed25519 AAAAC3NzaC1lZDI1''))
        (\<lambda>cx r. created_of r = Some (tx_rental cx, Provisioning, 10)),
      Call (\<lambda>cx. GetAccount (tx_account cx)) (\<lambda>cx r. balance_of r = Some 30),
      Call (\<lambda>cx. GetRental (tx_rental cx)) (\<lambda>cx r. charges_of r = Some (0, 0)),
      \<comment> \<open>5. The heartbeat delivers start_rental once; the agent reports running.\<close>
      Call (\<lambda>cx. PostHeartbeat (test_bearer cx) True)
        (\<lambda>cx r. map_option (map (is_start (tx_rental cx))) (commands_of r) = Some [True]),
      Call (\<lambda>cx. PostHeartbeat (test_bearer cx) True) (\<lambda>cx r. commands_of r = Some []),
      Call (\<lambda>cx. PostReport (test_bearer cx) (running_report (tx_rental cx) ''deadbeefcafe''))
        (\<lambda>cx r. accepted r),
      Call (\<lambda>cx. GetRental (tx_rental cx))
        (\<lambda>cx r. status_of r = Some Running \<and> ssh_of r = Some ''ssh -p 40000 root@203.0.113.5''),
      \<comment> \<open>6. The machine is no longer offered.\<close>
      Call (\<lambda>cx. GetOffers all_offers) (\<lambda>cx r. offers_of r = Some []),
      \<comment> \<open>7. Three minutes pass; the ticker neither charges nor evicts; the tenant stops.\<close>
      Advance 180,
      Call (\<lambda>cx. PostHeartbeat (test_bearer cx) True) (\<lambda>cx r. commands_of r = Some []),
      Tick,
      Call (\<lambda>cx. GetAccount (tx_account cx)) (\<lambda>cx r. balance_of r = Some 30),
      Call (\<lambda>cx. GetRental (tx_rental cx)) (\<lambda>cx r. map_option fst (charges_of r) = Some 0),
      Call (\<lambda>cx. DeleteRental (tx_rental cx)) (\<lambda>cx r. deleted_of r = Some (tx_rental cx, ''evicting'')),
      \<comment> \<open>8. stop_rental delivered, the stop-time charge lands, the machine is offered again.\<close>
      Call (\<lambda>cx. PostHeartbeat (test_bearer cx) True) (\<lambda>cx r. commands_of r = Some [StopRental (tx_rental cx)]),
      Call (\<lambda>cx. PostReport (test_bearer cx) (stopped_report (tx_rental cx))) (\<lambda>cx r. accepted r),
      Call (\<lambda>cx. GetRental (tx_rental cx))
        (\<lambda>cx r. status_of r = Some Stopped \<and> charges_of r = Some (30, 3)),
      Call (\<lambda>cx. GetAccount (tx_account cx)) (\<lambda>cx r. balance_of r = Some 0),
      Call (\<lambda>cx. GetOffers all_offers) (\<lambda>cx r. map_option length (offers_of r) = Some 1),
      \<comment> \<open>9. The payout zeroes what the machine is owed.\<close>
      Call (\<lambda>cx. PostPayout (test_bearer cx) ''lnbcmock-host-invoice'') (\<lambda>cx r. paid_of r = Some 30),
      Assert (\<lambda>cx d. map_option m_payout_balance (find_machine d (tx_machine cx)) = Some 0),
      \<comment> \<open>10. The ledger sums to zero.\<close>
      Assert (\<lambda>cx d. sum_list (map l_delta_sats (db_ledger d)) = 0)]"

text \<open>\<^verbatim>\<open>evicts_when_balance_cannot_cover_elapsed\<close>.\<close>

definition evicts_when_balance_cannot_cover_elapsed :: "test_step list" where
  "evicts_when_balance_cannot_cover_elapsed =
     [Call (\<lambda>cx. PostRegister (register_body 10)) (\<lambda>cx r. machine_of r = Some (tx_machine cx, tx_token cx)),
      Call (\<lambda>cx. PostAccounts) (\<lambda>cx r. account_of r = Some (tx_account cx)),
      Call (\<lambda>cx. PostDeposit (tx_account cx) 20) anything,
      Tick,
      Call (\<lambda>cx. PostRentals (cuda_request (tx_machine cx) (tx_account cx) ''ssh-ed25519 AAAA''))
        (\<lambda>cx r. map_option fst (created_of r) = Some (tx_rental cx)),
      Call (\<lambda>cx. PostHeartbeat (test_bearer cx) True) anything,
      Call (\<lambda>cx. PostReport (test_bearer cx) (running_report (tx_rental cx) ''abc'')) anything,
      Advance 180,
      Call (\<lambda>cx. PostHeartbeat (test_bearer cx) True) anything,
      Tick,
      Call (\<lambda>cx. GetRental (tx_rental cx)) (\<lambda>cx r. status_of r = Some Evicting),
      Call (\<lambda>cx. GetAccount (tx_account cx)) (\<lambda>cx r. balance_of r = Some 20),
      Call (\<lambda>cx. PostHeartbeat (test_bearer cx) True) anything,
      Call (\<lambda>cx. PostReport (test_bearer cx) (stopped_report (tx_rental cx))) anything,
      Call (\<lambda>cx. GetRental (tx_rental cx))
        (\<lambda>cx r. status_of r = Some Stopped \<and> map_option fst (charges_of r) = Some 20),
      Call (\<lambda>cx. GetAccount (tx_account cx)) (\<lambda>cx r. balance_of r = Some 0)]"

section \<open>The model passes\<close>

text \<open>
  the repository's acceptance test holds of the model: both of its scenarios, from the
  registration of a host through a rental to its payout and through an eviction, run request
  by request with every assertion satisfied.
\<close>

theorem acceptance_tests_pass:
  "passes 0 full_lifecycle \<and> passes 0 evicts_when_balance_cannot_cover_elapsed"
  by (rule conjI; code_simp)

end
