(* ===== verification/Host_Tasks_Spec.thy ===== *)
theory Host_Tasks_Spec
  imports Host_Tasks Acceptance Server_Spec Host_Spec
begin

text \<open>
  What holds of the agent whose tasks interleave, and what does not: the commands in flight stay
  those that were rented, but a stop may overtake the start it belongs to, and then a settled
  rental comes back to life beside the next one; the ports of a Metal host are distinct as long as
  its starts do not overlap, and only so long.
\<close>

section \<open>Schedules\<close>

text \<open>
  A schedule of a host and its server on the manual clock: \<open>SBeat\<close> is a heartbeat,
  \<open>SAdvance i\<close> a phase of the task at position \<open>i\<close>, \<open>SReport i\<close> the delivery
  of a report; the others are what happens elsewhere. What a step finds nothing to work on does
  nothing.
\<close>

datatype schedule_step = SBeat | SAdvance nat | SReport nat | SRequest request | STick | STime int

fun after_beat :: "(command \<Rightarrow> 'ph) \<Rightarrow> ('ln, 'rt, 'ph) host_world \<Rightarrow> response \<times> 'ln app_state \<Rightarrow> ('ln, 'rt, 'ph) host_world" where
  "after_beat beg w (Commands res, st) =
     w\<lparr>hw_server := st, hw_tasks := hw_tasks w @ map beg (case res of Inl e \<Rightarrow> [] | Inr cmds \<Rightarrow> cmds)\<rparr>"
| "after_beat beg w (r, st) = w"

fun after_advance :: "nat \<Rightarrow> ('ln, 'rt, 'ph) host_world \<Rightarrow> ('ph + report_request) \<times> 'rt \<Rightarrow> ('ln, 'rt, 'ph) host_world" where
  "after_advance i w (Inl ph, rt) =
     w\<lparr>hw_runtime := rt, hw_tasks := take i (hw_tasks w) @ ph # drop (Suc i) (hw_tasks w)\<rparr>"
| "after_advance i w (Inr rep, rt) =
     w\<lparr>hw_runtime := rt, hw_tasks := take i (hw_tasks w) @ drop (Suc i) (hw_tasks w), hw_reports := rep # hw_reports w\<rparr>"

fun schedule_exec ::
  "(command \<Rightarrow> 'ph) \<Rightarrow> ('rt \<Rightarrow> 'ph \<Rightarrow> ('ph + report_request) \<times> 'rt) \<Rightarrow> string \<Rightarrow>
   ('ln, 'rt, 'ph) host_world \<Rightarrow> schedule_step \<Rightarrow> ('ln, 'rt, 'ph) host_world" where
  "schedule_exec beg adv token w SBeat =
     after_beat beg w (call_at 0 (PostHeartbeat (bearer token) True) (hw_server w))"
| "schedule_exec beg adv token w (SAdvance i) =
     (if i < length (hw_tasks w) then after_advance i w (adv (hw_runtime w) (hw_tasks w ! i)) else w)"
| "schedule_exec beg adv token w (SReport i) =
     (if i < length (hw_reports w)
      then w\<lparr>hw_server := snd (call_at 0 (PostReport (bearer token) (hw_reports w ! i)) (hw_server w)),
             hw_reports := take i (hw_reports w) @ drop (Suc i) (hw_reports w)\<rparr>
      else w)"
| "schedule_exec beg adv token w (SRequest req) = w\<lparr>hw_server := snd (call_at 0 req (hw_server w))\<rparr>"
| "schedule_exec beg adv token w STick = w\<lparr>hw_server := snd (tick_at (hw_server w))\<rparr>"
| "schedule_exec beg adv token w (STime secs) = w\<lparr>hw_server := advance_clock secs (hw_server w)\<rparr>"

definition manual :: "'ln app_state \<Rightarrow> bool" where
  "manual st \<longleftrightarrow> (\<exists>t. st_clock st = Manual t)"

lemma handle_clock: "st_clock (snd (handle ev req st)) = st_clock st"
  by (cases req) (simp_all add: put_db_def put_ln_db_def next_mix_def handle_register_def)

lemma call_at_step:
  assumes "manual st"
  shows "\<exists>t ev. clock_now t (st_clock st) = Some (ev_now ev) \<and> call_at nanos req st = handle ev req st"
  using assms unfolding call_at_def
  by (intro exI [of _ 0] exI [of _ "\<lparr>ev_now = (case st_clock st of Manual t \<Rightarrow> t | System \<Rightarrow> 0), ev_nanos = nanos,
      ev_fl = (\<lambda>x. x), ev_scan = (\<lambda>ms. ms)\<rparr>"]) (auto simp: manual_def clock_now_def simp del: handle.simps)

lemma call_at_manual: "manual (snd (call_at nanos req st)) = manual st"
  by (simp add: call_at_def manual_def handle_clock del: handle.simps)

lemma tick_at_step: "cp_step st (snd (tick_at st))" "manual (snd (tick_at st)) = manual st"
  by (auto simp: tick_at_def Let_def manual_def split: prod.splits intro: cp_step.ticker)

lemma after_advance_step:
  assumes "i < length (hw_tasks w)"
  shows "host_step beg adv token w (after_advance i w (adv (hw_runtime w) (hw_tasks w ! i)))"
proof -
  have tasks: "hw_tasks w = take i (hw_tasks w) @ hw_tasks w ! i # drop (Suc i) (hw_tasks w)"
    using assms by (simp add: id_take_nth_drop)
  obtain res rt where adv: "adv (hw_runtime w) (hw_tasks w ! i) = (res, rt)" by fastforce
  show ?thesis
  proof (cases res)
    case (Inl ph)
    show ?thesis unfolding adv Inl after_advance.simps using tasks adv [unfolded Inl] by (rule host_step.advance)
  next
    case (Inr rep)
    show ?thesis unfolding adv Inr after_advance.simps using tasks adv [unfolded Inr] by (rule host_step.finish)
  qed
qed

lemma schedule_step_run:
  assumes "manual (hw_server w)"
  shows "(host_step beg adv token)\<^sup>*\<^sup>* w (schedule_exec beg adv token w s) \<and>
    manual (hw_server (schedule_exec beg adv token w s))"
proof (cases s)
  case SBeat
  obtain t ev where ev: "clock_now t (st_clock (hw_server w)) = Some (ev_now ev)"
    "call_at 0 (PostHeartbeat (bearer token) True) (hw_server w) = handle ev (PostHeartbeat (bearer token) True) (hw_server w)"
    using call_at_step [OF assms] by blast
  obtain res st where h: "handle ev (PostHeartbeat (bearer token) True) (hw_server w) = (Commands res, st)"
    by (cases "heartbeat (bearer token) True (ev_now ev) (st_db (hw_server w))") (simp add: put_db_def)
  have "manual st" using call_at_manual [of 0 "PostHeartbeat (bearer token) True" "hw_server w"] assms
    by (simp add: ev(2) h del: handle.simps)
  with host_step.beat [OF ev(1) h, of beg adv] show ?thesis by (simp add: SBeat ev(2) h del: handle.simps)
next
  case (SAdvance i)
  have "manual (hw_server (after_advance i w (adv (hw_runtime w) (hw_tasks w ! i))))"
    using assms by (cases "adv (hw_runtime w) (hw_tasks w ! i)"; cases "fst (adv (hw_runtime w) (hw_tasks w ! i))") auto
  with after_advance_step [of i w beg adv token] assms show ?thesis by (auto simp: SAdvance)
next
  case (SReport i)
  show ?thesis
  proof (cases "i < length (hw_reports w)")
    case True
    let ?req = "PostReport (bearer token) (hw_reports w ! i)"
    obtain t ev where ev: "clock_now t (st_clock (hw_server w)) = Some (ev_now ev)"
      "call_at 0 ?req (hw_server w) = handle ev ?req (hw_server w)"
      using call_at_step [OF assms] by blast
    obtain r st where h: "handle ev ?req (hw_server w) = (Reported r, st)"
      by (cases "report (bearer token) (hw_reports w ! i) (ev_now ev) (st_db (hw_server w))") (simp add: put_db_def)
    have "hw_reports w = take i (hw_reports w) @ hw_reports w ! i # drop (Suc i) (hw_reports w)"
      using True by (simp add: id_take_nth_drop)
    from host_step.report [OF ev(1) this h, of beg adv] show ?thesis
      using call_at_manual [of 0 ?req "hw_server w"] assms True by (simp add: SReport ev(2) h del: handle.simps)
  qed (simp add: SReport assms)
next
  case (SRequest req)
  obtain t ev where ev: "clock_now t (st_clock (hw_server w)) = Some (ev_now ev)"
    "call_at 0 req (hw_server w) = handle ev req (hw_server w)"
    using call_at_step [OF assms] by blast
  have "cp_step (hw_server w) (snd (handle ev req (hw_server w)))"
    using ev(1) by (rule cp_step.request) (rule surjective_pairing)
  from host_step.elsewhere [OF this, of beg adv token] show ?thesis
    using call_at_manual [of 0 req "hw_server w"] assms by (simp add: SRequest ev(2) del: handle.simps)
next
  case STick
  from host_step.elsewhere [OF tick_at_step(1), of beg adv token w] show ?thesis
    using assms by (simp add: STick tick_at_step)
next
  case (STime secs)
  from host_step.elsewhere [OF cp_step.time, of beg adv token w secs] show ?thesis
    using assms by (auto simp: STime advance_clock_def manual_def clock_advance_def)
qed

lemma schedule_run:
  assumes "manual (hw_server w)"
  shows "(host_step beg adv token)\<^sup>*\<^sup>* w (foldl (schedule_exec beg adv token) w ss)"
  using assms
proof (induction ss arbitrary: w)
  case (Cons s ss)
  from schedule_step_run [OF Cons.prems, of beg adv token s] Cons.IH [of "schedule_exec beg adv token w s"]
  show ?case by (auto intro: rtranclp_trans)
qed simp

section \<open>A Docker daemon to run on\<close>

text \<open>
  A daemon that behaves as documented: names are unique (409), a missing container is 404, stopping
  one that does not run is 304, and the list has the containers that run.
\<close>

record toy_container =
  tc_name :: string
  tc_config :: container_config
  tc_running :: bool

definition toy_has :: "toy_container list \<Rightarrow> string \<Rightarrow> bool" where
  "toy_has dk name \<longleftrightarrow> name \<in> set (map tc_name dk)"

definition toy_docker :: "toy_container list docker_ops" where
  "toy_docker =
     \<lparr>dk_create_image = (\<lambda>dk img tag. ([Inr ()], dk)),
      dk_remove_container = (\<lambda>dk name. if toy_has dk name then (Inr (), filter (\<lambda>c. tc_name c \<noteq> name) dk)
        else (Inl (DockerResponseServerError 404 ''no such container''), dk)),
      dk_create_container = (\<lambda>dk name cfg. if toy_has dk name then (Inl (DockerResponseServerError 409 ''name in use''), dk)
        else (Inr name, dk @ [\<lparr>tc_name = name, tc_config = cfg, tc_running = False\<rparr>])),
      dk_start_container = (\<lambda>dk name. if toy_has dk name
        then (Inr (), map (\<lambda>c. if tc_name c = name then c\<lparr>tc_running := True\<rparr> else c) dk)
        else (Inl (DockerResponseServerError 404 ''no such container''), dk)),
      dk_stop_container = (\<lambda>dk name. if toy_has dk name
        then (Inr (), map (\<lambda>c. if tc_name c = name then c\<lparr>tc_running := False\<rparr> else c) dk)
        else (Inl (DockerResponseServerError 404 ''no such container''), dk)),
      dk_list_containers = (\<lambda>dk label. Inr (map (\<lambda>c. \<lparr>ct_id = Some (tc_name c), ct_labels = Some (cfg_labels (tc_config c))\<rparr>)
        (filter tc_running dk))),
      dk_display = (\<lambda>e. case e of DockerResponseServerError n m \<Rightarrow> m | OtherDockerError m \<Rightarrow> m)\<rparr>"

section \<open>A stop that overtakes its start\<close>

definition race_token :: string where
  "race_token = new_agent_token 0 0"

definition race_world :: "(mock, toy_container list docker_runtime, docker_phase) host_world" where
  "race_world = \<lparr>hw_server = test_state,
     hw_runtime = \<lparr>dr_docker = [], dr_port_start = 40000, dr_port_end = 40001\<rparr>, hw_tasks = [], hw_reports = []\<rparr>"

text \<open>
  Two funded tenants; the first rents the machine, and deletes the rental a minute later while
  its image is still being pulled. The stop finds no container and is reported; the second
  tenant rents the machine; then the pull ends.
\<close>

definition race_schedule :: "schedule_step list" where
  "race_schedule =
     [SRequest (PostRegister (register_body 10)),
      SRequest PostAccounts, SRequest (PostDeposit (new_account_id 0 1) 500),
      SRequest PostAccounts, SRequest (PostDeposit (new_account_id 0 2) 500), STick,
      SRequest (PostRentals (cuda_request 1 (new_account_id 0 1) ''key a'')), SBeat,
      STime 60, SRequest (DeleteRental 1), SBeat, SAdvance 1, SAdvance 1, SReport 0,
      SRequest (PostRentals (cuda_request 1 (new_account_id 0 2) ''key b'')),
      SAdvance 0, SAdvance 0, SAdvance 0, SAdvance 0, SAdvance 0, SReport 0,
      SBeat, SAdvance 0, SAdvance 0, SAdvance 0, SAdvance 0, SAdvance 0, SReport 0]"

definition race_end :: "(mock, toy_container list docker_runtime, docker_phase) host_world" where
  "race_end = foldl (schedule_exec docker_begin (docker_advance toy_docker) race_token) race_world race_schedule"

definition rental_view :: "'ln app_state \<Rightarrow> (int \<times> int \<times> rental_status \<times> int option \<times> int) list" where
  "rental_view st = map (\<lambda>r. (r_id r, r_machine_id r, r_status r, r_ended_at r, r_sats_charged r)) (db_rentals (st_db st))"

definition toy_running :: "toy_container list \<Rightarrow> string list" where
  "toy_running dk = map tc_name (filter tc_running dk)"

definition race_view :: "(mock, toy_container list docker_runtime, docker_phase) host_world \<Rightarrow>
    (int \<times> int \<times> rental_status \<times> int option \<times> int) list \<times> string list \<times> docker_phase list" where
  "race_view w = (rental_view (hw_server w), toy_running (dr_docker (hw_runtime w)), hw_tasks w)"

lemma race_end_view:
  "race_view race_end =
     ([(1, 1, Running, Some 1000060, 10), (2, 1, Running, None, 0)], [''vgpu-rental-1'', ''vgpu-rental-2''], [])"
  by code_simp

text \<open>
  a stop may overtake the start it belongs to. On a server started from nothing, with a
  Docker daemon that behaves as documented, a tenant deletes a rental while its image is pulled;
  the agent answers that it is stopped, the rental is settled and the machine rented to another
  tenant; then the pull ends. The run reaches a state in which both rentals are running on the
  one machine, with their two containers, and the first has an end and has been charged.
\<close>

theorem stop_overtakes_start:
  "\<exists>w0 w. hw_server w0 = test_state \<and> hw_tasks w0 = [] \<and> hw_reports w0 = [] \<and>
     (host_step docker_begin (docker_advance toy_docker) race_token)\<^sup>*\<^sup>* w0 w \<and> hw_tasks w = [] \<and>
     rental_view (hw_server w) = [(1, 1, Running, Some 1000060, 10), (2, 1, Running, None, 0)] \<and>
     \<not> exclusive (st_db (hw_server w)) \<and>
     toy_running (dr_docker (hw_runtime w)) = [''vgpu-rental-1'', ''vgpu-rental-2'']"
proof (rule exI [of _ race_world], rule exI [of _ race_end], intro conjI)
  have "manual (hw_server race_world)"
    by (simp add: race_world_def test_state_def server_init_def clock_manual_def manual_def)
  then show "(host_step docker_begin (docker_advance toy_docker) race_token)\<^sup>*\<^sup>* race_world race_end"
    unfolding race_end_def by (rule schedule_run)
  show view: "rental_view (hw_server race_end) = [(1, 1, Running, Some 1000060, 10), (2, 1, Running, None, 0)]"
    and "toy_running (dr_docker (hw_runtime race_end)) = [''vgpu-rental-1'', ''vgpu-rental-2'']"
    and "hw_tasks race_end = []"
    using race_end_view by (simp_all add: race_view_def)
  have "length (occupants (st_db (hw_server race_end)) 1) = length (filter (\<lambda>(k, m, s, _). m = 1 \<and> occupies_machine s)
      (rental_view (hw_server race_end)))"
    by (simp add: rental_view_def occupants_def filter_map comp_def)
  then have "length (occupants (st_db (hw_server race_end)) 1) = 2" by (simp add: view)
  then show "\<not> exclusive (st_db (hw_server race_end))" unfolding exclusive_def by (metis one_le_numeral numeral_le_one_iff semiring_norm(69))
qed (simp_all add: race_world_def)

section \<open>Two workers at one port\<close>

text \<open>
  The Metal backend on an operating system that counts up process ids: the start of the second
  rental picks its port between the first one's pick and its entry in the table.
\<close>

definition toy_os :: "nat list os_ops" where
  "toy_os = \<lparr>os_spawn = (\<lambda>os exe args. (Inr (Suc (fold max os 0)), os @ [Suc (fold max os 0)])),
     os_exited = (\<lambda>os pid. pid \<notin> set os), os_kill = (\<lambda>os pid. filter (\<lambda>p. p \<noteq> pid) os)\<rparr>"

definition port_world :: "(mock, nat list metal_runtime, metal_phase) host_world" where
  "port_world = \<lparr>hw_server = test_state, hw_runtime = metal_connect ''vgpu-agent'' 40000 40001 [], hw_tasks = [],
     hw_reports = []\<rparr>"

definition metal_request :: "int \<Rightarrow> string \<Rightarrow> create_rental_request" where
  "metal_request k account = \<lparr>cr_machine_id = k, cr_account_id = account, cr_image = ''metal:gemm'', cr_ssh_pubkey = None\<rparr>"

definition port_schedule :: "schedule_step list" where
  "port_schedule =
     [SRequest (PostRegister (register_body 10)),
      SRequest PostAccounts, SRequest (PostDeposit (new_account_id 0 1) 500),
      SRequest PostAccounts, SRequest (PostDeposit (new_account_id 0 2) 500), STick,
      SRequest (PostRentals (metal_request 1 (new_account_id 0 1))), SBeat,
      SRequest (DeleteRental 1), SBeat, SAdvance 1, SReport 0,
      SRequest (PostRentals (metal_request 1 (new_account_id 0 2))), SBeat,
      SAdvance 0, SAdvance 1, SAdvance 0, SAdvance 1, SAdvance 0, SAdvance 0, SReport 0, SReport 0]"

definition port_end :: "(mock, nat list metal_runtime, metal_phase) host_world" where
  "port_end = foldl (schedule_exec metal_begin (metal_advance toy_os (\<lambda>s. s)) race_token) port_world port_schedule"

definition port_view :: "(mock, nat list metal_runtime, metal_phase) host_world \<Rightarrow>
    (int \<times> int option \<times> rental_status) list \<times> (int \<times> int) list \<times> metal_phase list" where
  "port_view w = (map (\<lambda>r. (r_id r, r_ssh_port r, r_status r)) (db_rentals (st_db (hw_server w))),
     map (\<lambda>(k, j). (k, jb_port j)) (mt_jobs (hw_runtime w)), hw_tasks w)"

lemma port_end_view:
  "port_view port_end = ([(1, Some 40000, Running), (2, Some 40000, Running)], [(1, 40000), (2, 40000)], [])"
  by code_simp

text \<open>
  two starts that overlap on a Metal host pick the same port, since the table is read and
  written under separate locks: the run ends with two jobs at port 40000, and both tenants are
  told it is theirs.
\<close>

theorem overlapping_starts_share_a_port:
  "\<exists>w0 w. hw_server w0 = test_state \<and> hw_tasks w0 = [] \<and> hw_reports w0 = [] \<and> mt_jobs (hw_runtime w0) = [] \<and>
     (host_step metal_begin (metal_advance toy_os (\<lambda>s. s)) race_token)\<^sup>*\<^sup>* w0 w \<and> hw_tasks w = [] \<and>
     map (\<lambda>(k, j). (k, jb_port j)) (mt_jobs (hw_runtime w)) = [(1, 40000), (2, 40000)] \<and>
     map (\<lambda>r. (r_id r, r_ssh_port r, r_status r)) (db_rentals (st_db (hw_server w))) =
       [(1, Some 40000, Running), (2, Some 40000, Running)]"
proof (rule exI [of _ port_world], rule exI [of _ port_end], intro conjI)
  have "manual (hw_server port_world)"
    by (simp add: port_world_def test_state_def server_init_def clock_manual_def manual_def)
  then show "(host_step metal_begin (metal_advance toy_os (\<lambda>s. s)) race_token)\<^sup>*\<^sup>* port_world port_end"
    unfolding port_end_def by (rule schedule_run)
  show "map (\<lambda>r. (r_id r, r_ssh_port r, r_status r)) (db_rentals (st_db (hw_server port_end))) =
      [(1, Some 40000, Running), (2, Some 40000, Running)]"
    and "map (\<lambda>(k, j). (k, jb_port j)) (mt_jobs (hw_runtime port_end)) = [(1, 40000), (2, 40000)]"
    and "hw_tasks port_end = []"
    using port_end_view by (simp_all add: port_view_def)
qed (simp_all add: port_world_def metal_connect_def)

section \<open>What holds of every interleaving\<close>

text \<open>
  C11: however the tasks of a host interleave, with the runtime's operations cut at every
  suspension point, a task in flight works on a rental of the machine that carries the agent's
  token, with its image and key, and a report in flight is about such a rental.
\<close>

theorem interleaved_tasks_were_rented:
  assumes "hw_server w0 = server_init B lns clk name" "hw_tasks w0 = []" "hw_reports w0 = []"
    and "(host_step docker_begin (docker_advance D) token)\<^sup>*\<^sup>* w0 w"
  shows "(\<forall>ph\<in>set (hw_tasks w). \<exists>m\<in>set (db_machines (st_db (hw_server w))). m_agent_token m = token \<and>
      (\<exists>r\<in>set (db_rentals (st_db (hw_server w))). r_machine_id r = m_id m \<and>
        (docker_cmd ph = StartRental (r_id r) (r_image r) (r_ssh_pubkey r) \<or> docker_cmd ph = StopRental (r_id r)))) \<and>
    (\<forall>rep\<in>set (hw_reports w). \<exists>m\<in>set (db_machines (st_db (hw_server w))). m_agent_token m = token \<and>
      (\<exists>r\<in>set (db_rentals (st_db (hw_server w))). r_machine_id r = m_id m \<and> rp_rental_id rep = r_id r))"
proof -
  have ord: "docker_tasks.phases_ordered token w" using assms by (rule docker_tasks.reachable_ordered)
  then have "\<exists>m\<in>set (db_machines (st_db (hw_server w))). m_agent_token m = token \<and>
      (\<exists>r\<in>set (db_rentals (st_db (hw_server w))). r_machine_id r = m_id m \<and> rp_rental_id rep = r_id r)"
    if "rep \<in> set (hw_reports w)" for rep
    using that unfolding docker_tasks.phases_ordered_def ordered_by_def by fastforce
  with ord show ?thesis unfolding docker_tasks.phases_ordered_def ordered_by_def by blast
qed

definition pulling_start :: "(mock, toy_container list docker_runtime, docker_phase) host_world" where
  "pulling_start = race_world\<lparr>hw_server := server_init mock_backend (mock_new 0 0) (clock_manual 1000000) ''mock''\<rparr>"

definition pulling_end :: "(mock, toy_container list docker_runtime, docker_phase) host_world" where
  "pulling_end = foldl (schedule_exec docker_begin (docker_advance toy_docker) race_token) pulling_start
     (take 8 race_schedule)"

lemma pulling_end_tasks:
  "hw_tasks pulling_end = [DockerPull \<lparr>sp_rental_id = 1, sp_image = ''nvidia/cuda:12.4.1-runtime-ubuntu22.04'',
     sp_ssh_pubkey = ''key a''\<rparr>]"
  by code_simp

theorem interleaved_tasks_were_rented_witness:
  "\<exists>r\<in>set (db_rentals (st_db (hw_server pulling_end))).
     r_id r = 1 \<and> r_image r = ''nvidia/cuda:12.4.1-runtime-ubuntu22.04'' \<and> r_ssh_pubkey r = ''key a''"
proof -
  have start: "hw_server pulling_start = server_init mock_backend (mock_new 0 0) (clock_manual 1000000) ''mock''"
    "hw_tasks pulling_start = []" "hw_reports pulling_start = []"
    by (simp_all add: pulling_start_def race_world_def)
  have "manual (hw_server pulling_start)" by (simp add: start server_init_def clock_manual_def manual_def)
  then have "(host_step docker_begin (docker_advance toy_docker) race_token)\<^sup>*\<^sup>* pulling_start pulling_end"
    unfolding pulling_end_def by (rule schedule_run)
  from interleaved_tasks_were_rented [OF start this] show ?thesis
    by (auto simp: pulling_end_tasks spec_cmd_def)
qed

section \<open>Starts that do not overlap\<close>

text \<open>
  The ports that starts in flight have chosen and not yet entered in the table. \<open>turn_step\<close> is
  a step of the host after which at most one start is there, in any interleaving with the stops,
  the loop and the server; or a listing, which drops the jobs whose process has ended; or whatever
  the processes of the system do.
\<close>

fun launching :: "metal_phase \<Rightarrow> int option" where
  "launching (MetalSpawn spec n port) = Some port"
| "launching (MetalInsert spec port child) = Some port"
| "launching ph = None"

definition launch_ports :: "('ln, 'rt, metal_phase) host_world \<Rightarrow> int list" where
  "launch_ports w = List.map_filter launching (hw_tasks w)"

inductive turn_step :: "'os os_ops \<Rightarrow> (string \<Rightarrow> string) \<Rightarrow> string \<Rightarrow>
    ('ln, 'os metal_runtime, metal_phase) host_world \<Rightarrow> ('ln, 'os metal_runtime, metal_phase) host_world \<Rightarrow> bool"
  for P dbg token where
  host: "host_step metal_begin (metal_advance P dbg) token w w' \<Longrightarrow> length (launch_ports w') \<le> 1 \<Longrightarrow> turn_step P dbg token w w'"
| listing: "turn_step P dbg token w (w\<lparr>hw_runtime := snd (metal_running_rentals P (hw_runtime w))\<rparr>)"
| system: "turn_step P dbg token w (w\<lparr>hw_runtime := (hw_runtime w)\<lparr>mt_os := os\<rparr>\<rparr>)"

definition turn_inv :: "int \<Rightarrow> int \<Rightarrow> ('ln, 'os metal_runtime, metal_phase) host_world \<Rightarrow> bool" where
  "turn_inv lo hi w \<longleftrightarrow> metal_inv (hw_runtime w) \<and> mt_port_start (hw_runtime w) = lo \<and> mt_port_end (hw_runtime w) = hi \<and>
     length (launch_ports w) \<le> 1 \<and>
     (\<forall>p\<in>set (launch_ports w). p \<notin> metal_used_ports (hw_runtime w) \<and> lo \<le> p \<and> p \<le> hi)"

lemma launch_ports_tasks:
  "hw_tasks w = xs @ ph # ys \<Longrightarrow> launch_ports w = List.map_filter launching xs @
     (case launching ph of None \<Rightarrow> [] | Some p \<Rightarrow> [p]) @ List.map_filter launching ys"
  by (simp add: launch_ports_def map_filter_def split: option.split)

text \<open>Fewer jobs keep the table in order.\<close>

definition fewer_jobs :: "'os metal_runtime \<Rightarrow> 'os metal_runtime \<Rightarrow> bool" where
  "fewer_jobs rt' rt \<longleftrightarrow> mt_port_start rt' = mt_port_start rt \<and> mt_port_end rt' = mt_port_end rt \<and>
     (\<exists>q. mt_jobs rt' = filter q (mt_jobs rt))"

lemma fewer_jobs_inv:
  assumes "fewer_jobs rt' rt"
  shows "metal_inv rt \<Longrightarrow> metal_inv rt'" "metal_used_ports rt' \<subseteq> metal_used_ports rt"
  using assms by (auto simp: fewer_jobs_def metal_inv_def metal_used_ports_def distinct_map_filter)

lemma fewer_jobs_same [simp]: "fewer_jobs rt rt" "fewer_jobs (rt\<lparr>mt_os := os\<rparr>) rt"
  by (auto simp: fewer_jobs_def intro: exI [of _ "\<lambda>_. True"])

lemma turn_inv_fewer:
  assumes "turn_inv lo hi w" "fewer_jobs (hw_runtime w') (hw_runtime w)" "length (launch_ports w') \<le> 1"
    "set (launch_ports w') \<subseteq> set (launch_ports w)"
  shows "turn_inv lo hi w'"
  using assms fewer_jobs_inv [OF assms(2)] by (auto simp: turn_inv_def) (auto simp: fewer_jobs_def)

text \<open>What a phase does to the table and to the port its start has chosen.\<close>

lemma metal_advance_goes_on:
  assumes "metal_advance P dbg rt ph = (Inl ph', rt')"
  shows "fewer_jobs rt' rt \<and> (launching ph' = launching ph \<or>
    (\<exists>p. launching ph = None \<and> launching ph' = Some p \<and> p \<notin> metal_used_ports rt \<and> mt_port_start rt \<le> p \<and> p \<le> mt_port_end rt))"
proof (cases ph)
  case (MetalRemove k)
  then show ?thesis using assms by (auto simp: fewer_jobs_def AList.delete_eq split: option.splits)
qed (use assms in \<open>auto split: sum.splits prod.splits option.splits metal_task.splits dest: pick_free_port_SomeD\<close>)

lemma metal_advance_ends:
  assumes "metal_advance P dbg rt ph = (Inr rep, rt')"
  obtains (fewer) "fewer_jobs rt' rt"
  | (entered) spec port child where "ph = MetalInsert spec port child"
      "rt' = rt\<lparr>mt_jobs := AList.update (sp_rental_id spec) \<lparr>jb_child = child, jb_port = port\<rparr> (mt_jobs rt)\<rparr>"
  using assms
  by (cases ph) (auto split: sum.splits prod.splits option.splits metal_task.splits)

lemma metal_entered_inv:
  assumes "metal_inv rt" "port \<notin> metal_used_ports rt" "mt_port_start rt \<le> port" "port \<le> mt_port_end rt"
  shows "metal_inv (rt\<lparr>mt_jobs := AList.update k \<lparr>jb_child = child, jb_port = port\<rparr> (mt_jobs rt)\<rparr>)"
proof -
  let ?jobs = "AList.update k \<lparr>jb_child = child, jb_port = port\<rparr> (mt_jobs rt)"
  have "distinct (map fst ?jobs)" using assms(1) by (simp add: metal_inv_def AList.distinct_update)
  moreover have "distinct (map (jb_port \<circ> snd) ?jobs)"
    using assms(1,2) by (intro distinct_update_map) (auto simp: metal_inv_def metal_used_ports_def)
  moreover have "\<forall>e\<in>set ?jobs. mt_port_start rt \<le> jb_port (snd e) \<and> jb_port (snd e) \<le> mt_port_end rt"
    using assms(1,3,4) set_update_subset [of k "\<lparr>jb_child = child, jb_port = port\<rparr>" "mt_jobs rt"]
    by (auto simp: metal_inv_def)
  ultimately show ?thesis by (simp add: metal_inv_def)
qed

lemma turn_inv_host:
  assumes "turn_inv lo hi w" "host_step metal_begin (metal_advance P dbg) token w w'" "length (launch_ports w') \<le> 1"
  shows "turn_inv lo hi w'"
  using assms(2)
proof cases
  case (beat t ev res st')
  have "launching (metal_begin cmd) = None" for cmd by (cases cmd) simp_all
  then have "launch_ports w' = launch_ports w" unfolding beat(1) by (simp add: launch_ports_def map_filter_def comp_def)
  with assms(1,3) show ?thesis using turn_inv_fewer [OF assms(1), of w'] beat(1) by simp
next
  case (advance xs ph ys ph' rt')
  note goes = metal_advance_goes_on [OF advance(3)]
  have before: "launch_ports w = List.map_filter launching xs @ (case launching ph of None \<Rightarrow> [] | Some p \<Rightarrow> [p]) @
      List.map_filter launching ys" by (rule launch_ports_tasks) (rule advance(2))
  have after: "launch_ports w' = List.map_filter launching xs @ (case launching ph' of None \<Rightarrow> [] | Some p \<Rightarrow> [p]) @
      List.map_filter launching ys" by (rule launch_ports_tasks) (simp add: advance(1))
  from goes have "launching ph' = launching ph \<or> (\<exists>p. launching ph = None \<and> launching ph' = Some p \<and>
      p \<notin> metal_used_ports (hw_runtime w) \<and> lo \<le> p \<and> p \<le> hi)"
    using assms(1) by (simp add: turn_inv_def)
  then show ?thesis
  proof
    assume "launching ph' = launching ph"
    with before after have "launch_ports w' = launch_ports w" by simp
    then show ?thesis using turn_inv_fewer [OF assms(1), of w'] goes assms(3) advance(1) by simp
  next
    assume "\<exists>p. launching ph = None \<and> launching ph' = Some p \<and> p \<notin> metal_used_ports (hw_runtime w) \<and> lo \<le> p \<and> p \<le> hi"
    then obtain p where p: "launching ph' = Some p" "p \<notin> metal_used_ports (hw_runtime w)" "lo \<le> p" "p \<le> hi" by blast
    with after assms(3) have "launch_ports w' = [p]" by simp
    then show ?thesis
      using assms(1) p goes fewer_jobs_inv [of rt' "hw_runtime w"] advance(1)
      by (auto simp: turn_inv_def) (auto simp: fewer_jobs_def)
  qed
next
  case (finish xs ph ys rep rt')
  have before: "launch_ports w = List.map_filter launching xs @ (case launching ph of None \<Rightarrow> [] | Some p \<Rightarrow> [p]) @
      List.map_filter launching ys" by (rule launch_ports_tasks) (rule finish(2))
  have after: "launch_ports w' = List.map_filter launching xs @ List.map_filter launching ys"
    by (simp add: finish(1) launch_ports_def map_filter_def)
  from finish(3) show ?thesis
  proof (cases rule: metal_advance_ends)
    case fewer
    then show ?thesis using turn_inv_fewer [OF assms(1), of w'] assms(3) before after finish(1) by auto
  next
    case (entered spec port child)
    with before have "length (List.map_filter launching xs @ List.map_filter launching ys) = 0" "port \<in> set (launch_ports w)"
      using assms(1) by (auto simp: turn_inv_def)
    then show ?thesis
      using assms(1) metal_entered_inv [of "hw_runtime w" port "sp_rental_id spec" child] after finish(1) entered(2)
      by (simp add: turn_inv_def)
  qed
next
  case (shutdown t ev resp st')
  then show ?thesis using turn_inv_fewer [OF assms(1), of w'] by (simp add: launch_ports_def map_filter_def)
qed (use turn_inv_fewer [OF assms(1), of w'] assms(1,3) in \<open>simp_all add: launch_ports_def\<close>)

lemma turn_inv_step:
  assumes "turn_inv lo hi w" "turn_step P dbg token w w'"
  shows "turn_inv lo hi w'"
  using assms(2)
proof cases
  case host
  then show ?thesis using turn_inv_host [OF assms(1)] by blast
next
  case listing
  have "fewer_jobs (snd (metal_running_rentals P (hw_runtime w))) (hw_runtime w)"
    by (auto simp: fewer_jobs_def metal_running_rentals_def Let_def)
  then show ?thesis
    using turn_inv_fewer [OF assms(1), of w'] assms(1) listing by (simp add: launch_ports_def turn_inv_def)
next
  case (system os)
  then show ?thesis using turn_inv_fewer [OF assms(1), of w'] assms(1) by (simp add: launch_ports_def turn_inv_def)
qed

interpretation turns: transition_system "\<lambda>w. \<exists>cmds exe os. hw_tasks w = map metal_begin cmds \<and>
    hw_runtime w = metal_connect exe lo hi os" "turn_step P dbg token" "turn_inv lo hi" for lo hi P dbg token
proof
  fix w :: "('a, 'b metal_runtime, metal_phase) host_world"
  have "launching (metal_begin cmd) = None" for cmd by (cases cmd) simp_all
  then show "\<exists>cmds exe os. hw_tasks w = map metal_begin cmds \<and> hw_runtime w = metal_connect exe lo hi os \<Longrightarrow> turn_inv lo hi w"
    by (auto simp: turn_inv_def metal_connect_def metal_inv_def launch_ports_def map_filter_def comp_def)
qed (rule turn_inv_step)

text \<open>
  C30: as long as the starts of a Metal host do not overlap, one choosing its port while another
  has yet to enter its own, and whatever else its tasks, its server and its worker processes do in
  between: no two of the rentals the host lists as running have the same id or the same port, and
  every port lies in the machine's range. Starts that do overlap break it
  (\<open>overlapping_starts_share_a_port\<close>).
\<close>

theorem metal_ports_disjoint:
  assumes "(turn_step P dbg token)\<^sup>*\<^sup>* w0 w" "hw_tasks w0 = map metal_begin cmds" "hw_runtime w0 = metal_connect exe lo hi os"
  shows "\<exists>rs. fst (metal_running_rentals P (hw_runtime w)) = Inr rs \<and> distinct (map rr_rental_id rs) \<and>
    distinct (map rr_ssh_port rs) \<and> (\<forall>r\<in>set rs. lo \<le> rr_ssh_port r \<and> rr_ssh_port r \<le> hi)"
proof -
  have "turn_inv lo hi w" by (rule turns.reachable_inv [OF _ assms(1)]) (use assms(2,3) in blast)
  then show ?thesis
    by (auto simp: turn_inv_def metal_inv_def metal_running_rentals_def Let_def distinct_map_filter o_def)
qed

text \<open>Two starts one after the other, the heartbeat's commands in hand, on the system of \<open>toy_os\<close>.\<close>

definition two_starts :: "(mock, nat list metal_runtime, metal_phase) host_world" where
  "two_starts = port_world\<lparr>hw_tasks := map metal_begin
     [StartRental 1 ''metal:gemm'' [], StartRental 2 ''metal:gemm:512'' []]\<rparr>"

definition turn_schedule :: "nat \<Rightarrow> (mock, nat list metal_runtime, metal_phase) host_world" where
  "turn_schedule n = foldl (\<lambda>w i. after_advance 0 w (metal_advance toy_os (\<lambda>s. s) (hw_runtime w) (hw_tasks w ! 0))) two_starts [0..<n]"

lemma turn_schedule_run:
  assumes "\<forall>i<n. hw_tasks (turn_schedule i) \<noteq> [] \<and> length (launch_ports (turn_schedule (Suc i))) \<le> 1"
  shows "(turn_step toy_os (\<lambda>s. s) ''agt'')\<^sup>*\<^sup>* two_starts (turn_schedule n)"
  using assms
proof (induction n)
  case (Suc n)
  let ?w = "turn_schedule n"
  have eq: "turn_schedule (Suc n) = after_advance 0 ?w (metal_advance toy_os (\<lambda>s. s) (hw_runtime ?w) (hw_tasks ?w ! 0))"
    by (simp add: turn_schedule_def)
  have "host_step metal_begin (metal_advance toy_os (\<lambda>s. s)) ''agt'' ?w (turn_schedule (Suc n))"
    unfolding eq by (rule after_advance_step) (use Suc.prems in simp)
  then have "turn_step toy_os (\<lambda>s. s) ''agt'' ?w (turn_schedule (Suc n))"
    using Suc.prems by (intro turn_step.host) simp_all
  with Suc show ?case by (simp add: rtranclp.rtrancl_into_rtrancl)
qed (simp add: turn_schedule_def)

theorem metal_ports_disjoint_witness:
  "map (\<lambda>(k, j). (k, jb_port j)) (mt_jobs (hw_runtime (turn_schedule 6))) = [(1, 40000), (2, 40001)] \<and>
   (\<exists>rs. fst (metal_running_rentals toy_os (hw_runtime (turn_schedule 6))) = Inr rs \<and> distinct (map rr_ssh_port rs))"
proof -
  have jobs: "map (\<lambda>(k, j). (k, jb_port j)) (mt_jobs (hw_runtime (turn_schedule 6))) = [(1, 40000), (2, 40001)]" by code_simp
  have "list_all (\<lambda>i. hw_tasks (turn_schedule i) \<noteq> [] \<and> length (launch_ports (turn_schedule (Suc i))) \<le> 1) [0..<6]" by code_simp
  then have "\<forall>i<6. hw_tasks (turn_schedule i) \<noteq> [] \<and> length (launch_ports (turn_schedule (Suc i))) \<le> 1"
    by (simp add: list_all_iff)
  from turn_schedule_run [OF this] have "(turn_step toy_os (\<lambda>s. s) ''agt'')\<^sup>*\<^sup>* two_starts (turn_schedule 6)" .
  moreover have "hw_tasks two_starts = map metal_begin [StartRental 1 ''metal:gemm'' [], StartRental 2 ''metal:gemm:512'' []]"
    "hw_runtime two_starts = metal_connect ''vgpu-agent'' 40000 40001 []" by (simp_all add: two_starts_def port_world_def)
  ultimately show ?thesis using jobs metal_ports_disjoint [of toy_os "\<lambda>s. s" "''agt''" two_starts "turn_schedule 6"] by blast
qed

end
