(* ===== verification/Api_Json.thy ===== *)
theory Api_Json
  imports Core_Model "HOL-Library.Monad_Syntax"
begin

text \<open>
  The JSON of the remaining types of \<^verbatim>\<open>core/src/api.rs\<close>, as
  \<^verbatim>\<open>derive(Serialize, Deserialize)\<close> and the attributes of the fields give it, and the
  round trips: what one side writes the other side reads back, for numbers within their types.
\<close>

section \<open>Fields\<close>

named_theorems json_simps

definition need :: "(json \<Rightarrow> 'a option) \<Rightarrow> string \<Rightarrow> (string \<times> json) list \<Rightarrow> 'a option" where
  "need dec k fs = Option.bind (json_field k fs) dec"

definition may :: "(json \<Rightarrow> 'a option) \<Rightarrow> string \<Rightarrow> (string \<times> json) list \<Rightarrow> 'a option option" where
  "may dec k fs = json_opt dec (json_field k fs)"

fun json_bool :: "json \<Rightarrow> bool option" where
  "json_bool (JBool b) = Some b"
| "json_bool _ = None"

text \<open>An integer in the text is rounded to a double.\<close>

fun json_f64 :: "(real \<Rightarrow> real) \<Rightarrow> json \<Rightarrow> real option" where
  "json_f64 fl (JReal x) = Some x"
| "json_f64 fl (JInt n) = Some (fl (of_int n))"
| "json_f64 fl _ = None"

definition json_status :: "json \<Rightarrow> rental_status option" where
  "json_status j = Option.bind (json_str j) status_of_str"

definition json_kind :: "json \<Rightarrow> rental_kind option" where
  "json_kind j = Option.bind (json_str j) rental_kind_of_str"

definition json_disk_type :: "json \<Rightarrow> disk_type option" where
  "json_disk_type j = Option.bind (json_str j) disk_type_of_str"

fun json_list :: "(json \<Rightarrow> 'a option) \<Rightarrow> json \<Rightarrow> 'a list option" where
  "json_list dec (JArr vs) = those (map dec vs)"
| "json_list dec _ = None"

lemma json_field_Cons [json_simps]: "json_field k ((k', v) # fs) = (if k = k' then Some v else json_field k fs)"
  by (simp add: json_field_def)

lemma json_field_Nil [json_simps]: "json_field k [] = None"
  by (simp add: json_field_def)

lemma json_field_opt_other [json_simps]: "k \<noteq> k' \<Longrightarrow> json_field k (opt_field k' enc v @ fs) = json_field k fs"
  by (cases v) (simp_all add: opt_field_def json_field_def)

lemma json_field_opt_last [json_simps]: "k \<noteq> k' \<Longrightarrow> json_field k (opt_field k' enc v) = None"
  by (cases v) (simp_all add: opt_field_def json_field_def)

lemma json_field_opt_absent: "json_field k fs = None \<Longrightarrow> json_field k (opt_field k enc v @ fs) = map_option enc v"
  by (cases v) (simp_all add: opt_field_def json_field_def)

lemma may_opt [json_simps]:
  assumes "json_field k fs = None" "\<And>x. v = Some x \<Longrightarrow> dec (enc x) = Some x" "\<And>x. enc x \<noteq> JNull"
  shows "may dec k (opt_field k enc v @ fs) = Some v"
  using assms by (cases v) (auto simp: may_def json_opt_def json_field_opt_absent split: json.splits)

lemma may_opt_last [json_simps]:
  assumes "\<And>x. v = Some x \<Longrightarrow> dec (enc x) = Some x" "\<And>x. enc x \<noteq> JNull"
  shows "may dec k (opt_field k enc v) = Some v"
  using may_opt [of k "[]" v dec enc] assms by (simp add: json_field_Nil)

definition opt_fits :: "(int \<Rightarrow> bool) \<Rightarrow> int option \<Rightarrow> bool" where
  "opt_fits ok v \<longleftrightarrow> (case v of None \<Rightarrow> True | Some x \<Rightarrow> ok x)"

lemma may_int [json_simps]:
  "json_field k fs = None \<Longrightarrow> opt_fits in_i64 v \<Longrightarrow> may json_i64 k (opt_field k JInt v @ fs) = Some v"
  "json_field k fs = None \<Longrightarrow> opt_fits in_i32 v \<Longrightarrow> may json_i32 k (opt_field k JInt v @ fs) = Some v"
  "opt_fits in_i64 v \<Longrightarrow> may json_i64 k (opt_field k JInt v) = Some v"
  by (cases v; simp add: may_def opt_field_def json_opt_def json_field_def opt_fits_def)+

lemma may_other [json_simps]:
  "k \<noteq> k' \<Longrightarrow> may dec k ((k', x) # fs) = may dec k fs"
  "k \<noteq> k' \<Longrightarrow> may dec k (opt_field k' enc v @ fs) = may dec k fs"
  by (simp_all add: may_def json_field_Cons json_field_opt_other)

lemma may_none [json_simps]: "json_field k fs = None \<Longrightarrow> may dec k fs = Some None"
  by (simp add: may_def json_opt_def)

lemma need_Cons [json_simps]:
  "need dec k ((k', v) # fs) = (if k = k' then dec v else need dec k fs)"
  by (simp add: need_def json_field_Cons)

lemma need_opt [json_simps]: "k \<noteq> k' \<Longrightarrow> need dec k (opt_field k' enc v @ fs) = need dec k fs"
  by (simp add: need_def json_field_opt_other)

lemma decode_simps [json_simps]:
  "json_status (JStr (status_as_str st)) = Some st" "json_kind (JStr (rental_kind_str k)) = Some k"
  "json_disk_type (JStr (disk_type_str dt)) = Some dt"
  by (simp_all add: json_status_def json_kind_def json_disk_type_def)

lemma those_map [json_simps]: "(\<And>x. x \<in> set xs \<Longrightarrow> f x = Some x) \<Longrightarrow> those (map f xs) = Some xs"
  by (induction xs) simp_all

definition field_names :: "(string \<times> json) list \<Rightarrow> string list" where
  "field_names fs = map fst fs"

lemma field_names_simps [json_simps]:
  "field_names [] = []" "field_names ((k, v) # fs) = k # field_names fs"
  by (simp_all add: field_names_def)

lemma opt_field_names [json_simps]:
  "k \<noteq> k' \<Longrightarrow> k \<notin> set (field_names fs) \<Longrightarrow> k \<notin> set (field_names (opt_field k' enc v @ fs))"
  "k \<noteq> k' \<Longrightarrow> k \<notin> set (field_names (opt_field k' enc v))"
  "k' \<notin> set (field_names fs) \<Longrightarrow> distinct (field_names (opt_field k' enc v @ fs)) = distinct (field_names fs)"
  "distinct (field_names (opt_field k' enc v))"
  by (cases v; simp add: field_names_def opt_field_def)+

lemma json_struct_obj [json_simps]:
  "distinct (field_names fs) \<Longrightarrow> json_struct ks dec (JObj fs) = dec fs"
  by (simp add: json_struct_def fields_once_def field_names_def)

section \<open>The agent's requests\<close>

definition register_request_to_json :: "register_request \<Rightarrow> json" where
  "register_request_to_json r =
     JObj ([(''host_id'', JStr (rq_host_id r)), (''gpu_name'', JStr (rq_gpu_name r)),
            (''gpu_count'', JInt (rq_gpu_count r)), (''vram_mb'', JInt (rq_vram_mb r)),
            (''cpu_name'', JStr (rq_cpu_name r)), (''cpu_cores'', JInt (rq_cpu_cores r)),
            (''ram_mb'', JInt (rq_ram_mb r)), (''disk_gb'', JInt (rq_disk_gb r)),
            (''disk_type'', JStr (disk_type_str (rq_disk_type r))), (''public_ip'', JStr (rq_public_ip r)),
            (''port_start'', JInt (rq_port_start r)), (''port_end'', JInt (rq_port_end r))]
           @ opt_field ''inet_down_mbps'' JReal (rq_inet_down_mbps r)
           @ opt_field ''inet_up_mbps'' JReal (rq_inet_up_mbps r)
           @ opt_field ''country'' JStr (rq_country r)
           @ [(''dlperf'', JReal (rq_dlperf r)), (''rate_sats_per_min'', JInt (rq_rate_sats_per_min r)),
              (''hw_fingerprint'', JStr (rq_hw_fingerprint r))])"

definition register_request_fields :: "string list" where
  "register_request_fields =
     [''host_id'', ''gpu_name'', ''gpu_count'', ''vram_mb'', ''cpu_name'', ''cpu_cores'', ''ram_mb'',
      ''disk_gb'', ''disk_type'', ''public_ip'', ''port_start'', ''port_end'', ''inet_down_mbps'',
      ''inet_up_mbps'', ''country'', ''dlperf'', ''rate_sats_per_min'', ''hw_fingerprint'']"

definition register_request_of_fields :: "(real \<Rightarrow> real) \<Rightarrow> (string \<times> json) list \<Rightarrow> register_request option" where
  "register_request_of_fields fl fs = do {
     host \<leftarrow> need json_str ''host_id'' fs;
     gpu \<leftarrow> need json_str ''gpu_name'' fs;
     count \<leftarrow> need json_i32 ''gpu_count'' fs;
     vram \<leftarrow> need json_i64 ''vram_mb'' fs;
     cpu \<leftarrow> need json_str ''cpu_name'' fs;
     cores \<leftarrow> need json_i32 ''cpu_cores'' fs;
     ram \<leftarrow> need json_i64 ''ram_mb'' fs;
     disk \<leftarrow> need json_i64 ''disk_gb'' fs;
     disk_kind \<leftarrow> need json_disk_type ''disk_type'' fs;
     ip \<leftarrow> need json_str ''public_ip'' fs;
     p1 \<leftarrow> need json_i32 ''port_start'' fs;
     p2 \<leftarrow> need json_i32 ''port_end'' fs;
     down \<leftarrow> may (json_f64 fl) ''inet_down_mbps'' fs;
     up \<leftarrow> may (json_f64 fl) ''inet_up_mbps'' fs;
     country \<leftarrow> may json_str ''country'' fs;
     dlperf \<leftarrow> need (json_f64 fl) ''dlperf'' fs;
     rate \<leftarrow> need json_i64 ''rate_sats_per_min'' fs;
     fp \<leftarrow> need json_str ''hw_fingerprint'' fs;
     Some \<lparr>rq_host_id = host, rq_gpu_name = gpu, rq_gpu_count = count, rq_vram_mb = vram, rq_cpu_name = cpu,
       rq_cpu_cores = cores, rq_ram_mb = ram, rq_disk_gb = disk, rq_disk_type = disk_kind, rq_public_ip = ip,
       rq_port_start = p1, rq_port_end = p2, rq_inet_down_mbps = down, rq_inet_up_mbps = up,
       rq_country = country, rq_dlperf = dlperf, rq_rate_sats_per_min = rate, rq_hw_fingerprint = fp\<rparr> }"

definition register_request_from_json :: "(real \<Rightarrow> real) \<Rightarrow> json \<Rightarrow> register_request option" where
  "register_request_from_json fl = json_struct register_request_fields (register_request_of_fields fl)"

definition heartbeat_request_to_json :: "bool \<Rightarrow> json" where
  "heartbeat_request_to_json online = JObj [(''online'', JBool online)]"

definition heartbeat_request_from_json :: "json \<Rightarrow> bool option" where
  "heartbeat_request_from_json = json_struct [''online''] (need json_bool ''online'')"

definition rate_request_to_json :: "int \<Rightarrow> json" where
  "rate_request_to_json rate = JObj [(''rate_sats_per_min'', JInt rate)]"

definition rate_request_from_json :: "json \<Rightarrow> int option" where
  "rate_request_from_json = json_struct [''rate_sats_per_min''] (need json_i64 ''rate_sats_per_min'')"

definition payout_request_to_json :: "string \<Rightarrow> json" where
  "payout_request_to_json bolt11 = JObj [(''bolt11'', JStr bolt11)]"

definition payout_request_from_json :: "json \<Rightarrow> string option" where
  "payout_request_from_json = json_struct [''bolt11''] (need json_str ''bolt11'')"

definition request_fits :: "register_request \<Rightarrow> bool" where
  "request_fits r \<longleftrightarrow> in_i32 (rq_gpu_count r) \<and> in_i64 (rq_vram_mb r) \<and> in_i32 (rq_cpu_cores r) \<and>
     in_i64 (rq_ram_mb r) \<and> in_i64 (rq_disk_gb r) \<and> in_i32 (rq_port_start r) \<and> in_i32 (rq_port_end r) \<and>
     in_i64 (rq_rate_sats_per_min r)"

lemma register_request_roundtrip:
  "request_fits r \<Longrightarrow> register_request_from_json fl (register_request_to_json r) = Some r"
  by (simp add: register_request_from_json_def register_request_to_json_def register_request_of_fields_def
      request_fits_def json_simps)

lemma small_request_roundtrips:
  "heartbeat_request_from_json (heartbeat_request_to_json b) = Some b"
  "in_i64 x \<Longrightarrow> rate_request_from_json (rate_request_to_json x) = Some x"
  "payout_request_from_json (payout_request_to_json s) = Some s"
  by (simp_all add: heartbeat_request_from_json_def heartbeat_request_to_json_def rate_request_from_json_def
      rate_request_to_json_def payout_request_from_json_def payout_request_to_json_def json_simps)

section \<open>The server's answers to the agent\<close>

definition register_response_to_json :: "register_response \<Rightarrow> json" where
  "register_response_to_json r =
     JObj [(''machine_id'', JInt (rs_machine_id r)), (''agent_token'', JStr (rs_agent_token r))]"

definition register_response_from_json :: "json \<Rightarrow> register_response option" where
  "register_response_from_json = json_struct [''machine_id'', ''agent_token''] (\<lambda>fs. do {
     k \<leftarrow> need json_i64 ''machine_id'' fs;
     t \<leftarrow> need json_str ''agent_token'' fs;
     Some \<lparr>rs_machine_id = k, rs_agent_token = t\<rparr> })"

definition heartbeat_response_to_json :: "command list \<Rightarrow> json" where
  "heartbeat_response_to_json cs = JObj [(''commands'', JArr (map command_to_json cs))]"

definition heartbeat_response_from_json :: "json \<Rightarrow> command list option" where
  "heartbeat_response_from_json = json_struct [''commands''] (need (json_list command_from_json) ''commands'')"

definition payout_response_to_json :: "int \<Rightarrow> json" where
  "payout_response_to_json x = JObj [(''paid_sats'', JInt x)]"

definition payout_response_from_json :: "json \<Rightarrow> int option" where
  "payout_response_from_json = json_struct [''paid_sats''] (need json_i64 ''paid_sats'')"

lemma agent_response_roundtrips:
  "in_i64 (rs_machine_id r) \<Longrightarrow> register_response_from_json (register_response_to_json r) = Some r"
  "(\<And>c. c \<in> set cs \<Longrightarrow> in_i64 (cmd_rental_id c)) \<Longrightarrow>
     heartbeat_response_from_json (heartbeat_response_to_json cs) = Some cs"
  "in_i64 x \<Longrightarrow> payout_response_from_json (payout_response_to_json x) = Some x"
  by (simp_all add: register_response_from_json_def register_response_to_json_def
      heartbeat_response_from_json_def heartbeat_response_to_json_def payout_response_from_json_def
      payout_response_to_json_def json_simps command_json_roundtrip)

section \<open>The tenant's requests\<close>

definition deposit_request_to_json :: "int \<Rightarrow> json" where
  "deposit_request_to_json x = JObj [(''sats'', JInt x)]"

definition deposit_request_from_json :: "json \<Rightarrow> int option" where
  "deposit_request_from_json = json_struct [''sats''] (need json_i64 ''sats'')"

definition create_rental_request_to_json :: "create_rental_request \<Rightarrow> json" where
  "create_rental_request_to_json r =
     JObj ([(''machine_id'', JInt (cr_machine_id r)), (''account_id'', JStr (cr_account_id r)),
            (''image'', JStr (cr_image r))]
           @ opt_field ''ssh_pubkey'' JStr (cr_ssh_pubkey r))"

definition create_rental_request_from_json :: "json \<Rightarrow> create_rental_request option" where
  "create_rental_request_from_json =
     json_struct [''machine_id'', ''account_id'', ''image'', ''ssh_pubkey''] (\<lambda>fs. do {
       k \<leftarrow> need json_i64 ''machine_id'' fs;
       a \<leftarrow> need json_str ''account_id'' fs;
       img \<leftarrow> need json_str ''image'' fs;
       key \<leftarrow> may json_str ''ssh_pubkey'' fs;
       Some \<lparr>cr_machine_id = k, cr_account_id = a, cr_image = img, cr_ssh_pubkey = key\<rparr> })"

lemma tenant_request_roundtrips:
  "in_i64 x \<Longrightarrow> deposit_request_from_json (deposit_request_to_json x) = Some x"
  "in_i64 (cr_machine_id r) \<Longrightarrow>
     create_rental_request_from_json (create_rental_request_to_json r) = Some r"
  by (simp_all add: deposit_request_from_json_def deposit_request_to_json_def
      create_rental_request_from_json_def create_rental_request_to_json_def json_simps)

section \<open>The server's answers to the tenant\<close>

definition health_response_to_json :: "health_response \<Rightarrow> json" where
  "health_response_to_json h = JObj [(''ok'', JBool (h_ok h)), (''ln_backend'', JStr (h_ln_backend h))]"

definition health_response_from_json :: "json \<Rightarrow> health_response option" where
  "health_response_from_json = json_struct [''ok'', ''ln_backend''] (\<lambda>fs. do {
     b \<leftarrow> need json_bool ''ok'' fs;
     n \<leftarrow> need json_str ''ln_backend'' fs;
     Some \<lparr>h_ok = b, h_ln_backend = n\<rparr> })"

definition offer_to_json :: "offer \<Rightarrow> json" where
  "offer_to_json x =
     JObj ([(''machine_id'', JInt (o_machine_id x)), (''gpu_name'', JStr (o_gpu_name x)),
            (''gpu_count'', JInt (o_gpu_count x)), (''vram_mb'', JInt (o_vram_mb x)),
            (''cpu_name'', JStr (o_cpu_name x)), (''cpu_cores'', JInt (o_cpu_cores x)),
            (''ram_mb'', JInt (o_ram_mb x)), (''disk_gb'', JInt (o_disk_gb x)),
            (''disk_type'', JStr (disk_type_str (o_disk_type x))), (''public_ip'', JStr (o_public_ip x))]
           @ opt_field ''country'' JStr (o_country x)
           @ opt_field ''inet_down_mbps'' JReal (o_inet_down_mbps x)
           @ opt_field ''inet_up_mbps'' JReal (o_inet_up_mbps x)
           @ [(''dlperf'', JReal (o_dlperf x)), (''rate_sats_per_min'', JInt (o_rate_sats_per_min x)),
              (''rate_sats_per_hour'', JInt (o_rate_sats_per_hour x))])"

definition offer_fields :: "string list" where
  "offer_fields =
     [''machine_id'', ''gpu_name'', ''gpu_count'', ''vram_mb'', ''cpu_name'', ''cpu_cores'', ''ram_mb'',
      ''disk_gb'', ''disk_type'', ''public_ip'', ''country'', ''inet_down_mbps'', ''inet_up_mbps'',
      ''dlperf'', ''rate_sats_per_min'', ''rate_sats_per_hour'']"

definition offer_from_json :: "(real \<Rightarrow> real) \<Rightarrow> json \<Rightarrow> offer option" where
  "offer_from_json fl = json_struct offer_fields (\<lambda>fs. do {
     k \<leftarrow> need json_i64 ''machine_id'' fs;
     gpu \<leftarrow> need json_str ''gpu_name'' fs;
     count \<leftarrow> need json_i32 ''gpu_count'' fs;
     vram \<leftarrow> need json_i64 ''vram_mb'' fs;
     cpu \<leftarrow> need json_str ''cpu_name'' fs;
     cores \<leftarrow> need json_i32 ''cpu_cores'' fs;
     ram \<leftarrow> need json_i64 ''ram_mb'' fs;
     disk \<leftarrow> need json_i64 ''disk_gb'' fs;
     disk_kind \<leftarrow> need json_disk_type ''disk_type'' fs;
     ip \<leftarrow> need json_str ''public_ip'' fs;
     country \<leftarrow> may json_str ''country'' fs;
     down \<leftarrow> may (json_f64 fl) ''inet_down_mbps'' fs;
     up \<leftarrow> may (json_f64 fl) ''inet_up_mbps'' fs;
     dlperf \<leftarrow> need (json_f64 fl) ''dlperf'' fs;
     rate \<leftarrow> need json_i64 ''rate_sats_per_min'' fs;
     hour \<leftarrow> need json_i64 ''rate_sats_per_hour'' fs;
     Some \<lparr>o_machine_id = k, o_gpu_name = gpu, o_gpu_count = count, o_vram_mb = vram, o_cpu_name = cpu,
       o_cpu_cores = cores, o_ram_mb = ram, o_disk_gb = disk, o_disk_type = disk_kind, o_public_ip = ip,
       o_country = country, o_inet_down_mbps = down, o_inet_up_mbps = up, o_dlperf = dlperf,
       o_rate_sats_per_min = rate, o_rate_sats_per_hour = hour\<rparr> })"

definition offers_response_to_json :: "offer list \<Rightarrow> json" where
  "offers_response_to_json os = JObj [(''offers'', JArr (map offer_to_json os))]"

definition offers_response_from_json :: "(real \<Rightarrow> real) \<Rightarrow> json \<Rightarrow> offer list option" where
  "offers_response_from_json fl = json_struct [''offers''] (need (json_list (offer_from_json fl)) ''offers'')"

definition offer_fits :: "offer \<Rightarrow> bool" where
  "offer_fits x \<longleftrightarrow> in_i64 (o_machine_id x) \<and> in_i32 (o_gpu_count x) \<and> in_i64 (o_vram_mb x) \<and>
     in_i32 (o_cpu_cores x) \<and> in_i64 (o_ram_mb x) \<and> in_i64 (o_disk_gb x) \<and>
     in_i64 (o_rate_sats_per_min x) \<and> in_i64 (o_rate_sats_per_hour x)"

lemma offer_roundtrip: "offer_fits x \<Longrightarrow> offer_from_json fl (offer_to_json x) = Some x"
  by (simp add: offer_from_json_def offer_to_json_def offer_fits_def json_simps)

lemma offers_roundtrip:
  "(\<And>x. x \<in> set os \<Longrightarrow> offer_fits x) \<Longrightarrow>
     offers_response_from_json fl (offers_response_to_json os) = Some os"
  by (simp add: offers_response_from_json_def offers_response_to_json_def json_simps offer_roundtrip)

definition create_account_response_to_json :: "string \<Rightarrow> json" where
  "create_account_response_to_json k = JObj [(''account_id'', JStr k)]"

definition create_account_response_from_json :: "json \<Rightarrow> string option" where
  "create_account_response_from_json = json_struct [''account_id''] (need json_str ''account_id'')"

definition account_response_to_json :: "account_response \<Rightarrow> json" where
  "account_response_to_json a =
     JObj ([(''account_id'', JStr (ar_account_id a)), (''balance_sats'', JInt (ar_balance_sats a)),
            (''burn_sats_per_min'', JInt (ar_burn_sats_per_min a))]
           @ opt_field ''runway_minutes'' JInt (ar_runway_minutes a))"

definition account_response_from_json :: "json \<Rightarrow> account_response option" where
  "account_response_from_json =
     json_struct [''account_id'', ''balance_sats'', ''burn_sats_per_min'', ''runway_minutes''] (\<lambda>fs. do {
       k \<leftarrow> need json_str ''account_id'' fs;
       b \<leftarrow> need json_i64 ''balance_sats'' fs;
       x \<leftarrow> need json_i64 ''burn_sats_per_min'' fs;
       r \<leftarrow> may json_i64 ''runway_minutes'' fs;
       Some \<lparr>ar_account_id = k, ar_balance_sats = b, ar_burn_sats_per_min = x, ar_runway_minutes = r\<rparr> })"

definition deposit_response_to_json :: "deposit_response \<Rightarrow> json" where
  "deposit_response_to_json r =
     JObj [(''bolt11'', JStr (dp_bolt11 r)), (''payment_hash'', JStr (dp_payment_hash r)),
           (''sats'', JInt (dp_sats r))]"

definition deposit_response_from_json :: "json \<Rightarrow> deposit_response option" where
  "deposit_response_from_json = json_struct [''bolt11'', ''payment_hash'', ''sats''] (\<lambda>fs. do {
     b \<leftarrow> need json_str ''bolt11'' fs;
     h \<leftarrow> need json_str ''payment_hash'' fs;
     x \<leftarrow> need json_i64 ''sats'' fs;
     Some \<lparr>dp_bolt11 = b, dp_payment_hash = h, dp_sats = x\<rparr> })"

definition create_rental_response_to_json :: "create_rental_response \<Rightarrow> json" where
  "create_rental_response_to_json r =
     JObj [(''rental_id'', JInt (cs_rental_id r)), (''status'', JStr (status_as_str (cs_status r))),
           (''rate_sats_per_min'', JInt (cs_rate_sats_per_min r))]"

definition create_rental_response_from_json :: "json \<Rightarrow> create_rental_response option" where
  "create_rental_response_from_json =
     json_struct [''rental_id'', ''status'', ''rate_sats_per_min''] (\<lambda>fs. do {
       k \<leftarrow> need json_i64 ''rental_id'' fs;
       st \<leftarrow> need json_status ''status'' fs;
       x \<leftarrow> need json_i64 ''rate_sats_per_min'' fs;
       Some \<lparr>cs_rental_id = k, cs_status = st, cs_rate_sats_per_min = x\<rparr> })"

text \<open>A field with \<^verbatim>\<open>serde(default)\<close> that is no \<^verbatim>\<open>Option\<close>: absent is the default, null is an error.\<close>

definition or_default :: "'a \<Rightarrow> (json \<Rightarrow> 'a option) \<Rightarrow> string \<Rightarrow> (string \<times> json) list \<Rightarrow> 'a option" where
  "or_default d dec k fs = (case json_field k fs of None \<Rightarrow> Some d | Some v \<Rightarrow> dec v)"

lemma or_default_Cons [json_simps]:
  "or_default d dec k ((k', v) # fs) = (if k = k' then dec v else or_default d dec k fs)"
  by (simp add: or_default_def json_field_Cons)

definition rental_response_to_json :: "rental_response \<Rightarrow> json" where
  "rental_response_to_json r =
     JObj ([(''id'', JInt (rn_id r)), (''machine_id'', JInt (rn_machine_id r)),
            (''account_id'', JStr (rn_account_id r)), (''image'', JStr (rn_image r)),
            (''status'', JStr (status_as_str (rn_status r))), (''kind'', JStr (rental_kind_str (rn_kind r))),
            (''gpu_name'', JStr (rn_gpu_name r)), (''gpu_count'', JInt (rn_gpu_count r))]
           @ opt_field ''ssh_host'' JStr (rn_ssh_host r)
           @ opt_field ''ssh_port'' JInt (rn_ssh_port r)
           @ opt_field ''ssh_command'' JStr (rn_ssh_command r)
           @ [(''rate_sats_per_min'', JInt (rn_rate_sats_per_min r)), (''sats_charged'', JInt (rn_sats_charged r)),
              (''minutes_billed'', JInt (rn_minutes_billed r)), (''paid_through'', JInt (rn_paid_through r))]
           @ opt_field ''error'' JStr (rn_error r)
           @ [(''created_at'', JInt (rn_created_at r))]
           @ opt_field ''ended_at'' JInt (rn_ended_at r))"

definition rental_response_fields :: "string list" where
  "rental_response_fields =
     [''id'', ''machine_id'', ''account_id'', ''image'', ''status'', ''kind'', ''gpu_name'', ''gpu_count'',
      ''ssh_host'', ''ssh_port'', ''ssh_command'', ''rate_sats_per_min'', ''sats_charged'',
      ''minutes_billed'', ''paid_through'', ''error'', ''created_at'', ''ended_at'']"

definition rental_response_from_json :: "json \<Rightarrow> rental_response option" where
  "rental_response_from_json = json_struct rental_response_fields (\<lambda>fs. do {
     k \<leftarrow> need json_i64 ''id'' fs;
     m \<leftarrow> need json_i64 ''machine_id'' fs;
     a \<leftarrow> need json_str ''account_id'' fs;
     img \<leftarrow> need json_str ''image'' fs;
     st \<leftarrow> need json_status ''status'' fs;
     kind \<leftarrow> or_default Ssh json_kind ''kind'' fs;
     gpu \<leftarrow> need json_str ''gpu_name'' fs;
     count \<leftarrow> need json_i32 ''gpu_count'' fs;
     host \<leftarrow> may json_str ''ssh_host'' fs;
     port \<leftarrow> may json_i32 ''ssh_port'' fs;
     cmd \<leftarrow> may json_str ''ssh_command'' fs;
     rate \<leftarrow> need json_i64 ''rate_sats_per_min'' fs;
     charged \<leftarrow> need json_i64 ''sats_charged'' fs;
     minutes \<leftarrow> need json_i64 ''minutes_billed'' fs;
     paid \<leftarrow> need json_i64 ''paid_through'' fs;
     err \<leftarrow> may json_str ''error'' fs;
     created \<leftarrow> need json_i64 ''created_at'' fs;
     ended \<leftarrow> may json_i64 ''ended_at'' fs;
     Some \<lparr>rn_id = k, rn_machine_id = m, rn_account_id = a, rn_image = img, rn_status = st, rn_kind = kind,
       rn_gpu_name = gpu, rn_gpu_count = count, rn_ssh_host = host, rn_ssh_port = port, rn_ssh_command = cmd,
       rn_rate_sats_per_min = rate, rn_sats_charged = charged, rn_minutes_billed = minutes,
       rn_paid_through = paid, rn_error = err, rn_created_at = created, rn_ended_at = ended\<rparr> })"

text \<open>The answer of \<^verbatim>\<open>DELETE /rentals/{id}\<close> and of the agent's calls is built with \<^verbatim>\<open>json!\<close>.\<close>

definition deleted_to_json :: "int \<times> string \<Rightarrow> json" where
  "deleted_to_json r = JObj [(''rental_id'', JInt (fst r)), (''status'', JStr (snd r))]"

definition ok_json :: json where
  "ok_json = JObj [(''ok'', JBool True)]"

definition account_fits :: "account_response \<Rightarrow> bool" where
  "account_fits a \<longleftrightarrow> in_i64 (ar_balance_sats a) \<and> in_i64 (ar_burn_sats_per_min a) \<and>
     opt_fits in_i64 (ar_runway_minutes a)"

definition rental_fits :: "rental_response \<Rightarrow> bool" where
  "rental_fits r \<longleftrightarrow> in_i64 (rn_id r) \<and> in_i64 (rn_machine_id r) \<and> in_i32 (rn_gpu_count r) \<and>
     opt_fits in_i32 (rn_ssh_port r) \<and> in_i64 (rn_rate_sats_per_min r) \<and> in_i64 (rn_sats_charged r) \<and>
     in_i64 (rn_minutes_billed r) \<and> in_i64 (rn_paid_through r) \<and> in_i64 (rn_created_at r) \<and>
     opt_fits in_i64 (rn_ended_at r)"

lemma tenant_response_roundtrips:
  "health_response_from_json (health_response_to_json h) = Some h"
  "create_account_response_from_json (create_account_response_to_json k) = Some k"
  "account_fits a \<Longrightarrow> account_response_from_json (account_response_to_json a) = Some a"
  "in_i64 (dp_sats p) \<Longrightarrow> deposit_response_from_json (deposit_response_to_json p) = Some p"
  "in_i64 (cs_rental_id c) \<Longrightarrow> in_i64 (cs_rate_sats_per_min c) \<Longrightarrow>
     create_rental_response_from_json (create_rental_response_to_json c) = Some c"
  by (simp_all add: health_response_from_json_def health_response_to_json_def
      create_account_response_from_json_def create_account_response_to_json_def account_response_from_json_def
      account_response_to_json_def account_fits_def deposit_response_from_json_def
      deposit_response_to_json_def create_rental_response_from_json_def create_rental_response_to_json_def
      json_simps)

lemma rental_response_roundtrip:
  "rental_fits r \<Longrightarrow> rental_response_from_json (rental_response_to_json r) = Some r"
  by (simp add: rental_response_from_json_def rental_response_to_json_def rental_fits_def json_simps)

end
