(* ===== verification/Wire.thy ===== *)
theory Wire
  imports Control_Plane Api_Json Tenant_Cli Host_Agent
begin

text \<open>
  What travels between the clients and the server. \<open>router\<close> is the table of
  \<^verbatim>\<open>build_router\<close> in \<^verbatim>\<open>lib.rs\<close>; \<open>route\<close> finds a message's
  handler and extracts its arguments as axum's extractors do (404 and 405 for the path and the method, 400
  for a path segment, a query or a body that does not parse, 415 without a JSON body, 422 for
  JSON of another shape); \<open>respond\<close> is the answer. The other direction is the agent's
  \<^verbatim>\<open>ControlPlane\<close> in \<^verbatim>\<open>host-agent/src/main.rs\<close> and the CLI's calls. Of
  the libraries in between, \<open>http_lib\<close> names what is used: percent-decoding of a path
  segment, rounding to a double, the text of JSON and of errors.
\<close>

record http_lib =
  hl_decode :: "string \<Rightarrow> string option"
  hl_fl :: "real \<Rightarrow> real"
  hl_print :: "json \<Rightarrow> string"
  hl_parse :: "string \<Rightarrow> string + json"
  hl_db_text :: "db_error \<Rightarrow> string"
  hl_serde_text :: string
  hl_rejection :: "nat \<Rightarrow> string"
  hl_status_text :: "nat \<Rightarrow> string"

section \<open>Messages\<close>

datatype http_method = GET | HEAD | POST | DELETE | OtherMethod string

text \<open>A body is absent or not declared to be JSON, is not JSON, or is JSON.\<close>

datatype http_payload = NoJson | BadJson | JsonBody json

record http_message =
  hm_method :: http_method
  hm_path :: string
  hm_query :: "(string \<times> string) list"
  hm_auth :: "string option"
  hm_payload :: http_payload

section \<open>The routes\<close>

datatype endpoint = EpHealth | EpOffers | EpCreateAccount | EpGetAccount | EpDeposit | EpCreateRental |
  EpGetRental | EpDeleteRental | EpRegister | EpHeartbeat | EpReport | EpRate | EpPayout

definition router :: "(string \<times> (http_method \<times> endpoint) list) list" where
  "router =
     [(''/health'', [(GET, EpHealth)]),
      (''/offers'', [(GET, EpOffers)]),
      (''/accounts'', [(POST, EpCreateAccount)]),
      (''/accounts/:id'', [(GET, EpGetAccount)]),
      (''/accounts/:id/deposit'', [(POST, EpDeposit)]),
      (''/rentals'', [(POST, EpCreateRental)]),
      (''/rentals/:id'', [(GET, EpGetRental), (DELETE, EpDeleteRental)]),
      (''/agent/register'', [(POST, EpRegister)]),
      (''/agent/heartbeat'', [(POST, EpHeartbeat)]),
      (''/agent/report'', [(POST, EpReport)]),
      (''/agent/rate'', [(POST, EpRate)]),
      (''/agent/payout'', [(POST, EpPayout)])]"

text \<open>The segments between the slashes of a path.\<close>

fun segments :: "string \<Rightarrow> string list" where
  "segments [] = [[]]"
| "segments (c # s) =
     (if c = CHR ''/'' then [] # segments s
      else (case segments s of [] \<Rightarrow> [[c]] | x # xs \<Rightarrow> (c # x) # xs))"

text \<open>A segment \<^verbatim>\<open>:name\<close> of a pattern stands for any one segment that is not empty.\<close>

fun match_segments :: "string list \<Rightarrow> string list \<Rightarrow> string list option" where
  "match_segments [] [] = Some []"
| "match_segments (p # ps) (x # xs) =
     (if starts_with '':'' p
      then (if x = [] then None else map_option ((#) x) (match_segments ps xs))
      else if p = x then match_segments ps xs else None)"
| "match_segments _ _ = None"

fun find_route :: "(string \<times> 'a) list \<Rightarrow> string list \<Rightarrow> ('a \<times> string list) option" where
  "find_route [] xs = None"
| "find_route ((pat, eps) # rest) xs =
     (case match_segments (segments pat) xs of
        Some args \<Rightarrow> Some (eps, args)
      | None \<Rightarrow> find_route rest xs)"

text \<open>axum's \<^verbatim>\<open>get\<close> also answers \<^verbatim>\<open>HEAD\<close>.\<close>

definition find_method :: "http_method \<Rightarrow> (http_method \<times> endpoint) list \<Rightarrow> endpoint option" where
  "find_method m eps = map_of eps (if m = HEAD then GET else m)"

section \<open>Extractors\<close>

definition json_body :: "(json \<Rightarrow> 'a option) \<Rightarrow> http_message \<Rightarrow> nat + 'a" where
  "json_body dec msg =
     (case hm_payload msg of
        NoJson \<Rightarrow> Inl 415
      | BadJson \<Rightarrow> Inl 400
      | JsonBody j \<Rightarrow> (case dec j of None \<Rightarrow> Inl 422 | Some x \<Rightarrow> Inr x))"

definition path_arg :: "http_lib \<Rightarrow> (string \<Rightarrow> 'a option) \<Rightarrow> string list \<Rightarrow> nat + 'a" where
  "path_arg H parse args =
     (case args of
        [x] \<Rightarrow> (case Option.bind (hl_decode H x) parse of None \<Rightarrow> Inl 400 | Some v \<Rightarrow> Inr v)
      | _ \<Rightarrow> Inl 500)"

definition query_arg :: "(string \<Rightarrow> 'a option) \<Rightarrow> string \<Rightarrow> (string \<times> string) list \<Rightarrow> 'a option option" where
  "query_arg parse k q = (case map_of q k of None \<Rightarrow> Some None | Some x \<Rightarrow> map_option Some (parse x))"

definition offers_keys :: "string list" where
  "offers_keys = [''gpu_name'', ''min_vram_mb'', ''min_gpu_count'', ''max_rate_sats_per_min'', ''sort'', ''limit'']"

definition offers_query_of :: "(string \<times> string) list \<Rightarrow> offers_query option" where
  "offers_query_of q =
     (if distinct (filter (\<lambda>k. k \<in> set offers_keys) (map fst q)) then do {
        gpu \<leftarrow> query_arg Some ''gpu_name'' q;
        vram \<leftarrow> query_arg parse_i64 ''min_vram_mb'' q;
        count \<leftarrow> query_arg parse_i64 ''min_gpu_count'' q;
        rate \<leftarrow> query_arg parse_i64 ''max_rate_sats_per_min'' q;
        sort \<leftarrow> query_arg Some ''sort'' q;
        limit \<leftarrow> query_arg parse_i64 ''limit'' q;
        Some \<lparr>oq_gpu_name = gpu, oq_min_vram_mb = vram, oq_min_gpu_count = count,
          oq_max_rate_sats_per_min = rate, oq_sort = sort, oq_limit = limit\<rparr> }
      else None)"

text \<open>The arguments of each handler, in the order of its extractors.\<close>

fun endpoint_request :: "http_lib \<Rightarrow> endpoint \<Rightarrow> string list \<Rightarrow> http_message \<Rightarrow> nat + request" where
  "endpoint_request H EpHealth args msg = Inr GetHealth"
| "endpoint_request H EpOffers args msg =
     (case offers_query_of (hm_query msg) of None \<Rightarrow> Inl 400 | Some q \<Rightarrow> Inr (GetOffers q))"
| "endpoint_request H EpCreateAccount args msg = Inr PostAccounts"
| "endpoint_request H EpGetAccount args msg = map_sum (\<lambda>e. e) GetAccount (path_arg H Some args)"
| "endpoint_request H EpDeposit args msg =
     (case path_arg H Some args of
        Inl e \<Rightarrow> Inl e
      | Inr k \<Rightarrow> map_sum (\<lambda>e. e) (PostDeposit k) (json_body deposit_request_from_json msg))"
| "endpoint_request H EpCreateRental args msg =
     map_sum (\<lambda>e. e) PostRentals (json_body create_rental_request_from_json msg)"
| "endpoint_request H EpGetRental args msg = map_sum (\<lambda>e. e) GetRental (path_arg H parse_i64 args)"
| "endpoint_request H EpDeleteRental args msg = map_sum (\<lambda>e. e) DeleteRental (path_arg H parse_i64 args)"
| "endpoint_request H EpRegister args msg =
     map_sum (\<lambda>e. e) PostRegister (json_body (register_request_from_json (hl_fl H)) msg)"
| "endpoint_request H EpHeartbeat args msg =
     map_sum (\<lambda>e. e) (PostHeartbeat (hm_auth msg)) (json_body heartbeat_request_from_json msg)"
| "endpoint_request H EpReport args msg =
     map_sum (\<lambda>e. e) (PostReport (hm_auth msg)) (json_body report_from_json msg)"
| "endpoint_request H EpRate args msg =
     map_sum (\<lambda>e. e) (PostRate (hm_auth msg)) (json_body rate_request_from_json msg)"
| "endpoint_request H EpPayout args msg =
     map_sum (\<lambda>e. e) (PostPayout (hm_auth msg)) (json_body payout_request_from_json msg)"

definition route :: "http_lib \<Rightarrow> http_message \<Rightarrow> nat + request" where
  "route H msg =
     (case find_route router (segments (hm_path msg)) of
        None \<Rightarrow> Inl 404
      | Some (eps, args) \<Rightarrow>
          (case find_method (hm_method msg) eps of
             None \<Rightarrow> Inl 405
           | Some ep \<Rightarrow> endpoint_request H ep args msg))"

section \<open>Answers\<close>

definition error_text :: "http_lib \<Rightarrow> api_message \<Rightarrow> string" where
  "error_text H m =
     (case m of
        Msg s \<Rightarrow> s
      | DatabaseError e \<Rightarrow> ''database error: '' @ hl_db_text H e
      | SerializationError \<Rightarrow> ''serialization error: '' @ hl_serde_text H)"

definition error_response :: "http_lib \<Rightarrow> api_error \<Rightarrow> nat \<times> json" where
  "error_response H e = (err_status e, JObj [(''error'', JStr (error_text H (err_message e)))])"

definition reply :: "http_lib \<Rightarrow> nat \<Rightarrow> ('a \<Rightarrow> json) \<Rightarrow> api_error + 'a \<Rightarrow> nat \<times> json" where
  "reply H status enc r = (case r of Inl e \<Rightarrow> error_response H e | Inr x \<Rightarrow> (status, enc x))"

fun respond :: "http_lib \<Rightarrow> response \<Rightarrow> nat \<times> json" where
  "respond H (HealthOk h) = (200, health_response_to_json h)"
| "respond H (OffersOk os) = (200, offers_response_to_json os)"
| "respond H (AccountCreated r) = reply H 201 create_account_response_to_json r"
| "respond H (AccountIs r) = reply H 200 account_response_to_json r"
| "respond H (DepositIs r) = reply H 200 deposit_response_to_json r"
| "respond H (RentalCreated r) = reply H 201 create_rental_response_to_json r"
| "respond H (RentalIs r) = reply H 200 rental_response_to_json r"
| "respond H (RentalDeleted r) = reply H 200 deleted_to_json r"
| "respond H (Registered r) = reply H 200 register_response_to_json r"
| "respond H (Commands r) = reply H 200 heartbeat_response_to_json r"
| "respond H (Reported r) = reply H 200 (\<lambda>_. ok_json) r"
| "respond H (Rated r) = reply H 200 (\<lambda>_. ok_json) r"
| "respond H (PaidOut r) = reply H 200 payout_response_to_json r"

text \<open>The whole service: a message in, a status and a text out.\<close>

definition serve :: "http_lib \<Rightarrow> outside \<Rightarrow> http_message \<Rightarrow> 'ln app_state \<Rightarrow> (nat \<times> string) \<times> 'ln app_state" where
  "serve H ev msg st =
     (case route H msg of
        Inl status \<Rightarrow> ((status, hl_rejection H status), st)
      | Inr req \<Rightarrow>
          (case handle ev req st of
             (resp, st') \<Rightarrow>
               ((case respond H resp of
                   (status, j) \<Rightarrow> (status, if hm_method msg = HEAD then [] else hl_print H j)), st')))"

section \<open>Calls\<close>

record http_call =
  hc_method :: http_method
  hc_url :: string
  hc_query :: "(string \<times> string) list"
  hc_auth :: "string option"
  hc_payload :: http_payload

text \<open>
  An HTTP library splits a URL into the server, \<^verbatim>\<open>http://host:port\<close>, and the path. Here
  that is done for paths of characters that it neither escapes nor interprets; for any other, and
  for what is no server, \<open>deliver\<close> is \<open>None\<close>.
\<close>

definition is_origin :: "string \<Rightarrow> bool" where
  "is_origin s \<longleftrightarrow>
     (case (strip_prefix ''http://'' s, strip_prefix ''https://'' s) of
        (Some a, _) \<Rightarrow> a \<noteq> [] \<and> CHR ''/'' \<notin> set a
      | (None, Some a) \<Rightarrow> a \<noteq> [] \<and> CHR ''/'' \<notin> set a
      | (None, None) \<Rightarrow> False)"

text \<open>Letters, digits, underscore and hyphen.\<close>

definition unreserved :: "char \<Rightarrow> bool" where
  "unreserved c \<longleftrightarrow> is_digit c \<or> (97 \<le> (of_char c :: nat) \<and> (of_char c :: nat) \<le> 122) \<or>
     (65 \<le> (of_char c :: nat) \<and> (of_char c :: nat) \<le> 90) \<or> c = CHR ''_'' \<or> c = CHR ''-''"

definition deliver :: "string \<Rightarrow> http_call \<Rightarrow> http_message option" where
  "deliver origin c =
     (case strip_prefix origin (hc_url c) of
        None \<Rightarrow> None
      | Some path \<Rightarrow>
          if is_origin origin \<and> list_all (\<lambda>x. unreserved x \<or> x = CHR ''/'') path
          then Some \<lparr>hm_method = hc_method c, hm_path = (if path = [] then ''/'' else path), hm_query = hc_query c,
                 hm_auth = hc_auth c, hm_payload = hc_payload c\<rparr>
          else None)"

section \<open>The agent's client\<close>

record control_plane =
  cp_base :: string
  cp_token :: string

definition cp_post :: "string \<Rightarrow> string option \<Rightarrow> json \<Rightarrow> http_call" where
  "cp_post url auth body =
     \<lparr>hc_method = POST, hc_url = url, hc_query = [], hc_auth = auth, hc_payload = JsonBody body\<rparr>"

definition heartbeat_call :: "control_plane \<Rightarrow> bool \<Rightarrow> http_call" where
  "heartbeat_call cp online =
     cp_post (cp_base cp @ ''/agent/heartbeat'') (bearer (cp_token cp)) (heartbeat_request_to_json online)"

definition report_call :: "control_plane \<Rightarrow> report_request \<Rightarrow> http_call" where
  "report_call cp req = cp_post (cp_base cp @ ''/agent/report'') (bearer (cp_token cp)) (report_to_json req)"

definition set_rate_call :: "control_plane \<Rightarrow> int \<Rightarrow> http_call" where
  "set_rate_call cp x = cp_post (cp_base cp @ ''/agent/rate'') (bearer (cp_token cp)) (rate_request_to_json x)"

definition register_call :: "string \<Rightarrow> register_request \<Rightarrow> http_call" where
  "register_call base req = cp_post (base @ ''/agent/register'') None (register_request_to_json req)"

text \<open>\<open>send\<close> ends with a transport error or a status and a body.\<close>

definition read_body :: "http_lib \<Rightarrow> (json \<Rightarrow> 'a option) \<Rightarrow> string \<Rightarrow> string + 'a" where
  "read_body H dec body =
     (case hl_parse H body of
        Inl e \<Rightarrow> Inl e
      | Inr j \<Rightarrow> (case dec j of None \<Rightarrow> Inl (hl_serde_text H) | Some x \<Rightarrow> Inr x))"

definition sent :: "http_lib \<Rightarrow> (http_call \<Rightarrow> string + (nat \<times> string)) \<Rightarrow> http_call \<Rightarrow> anyhow + string" where
  "sent H send c =
     (case send c of Inl e \<Rightarrow> Inl [e] | Inr resp \<Rightarrow> ensure_ok (hl_status_text H) resp)"

definition cp_heartbeat :: "http_lib \<Rightarrow> (http_call \<Rightarrow> string + (nat \<times> string)) \<Rightarrow> control_plane \<Rightarrow> bool \<Rightarrow>
    anyhow + command list" where
  "cp_heartbeat H send cp online =
     (case sent H send (heartbeat_call cp online) of
        Inl e \<Rightarrow> Inl e
      | Inr body \<Rightarrow> map_sum (\<lambda>e. [e]) (\<lambda>cs. cs) (read_body H heartbeat_response_from_json body))"

definition cp_report :: "http_lib \<Rightarrow> (http_call \<Rightarrow> string + (nat \<times> string)) \<Rightarrow> control_plane \<Rightarrow> report_request \<Rightarrow>
    anyhow + unit" where
  "cp_report H send cp req = map_sum (\<lambda>e. e) (\<lambda>_. ()) (sent H send (report_call cp req))"

definition cp_set_rate :: "http_lib \<Rightarrow> (http_call \<Rightarrow> string + (nat \<times> string)) \<Rightarrow> control_plane \<Rightarrow> int \<Rightarrow>
    anyhow + unit" where
  "cp_set_rate H send cp x = map_sum (\<lambda>e. e) (\<lambda>_. ()) (sent H send (set_rate_call cp x))"

definition agent_register :: "http_lib \<Rightarrow> (http_call \<Rightarrow> string + (nat \<times> string)) \<Rightarrow> string \<Rightarrow> register_request \<Rightarrow>
    anyhow + register_response" where
  "agent_register H send base req =
     (case send (register_call base req) of
        Inl e \<Rightarrow> Inl [''sending register request'', e]
      | Inr resp \<Rightarrow>
          (case ensure_ok (hl_status_text H) resp of
             Inl e \<Rightarrow> Inl e
           | Inr body \<Rightarrow> map_sum (\<lambda>e. [e]) (\<lambda>r. r) (read_body H register_response_from_json body)))"

section \<open>The tenant's client\<close>

fun cli_payload :: "http_body \<Rightarrow> http_payload" where
  "cli_payload NoBody = NoJson"
| "cli_payload (DepositBody x) = JsonBody (deposit_request_to_json x)"
| "cli_payload (RentalBody r) = JsonBody (create_rental_request_to_json r)"

fun cli_call :: "http_request \<Rightarrow> http_call" where
  "cli_call (HttpGet url q) = \<lparr>hc_method = GET, hc_url = url, hc_query = q, hc_auth = None, hc_payload = NoJson\<rparr>"
| "cli_call (HttpPost url b) =
     \<lparr>hc_method = POST, hc_url = url, hc_query = [], hc_auth = None, hc_payload = cli_payload b\<rparr>"
| "cli_call (HttpDelete url) =
     \<lparr>hc_method = DELETE, hc_url = url, hc_query = [], hc_auth = None, hc_payload = NoJson\<rparr>"

text \<open>\<^verbatim>\<open>v["error"].as_str()\<close>, \<^verbatim>\<open>resp["status"].as_str()\<close>.\<close>

definition json_text_at :: "string \<Rightarrow> json \<Rightarrow> string option" where
  "json_text_at k j = (case j of JObj fs \<Rightarrow> Option.bind (json_field k fs) json_str | _ \<Rightarrow> None)"

definition cli_error :: "http_lib \<Rightarrow> string \<Rightarrow> string option" where
  "cli_error H body = (case hl_parse H body of Inl _ \<Rightarrow> None | Inr j \<Rightarrow> json_text_at ''error'' j)"

text \<open>What the CLI calls, with its decoders those of the types, and the rest as before.\<close>

definition wire_ops :: "http_lib \<Rightarrow> (http_call \<Rightarrow> string + (nat \<times> string)) \<Rightarrow> cli_ops \<Rightarrow> cli_ops" where
  "wire_ops H send C = C\<lparr>
     co_send := (\<lambda>r. send (cli_call r)),
     co_status_text := hl_status_text H,
     co_error := cli_error H,
     co_health := read_body H health_response_from_json,
     co_offers := read_body H (offers_response_from_json (hl_fl H)),
     co_account_id := read_body H create_account_response_from_json,
     co_account := read_body H account_response_from_json,
     co_deposit := read_body H deposit_response_from_json,
     co_created := read_body H create_rental_response_from_json,
     co_rental := read_body H rental_response_from_json,
     co_deleted := read_body H (\<lambda>j. Some (json_text_at ''status'' j))\<rparr>"

text \<open>A transport that reaches the server at \<open>origin\<close> in the state \<open>st\<close>.\<close>

definition transport :: "http_lib \<Rightarrow> outside \<Rightarrow> string \<Rightarrow> 'ln app_state \<Rightarrow> http_call \<Rightarrow> string + (nat \<times> string)" where
  "transport H ev origin st c =
     (case deliver origin c of
        None \<Rightarrow> Inl ''no such server''
      | Some msg \<Rightarrow> Inr (fst (serve H ev msg st)))"

end
