(* ===== verification/Wire_Spec.thy ===== *)
theory Wire_Spec
  imports Wire Server_Spec Agent_Spec
begin

text \<open>
  The clients and the server agree: what the agent and the CLI send is routed to the handler of
  that operation with the same arguments, and what the handler answers is what they read. So the
  models that call the handlers directly (\<open>agent_step\<close>, \<open>host_step\<close>) leave nothing out that
  the wire could change.
\<close>

section \<open>Paths\<close>

lemma segments_plain: "CHR ''/'' \<notin> set x \<Longrightarrow> segments x = [x]"
  by (induction x) auto

lemma segments_append: "CHR ''/'' \<notin> set x \<Longrightarrow> segments (x @ CHR ''/'' # s) = x # segments s"
  by (induction x) auto

lemma unreserved_no_slash: "list_all unreserved x \<Longrightarrow> CHR ''/'' \<notin> set x"
  by (auto simp: list_all_iff unreserved_def is_digit_def)

lemma unreserved_show_nat: "list_all unreserved (show_nat n)"
  using show_nat_digits [of n] by (auto simp: list_all_iff unreserved_def)

lemma unreserved_show_int: "list_all unreserved (show_int x)" "show_int x \<noteq> []"
  using unreserved_show_nat show_nat_digits by (auto simp: show_int_def unreserved_def)

lemma unreserved_account_id: "list_all unreserved (new_account_id nanos n)" "new_account_id nanos n \<noteq> []"
proof -
  have "unreserved (hex_char d)" if "d < 16" for d
    using of_char_hex_char [OF that] that by (auto simp: unreserved_def is_digit_def)
  then have "list_all unreserved (hex_fixed w k)" for w k
    by (induction w arbitrary: k) simp_all
  then show "list_all unreserved (new_account_id nanos n)"
    by (simp add: new_account_id_def unreserved_def is_digit_def)
qed (simp add: new_account_id_def)

lemma find_routes:
  "find_route router [[], ''health''] = Some ([(GET, EpHealth)], [])"
  "find_route router [[], ''offers''] = Some ([(GET, EpOffers)], [])"
  "find_route router [[], ''accounts''] = Some ([(POST, EpCreateAccount)], [])"
  "find_route router [[], ''rentals''] = Some ([(POST, EpCreateRental)], [])"
  "find_route router [[], ''agent'', ''register''] = Some ([(POST, EpRegister)], [])"
  "find_route router [[], ''agent'', ''heartbeat''] = Some ([(POST, EpHeartbeat)], [])"
  "find_route router [[], ''agent'', ''report''] = Some ([(POST, EpReport)], [])"
  "find_route router [[], ''agent'', ''rate''] = Some ([(POST, EpRate)], [])"
  "find_route router [[], ''agent'', ''payout''] = Some ([(POST, EpPayout)], [])"
  "k \<noteq> [] \<Longrightarrow> find_route router [[], ''accounts'', k] = Some ([(GET, EpGetAccount)], [k])"
  "k \<noteq> [] \<Longrightarrow> find_route router [[], ''accounts'', k, ''deposit''] = Some ([(POST, EpDeposit)], [k])"
  "k \<noteq> [] \<Longrightarrow> find_route router [[], ''rentals'', k] = Some ([(GET, EpGetRental), (DELETE, EpDeleteRental)], [k])"
  by (simp_all add: router_def starts_with_def)

section \<open>Arrival\<close>

text \<open>\<open>arrives H origin c req\<close>: the call \<open>c\<close> reaches the handler of \<open>req\<close>, with its arguments.\<close>

definition arrives :: "http_lib \<Rightarrow> string \<Rightarrow> http_call \<Rightarrow> request \<Rightarrow> bool" where
  "arrives H origin c req \<longleftrightarrow>
     (\<exists>msg. deliver origin c = Some msg \<and> hm_method msg \<noteq> HEAD \<and> route H msg = Inr req)"

definition plain_decode :: "http_lib \<Rightarrow> bool" where
  "plain_decode H \<longleftrightarrow> (\<forall>s. list_all unreserved s \<longrightarrow> hl_decode H s = Some s)"

lemma deliver_at:
  assumes "is_origin origin" "hc_url c = origin @ CHR ''/'' # path" "list_all (\<lambda>x. unreserved x \<or> x = CHR ''/'') path"
  shows "deliver origin c = Some \<lparr>hm_method = hc_method c, hm_path = CHR ''/'' # path, hm_query = hc_query c,
    hm_auth = hc_auth c, hm_payload = hc_payload c\<rparr>"
  using assms strip_prefix_append [of origin "CHR ''/'' # path"] by (simp add: deliver_def)

definition report_fits :: "report_request \<Rightarrow> bool" where
  "report_fits r \<longleftrightarrow> in_i64 (rp_rental_id r) \<and> opt_fits in_i32 (rp_ssh_port r)"

lemma report_roundtrip: "report_fits r \<Longrightarrow> report_from_json (report_to_json r) = Some r"
  by (rule report_json_roundtrip) (simp_all add: report_fits_def opt_fits_def)

lemma plain_chars:
  "unreserved (CHR ''a'')" "unreserved (CHR ''b'')" "unreserved (CHR ''c'')" "unreserved (CHR ''d'')" "unreserved (CHR ''e'')" "unreserved (CHR ''f'')" "unreserved (CHR ''g'')" "unreserved (CHR ''h'')"
  "unreserved (CHR ''i'')" "unreserved (CHR ''j'')" "unreserved (CHR ''k'')" "unreserved (CHR ''l'')" "unreserved (CHR ''m'')" "unreserved (CHR ''n'')" "unreserved (CHR ''o'')" "unreserved (CHR ''p'')"
  "unreserved (CHR ''q'')" "unreserved (CHR ''r'')" "unreserved (CHR ''s'')" "unreserved (CHR ''t'')" "unreserved (CHR ''u'')" "unreserved (CHR ''v'')" "unreserved (CHR ''w'')" "unreserved (CHR ''x'')"
  "unreserved (CHR ''y'')" "unreserved (CHR ''z'')"
  by (simp_all add: unreserved_def is_digit_def)

lemma plain_path: "list_all unreserved k \<Longrightarrow> list_all (\<lambda>x. unreserved x \<or> x = CHR ''/'') k"
  by (simp add: list_all_iff)

lemma agent_calls_arrive:
  "is_origin (cp_base cp) \<Longrightarrow> arrives H (cp_base cp) (heartbeat_call cp online) (PostHeartbeat (bearer (cp_token cp)) online)"
  "is_origin (cp_base cp) \<Longrightarrow> report_fits rep \<Longrightarrow> arrives H (cp_base cp) (report_call cp rep) (PostReport (bearer (cp_token cp)) rep)"
  "is_origin (cp_base cp) \<Longrightarrow> in_i64 x \<Longrightarrow> arrives H (cp_base cp) (set_rate_call cp x) (PostRate (bearer (cp_token cp)) x)"
  "is_origin base \<Longrightarrow> request_fits req \<Longrightarrow> arrives H base (register_call base req) (PostRegister req)"
  by (simp_all add: arrives_def heartbeat_call_def report_call_def set_rate_call_def register_call_def cp_post_def
      deliver_at plain_chars route_def find_routes find_method_def json_body_def small_request_roundtrips
      report_roundtrip register_request_roundtrip)

text \<open>
  The agent joins its paths to \<^verbatim>\<open>--control-plane\<close> as it is given, where the CLI drops a
  slash at its end: with one, no request of the agent finds a route.
\<close>

lemma agent_base_not_trimmed:
  assumes "is_origin origin" "cp_base cp = origin @ ''/''"
  shows "map_option (route H) (deliver origin (heartbeat_call cp online)) = Some (Inl 404)"
    and "map_option (route H) (deliver origin (register_call (cp_base cp) req)) = Some (Inl 404)"
  using assms
  by (simp_all add: heartbeat_call_def register_call_def cp_post_def deliver_at plain_chars route_def
      router_def starts_with_def)

lemma is_origin_last:
  assumes "is_origin s"
  shows "s \<noteq> []" "last s \<noteq> CHR ''/''"
proof -
  from assms obtain a where a: "s = ''http://'' @ a \<or> s = ''https://'' @ a" "a \<noteq> []" "CHR ''/'' \<notin> set a"
    unfolding is_origin_def
    by (cases "strip_prefix ''http://'' s"; cases "strip_prefix ''https://'' s") (auto simp: strip_prefix_Some_iff)
  then have "last s = last a" by auto
  with a show "s \<noteq> []" "last s \<noteq> CHR ''/''" using last_in_set [of a] by (auto, metis+)
qed

lemma cli_base: "is_origin origin \<Longrightarrow> client_new (origin @ replicate n (CHR ''/'')) = origin"
  using is_origin_last [of origin]
  by (cases origin rule: rev_cases)
    (simp_all add: client_new_def trim_end_matches.simps dropWhile_replicate)

section \<open>The agent over the wire\<close>

text \<open>A text that reads back as the JSON it was written from.\<close>

definition reads_back :: "http_lib \<Rightarrow> json \<Rightarrow> bool" where
  "reads_back H j \<longleftrightarrow> hl_parse H (hl_print H j) = Inr j"

lemma transport_reply:
  assumes "arrives H origin c req"
  shows "transport H ev origin st c =
    Inr (fst (respond H (fst (handle ev req st))), hl_print H (snd (respond H (fst (handle ev req st)))))"
  using assms by (auto simp: arrives_def transport_def serve_def split: prod.splits)

definition refusal :: "http_lib \<Rightarrow> api_error \<Rightarrow> anyhow" where
  "refusal H e = [''control plane returned '' @ hl_status_text H (err_status e) @ '': '' @
     hl_print H (JObj [(''error'', JStr (error_text H (err_message e)))])]"

definition refused :: "api_error + 'a \<Rightarrow> bool" where
  "refused r \<longleftrightarrow> (\<forall>e. r = Inl e \<longrightarrow> err_status e \<in> error_statuses)"

lemma ensure_ok_reply:
  assumes "refused r" "200 \<le> status" "status < 300"
  shows "ensure_ok (hl_status_text H) (fst (reply H status enc r), hl_print H (snd (reply H status enc r))) =
    (case r of Inl e \<Rightarrow> Inl (refusal H e) | Inr x \<Rightarrow> Inr (hl_print H (enc x)))"
  using assms
  by (auto simp: reply_def error_response_def ensure_ok_def refusal_def refused_def error_statuses_def
      split: sum.splits)

lemma read_body_back: "reads_back H j \<Longrightarrow> dec j = Some x \<Longrightarrow> read_body H dec (hl_print H j) = Inr x"
  by (simp add: read_body_def reads_back_def)

lemma handler_refusals:
  "refused (fst (heartbeat auth online now d))" "refused (fst (report auth rep now d))"
  "refused (fst (rate auth x d))" "refused (fst (register token req now d))"
  by (metis refused_def prod.collapse heartbeat_error report_error rate_error register_error)+

lemma handle_agent:
  "fst (handle ev (PostHeartbeat auth online) st) = Commands (fst (heartbeat auth online (ev_now ev) (st_db st)))"
  "fst (handle ev (PostReport auth rep) st) = Reported (fst (report auth rep (ev_now ev) (st_db st)))"
  by (simp_all add: put_db_def)

text \<open>
  C26: over HTTP the agent gets from the server exactly what the handlers give. A heartbeat sent
  with the agent's token ends with the commands that \<open>heartbeat\<close> took from the queue for
  it, or with the handler's error; a report is accepted when \<open>report\<close> accepts it; a
  registration ends with the response of the register handler. Nothing is lost or changed in the
  URL, the header, the JSON of the request or the JSON of the answer, as long as
  \<open>--control-plane\<close> is the server without a slash at its end, the numbers fit their types
  and the JSON texts of the answers parse to what they were printed from.
\<close>

theorem agent_client_is_handler:
  assumes origin: "is_origin (cp_base cp)" and fits: "report_fits rep" "request_fits req"
    and beat: "\<And>cmds. fst (heartbeat (bearer (cp_token cp)) online (ev_now ev) (st_db st)) = Inr cmds \<Longrightarrow>
      reads_back H (heartbeat_response_to_json cmds) \<and> list_all (\<lambda>c. in_i64 (cmd_rental_id c)) cmds"
    and reg: "\<And>rs. fst (handle ev (PostRegister req) st) = Registered (Inr rs) \<Longrightarrow>
      reads_back H (register_response_to_json rs) \<and> in_i64 (rs_machine_id rs)"
  shows "cp_heartbeat H (transport H ev (cp_base cp) st) cp online =
      (case fst (heartbeat (bearer (cp_token cp)) online (ev_now ev) (st_db st)) of
         Inl e \<Rightarrow> Inl (refusal H e) | Inr cmds \<Rightarrow> Inr cmds) \<and>
    cp_report H (transport H ev (cp_base cp) st) cp rep =
      (case fst (report (bearer (cp_token cp)) rep (ev_now ev) (st_db st)) of
         Inl e \<Rightarrow> Inl (refusal H e) | Inr _ \<Rightarrow> Inr ()) \<and>
    agent_register H (transport H ev (cp_base cp) st) (cp_base cp) req =
      (case fst (handle_register ev req st) of Inl e \<Rightarrow> Inl (refusal H e) | Inr rs \<Rightarrow> Inr rs)"
proof (intro conjI)
  let ?send = "transport H ev (cp_base cp) st"
  let ?beat = "fst (heartbeat (bearer (cp_token cp)) online (ev_now ev) (st_db st))"
  let ?rep = "fst (report (bearer (cp_token cp)) rep (ev_now ev) (st_db st))"
  let ?reg = "fst (handle_register ev req st)"
  have "read_body H heartbeat_response_from_json (hl_print H (heartbeat_response_to_json cmds)) = Inr cmds"
    if "?beat = Inr cmds" for cmds
    using beat [OF that] by (auto intro!: read_body_back agent_response_roundtrips simp: list_all_iff)
  then show "cp_heartbeat H ?send cp online = (case ?beat of Inl e \<Rightarrow> Inl (refusal H e) | Inr cmds \<Rightarrow> Inr cmds)"
    using transport_reply [OF agent_calls_arrive(1) [OF origin], of H ev st online]
      ensure_ok_reply [OF handler_refusals(1), of 200 H heartbeat_response_to_json]
    by (auto simp: cp_heartbeat_def sent_def handle_agent simp del: handle.simps split: sum.splits)
  show "cp_report H ?send cp rep = (case ?rep of Inl e \<Rightarrow> Inl (refusal H e) | Inr _ \<Rightarrow> Inr ())"
    using transport_reply [OF agent_calls_arrive(2) [OF origin fits(1)], of H ev st]
      ensure_ok_reply [OF handler_refusals(2), of 200 H "\<lambda>_. ok_json"]
    by (auto simp: cp_report_def sent_def handle_agent simp del: handle.simps split: sum.splits)
  have resp: "fst (handle ev (PostRegister req) st) = Registered ?reg" by simp
  have "read_body H register_response_from_json (hl_print H (register_response_to_json rs)) = Inr rs"
    if "?reg = Inr rs" for rs
    using reg [of rs] that by (auto intro!: read_body_back agent_response_roundtrips)
  moreover have "refused ?reg"
    by (simp add: handle_register_def put_db_def handler_refusals)
  ultimately show "agent_register H ?send (cp_base cp) req = (case ?reg of Inl e \<Rightarrow> Inl (refusal H e) | Inr rs \<Rightarrow> Inr rs)"
    using transport_reply [OF agent_calls_arrive(4) [OF origin fits(2)], of H ev st]
      ensure_ok_reply [of ?reg 200 H register_response_to_json]
    by (auto simp: agent_register_def resp simp del: handle.simps split: sum.splits)
qed

section \<open>The CLI over the wire\<close>

text \<open>The request a command stands for; a key file that cannot be read ends \<open>rent\<close> before it.\<close>

fun cli_request :: "cli_ops \<Rightarrow> cli_cmd \<Rightarrow> string list + request" where
  "cli_request C CliHealth = Inr GetHealth"
| "cli_request C (CliOffers a) = Inr (GetOffers \<lparr>oq_gpu_name = oa_gpu a, oq_min_vram_mb = oa_min_vram_mb a,
     oq_min_gpu_count = oa_min_gpu_count a, oq_max_rate_sats_per_min = oa_max_rate a, oq_sort = oa_sort a,
     oq_limit = oa_limit a\<rparr>)"
| "cli_request C CliCreateAccount = Inr PostAccounts"
| "cli_request C (CliAccount k) = Inr (GetAccount k)"
| "cli_request C (CliDeposit k x) = Inr (PostDeposit k x)"
| "cli_request C (CliRent a) = map_sum (\<lambda>e. e) (\<lambda>key. PostRentals (rent_request a key)) (rent_key C a)"
| "cli_request C (CliRental k) = Inr (GetRental k)"
| "cli_request C (CliStop k) = Inr (DeleteRental k)"

definition plain_id :: "string \<Rightarrow> bool" where
  "plain_id k \<longleftrightarrow> k \<noteq> [] \<and> list_all unreserved k"

fun cmd_fits :: "cli_cmd \<Rightarrow> bool" where
  "cmd_fits (CliOffers a) \<longleftrightarrow> opt_fits in_i64 (oa_min_vram_mb a) \<and> opt_fits in_i64 (oa_min_gpu_count a) \<and>
     opt_fits in_i64 (oa_max_rate a) \<and> opt_fits in_i64 (oa_limit a)"
| "cmd_fits (CliAccount k) \<longleftrightarrow> plain_id k"
| "cmd_fits (CliDeposit k x) \<longleftrightarrow> plain_id k \<and> in_i64 x"
| "cmd_fits (CliRent a) \<longleftrightarrow> in_i64 (ra_machine_id a)"
| "cmd_fits (CliRental k) \<longleftrightarrow> in_i64 k"
| "cmd_fits (CliStop k) \<longleftrightarrow> in_i64 k"
| "cmd_fits _ \<longleftrightarrow> True"

text \<open>The response's numbers fit their types.\<close>

fun response_fits :: "response \<Rightarrow> bool" where
  "response_fits (OffersOk os) \<longleftrightarrow> list_all offer_fits os"
| "response_fits (AccountIs (Inr a)) \<longleftrightarrow> account_fits a"
| "response_fits (DepositIs (Inr r)) \<longleftrightarrow> in_i64 (dp_sats r)"
| "response_fits (RentalCreated (Inr r)) \<longleftrightarrow> in_i64 (cs_rental_id r) \<and> in_i64 (cs_rate_sats_per_min r)"
| "response_fits (RentalIs (Inr r)) \<longleftrightarrow> rental_fits r"
| "response_fits _ \<longleftrightarrow> True"

text \<open>
  A command line that is handed the response as a value: no URL, no JSON, no text in between.
\<close>

definition answering :: "http_lib \<Rightarrow> response \<Rightarrow> cli_ops \<Rightarrow> cli_ops" where
  "answering H resp C = C\<lparr>
     co_send := (\<lambda>_. Inr (case response_error resp of None \<Rightarrow> 200 | Some e \<Rightarrow> err_status e, [])),
     co_status_text := hl_status_text H,
     co_error := (\<lambda>_. map_option (\<lambda>e. error_text H (err_message e)) (response_error resp)),
     co_health := (\<lambda>_. case resp of HealthOk h \<Rightarrow> Inr h | _ \<Rightarrow> Inl []),
     co_offers := (\<lambda>_. case resp of OffersOk os \<Rightarrow> Inr os | _ \<Rightarrow> Inl []),
     co_account_id := (\<lambda>_. case resp of AccountCreated (Inr k) \<Rightarrow> Inr k | _ \<Rightarrow> Inl []),
     co_account := (\<lambda>_. case resp of AccountIs (Inr a) \<Rightarrow> Inr a | _ \<Rightarrow> Inl []),
     co_deposit := (\<lambda>_. case resp of DepositIs (Inr r) \<Rightarrow> Inr r | _ \<Rightarrow> Inl []),
     co_created := (\<lambda>_. case resp of RentalCreated (Inr r) \<Rightarrow> Inr r | _ \<Rightarrow> Inl []),
     co_rental := (\<lambda>_. case resp of RentalIs (Inr r) \<Rightarrow> Inr r | _ \<Rightarrow> Inl []),
     co_deleted := (\<lambda>_. case resp of RentalDeleted (Inr r) \<Rightarrow> Inr (Some (snd r)) | _ \<Rightarrow> Inl [])\<rparr>"

lemma path_arg_plain:
  "plain_decode H \<Longrightarrow> plain_id k \<Longrightarrow> path_arg H Some [k] = Inr k"
  "plain_decode H \<Longrightarrow> in_i64 x \<Longrightarrow> path_arg H parse_i64 [show_int x] = Inr x"
  using unreserved_show_int [of x]
  by (simp_all add: path_arg_def plain_decode_def plain_id_def parse_i64_show_int)

lemma query_simps:
  "map_of q k = None \<Longrightarrow> query_arg Some k (opt_param k v @ q) = Some v"
  "map_of q k = None \<Longrightarrow> opt_fits in_i64 x \<Longrightarrow> query_arg parse_i64 k (opt_param k (map_option show_int x) @ q) = Some x"
  "opt_fits in_i64 x \<Longrightarrow> query_arg parse_i64 k (opt_param k (map_option show_int x)) = Some x"
  "k \<noteq> k' \<Longrightarrow> query_arg parse k (opt_param k' v @ q) = query_arg parse k q"
  "k \<noteq> k' \<Longrightarrow> map_of (opt_param k' v @ q) k = map_of q k"
  "k \<noteq> k' \<Longrightarrow> map_of (opt_param k' v) k = None"
  by (cases v; cases x; simp add: query_arg_def opt_param_def opt_fits_def parse_i64_show_int)+

lemma opt_param_keys: "map fst (opt_param k v) = (if v = None then [] else [k])"
  by (cases v) (simp_all add: opt_param_def)

lemma offers_query_roundtrip:
  assumes "cmd_fits (CliOffers a)"
  shows "offers_query_of (offers_params a) = Some \<lparr>oq_gpu_name = oa_gpu a, oq_min_vram_mb = oa_min_vram_mb a,
     oq_min_gpu_count = oa_min_gpu_count a, oq_max_rate_sats_per_min = oa_max_rate a, oq_sort = oa_sort a,
     oq_limit = oa_limit a\<rparr>"
proof -
  have "distinct (map fst (offers_params a))"
    by (simp add: offers_params_def opt_param_keys)
  then show ?thesis using assms
    by (simp add: offers_query_of_def) (simp add: offers_params_def query_simps)
qed

text \<open>The HTTP request each command makes.\<close>

fun cli_http :: "cli_ops \<Rightarrow> string \<Rightarrow> cli_cmd \<Rightarrow> http_request" where
  "cli_http C base CliHealth = HttpGet (client_url base ''/health'') []"
| "cli_http C base (CliOffers a) = HttpGet (client_url base ''/offers'') (offers_params a)"
| "cli_http C base CliCreateAccount = HttpPost (client_url base ''/accounts'') NoBody"
| "cli_http C base (CliAccount k) = HttpGet (client_url base (''/accounts/'' @ k)) []"
| "cli_http C base (CliDeposit k x) = HttpPost (client_url base (''/accounts/'' @ k @ ''/deposit'')) (DepositBody x)"
| "cli_http C base (CliRent a) = HttpPost (client_url base ''/rentals'')
     (RentalBody (rent_request a (case rent_key C a of Inl _ \<Rightarrow> None | Inr key \<Rightarrow> key)))"
| "cli_http C base (CliRental k) = HttpGet (client_url base (''/rentals/'' @ show_int k)) []"
| "cli_http C base (CliStop k) = HttpDelete (client_url base (''/rentals/'' @ show_int k))"

lemma cli_request_arrives:
  assumes "is_origin origin" "plain_decode H" "cmd_fits cmd" "cli_request C cmd = Inr req"
  shows "arrives H origin (cli_call (cli_http C origin cmd)) req"
proof -
  note wire = arrives_def client_url_def deliver_at plain_chars plain_path route_def find_routes find_method_def
    path_arg_plain segments_plain segments_append json_body_def tenant_request_roundtrips offers_query_roundtrip
  have id: "CHR ''/'' \<notin> set k" "k \<noteq> []" "list_all unreserved k" if "plain_id k" for k
    using that unreserved_no_slash by (auto simp: plain_id_def)
  have num: "CHR ''/'' \<notin> set (show_int x)" for x
    using unreserved_no_slash unreserved_show_int by blast
  show ?thesis
  proof (cases cmd)
    case (CliRent a)
    then show ?thesis using assms by (cases "rent_key C a") (auto simp: wire rent_request_def)
  qed (use assms in \<open>auto simp: wire id num unreserved_show_int\<close>)
qed

lemma respond_error: "response_error resp = Some e \<Longrightarrow> respond H resp = error_response H e"
  by (cases resp) (auto simp: response_error_def reply_def split: sum.splits)

lemma respond_ok: "response_error resp = None \<Longrightarrow> fst (respond H resp) \<in> {200, 201}"
  by (cases resp) (auto simp: response_error_def reply_def split: sum.splits)

lemma calls_agree:
  assumes "arrives H origin (cli_call r) req" and resp: "resp = fst (handle ev req st)"
    and rb: "reads_back H (snd (respond H resp))"
    and dec: "response_error resp = None \<Longrightarrow> \<exists>x. dec (snd (respond H resp)) = Some x \<and> answer [] = Inr x"
  shows "call (wire_ops H (transport H ev origin st) C) (read_body H dec) r = call (answering H resp C) answer r"
proof -
  let ?send = "transport H ev origin st"
  have send: "?send (cli_call r) = Inr (fst (respond H resp), hl_print H (snd (respond H resp)))"
    using transport_reply [OF assms(1), of ev st] by (simp add: resp)
  show ?thesis
  proof (cases "response_error resp")
    case None
    then obtain x where x: "dec (snd (respond H resp)) = Some x" "answer [] = Inr x" using dec by blast
    from rb x(1) have "read_body H dec (hl_print H (snd (respond H resp))) = Inr x" by (rule read_body_back)
    with None x(2) show ?thesis using respond_ok [OF None, of H]
      by (auto simp: call_def wire_ops_def answering_def send parse_response_def)
  next
    case (Some e)
    then have "err_status e \<in> error_statuses"
      using error_keeps_state [of ev req st resp] resp by (metis prod.collapse)
    moreover have "cli_error H (hl_print H (snd (error_response H e))) = Some (error_text H (err_message e))"
      using rb by (simp add: respond_error [OF Some] reads_back_def cli_error_def json_text_at_def
          error_response_def json_field_def)
    ultimately show ?thesis
      by (auto simp: call_def wire_ops_def answering_def send parse_response_def Some respond_error [OF Some]
          error_statuses_def) (simp_all add: error_response_def)
  qed
qed

lemma wire_ops_fields [simp]:
  "co_health (wire_ops H send C) = read_body H health_response_from_json"
  "co_offers (wire_ops H send C) = read_body H (offers_response_from_json (hl_fl H))"
  "co_account_id (wire_ops H send C) = read_body H create_account_response_from_json"
  "co_account (wire_ops H send C) = read_body H account_response_from_json"
  "co_deposit (wire_ops H send C) = read_body H deposit_response_from_json"
  "co_created (wire_ops H send C) = read_body H create_rental_response_from_json"
  "co_rental (wire_ops H send C) = read_body H rental_response_from_json"
  "co_deleted (wire_ops H send C) = read_body H (\<lambda>j. Some (json_text_at ''status'' j))"
  "co_fl (wire_ops H send C) = co_fl C" "co_table (wire_ops H send C) = co_table C"
  "co_read_file (wire_ops H send C) = co_read_file C"
  by (cases C, simp add: wire_ops_def)+

lemma answering_fields [simp]:
  "co_fl (answering H resp C) = co_fl C" "co_table (answering H resp C) = co_table C"
  "co_read_file (answering H resp C) = co_read_file C"
  by (cases C, simp add: answering_def)+

lemma same_key [simp]: "rent_key (wire_ops H send C) = rent_key C" "rent_key (answering H resp C) = rent_key C"
  by (simp_all add: rent_key_def fun_eq_iff split: option.split)

lemma cli_calls_agree:
  assumes "is_origin origin" "plain_decode H" "cmd_fits cmd" "cli_request C cmd = Inr req"
    and resp: "resp = fst (handle ev req st)" and fits: "response_fits resp"
    and rb: "reads_back H (snd (respond H resp))"
  defines "W \<equiv> wire_ops H (transport H ev origin st) C" and "A \<equiv> answering H resp C"
  shows "cmd = CliHealth \<Longrightarrow> call W (co_health W) (cli_http C origin cmd) = call A (co_health A) (cli_http C origin cmd)"
    "cmd = CliOffers a \<Longrightarrow> call W (co_offers W) (cli_http C origin cmd) = call A (co_offers A) (cli_http C origin cmd)"
    "cmd = CliCreateAccount \<Longrightarrow> call W (co_account_id W) (cli_http C origin cmd) = call A (co_account_id A) (cli_http C origin cmd)"
    "cmd = CliAccount k \<Longrightarrow> call W (co_account W) (cli_http C origin cmd) = call A (co_account A) (cli_http C origin cmd)"
    "cmd = CliDeposit k x \<Longrightarrow> call W (co_deposit W) (cli_http C origin cmd) = call A (co_deposit A) (cli_http C origin cmd)"
    "cmd = CliRent b \<Longrightarrow> call W (co_created W) (cli_http C origin cmd) = call A (co_created A) (cli_http C origin cmd)"
    "cmd = CliRental j \<Longrightarrow> call W (co_rental W) (cli_http C origin cmd) = call A (co_rental A) (cli_http C origin cmd)"
    "cmd = CliStop j \<Longrightarrow> call W (co_deleted W) (cli_http C origin cmd) = call A (co_deleted A) (cli_http C origin cmd)"
proof -
  note same = calls_agree [OF cli_request_arrives [OF assms(1-4)] resp rb, where C = C]
  note answers = answering_def tenant_response_roundtrips rental_response_roundtrip offers_roundtrip
    list_all_iff reply_def response_error_def json_text_at_def deleted_to_json_def json_field_def
  note unfolded = W_def A_def wire_ops_fields
  show "call W (co_health W) (cli_http C origin cmd) = call A (co_health A) (cli_http C origin cmd)" if "cmd = CliHealth"
    unfolding unfolded using that assms(4) fits by (intro same) (auto simp: resp answers)
  show "call W (co_offers W) (cli_http C origin cmd) = call A (co_offers A) (cli_http C origin cmd)" if "cmd = CliOffers a"
    unfolding unfolded using that assms(4) fits by (intro same) (auto simp: resp answers)
  show "call W (co_account_id W) (cli_http C origin cmd) = call A (co_account_id A) (cli_http C origin cmd)" if "cmd = CliCreateAccount"
    unfolding unfolded using that assms(4) fits by (intro same) (auto simp: resp answers split: sum.splits)
  show "call W (co_account W) (cli_http C origin cmd) = call A (co_account A) (cli_http C origin cmd)" if "cmd = CliAccount k"
    unfolding unfolded using that assms(4) fits by (intro same) (auto simp: resp answers split: sum.splits)
  show "call W (co_deposit W) (cli_http C origin cmd) = call A (co_deposit A) (cli_http C origin cmd)" if "cmd = CliDeposit k x"
    unfolding unfolded using that assms(4) fits by (intro same) (auto simp: resp answers split: sum.splits)
  show "call W (co_created W) (cli_http C origin cmd) = call A (co_created A) (cli_http C origin cmd)" if "cmd = CliRent b"
    unfolding unfolded using that assms(4) fits by (intro same, cases "rent_key C b") (auto simp: resp answers split: sum.splits)
  show "call W (co_rental W) (cli_http C origin cmd) = call A (co_rental A) (cli_http C origin cmd)" if "cmd = CliRental j"
    unfolding unfolded using that assms(4) fits by (intro same) (auto simp: resp answers split: sum.splits)
  show "call W (co_deleted W) (cli_http C origin cmd) = call A (co_deleted A) (cli_http C origin cmd)" if "cmd = CliStop j"
    unfolding unfolded using that assms(4) fits by (intro same) (auto simp: resp answers split: sum.splits)
qed

text \<open>
  C27: over HTTP a command line does exactly what it would do if it were handed the handler's
  response as a value. For every command whose account id is made of plain characters, as the
  server's are, the request arrives at the handler of the command with its arguments, query
  filters and key included, whatever slashes end \<open>--control-plane\<close>; and what it prints, or
  the error it ends with, is determined by the response alone.
\<close>

theorem cli_is_the_handler:
  assumes "is_origin origin" "plain_decode H" "cmd_fits cmd" "cli_request C cmd = Inr req"
    and resp: "resp = fst (handle ev req st)" and fits: "response_fits resp"
    and rb: "reads_back H (snd (respond H resp))"
  shows "cli_main (wire_ops H (transport H ev origin st) C) (origin @ replicate n (CHR ''/'')) cmd =
    cli_main (answering H resp C) origin cmd"
proof -
  note base = cli_base [OF assms(1)] and base0 = cli_base [OF assms(1), of 0, simplified]
  note commands = cli_health_def cli_offers_def cli_create_account_def cli_account_def cli_deposit_def cli_rent_def
    cli_rental_def cli_stop_def
  show ?thesis
    using cli_calls_agree [OF assms] assms(4)
    by (cases cmd) (auto simp: base base0 commands simp del: wire_ops_fields(1-8) split: sum.split)
qed

text \<open>
  A server with one account. The JSON library knows the answers of this run by one character each.
\<close>

lemma toy_origin: "is_origin ''http://cp:8080''"
  by (simp add: is_origin_def strip_prefix_def starts_with_def)

definition known :: "(char \<times> json) list" where
  "known =
     [(CHR ''e'', JObj [(''error'', JStr ''unknown account'')]),
      (CHR ''c'', JObj [(''commands'', JArr [command_to_json (StartRental 1 ''ubuntu'' ''key'')])]),
      (CHR ''r'', JObj [(''machine_id'', JInt 1), (''agent_token'', JStr ''agt_1'')]),
      (CHR ''a'', JObj [(''account_id'', JStr ''a1''), (''balance_sats'', JInt 40), (''burn_sats_per_min'', JInt 0)])]"

definition toy_http :: http_lib where
  "toy_http = \<lparr>hl_decode = Some, hl_fl = (\<lambda>x. x),
     hl_print = (\<lambda>j. case List.find (\<lambda>p. snd p = j) known of None \<Rightarrow> [] | Some p \<Rightarrow> [fst p]),
     hl_parse = (\<lambda>s. case s of [c] \<Rightarrow> (case map_of known c of None \<Rightarrow> Inl ''eof'' | Some j \<Rightarrow> Inr j) | _ \<Rightarrow> Inl ''eof''),
     hl_db_text = (\<lambda>_. []), hl_serde_text = [], hl_rejection = (\<lambda>_. []), hl_status_text = (\<lambda>_. ''404 Not Found'')\<rparr>"

definition toy_cli :: cli_ops where
  "toy_cli = \<lparr>co_send = (\<lambda>_. Inl []), co_status_text = (\<lambda>_. []), co_error = (\<lambda>_. None), co_health = (\<lambda>_. Inl []),
     co_offers = (\<lambda>_. Inl []), co_account_id = (\<lambda>_. Inl []), co_account = (\<lambda>_. Inl []), co_deposit = (\<lambda>_. Inl []),
     co_created = (\<lambda>_. Inl []), co_rental = (\<lambda>_. Inl []), co_deleted = (\<lambda>_. Inl []), co_read_file = (\<lambda>_. Inl []),
     co_table = (\<lambda>_ _. []), co_fl = (\<lambda>x. x)\<rparr>"

definition one_account :: "mock app_state" where
  "one_account = (server_init mock_backend (mock_new 0 0) (Manual 200) ''mock'')
     \<lparr>st_db := db_empty\<lparr>db_accounts := [\<lparr>a_id = ''a1'', a_balance_sats = 40, a_created_at = 5\<rparr>]\<rparr>\<rparr>"

definition at_200 :: outside where
  "at_200 = \<lparr>ev_now = 200, ev_nanos = 0, ev_fl = (\<lambda>x. x), ev_scan = (\<lambda>ms. ms)\<rparr>"

lemma one_account_answers:
  "fst (handle at_200 (GetAccount ''a1'') one_account) = AccountIs (Inr \<lparr>ar_account_id = ''a1'', ar_balance_sats = 40,
     ar_burn_sats_per_min = 0, ar_runway_minutes = None\<rparr>)"
  by (simp add: one_account_def server_init_def get_account_def find_account_def db_empty_def)

theorem cli_is_the_handler_witness:
  "\<exists>lines. cli_main (wire_ops toy_http (transport toy_http at_200 ''http://cp:8080'' one_account) toy_cli)
     (''http://cp:8080'' @ replicate 2 (CHR ''/'')) (CliAccount ''a1'') = Inr lines \<and> hd lines = ''Account a1''"
proof -
  have "is_origin ''http://cp:8080''" by (rule toy_origin)
  moreover have "plain_decode toy_http" by (simp add: plain_decode_def toy_http_def)
  moreover have "cmd_fits (CliAccount ''a1'')" by (simp add: plain_id_def unreserved_def is_digit_def)
  moreover have "response_fits (fst (handle at_200 (GetAccount ''a1'') one_account))"
    unfolding one_account_answers by (simp add: account_fits_def opt_fits_def in_i64_def)
  moreover have "reads_back toy_http (snd (respond toy_http (fst (handle at_200 (GetAccount ''a1'') one_account))))"
    unfolding one_account_answers
    by (simp add: reads_back_def reply_def account_response_to_json_def opt_field_def toy_http_def known_def)
  moreover have "cli_request toy_cli (CliAccount ''a1'') = Inr (GetAccount ''a1'')" by simp
  ultimately have "cli_main (wire_ops toy_http (transport toy_http at_200 ''http://cp:8080'' one_account) toy_cli)
      (''http://cp:8080'' @ replicate 2 (CHR ''/'')) (CliAccount ''a1'') =
    cli_main (answering toy_http (fst (handle at_200 (GetAccount ''a1'') one_account)) toy_cli) ''http://cp:8080''
      (CliAccount ''a1'')"
    using cli_is_the_handler [of "''http://cp:8080''" toy_http "CliAccount ''a1''" toy_cli "GetAccount ''a1''" _ at_200
        one_account 2] by blast
  then show ?thesis unfolding one_account_answers
    by (simp add: cli_account_def call_def parse_response_def answering_def response_error_def)
qed

text \<open>The host of the sample world, with the command that starts its rental in the queue.\<close>

definition toy_plane :: control_plane where
  "toy_plane = \<lparr>cp_base = ''http://cp:8080'', cp_token = ''agt_1''\<rparr>"

definition queued_server :: "mock app_state" where
  "queued_server = (server_init mock_backend (mock_new 0 0) (Manual 200) ''mock'')\<lparr>st_db := demo_queued\<rparr>"

lemma queued_db: "st_db queued_server = demo_queued"
  by (simp add: queued_server_def)

lemma queued_beat: "fst (heartbeat (Some ''Bearer agt_1'') True 200 demo_queued) = Inr [StartRental 1 ''ubuntu'' ''key'']"
  by code_simp

lemma queued_registers:
  "fst (register [] demo_register 200 demo_queued) = Inr \<lparr>rs_machine_id = 1, rs_agent_token = ''agt_1''\<rparr>"
  "sql_find (\<lambda>m. m_host_id m = rq_host_id demo_register) (db_machines demo_queued) \<noteq> None"
  by code_simp+

lemma queued_answers:
  "fst (heartbeat (bearer (cp_token toy_plane)) True (ev_now at_200) (st_db queued_server)) =
     Inr [StartRental 1 ''ubuntu'' ''key'']"
  "fst (handle at_200 (PostRegister demo_register) queued_server) =
     Registered (Inr \<lparr>rs_machine_id = 1, rs_agent_token = ''agt_1''\<rparr>)"
  using queued_beat queued_registers
  by (auto simp: queued_db bearer_def toy_plane_def at_200_def handle_register_def put_db_def)

theorem agent_client_is_handler_witness:
  "cp_heartbeat toy_http (transport toy_http at_200 ''http://cp:8080'' queued_server) toy_plane True =
     Inr [StartRental 1 ''ubuntu'' ''key'']"
proof -
  have base: "cp_base toy_plane = ''http://cp:8080''" by (simp add: toy_plane_def)
  have "is_origin (cp_base toy_plane)" unfolding base by (rule toy_origin)
  moreover have "report_fits demo_stop" "request_fits demo_register"
    by (simp_all add: report_fits_def request_fits_def demo_stop_def demo_register_def opt_fits_def in_i64_def in_i32_def)
  moreover have "reads_back toy_http (heartbeat_response_to_json [StartRental 1 ''ubuntu'' ''key''])"
    "reads_back toy_http (register_response_to_json \<lparr>rs_machine_id = 1, rs_agent_token = ''agt_1''\<rparr>)"
    by (simp_all add: reads_back_def heartbeat_response_to_json_def register_response_to_json_def toy_http_def known_def)
  ultimately show ?thesis
    using agent_client_is_handler [of toy_plane demo_stop demo_register True at_200 queued_server toy_http]
    by (simp add: queued_answers in_i64_def base del: handle.simps)
qed

end
