(* ===== verification/Unit_Tests.thy ===== *)
theory Unit_Tests
  imports Core_Model Benchmark Host_Runtime Tenant_Cli "HOL-Library.Code_Target_Numeral"
begin

text \<open>
  The repository's unit tests (\<^verbatim>\<open>mod tests\<close> of \<^verbatim>\<open>money.rs\<close>,
  \<^verbatim>\<open>model.rs\<close>, \<^verbatim>\<open>api.rs\<close>, \<^verbatim>\<open>runtime.rs\<close>,
  \<^verbatim>\<open>benchmark.rs\<close> and \<^verbatim>\<open>vgpu/src/main.rs\<close>) as predicates on the
  model, one definition per test, and the lemmas that the model passes them. JSON is compared
  as a value, not as text. SHA-256 is the identity on bytes where a test needs its values to
  differ, and doubles are exact.
\<close>

section \<open>core\<close>

definition test_arithmetic :: bool where
  "test_arithmetic \<longleftrightarrow> sats_add (Sats 3) (Sats 4) = Sats 7 \<and> sats_sub (Sats 10) (Sats 4) = Sats 6 \<and>
     sats_neg (Sats 5) = Sats (- 5) \<and>
     sats_add_assign (sats_sub_assign (Sats 100) (Sats 60)) (Sats 10) = Sats 50"

definition test_rate_times_minutes :: bool where
  "test_rate_times_minutes \<longleftrightarrow> sats_mul (Sats 6) 60 = Sats 360"

definition test_sum_reconciles_to_zero :: bool where
  "test_sum_reconciles_to_zero \<longleftrightarrow> sats_sum [Sats (- 6), Sats 6, Sats (- 6), Sats 6] = sats_ZERO"

definition test_display_is_bare_integer :: bool where
  "test_display_is_bare_integer \<longleftrightarrow> sats_fmt (Sats 360) = ''360'' \<and> sats_fmt (Sats (- 6)) = ''-6''"

definition test_serde_is_transparent :: bool where
  "test_serde_is_transparent \<longleftrightarrow> sats_to_json (Sats 42) = JInt 42 \<and> sats_from_json (JInt 42) = Some (Sats 42)"

definition test_http_status_tier_is_metal_prefixed :: bool where
  "test_http_status_tier_is_metal_prefixed \<longleftrightarrow>
     is_http_status_image ''metal:gemm'' \<and> is_http_status_image ''metal:gemm:4096'' \<and>
     \<not> is_http_status_image ''nvidia/cuda:latest'' \<and> \<not> is_http_status_image ''pytorch/pytorch:latest'' \<and>
     \<not> is_http_status_image ''''"

definition test_occupied_states_match_spec :: bool where
  "test_occupied_states_match_spec \<longleftrightarrow> occupies_machine Provisioning \<and> occupies_machine Running \<and>
     occupies_machine Evicting \<and> \<not> occupies_machine Stopped \<and> \<not> occupies_machine Failed"

definition test_status_wire_format_is_lowercase :: bool where
  "test_status_wire_format_is_lowercase \<longleftrightarrow>
     status_as_str Provisioning = ''provisioning'' \<and> status_of_str ''running'' = Some Running"

definition test_ledger_kind_wire_format_is_snake_case :: bool where
  "test_ledger_kind_wire_format_is_snake_case \<longleftrightarrow>
     ledger_kind_str RentalCharge = ''rental_charge'' \<and> ledger_kind_str HostCredit = ''host_credit''"

definition test_start_rental_matches_spec_wire_form :: bool where
  "test_start_rental_matches_spec_wire_form \<longleftrightarrow>
     (let v = command_to_json (StartRental 1 (trim '' nvidia/cuda:latest'') ''ssh-ed25519 AAAA'')
      in json_index v ''cmd'' = JStr ''start_rental'' \<and> json_index v ''rental_id'' = JInt 1 \<and>
         json_index v ''image'' = JStr ''nvidia/cuda:latest'' \<and>
         json_index v ''ssh_pubkey'' = JStr ''ssh-ed25519 AAAA'')"

definition test_stop_rental_round_trips :: bool where
  "test_stop_rental_round_trips \<longleftrightarrow>
     command_from_json (JObj [(''cmd'', JStr ''stop_rental''), (''rental_id'', JInt 7)]) = Some (StopRental 7)"

definition json_has :: "json \<Rightarrow> string \<Rightarrow> bool" where
  "json_has j k \<longleftrightarrow> (case j of JObj fs \<Rightarrow> k \<in> set (map fst fs) | _ \<Rightarrow> False)"

definition test_report_omits_absent_optionals :: bool where
  "test_report_omits_absent_optionals \<longleftrightarrow>
     (let v = report_to_json \<lparr>rp_rental_id = 3, rp_status = Failed, rp_kind = None, rp_ssh_port = None,
                rp_container_id = None, rp_error = Some ''image pull failed''\<rparr>
      in \<not> json_has v ''ssh_port'' \<and> \<not> json_has v ''container_id'' \<and>
         json_index v ''error'' = JStr ''image pull failed'' \<and> json_index v ''status'' = JStr ''failed'')"

section \<open>host-agent: runtime.rs\<close>

definition test_rejects_non_metal_images :: bool where
  "test_rejects_non_metal_images \<longleftrightarrow> \<not> is_ok (parse_task (\<lambda>s. s) ''nvidia/cuda:latest'') \<and>
     \<not> is_ok (parse_task (\<lambda>s. s) ''mlx:generate:org/model'')"

definition test_parses_gemm_default_and_explicit :: bool where
  "test_parses_gemm_default_and_explicit \<longleftrightarrow> parse_task (\<lambda>s. s) ''metal:gemm'' = Inr (Gemm 2048) \<and>
     parse_task (\<lambda>s. s) ''metal:gemm:4096'' = Inr (Gemm 4096)"

definition test_rejects_bad_size :: bool where
  "test_rejects_bad_size \<longleftrightarrow> \<not> is_ok (parse_task (\<lambda>s. s) ''metal:gemm:100'') \<and>
     \<not> is_ok (parse_task (\<lambda>s. s) ''metal:gemm:1'')"

definition test_picks_lowest_free_port :: bool where
  "test_picks_lowest_free_port \<longleftrightarrow> pick_free_port 40000 40010 {40000, 40001, 40003} = Some 40002"

definition test_exhausted_range_returns_none :: bool where
  "test_exhausted_range_returns_none \<longleftrightarrow> pick_free_port 40000 40001 {40000, 40001} = None"

definition test_image_tag_defaults_to_latest :: bool where
  "test_image_tag_defaults_to_latest \<longleftrightarrow> split_image_tag ''nvidia/cuda'' = (''nvidia/cuda'', ''latest'')"

definition test_image_tag_is_parsed :: bool where
  "test_image_tag_is_parsed \<longleftrightarrow>
     split_image_tag ''pytorch/pytorch:2.3.0-cuda12.1'' = (''pytorch/pytorch'', ''2.3.0-cuda12.1'')"

definition test_registry_port_is_not_mistaken_for_tag :: bool where
  "test_registry_port_is_not_mistaken_for_tag \<longleftrightarrow>
     split_image_tag ''registry.local:5000/team/img'' = (''registry.local:5000/team/img'', ''latest'')"

definition test_container_name_is_stable :: bool where
  "test_container_name_is_stable \<longleftrightarrow> container_name 42 = ''vgpu-rental-42''"

section \<open>host-agent: benchmark.rs\<close>

definition test_gpu :: "string \<Rightarrow> string \<Rightarrow> string \<Rightarrow> gpu_info" where
  "test_gpu name uuid pci = \<lparr>g_name = name, g_uuid = uuid, g_pci_bus_id = pci, g_vram_mb = 24564\<rparr>"

definition test_fingerprint_is_order_independent :: bool where
  "test_fingerprint_is_order_independent \<longleftrightarrow>
     (let a = test_gpu ''RTX 4090'' ''GPU-aaa'' ''00000000:01:00.0'';
          b = test_gpu ''RTX 4090'' ''GPU-bbb'' ''00000000:02:00.0''
      in fingerprint (map of_char) [a, b] = fingerprint (map of_char) [b, a])"

definition test_fingerprint_changes_when_hardware_swapped :: bool where
  "test_fingerprint_changes_when_hardware_swapped \<longleftrightarrow>
     fingerprint (map of_char) [test_gpu ''RTX 4090'' ''GPU-aaa'' ''00000000:01:00.0''] \<noteq>
     fingerprint (map of_char) [test_gpu ''RTX 4090'' ''GPU-ccc'' ''00000000:01:00.0'']"

definition test_single_4090_anchors_near_42 :: bool where
  "test_single_4090_anchors_near_42 \<longleftrightarrow>
     dlperf (\<lambda>x. x) [test_gpu ''NVIDIA GeForce RTX 4090'' ''GPU-1'' ''00000000:01:00.0''] = 42"

definition test_dlperf_scales_linearly_with_count :: bool where
  "test_dlperf_scales_linearly_with_count \<longleftrightarrow>
     dlperf (\<lambda>x. x) [test_gpu ''NVIDIA GeForce RTX 4090'' ''GPU-1'' ''00000000:01:00.0'',
       test_gpu ''NVIDIA GeForce RTX 4090'' ''GPU-2'' ''00000000:02:00.0''] = 84"

definition test_h100_outranks_4090 :: bool where
  "test_h100_outranks_4090 \<longleftrightarrow> lookup_dlperf ''NVIDIA GeForce RTX 4090'' < lookup_dlperf ''NVIDIA H100 80GB HBM3''"

definition test_specific_substring_wins_over_generic :: bool where
  "test_specific_substring_wins_over_generic \<longleftrightarrow> lookup_dlperf ''NVIDIA GeForce RTX 3090 Ti'' = 31 \<and>
     lookup_dlperf ''NVIDIA GeForce RTX 3090'' = 27"

definition test_unknown_gpu_gets_conservative_fallback :: bool where
  "test_unknown_gpu_gets_conservative_fallback \<longleftrightarrow> lookup_dlperf ''Some Future GPU 9999'' = 18"

definition test_apple_silicon_uses_its_own_table :: bool where
  "test_apple_silicon_uses_its_own_table \<longleftrightarrow> lookup_dlperf ''Apple M4 Max'' = 9 \<and> lookup_dlperf ''Apple M4'' = 4 \<and>
     lookup_dlperf ''Apple M1'' < lookup_dlperf ''NVIDIA GeForce RTX 4090''"

definition test_gemm_measurement_absent_without_cuda :: bool where
  "test_gemm_measurement_absent_without_cuda \<longleftrightarrow> gemm_score = None"

section \<open>vgpu\<close>

definition test_value_ranks_h100_above_t4 :: bool where
  "test_value_ranks_h100_above_t4 \<longleftrightarrow> cli_value (\<lambda>x. x) 60 300 < cli_value (\<lambda>x. x) 60 16"

definition test_fmt_sats_shows_denominations :: bool where
  "test_fmt_sats_shows_denominations \<longleftrightarrow>
     (let s = fmt_sats (\<lambda>x. x) 60000
      in str_contains ''60000 sats'' s \<and> str_contains ''0.00060000 BTC'' s \<and> str_contains ''$60.00'' s)"

section \<open>The model passes\<close>

lemma core_tests:
  "test_arithmetic" "test_rate_times_minutes" "test_sum_reconciles_to_zero" "test_display_is_bare_integer"
  "test_serde_is_transparent" "test_http_status_tier_is_metal_prefixed" "test_occupied_states_match_spec"
  "test_status_wire_format_is_lowercase" "test_ledger_kind_wire_format_is_snake_case"
  "test_start_rental_matches_spec_wire_form" "test_stop_rental_round_trips" "test_report_omits_absent_optionals"
  by code_simp+

lemma runtime_tests:
  "test_rejects_non_metal_images" "test_parses_gemm_default_and_explicit" "test_rejects_bad_size"
  "test_picks_lowest_free_port" "test_exhausted_range_returns_none" "test_image_tag_defaults_to_latest"
  "test_image_tag_is_parsed" "test_registry_port_is_not_mistaken_for_tag" "test_container_name_is_stable"
  by code_simp+

lemma benchmark_tests:
  "test_fingerprint_is_order_independent" "test_fingerprint_changes_when_hardware_swapped"
  "test_single_4090_anchors_near_42" "test_dlperf_scales_linearly_with_count" "test_h100_outranks_4090"
  "test_specific_substring_wins_over_generic" "test_unknown_gpu_gets_conservative_fallback"
  "test_apple_silicon_uses_its_own_table" "test_gemm_measurement_absent_without_cuda"
  by code_simp+

lemma vgpu_tests: "test_value_ranks_h100_above_t4" "test_fmt_sats_shows_denominations"
  by code_simp+

end
