(* ===== verification/Spec2Isabelle.thy ===== *)
theory Spec2Isabelle
  imports Tenant_Spec Agent_Spec Billing_Spec Concurrency_Spec Agent_Authority Host_Agent_Spec Tenant_Cli_Spec
    Gpu_Bench_Spec Gpu_Drivers_Spec Mac_Process Server_Spec Server_Start Agent_Start Host_Tasks_Spec Wire_Spec Unit_Tests
begin

text \<open>
  A GPU rental marketplace, modelled from its Rust sources: the control plane
  (\<^verbatim>\<open>crates/control-plane\<close>, an HTTP server over one SQLite database that keeps the
  books), the host agent (\<^verbatim>\<open>crates/host-agent\<close>, which runs the rented workloads),
  the tenant's command line (\<^verbatim>\<open>crates/vgpu\<close>), the GPU benchmark
  (\<^verbatim>\<open>crates/gpu-bench\<close>) and the types they share (\<^verbatim>\<open>crates/core\<close>).
  Tenants deposit sats over Lightning and rent a machine; the server queues a command that the
  machine's next heartbeat picks up; the agent starts or stops the workload and reports; the
  report that ends a rental moves what accrued from the tenant to the host, who is paid out over
  Lightning; a ticker credits paid invoices, takes silent machines offline and evicts rentals
  that exceed the balance.

  \<^bold>\<open>Theories and sources.\<close>
  \<^item> \<open>Prelude\<close>, \<open>Rust_Strings\<close>: 64-bit arithmetic with its wrap-around, SQL
    \<^verbatim>\<open>UPDATE\<close> and \<^verbatim>\<open>SELECT\<close> on lists of rows, transition
    systems; what the code uses of Rust's string library and of SQL \<^verbatim>\<open>LIKE\<close>, numbers
    in text, error chains.
  \<^item> \<open>Core_Model\<close>, \<open>Api_Json\<close>: \<^verbatim>\<open>core/src\<close> (\<open>Sats\<close>, the enums,
    the API types and the JSON serde derives for each of them).
  \<^item> \<open>Lightning\<close>: \<^verbatim>\<open>lightning/{mod,mock,lnd}.rs\<close>; the trait is a record of
    operations, its contract a locale that both backends interpret.
  \<^item> \<open>Storage\<close>: \<^verbatim>\<open>db.rs\<close> and the migration; a table is a list of rows in
    insertion order, a transaction a function whose error leaves the database alone.
  \<^item> \<open>Accounting\<close>, \<open>Money\<close>: the ledger's sums and the money invariant
    \<open>money_inv\<close> with what each statement does to it.
  \<^item> \<open>App_State\<close>: \<^verbatim>\<open>state.rs\<close>, \<^verbatim>\<open>error.rs\<close>,
    \<^verbatim>\<open>routes/mod.rs\<close>; \<open>Tenant\<close>: \<^verbatim>\<open>routes/tenant.rs\<close>;
    \<open>Agent\<close>: \<^verbatim>\<open>routes/agent.rs\<close>; \<open>Billing\<close>:
    \<^verbatim>\<open>billing.rs\<close>. Every handler is a function of the request, the time its clock
    shows and the database; a handler that commits in a transaction after reading outside of one
    is split into the two (\<open>_read\<close>, \<open>_commit\<close>).
  \<^item> \<open>Handler_Contract\<close>: the locales \<open>money_step\<close> and \<open>atomic_handler\<close>;
    \<open>History\<close>: \<open>audited_step\<close> (what is never forgotten) and \<open>server_step\<close>.
    Each handler interprets them where it is defined.
  \<^item> \<open>Control_Plane\<close>: \<^verbatim>\<open>lib.rs\<close>, \<^verbatim>\<open>main.rs\<close>; the router
    \<open>handle\<close> and the running server \<open>cp_step\<close>, one request, tick or restart at a time;
    \<open>Server_Start\<close>: \<^verbatim>\<open>db::connect\<close> and \<^verbatim>\<open>main\<close> up to the
    state it serves. \<open>Bank_Refinement\<close>: the abstract bank it implements. \<open>Concurrency\<close>: the same
    handlers and the ticker cut at every query they await, in any interleaving;
    \<open>Account_Books\<close>, \<open>Concurrency_Spec\<close>: what survives it.
    \<open>Command_Authority\<close>: where queued commands come from. \<open>Server_Spec\<close>: what holds of
    every request and run.
  \<^item> \<open>Wire\<close>: the routes of \<^verbatim>\<open>lib.rs\<close> with the extractors of their handlers, the
    answers of \<^verbatim>\<open>error.rs\<close>, and the HTTP clients of the agent and the command line;
    \<open>Wire_Spec\<close> joins the two ends.
  \<^item> \<open>Host_Runtime\<close>: \<^verbatim>\<open>runtime.rs\<close>, the Docker and the Metal backend over
    the calls they make; \<open>Host_Spec\<close> has the contract both interpret.
    \<open>Benchmark\<close>: \<^verbatim>\<open>benchmark.rs\<close>. \<open>Host_Agent\<close>:
    \<^verbatim>\<open>main.rs\<close>, with \<open>agent_step\<close> for the agent, its runtime and the server
    together; \<open>Agent_Start\<close>: \<^verbatim>\<open>main\<close> from the command line to the loop, on every
    platform. \<open>Host_Tasks\<close>: the spawned tasks cut at every await and lock, in any
    interleaving. \<open>Mac_Worker\<close>, \<open>Mac_Process\<close>: \<^verbatim>\<open>mac_worker.rs\<close>, its
    command line and its two threads.
  \<^item> \<open>Tenant_Cli\<close>: \<^verbatim>\<open>vgpu/src/main.rs\<close>.
  \<^item> \<open>Gpu_Kernels\<close>: the shaders in \<^verbatim>\<open>wgpu_backend.rs\<close> and
    \<^verbatim>\<open>metal_backend.rs\<close>; \<open>Gpu_Bench\<close>: \<^verbatim>\<open>backend.rs\<close>,
    \<^verbatim>\<open>suite.rs\<close>, \<^verbatim>\<open>network.rs\<close>; \<open>Metal_Device\<close>,
    \<open>Gpu_Drivers\<close>: the three backends, call by call over their drivers;
    \<open>Gpu_Bench_Cli\<close>: \<^verbatim>\<open>gpu-bench/src/main.rs\<close>.
  \<^item> \<open>Acceptance\<close>, \<open>Unit_Tests\<close>: \<^verbatim>\<open>tests/lifecycle.rs\<close> run on the model of
    the server, and the unit tests of every crate, each proved.
  \<^item> The theories named \<open>_Spec\<close>, \<open>Agent_Authority\<close> and this one hold the
    properties; \<open>Samples\<close> holds concrete databases that the witnesses run on.

  \<^bold>\<open>What the lemmas show.\<close> Of the server: in every reachable state the balances are the
  sums of the ledger and not negative, the ledger sums to what was deposited less what was paid
  out, and the server refines a bank of accounts; nothing in the history is lost, across restarts
  too; a machine has one occupant as long as no ended rental is revived; a request answered with
  an error changes nothing; the functional behaviour of each handler on every branch. Of the
  wire: over HTTP the agent and the command line get exactly what the handlers give. Under
  interleaving the tenants' balances survive and no balance leaves 64 bits, but two payouts that
  overlap both pay and a late delete revives a rental: these, a rental that bounces and is charged twice, and a stop that
  overtakes its start are theorems on concrete runs. Of the whole system: a rented machine whose
  agent can start the workload ends in a running rental at the runtime's port; a failed start is
  charged; a restarted agent is the same host; an agent executes nothing but what was rented on
  its machine, however its tasks interleave; an agent that fails after registering leaves its
  machine offered, and a restarted mock reuses the hashes of open invoices. Of the runtimes: the
  ports of a Metal host are distinct as long as its starts do not overlap, and two that do overlap
  share one; a Docker container is found again after a restart while it runs; the worker
  process gets the task of the image and its answers are consistent measurements. Of the
  benchmark: the kernels compute the product and the triad for every schedule, the triad ends, the
  backends' verdicts are those of the work done when the drivers keep their documented laws, the
  default suite completes on such a device, one network probe per run. Of the command line: amounts are exact, its key check and its SSH hint
  agree with the server.

  \<^bold>\<open>Decisions.\<close> Integers of the code are \<open>int\<close> with the wrap-around of a release
  build written out; the hypothesis \<open>deposits_fit\<close>, that the sats ever invoiced fit in
  an \<open>i64\<close>, is what the money invariant needs: it keeps every balance in the 64 bits beyond which
  SQLite would store a float, which \<open>add_balance\<close> does not model. Doubles are reals, rounded by a parameter.
  Strings are lists of bytes. Time is what the clock shows when the code reads it. Random ids,
  the order of table scans, the Lightning node, the Docker daemon, the operating system, SHA-256,
  serde's text format, percent-decoding, the socket, sqlx's pool and migrations, GPU drivers and the device's arithmetic and scheduling are
  parameters; what is relied on of them is a hypothesis of the theorem that uses it
  (\<open>wgpu_laws\<close> and \<open>cuda_laws\<close> for the drivers, \<open>docker_laws\<close> for the daemon, each kept by a
  concrete one). An
  \<open>elsewhere\<close> step of \<open>agent_step\<close> is any step of the server, so what is proved of
  one agent holds among any number of them.

  \<^bold>\<open>The code and its documents.\<close> The model is of the code. \<^verbatim>\<open>docs/SPEC.md\<close> and
  \<^verbatim>\<open>docs/BACKGROUND.md\<close> ask for another billing: a first minute at creation, a debit per period,
  eviction below one minute's rate, a clock that stops for a silent host, a ledger that sums to
  zero. The code charges once at stop for all the time since creation and evicts when that exceeds
  the balance; the properties say so where they disagree, and \<open>silence_is_charged\<close>,
  \<open>poor_rental_is_not_evicted\<close> and \<open>ledger_sum_is_not_zero\<close> are instances.

  \<^bold>\<open>Bounds and termination.\<close> No fuel is used. Every recursion is structural or has a
  measure, except the triad's loop, which may run forever when a stride wraps around 32 bits: it
  is a \<open>partial_function\<close> and shown to end for lengths up to \<open>2 ^ 32\<close> less one
  stride. The tiled product is shown for matrices whose indices fit in 32 bits.

  \<^bold>\<open>Not modelled.\<close> Failures of SQLite while the server runs; log lines and the texts
  clap prints; the rendering of tables and of JSON text, which is a library's; the de-verification
  warning of a changed fingerprint, which is only logged. In \<open>agent_step\<close> a command's task is
  one step; \<open>Host_Tasks\<close> has the interleaved tasks.
\<close>

section \<open>The books of every reachable server\<close>

text \<open>
  C1: in every state the server can reach, as long as the sats ever invoiced fit in an
  \<open>i64\<close>, every account's balance is the sum of its ledger rows and not negative, and
  every machine is owed the sum of its ledger rows, not less than zero.
\<close>

theorem reachable_books:
  assumes "cp_reachable st" "deposits_fit (st_db st)"
  shows "(\<forall>a\<in>set (db_accounts (st_db st)).
      a_balance_sats a = account_ledger (st_db st) (a_id a) \<and> 0 \<le> a_balance_sats a) \<and>
    (\<forall>m\<in>set (db_machines (st_db st)).
      m_payout_balance m = machine_ledger (st_db st) (m_id m) \<and> 0 \<le> m_payout_balance m)"
proof -
  have inv: "money_inv (st_db st)" using assms by (rule reachable_money)
  then have wf: "accounts_wf (st_db st)" "machines_wf (st_db st)" "books_balance (st_db st)"
    by (simp_all add: money_inv_def db_wf_def)
  have "\<forall>a\<in>set (db_accounts (st_db st)).
      a_balance_sats a = account_ledger (st_db st) (a_id a) \<and> 0 \<le> a_balance_sats a"
    using account_balance_in [OF wf(1)] balance_bound [OF inv] wf(3) by (auto simp: books_balance_def)
  moreover have "\<forall>m\<in>set (db_machines (st_db st)).
      m_payout_balance m = machine_ledger (st_db st) (m_id m) \<and> 0 \<le> m_payout_balance m"
    using machine_owed_in [OF wf(2)] owed_bound [OF inv] wf(3) by (auto simp: books_balance_def)
  ultimately show ?thesis ..
qed

text \<open>
  A run on the mock Lightning backend with no settle delay: an account is created, 500 sats
  are deposited, and a tick settles the invoice.
\<close>

definition demo_start :: "mock app_state" where
  "demo_start = server_init mock_backend (mock_new 0 0) (Manual 100) ''mock''"

definition demo_account :: string where
  "demo_account = new_account_id 0 0"

definition demo_funded :: "mock app_state" where
  "demo_funded = snd (handle demo_outside (PostDeposit demo_account 500)
     (snd (handle demo_outside PostAccounts demo_start)))"

definition demo_tick :: tick_clock where
  "demo_tick = \<lparr>tk_poll = (\<lambda>_. 100), tk_offline = 100, tk_enforce = (\<lambda>_. 100)\<rparr>"

definition demo_settled :: "mock app_state" where
  "demo_settled = demo_funded\<lparr>st_db := snd (tick (st_ln demo_funded) (st_billing demo_funded) demo_tick
     (st_ln_state demo_funded) (st_db demo_funded))\<rparr>"

lemma demo_reachable: "cp_reachable demo_start" "cp_reachable demo_funded" "cp_reachable demo_settled"
proof -
  have clk: "clock_now 0 (st_clock (demo_start)) = Some (ev_now demo_outside)"
    by (simp add: clock_now_def demo_start_def server_init_def demo_outside_def)
  show s0: "cp_reachable demo_start" unfolding demo_start_def by (rule cp_reachable.start)
  have s1: "cp_reachable (snd (handle demo_outside PostAccounts demo_start))"
    by (rule cp_reachable.step [OF s0], rule cp_step.request [OF clk]) (rule surjective_pairing)
  have clk1: "clock_now 0 (st_clock (snd (handle demo_outside PostAccounts demo_start))) = Some (ev_now demo_outside)"
    using clk by (simp add: put_db_def next_mix_def)
  show s2: "cp_reachable demo_funded" unfolding demo_funded_def
    by (rule cp_reachable.step [OF s1], rule cp_step.request [OF clk1]) (rule surjective_pairing)
  show "cp_reachable demo_settled" unfolding demo_settled_def
    by (rule cp_reachable.step [OF s2], rule cp_step.ticker) (rule surjective_pairing)
qed

lemma demo_funded_state:
  "st_db demo_funded = db_empty\<lparr>
     db_accounts := [\<lparr>a_id = demo_account, a_balance_sats = 0, a_created_at = 100\<rparr>],
     db_invoices := [\<lparr>i_payment_hash = mock_hash 1, i_account_id = demo_account, i_sats = 500,
       i_bolt11 = ''lnbcmock500n1'', i_settled = False, i_created_at = 100\<rparr>]\<rparr>"
  "mk_settle_at (st_ln_state demo_funded) = [mock_hash 1 \<mapsto> 0]" "mk_now (st_ln_state demo_funded) = 0"
  "st_ln demo_funded = mock_backend" "st_billing demo_funded = billing_default"
  by (simp_all add: demo_funded_def demo_start_def server_init_def demo_outside_def demo_account_def
      put_db_def put_ln_db_def next_mix_def create_account_def insert_account_def db_empty_def
      deposit_def find_account_def mock_backend_def mock_create_invoice_def mock_new_def Let_def
      insert_invoice_def)
    (simp add: show_int_def show_nat.simps digit_char_def, code_simp)

lemma demo_settled_db:
  "db_accounts (st_db demo_settled) = [\<lparr>a_id = demo_account, a_balance_sats = 500, a_created_at = 100\<rparr>]"
  "map l_delta_sats (db_ledger (st_db demo_settled)) = [500]"
  "map i_sats (db_invoices (st_db demo_settled)) = [500]"
  "db_machines (st_db demo_settled) = []" "db_rentals (st_db demo_settled) = []"
  "db_commands (st_db demo_settled) = []"
  by (simp_all add: demo_settled_def tick_def poll_invoices_def demo_funded_state db_empty_def
      mock_backend_def mock_is_settled_def settle_invoice_def settle_invoice_body_def in_transaction_def
      add_balance_def update_invoices_def sql_update_def db_record_def mark_offline_def
      enforce_budgets_def update_machines_def Let_def)

lemma demo_settled_fit: "deposits_fit (st_db demo_settled)"
  by (simp add: deposits_fit_def invoice_total_def demo_settled_db)

theorem reachable_books_witness: "account_ledger (st_db demo_settled) demo_account = 500"
  using reachable_books [OF demo_reachable(3) demo_settled_fit] by (simp add: demo_settled_db)

text \<open>
  C2: the whole ledger of a reachable server sums to what the platform owes, which is what was
  deposited less what was paid out, and never more than what was invoiced.
\<close>

theorem reachable_conservation:
  assumes "cp_reachable st" "deposits_fit (st_db st)"
  shows "ledger_total (st_db st) = liabilities (st_db st) \<and>
    liabilities (st_db st) = settled_total (st_db st) - paid_out (st_db st) \<and>
    0 \<le> paid_out (st_db st) \<and> liabilities (st_db st) \<le> invoice_total (st_db st)"
proof -
  have inv: "money_inv (st_db st)" using assms by (rule reachable_money)
  then show ?thesis
    using ledger_total_liabilities [of "st_db st"] conservation [OF inv] paid_out_nonneg [OF inv]
      liabilities_le_invoiced [OF inv] by (simp add: money_inv_def)
qed

theorem reachable_conservation_witness: "liabilities (st_db demo_settled) = 500"
  using reachable_conservation [OF demo_reachable(3) demo_settled_fit]
  by (simp add: ledger_total_def demo_settled_db)

text \<open>
  the sum over the whole ledger is not always zero: a single settled deposit makes it the
  deposit, since a deposit has one ledger row (the comments in \<^verbatim>\<open>model.rs\<close>,
  \<^verbatim>\<open>db.rs\<close> and \<^verbatim>\<open>money.rs\<close> say it is zero).
\<close>

theorem ledger_sum_is_not_zero:
  "\<exists>st :: mock app_state. cp_reachable st \<and> deposits_fit (st_db st) \<and> ledger_total (st_db st) = 500"
  using demo_reachable(3) demo_settled_fit
  by (intro exI [of _ demo_settled]) (simp add: ledger_total_def demo_settled_db)

text \<open>
  C3: the server refines the bank: seen through \<open>bank_of\<close>, every step is a sequence of
  deposits of at least one sat, charges covered by the payer's balance, and payouts of all
  that is owed.
\<close>

theorem server_refines_bank:
  assumes "cp_reachable st" "deposits_fit (st_db st)" "cp_step st st'"
  shows "bank_step\<^sup>*\<^sup>* (bank_of (st_db st)) (bank_of (st_db st'))"
  using cp_step_bank [OF assms(3) reachable_money [OF assms(1,2)]] .

lemma demo_tick_step: "cp_step demo_funded demo_settled"
  unfolding demo_settled_def by (rule cp_step.ticker) (rule surjective_pairing)

lemma demo_funded_fit: "deposits_fit (st_db demo_funded)"
  by (simp add: deposits_fit_def invoice_total_def demo_funded_state)

theorem server_refines_bank_witness:
  "bank_step\<^sup>*\<^sup>* (bank_of (st_db demo_funded)) (bank_of (st_db demo_settled))"
  using server_refines_bank [OF demo_reachable(2) demo_funded_fit demo_tick_step] .

text \<open>
  C4: along every run the ledger is only appended to, and no rental's machine, account, image,
  key, rate or creation time ever changes, so a rate change never touches a live rental.
\<close>

theorem run_keeps_history:
  assumes "cp_step\<^sup>*\<^sup>* st st'"
  shows "prefix (db_ledger (st_db st)) (db_ledger (st_db st')) \<and>
    prefix (map rental_terms (db_rentals (st_db st))) (map rental_terms (db_rentals (st_db st')))"
  using run_history [OF assms] by (simp add: history_def)

theorem run_keeps_history_witness:
  "prefix (db_ledger (st_db demo_funded)) (db_ledger (st_db demo_settled))"
  using run_keeps_history [OF r_into_rtranclp [of cp_step, OF demo_tick_step]] by simp

text \<open>
  C5: every reachable database is well typed against the schema: the ids and unique columns of
  each table are distinct, every rental, invoice and queued command refers to rows that exist,
  no balance is negative, and the payload of every command is the JSON of a command.
\<close>

theorem reachable_database_typed:
  assumes "cp_reachable st" "deposits_fit (st_db st)"
  shows "distinct (map m_id (db_machines (st_db st))) \<and> distinct (map m_agent_token (db_machines (st_db st))) \<and>
    distinct (map a_id (db_accounts (st_db st))) \<and> distinct (map r_id (db_rentals (st_db st))) \<and>
    distinct (map i_payment_hash (db_invoices (st_db st))) \<and> distinct (map c_id (db_commands (st_db st))) \<and>
    (\<forall>a\<in>set (db_accounts (st_db st)). 0 \<le> a_balance_sats a) \<and>
    (\<forall>r\<in>set (db_rentals (st_db st)). r_machine_id r \<in> machine_ids (st_db st) \<and> r_account_id r \<in> account_ids (st_db st)) \<and>
    (\<forall>i\<in>set (db_invoices (st_db st)). i_account_id i \<in> account_ids (st_db st)) \<and>
    (\<forall>c\<in>set (db_commands (st_db st)). c_machine_id c \<in> machine_ids (st_db st) \<and>
      (\<exists>cmd. c_payload c = command_to_json cmd))"
proof -
  have "db_wf (st_db st)" using reachable_money [OF assms] by (simp add: money_inv_def)
  moreover have "queue_authentic (st_db st)"
    using cp_reachable_run [OF assms(1)] command_queue.reachable_inv by metis
  ultimately show ?thesis unfolding wf_defs queue_authentic_def commanded_def by blast
qed

theorem reachable_database_typed_witness:
  "distinct (map a_id (db_accounts (st_db demo_settled))) \<and>
   distinct (map i_payment_hash (db_invoices (st_db demo_settled))) \<and>
   distinct (map c_id (db_commands (st_db demo_settled)))"
  using reachable_database_typed [OF demo_reachable(3) demo_settled_fit] by simp

section \<open>Commands\<close>

lemma cp_reachable_run_from: "cp_step\<^sup>*\<^sup>* st st' \<Longrightarrow> cp_reachable st \<Longrightarrow> cp_reachable st'"
  by (induction rule: rtranclp_induct) (auto intro: cp_reachable.step)

lemma heartbeat_delivers:
  assumes "heartbeat auth online now d = (Inr cmds, d')" "authenticate d auth = Inr m"
    and "c \<in> set (pending_commands (m_id m) d)"
  shows "c_id c \<in> delivered_ids d'"
  using assms(1)
proof (rule heartbeat_InrE)
  fix m' d1
  assume m': "authenticate d auth = Inr m'"
    and d1: "d1 = update_machines (\<lambda>x. m_id x = m_id m') (\<lambda>x. x\<lparr>m_last_heartbeat := now, m_online := online\<rparr>) d"
    and d': "d' = mark_delivered (pending_commands (m_id m') d1) d1"
  have c: "c \<in> set (pending_commands (m_id m') d1)" "c \<in> set (db_commands d1)"
    using assms(2,3) m' by (simp_all add: d1) (simp add: set_pending update_machines_def)
  then have "c\<lparr>c_delivered := True\<rparr> \<in> set (db_commands d')"
    unfolding d' mark_delivered_commands by force
  then show ?thesis unfolding delivered_ids_def by (intro image_eqI [where x = "c\<lparr>c_delivered := True\<rparr>"]) simp_all
qed

text \<open>
  C7: a command handed out by a heartbeat is never pending again in any later state of the
  server, so it is delivered at most once.
\<close>

theorem command_delivered_at_most_once:
  assumes "cp_reachable st" "clock_now t (st_clock st) = Some (ev_now ev)"
    and "handle ev (PostHeartbeat auth online) st = (Commands (Inr cmds), st1)"
    and "authenticate (st_db st) auth = Inr m" "c \<in> set (pending_commands (m_id m) (st_db st))"
    and "cp_step\<^sup>*\<^sup>* st1 st2" "deposits_fit (st_db st2)"
  shows "c_id c \<notin> c_id ` set (pending_commands k (st_db st2))"
proof
  assume "c_id c \<in> c_id ` set (pending_commands k (st_db st2))"
  then obtain c2 where c2: "c2 \<in> set (db_commands (st_db st2))" "c_id c2 = c_id c" "\<not> c_delivered c2"
    by (auto simp: set_pending)
  have st1: "cp_reachable st1" using assms(1) cp_step.request [OF assms(2,3)] by (rule cp_reachable.step)
  have "heartbeat auth online (ev_now ev) (st_db st) = (Inr cmds, st_db st1)"
    using assms(3) by (cases "heartbeat auth online (ev_now ev) (st_db st)") (auto simp: put_db_def)
  then have "c_id c \<in> delivered_ids (st_db st1)" using assms(4,5) by (rule heartbeat_delivers)
  then have "c_id c \<in> delivered_ids (st_db st2)"
    using run_history [OF assms(6)] by (auto simp: history_def)
  then obtain c3 where c3: "c3 \<in> set (db_commands (st_db st2))" "c_id c3 = c_id c" "c_delivered c3"
    by (auto simp: delivered_ids_def)
  have "money_inv (st_db st2)"
    using cp_reachable_run_from [OF assms(6) st1] assms(7) by (rule reachable_money)
  then have "distinct (map c_id (db_commands (st_db st2)))" by (simp add: money_inv_def wf_defs)
  then have "c2 = c3" using c2 c3 by (auto simp: distinct_map inj_on_def)
  with c2(3) c3(3) show False by simp
qed

text \<open>A reachable server with a machine and a rental whose start command is queued.\<close>

definition demo_token :: string where
  "demo_token = new_agent_token 0 1"

definition demo_with_machine :: "mock app_state" where
  "demo_with_machine = snd (handle demo_outside (PostRegister demo_register) demo_settled)"

definition demo_with_rental :: "mock app_state" where
  "demo_with_rental = snd (handle demo_outside (PostRentals \<lparr>cr_machine_id = 1, cr_account_id = demo_account,
     cr_image = ''metal:gemm'', cr_ssh_pubkey = None\<rparr>) demo_with_machine)"

definition demo_beaten :: "mock app_state" where
  "demo_beaten = snd (handle demo_outside (PostHeartbeat (Some (''Bearer '' @ demo_token)) True) demo_with_rental)"

lemma demo_clock:
  "clock_now 0 (st_clock demo_settled) = Some (ev_now demo_outside)"
  "clock_now 0 (st_clock demo_with_machine) = Some (ev_now demo_outside)"
  "clock_now 0 (st_clock demo_with_rental) = Some (ev_now demo_outside)"
  by (simp_all add: demo_with_rental_def demo_with_machine_def demo_settled_def demo_funded_def demo_start_def
      server_init_def put_db_def put_ln_db_def next_mix_def handle_register_def clock_now_def demo_outside_def)

lemma demo_rental_reachable: "cp_reachable demo_with_machine" "cp_reachable demo_with_rental"
proof -
  show m: "cp_reachable demo_with_machine" unfolding demo_with_machine_def
    by (rule cp_reachable.step [OF demo_reachable(3)], rule cp_step.request [OF demo_clock(1)])
      (rule surjective_pairing)
  show "cp_reachable demo_with_rental" unfolding demo_with_rental_def
    by (rule cp_reachable.step [OF m], rule cp_step.request [OF demo_clock(2)]) (rule surjective_pairing)
qed

lemma demo_mix: "st_mix_counter demo_settled = 1"
  by (simp add: demo_settled_def demo_funded_def demo_start_def server_init_def put_db_def put_ln_db_def next_mix_def)

lemma demo_with_machine_db:
  "db_machines (st_db demo_with_machine) = [(new_machine_row demo_register demo_token 100)\<lparr>m_id := 1\<rparr>]"
  "db_accounts (st_db demo_with_machine) = [\<lparr>a_id = demo_account, a_balance_sats = 500, a_created_at = 100\<rparr>]"
  "db_rentals (st_db demo_with_machine) = []" "db_commands (st_db demo_with_machine) = []"
  "db_invoices (st_db demo_with_machine) = db_invoices (st_db demo_settled)"
  by (simp_all add: demo_with_machine_def handle_register_def put_db_def next_mix_def demo_settled_db register_def
      insert_machine_def next_id_def Let_def demo_mix demo_token_def demo_outside_def)

definition demo_start_command :: command_row where
  "demo_start_command = \<lparr>c_id = 1, c_machine_id = 1, c_payload = command_to_json (StartRental 1 ''metal:gemm'' []),
     c_delivered = False, c_created_at = 100\<rparr>"

lemma demo_with_rental_db:
  "db_commands (st_db demo_with_rental) = [demo_start_command]"
  "db_machines (st_db demo_with_rental) = [(new_machine_row demo_register demo_token 100)\<lparr>m_id := 1\<rparr>]"
  "db_invoices (st_db demo_with_rental) = db_invoices (st_db demo_settled)"
proof -
  let ?req = "\<lparr>cr_machine_id = 1, cr_account_id = demo_account, cr_image = ''metal:gemm'', cr_ssh_pubkey = None\<rparr>"
  have find: "find_machine (st_db demo_with_machine) 1 = Some ((new_machine_row demo_register demo_token 100)\<lparr>m_id := 1\<rparr>)"
    "find_account (st_db demo_with_machine) demo_account = Some \<lparr>a_id = demo_account, a_balance_sats = 500, a_created_at = 100\<rparr>"
    by (simp_all add: find_machine_def find_account_def demo_with_machine_db)
  have key: "rental_ssh_pubkey ?req = Inr []"
    by (simp add: rental_ssh_pubkey_def is_http_status_image_def starts_with_def)
  have row: "m_online (new_machine_row demo_register demo_token 100)"
    "m_rate_sats_per_min (new_machine_row demo_register demo_token 100) = 10"
    by (simp_all add: new_machine_row_def demo_register_def)
  have free: "\<not> machine_occupied (st_db demo_with_machine) 1" by (simp add: occupied_iff demo_with_machine_db)
  have "snd (create_rental ?req 100 (st_db demo_with_machine)) = with_rental ?req [] 10 100 (st_db demo_with_machine)"
    by (simp add: create_rental_def create_rental_body_def in_transaction_def find key row free place_rental_ok)
  then have db: "st_db demo_with_rental = with_rental ?req [] 10 100 (st_db demo_with_machine)"
    by (simp add: demo_with_rental_def put_db_def demo_outside_def)
  show "db_commands (st_db demo_with_rental) = [demo_start_command]"
    "db_machines (st_db demo_with_rental) = [(new_machine_row demo_register demo_token 100)\<lparr>m_id := 1\<rparr>]"
    "db_invoices (st_db demo_with_rental) = db_invoices (st_db demo_settled)"
    by (simp_all add: db with_rental_def Let_def demo_with_machine_db next_id_def demo_start_command_def)
qed

lemma demo_machine_auth:
  "authenticate (st_db demo_with_rental) (bearer demo_token) = Inr ((new_machine_row demo_register demo_token 100)\<lparr>m_id := 1\<rparr>)"
  using authenticate_token [of "st_db demo_with_rental" "(new_machine_row demo_register demo_token 100)\<lparr>m_id := 1\<rparr>"]
  by (simp add: bearer_def machines_wf_def demo_with_rental_db) (simp add: new_machine_row_def)

lemma demo_pending: "pending_commands 1 (st_db demo_with_rental) = [demo_start_command]"
  by (simp add: pending_commands_def demo_with_rental_db) (simp add: demo_start_command_def)

lemma demo_beat:
  "handle demo_outside (PostHeartbeat (bearer demo_token) True) demo_with_rental =
     (Commands (Inr [StartRental 1 ''metal:gemm'' []]), demo_beaten)"
proof -
  have "decode_commands [demo_start_command] = Inr [StartRental 1 ''metal:gemm'' []]"
    by (simp add: demo_start_command_def command_json_roundtrip in_i64_def del: command_to_json.simps)
  then have "fst (heartbeat (bearer demo_token) True 100 (st_db demo_with_rental)) = Inr [StartRental 1 ''metal:gemm'' []]"
    unfolding heartbeat_def demo_machine_auth by (simp add: heartbeat_body_def in_transaction_def Let_def demo_pending)
  then show ?thesis by (simp add: demo_beaten_def put_db_def demo_outside_def bearer_def)
qed

theorem command_delivered_at_most_once_witness:
  "1 \<notin> c_id ` set (pending_commands 1 (st_db demo_beaten))"
proof -
  let ?m = "(new_machine_row demo_register demo_token 100)\<lparr>m_id := 1\<rparr>"
  have "db_invoices (st_db demo_beaten) = db_invoices (st_db demo_settled)"
    unfolding demo_beaten_def handle.simps put_db_def heartbeat_def demo_machine_auth [unfolded bearer_def]
    by (simp add: heartbeat_body_def in_transaction_def Let_def frame_simps demo_with_rental_db split: sum.splits)
  then have fit: "deposits_fit (st_db demo_beaten)"
    using demo_settled_fit by (simp add: deposits_fit_def invoice_total_def)
  have "demo_start_command \<in> set (pending_commands (m_id ?m) (st_db demo_with_rental))" by (simp add: demo_pending)
  from command_delivered_at_most_once [OF demo_rental_reachable(2) demo_clock(3) demo_beat demo_machine_auth this _ fit, of 1]
  show ?thesis by (simp add: demo_start_command_def)
qed

section \<open>What a host does\<close>

text \<open>
  C6: whatever tenants, other hosts, the ticker and the Lightning side do, a command that reaches
  an agent is about a rental on the machine that carries the agent's token: it starts it with
  exactly the image and the key of the tenant's request, or stops it. So a host runs nothing that
  was not rented on it.
\<close>

theorem agent_runs_only_what_was_rented:
  assumes "w_server w0 = server_init B lns clk name" "w_tasks w0 = []"
    and "(agent_step R token)\<^sup>*\<^sup>* w0 w" "cmd \<in> set (w_tasks w)"
  shows "\<exists>m\<in>set (db_machines (st_db (w_server w))). m_agent_token m = token \<and>
    (\<exists>r\<in>set (db_rentals (st_db (w_server w))). r_machine_id r = m_id m \<and>
      (cmd = StartRental (r_id r) (r_image r) (r_ssh_pubkey r) \<or> cmd = StopRental (r_id r)))"
proof -
  have "(\<exists>B lns clk name. w_server w0 = server_init B lns clk name) \<and> w_tasks w0 = []"
    using assms(1,2) by blast
  from agent_orders.reachable_inv [OF this assms(3)] show ?thesis
    using assms(4) by (simp add: tasks_ordered_def ordered_by_def)
qed

theorem agent_runs_only_what_was_rented_witness:
  "\<exists>m\<in>set (db_machines (st_db demo_beaten)). m_agent_token m = demo_token \<and>
    (\<exists>r\<in>set (db_rentals (st_db demo_beaten)). r_machine_id r = m_id m \<and>
      (StartRental 1 ''metal:gemm'' [] = StartRental (r_id r) (r_image r) (r_ssh_pubkey r) \<or>
       StartRental 1 ''metal:gemm'' [] = StopRental (r_id r)))"
proof -
  obtain s0 where s0: "\<exists>B lns clk name. s0 = server_init B lns clk name" "cp_step\<^sup>*\<^sup>* s0 demo_with_rental"
    using cp_reachable_run [OF demo_rental_reachable(2)] by blast
  then obtain B lns clk name where init: "s0 = server_init B lns clk name" by blast
  let ?w = "\<lambda>st ts. \<lparr>w_server = st, w_runtime = (), w_tasks = ts\<rparr>"
  have "agent_step R demo_token (?w demo_with_rental [])
      ((?w demo_with_rental [])\<lparr>w_server := demo_beaten, w_tasks := w_tasks (?w demo_with_rental []) @ [StartRental 1 ''metal:gemm'' []]\<rparr>)"
    for R :: "unit host_runtime"
    by (rule agent_step.beat [of 0 _ demo_outside]) (simp_all add: demo_clock(3) demo_beat del: handle.simps)
  then have run: "(agent_step R demo_token)\<^sup>*\<^sup>* (?w s0 []) (?w demo_beaten [StartRental 1 ''metal:gemm'' []])"
    for R :: "unit host_runtime"
    using elsewhere_run [OF s0(2), of R demo_token "()" "[]"] by (auto intro: rtranclp.rtrancl_into_rtrancl)
  show ?thesis
    using agent_runs_only_what_was_rented [OF _ _ run, of B lns clk name "StartRental 1 ''metal:gemm'' []"]
    by (simp add: init)
qed

end
